(* ===== verification/Prelude.thy ===== *)
theory Prelude
  imports Main "HOL-Library.Word"
begin

text \<open>
  Shared vocabulary of the development: the collections of rewrite rules that the component
  theories fill, the Go-level notions every component needs (panics, the outcome of a call that
  may panic), and two interface locales, one for encoders that can be inverted and one for
  annotation slots, which several components provide.
\<close>

section \<open>Collections\<close>

named_theorems go_defs \<open>definitions of the small operations of the source, unfolded together\<close>
named_theorems go_lib \<open>facts about the modelled part of the Go standard library\<close>

section \<open>Panics and outcomes\<close>

text \<open>
  The run-time panics that the modelled code can raise: a nil pointer dereference, a store into
  a nil map, and an index outside a slice.
\<close>

datatype panic = NilPointer | NilMapWrite | IndexOutOfRange int nat

text \<open>
  A function of the source that returns a value and can panic: either way the state it has
  reached is visible afterwards, since deferred calls run in both cases.
\<close>

datatype ('r, 's) outcome = Returns 'r 's | Panics panic 's

primrec outcome_state :: "('r, 's) outcome \<Rightarrow> 's" where
  "outcome_state (Returns r s) = s"
| "outcome_state (Panics p s) = s"

primrec panicked :: "('r, 's) outcome \<Rightarrow> bool" where
  "panicked (Returns r s) = False"
| "panicked (Panics p s) = True"

lemma panicked_iff: "panicked r \<longleftrightarrow> (\<exists>p s. r = Panics p s)"
  by (cases r) auto

section \<open>Invertible encodings\<close>

text \<open>
  The contract of every encoder of the program: on the values it accepts, the decoder gives the
  value back.  Encoders are then injective, and two of them compose.
\<close>

locale codec =
  fixes enc :: "'a \<Rightarrow> 'b"
    and dec :: "'b \<Rightarrow> 'a option"
    and ok :: "'a \<Rightarrow> bool"
  assumes dec_enc: "ok v \<Longrightarrow> dec (enc v) = Some v"
begin

lemma enc_eq_iff:
  assumes "ok v" and "ok w"
  shows "enc v = enc w \<longleftrightarrow> v = w"
proof
  assume "enc v = enc w"
  then have "dec (enc v) = dec (enc w)" by (rule arg_cong)
  then show "v = w" by (simp only: dec_enc [OF assms(1)] dec_enc [OF assms(2)] option.inject)
qed (rule arg_cong)

lemma inj_on_enc: "inj_on enc {v. ok v}"
  by (rule inj_onI) (blast dest: enc_eq_iff [THEN iffD1, rotated 2])

end

section \<open>Annotation slots\<close>

text \<open>
  The controllers keep their identifiers in the annotations of a Kubernetes object.  A slot is a
  getter and a setter on the object; the setter fails (a Go panic) when the annotation map is
  nil.  What a slot promises: a successful set is seen by the next get, whether a set succeeds
  depends only on the map, and a successful set leaves the map non-nil.
\<close>

locale annotation_slot =
  fixes get :: "'o \<Rightarrow> string"
    and put :: "string \<Rightarrow> 'o \<Rightarrow> 'o option"
    and has_map :: "'o \<Rightarrow> bool"
  assumes put_defined: "put v x \<noteq> None \<longleftrightarrow> has_map x"
    and get_put: "put v x = Some y \<Longrightarrow> get y = v"
    and put_has_map: "put v x = Some y \<Longrightarrow> has_map y"
begin

lemma put_None_iff: "put v x = None \<longleftrightarrow> \<not> has_map x"
  using put_defined [of v x] by auto

lemma put_again: "put v x = Some y \<Longrightarrow> \<exists>z. put w y = Some z \<and> get z = w"
  using put_has_map [of v x y] put_defined [of w y] get_put [of w y] by fastforce

lemma put_succeeds: "has_map x \<Longrightarrow> \<exists>y. put v x = Some y \<and> get y = v"
  using put_defined [of v x] get_put [of v x] by fastforce

end

section \<open>Lists\<close>

lemma map_idem_conv: "map f (map f xs) = map f xs \<longleftrightarrow> (\<forall>x \<in> set xs. f (f x) = f x)"
  by (induction xs) auto

lemma take_append_self: "length xs = n \<Longrightarrow> take n (xs @ ys) = xs"
  by simp

lemma takeWhile_append_stop:
  "(\<forall>x \<in> set xs. P x) \<Longrightarrow> ys = [] \<or> \<not> P (hd ys) \<Longrightarrow> takeWhile P (xs @ ys) = xs"
  by (induction xs) (cases ys; auto)+

lemma dropWhile_append_stop:
  "(\<forall>x \<in> set xs. P x) \<Longrightarrow> ys = [] \<or> \<not> P (hd ys) \<Longrightarrow> dropWhile P (xs @ ys) = ys"
  by (induction xs) (cases ys; auto)+

lemma of_char_less_256: "(of_char c :: nat) < 256"
  using of_char_mod_256 [of c] by (metis mod_less_divisor zero_less_numeral)

lemma of_char_char_of_nat: "n < 256 \<Longrightarrow> of_char (char_of (n :: nat)) = n"
  by simp

lemma char_eq_iff_nat: "c = d \<longleftrightarrow> (of_char c :: nat) = of_char d"
  by simp

end
