(* ===== verification/GoStrings.thy ===== *)
theory GoStrings
  imports Prelude
begin

text \<open>
  The part of Go's \<open>strconv\<close>, \<open>strings\<close> and \<open>fmt\<close> that the controllers use, on
  strings as lists of bytes: decimal printing and parsing of integers, the byte replacer behind
  the server host names, \<open>strings.TrimSuffix\<close> and \<open>strings.HasPrefix\<close>, and
  \<open>fmt.Sprintf\<close> with the verbs \<open>%v\<close> and \<open>%s\<close>, its error forms
  included (a wrong operand type, missing and extra operands).
\<close>

section \<open>Decimal numbers\<close>

definition digit_char :: "nat \<Rightarrow> char" where
  "digit_char d = char_of (48 + d)"

fun nat_str :: "nat \<Rightarrow> string" where
  "nat_str n = (if n < 10 then [digit_char n] else nat_str (n div 10) @ [digit_char (n mod 10)])"

declare nat_str.simps [simp del]

definition is_digit :: "char \<Rightarrow> bool" where
  "is_digit c \<longleftrightarrow> 48 \<le> (of_char c :: nat) \<and> (of_char c :: nat) \<le> 57"

definition digit_val :: "char \<Rightarrow> nat" where
  "digit_val c = of_char c - 48"

definition int_str :: "int \<Rightarrow> string" where
  "int_str i = (if i < 0 then CHR ''-'' # nat_str (nat (- i)) else nat_str (nat i))"

text \<open>Reading decimal digits, and an optional sign before them (\<open>strconv.ParseInt\<close>).\<close>

definition parse_nat :: "string \<Rightarrow> nat option" where
  "parse_nat s = (if s \<noteq> [] \<and> list_all is_digit s
     then Some (foldl (\<lambda>n c. 10 * n + digit_val c) 0 s) else None)"

definition parse_int :: "string \<Rightarrow> int option" where
  "parse_int s = (if s \<noteq> [] \<and> hd s = CHR ''-''
     then map_option (\<lambda>n. - int n) (parse_nat (tl s))
     else map_option int (parse_nat s))"

lemma digit_char_facts [go_lib]:
  "d < 10 \<Longrightarrow> is_digit (digit_char d)"
  "d < 10 \<Longrightarrow> digit_val (digit_char d) = d"
  by (simp_all add: digit_char_def is_digit_def digit_val_def)

lemma nat_str_digits: "list_all is_digit (nat_str n)"
proof (induction n rule: nat_str.induct)
  case (1 n)
  then show ?case by (subst nat_str.simps) (auto simp: go_lib)
qed

lemma nat_str_nonempty [simp]: "nat_str n \<noteq> []"
  by (subst nat_str.simps) simp

lemma foldl_nat_str: "foldl (\<lambda>n c. 10 * n + digit_val c) 0 (nat_str n) = n"
proof (induction n rule: nat_str.induct)
  case (1 n)
  then show ?case by (subst nat_str.simps) (auto simp: go_lib)
qed

interpretation decimal: codec nat_str parse_nat "\<lambda>_. True"
  by unfold_locales (simp add: parse_nat_def nat_str_digits foldl_nat_str)

lemma hd_nat_str_digit: "is_digit (hd (nat_str n))"
  using nat_str_digits [of n] nat_str_nonempty [of n] by (cases "nat_str n") auto

lemma not_digit_minus: "\<not> is_digit (CHR ''-'')"
  by (simp add: is_digit_def)

lemma parse_int_no_minus: "s = [] \<or> hd s \<noteq> CHR ''-'' \<Longrightarrow> parse_int s = map_option int (parse_nat s)"
  by (auto simp: parse_int_def)

lemma parse_int_int_str: "parse_int (int_str i) = Some i"
proof (cases "i < 0")
  case True
  then show ?thesis by (simp add: parse_int_def int_str_def decimal.dec_enc)
next
  case False
  moreover have "hd (nat_str (nat i)) \<noteq> CHR ''-''"
    using hd_nat_str_digit [of "nat i"] not_digit_minus by metis
  ultimately show ?thesis
    by (simp add: parse_int_no_minus int_str_def decimal.dec_enc)
qed

interpretation signed_decimal: codec int_str parse_int "\<lambda>_. True"
  by unfold_locales (rule parse_int_int_str)

section \<open>strings\<close>

definition HasPrefix :: "string \<Rightarrow> string \<Rightarrow> bool" where
  "HasPrefix s p \<longleftrightarrow> take (length p) s = p"

definition HasSuffix :: "string \<Rightarrow> string \<Rightarrow> bool" where
  "HasSuffix s x \<longleftrightarrow> length x \<le> length s \<and> drop (length s - length x) s = x"

definition TrimSuffix :: "string \<Rightarrow> string \<Rightarrow> string" where
  "TrimSuffix s x = (if HasSuffix s x then take (length s - length x) s else s)"

lemma TrimSuffix_append [simp]: "TrimSuffix (s @ x) x = s"
  by (simp add: TrimSuffix_def HasSuffix_def)

text \<open>
  \<open>strings.NewReplacer\<close> with one-byte patterns and one-byte replacements replaces byte by
  byte, the first listed pattern winning.
\<close>

definition byte_replace :: "(char \<times> char) list \<Rightarrow> string \<Rightarrow> string" where
  "byte_replace rs s = map (\<lambda>c. case map_of rs c of None \<Rightarrow> c | Some d \<Rightarrow> d) s"

section \<open>fmt.Sprintf\<close>

datatype fmt_arg = FStr string | FInt int

text \<open>One operand under the verbs the source uses; an integer under \<open>%s\<close> is a bad verb.\<close>

fun fmt_verb :: "char \<Rightarrow> fmt_arg \<Rightarrow> string" where
  "fmt_verb v (FStr s) = (if v = CHR ''v'' \<or> v = CHR ''s'' then s
     else ''%!'' @ [v] @ ''(string='' @ s @ '')'')"
| "fmt_verb v (FInt i) = (if v = CHR ''v'' \<or> v = CHR ''d'' then int_str i
     else ''%!'' @ [v] @ ''(int='' @ int_str i @ '')'')"

fun fmt_extra :: "fmt_arg \<Rightarrow> string" where
  "fmt_extra (FStr s) = ''string='' @ s"
| "fmt_extra (FInt i) = ''int='' @ int_str i"

fun join :: "'a list \<Rightarrow> 'a list list \<Rightarrow> 'a list" where
  "join sep [] = []"
| "join sep [x] = x"
| "join sep (x # xs) = x @ sep @ join sep xs"

definition fmt_extras :: "fmt_arg list \<Rightarrow> string" where
  "fmt_extras xs = (if xs = [] then [] else ''%!(EXTRA '' @ join '', '' (map fmt_extra xs) @ '')'')"

fun Sprintf :: "string \<Rightarrow> fmt_arg list \<Rightarrow> string" where
  "Sprintf [] args = fmt_extras args"
| "Sprintf [c] args = (if c = CHR ''%'' then ''%!(NOVERB)'' else [c]) @ fmt_extras args"
| "Sprintf (c # v # s) args =
     (if c \<noteq> CHR ''%'' then c # Sprintf (v # s) args
      else if v = CHR ''%'' then CHR ''%'' # Sprintf s args
      else (case args of
          [] \<Rightarrow> ''%!'' @ [v] @ ''(MISSING)'' @ Sprintf s []
        | a # as \<Rightarrow> fmt_verb v a @ Sprintf s as))"

lemma Sprintf_Cons: "c \<noteq> CHR ''%'' \<Longrightarrow> Sprintf (c # s) args = c # Sprintf s args"
  by (cases s) auto

lemma Sprintf_plain: "list_all (\<lambda>c. c \<noteq> CHR ''%'') s \<Longrightarrow> Sprintf (s @ t) args = s @ Sprintf t args"
  by (induction s) (auto simp: Sprintf_Cons)

end
