(* ===== verification/Utf8.thy ===== *)
theory Utf8
  imports GoStrings
begin

text \<open>
  UTF-8 as Go's \<open>unicode/utf8\<close> reads it, which is what \<open>encoding/json\<close> sees of a
  string: a valid multi-byte sequence is kept, any other byte stands for the replacement
  character.  Strings are lists of bytes, so only the length of the sequence at the head and the
  encoding of one code point are needed.
\<close>

abbreviation code :: "char \<Rightarrow> nat" where
  "code c \<equiv> of_char c"

definition is_cont :: "char \<Rightarrow> bool" where
  "is_cont c \<longleftrightarrow> 128 \<le> code c \<and> code c < 192"

definition in_range :: "nat \<Rightarrow> nat \<Rightarrow> char \<Rightarrow> bool" where
  "in_range lo hi c \<longleftrightarrow> lo \<le> code c \<and> code c \<le> hi"

text \<open>
  The length of the valid sequence at the head of a string, 0 when there is none.  The accepted
  second bytes exclude overlong forms, surrogates and code points above 10FFFF.
\<close>

definition second_ok :: "char \<Rightarrow> char \<Rightarrow> bool" where
  "second_ok a b \<longleftrightarrow>
     (if code a = 224 then in_range 160 191 b
      else if code a = 237 then in_range 128 159 b
      else if code a = 240 then in_range 144 191 b
      else if code a = 244 then in_range 128 143 b
      else is_cont b)"

definition seq_len :: "char \<Rightarrow> nat" where
  "seq_len a = (if code a < 128 then 1
     else if in_range 194 223 a then 2
     else if in_range 224 239 a then 3
     else if in_range 240 244 a then 4 else 0)"

definition rune_len :: "string \<Rightarrow> nat" where
  "rune_len s = (if s = [] then 0 else
     let n = seq_len (hd s); t = take n s in
     if n \<le> 1 then n
     else if length t = n \<and> second_ok (hd t) (hd (tl t)) \<and> list_all is_cont (drop 2 t) then n else 0)"

lemma rune_len_le: "rune_len s \<le> length s"
  by (cases s) (auto simp: rune_len_def Let_def min_def split: if_splits)

lemma drop_rune_len_shorter: "rune_len s \<noteq> 0 \<Longrightarrow> length s - rune_len s < length s"
  using rune_len_le [of s] by linarith

text \<open>A valid sequence is recognised whatever follows it.\<close>

lemma rune_len_take:
  assumes "rune_len s = n" and "n \<noteq> 0"
  shows "rune_len (take n s @ t) = n"
proof -
  have s: "s \<noteq> []" "n \<le> length s"
    using assms rune_len_le [of s] by (auto simp: rune_len_def)
  have n: "n = seq_len (hd s)"
    using assms by (auto simp: rune_len_def Let_def split: if_splits)
  have hd: "hd (take n s @ t) = hd s" using s assms by (cases s; cases n) auto
  have "take n (take n s @ t) = take n s" using s by simp
  with assms(1) s n hd assms(2) show ?thesis
    unfolding rune_len_def Let_def by (simp split: if_splits)
qed

lemma rune_len_hd_big: "1 < rune_len s \<Longrightarrow> 128 \<le> code (hd s)"
  by (auto simp: rune_len_def seq_len_def Let_def split: if_splits)

lemma rune_len_one: "rune_len s = 1 \<Longrightarrow> code (hd s) < 128"
  by (auto simp: rune_len_def seq_len_def Let_def split: if_splits)

lemma rune_len_ascii: "code c < 128 \<Longrightarrow> rune_len (c # s) = 1"
  by (simp add: rune_len_def seq_len_def)

text \<open>The encoding of a code point.\<close>

definition encode_rune :: "nat \<Rightarrow> string" where
  "encode_rune r = (if r < 128 then [char_of r]
     else if r < 2048 then [char_of (192 + r div 64), char_of (128 + r mod 64)]
     else if r < 65536 then
       [char_of (224 + r div 4096), char_of (128 + r div 64 mod 64), char_of (128 + r mod 64)]
     else [char_of (240 + r div 262144), char_of (128 + r div 4096 mod 64),
       char_of (128 + r div 64 mod 64), char_of (128 + r mod 64)])"

definition replacement :: string where
  "replacement = encode_rune 65533"

text \<open>A string without invalid sequences.\<close>

function utf8_ok :: "string \<Rightarrow> bool" where
  "utf8_ok s = (if s = [] then True else if rune_len s = 0 then False
     else utf8_ok (drop (rune_len s) s))"
  by pat_completeness auto
termination
  by (relation "measure length") (auto simp: drop_rune_len_shorter)

declare utf8_ok.simps [simp del]

lemma utf8_ok_Nil [simp]: "utf8_ok []"
  by (simp add: utf8_ok.simps)

lemma utf8_ok_Cons: "code c < 128 \<Longrightarrow> utf8_ok (c # s) = utf8_ok s"
  by (subst utf8_ok.simps) (simp add: rune_len_ascii)

lemma utf8_ok_ascii_append: "list_all (\<lambda>c. code c < 128) s \<Longrightarrow> utf8_ok (s @ t) \<longleftrightarrow> utf8_ok t"
  by (induction s) (simp_all add: utf8_ok_Cons)

lemma utf8_ok_ascii: "list_all (\<lambda>c. code c < 128) s \<Longrightarrow> utf8_ok s"
  using utf8_ok_ascii_append [of s "[]"] by simp

end
