(* ===== verification/NetIP.thy ===== *)
theory NetIP
  imports GoStrings
begin

text \<open>
  \<open>net.ParseIP\<close> and \<open>IP.String\<close> as the cluster controller uses them: an address is a
  slice of sixteen bytes, an IPv4 address in its IPv4-in-IPv6 form, and \<open>ParseIP\<close> gives
  nil (here \<open>None\<close>) for anything that is not an address.
\<close>

type_synonym ip = "8 word list"

section \<open>IPv4\<close>

text \<open>
  The loop over the bytes of a dotted decimal: the value and the digit count of the current
  octet, and the octets read so far.
\<close>

fun parseIPv4Fields :: "string \<Rightarrow> nat \<Rightarrow> nat \<Rightarrow> 8 word list \<Rightarrow> 8 word list option" where
  "parseIPv4Fields [] val digLen fs = (if length fs < 3 then None else Some (fs @ [of_nat val]))"
| "parseIPv4Fields (c # s) val digLen fs =
     (if is_digit c then
        (if digLen = 1 \<and> val = 0 then None
         else if 255 < val * 10 + digit_val c then None
         else parseIPv4Fields s (val * 10 + digit_val c) (Suc digLen) fs)
      else if c = CHR ''.'' then
        (if digLen = 0 \<or> s = [] then None
         else if length fs = 3 then None
         else parseIPv4Fields s 0 0 (fs @ [of_nat val]))
      else None)"

definition v4_prefix :: ip where
  "v4_prefix = replicate 10 0 @ [255, 255]"

section \<open>IPv6\<close>

definition hex_val :: "char \<Rightarrow> nat option" where
  "hex_val c = (let x = (of_char c :: nat) in
     if 48 \<le> x \<and> x \<le> 57 then Some (x - 48)
     else if 97 \<le> x \<and> x \<le> 102 then Some (x - 87)
     else if 65 \<le> x \<and> x \<le> 70 then Some (x - 55) else None)"

definition hex_num :: "string \<Rightarrow> nat" where
  "hex_num ds = foldl (\<lambda>n c. 16 * n + (case hex_val c of Some v \<Rightarrow> v | None \<Rightarrow> 0)) 0 ds"

text \<open>
  The loop of \<open>parseIPv6\<close>: the rest of the input, the bytes read so far and the position of
  the ellipsis.  Each round adds two bytes (or four, for a trailing IPv4 address).
\<close>

function v6_loop :: "string \<Rightarrow> ip \<Rightarrow> nat option \<Rightarrow> (ip \<times> nat option) option" where
  "v6_loop s ip ell =
     (if 16 \<le> length ip then (if s = [] then Some (ip, ell) else None)
      else
        let ds = takeWhile (\<lambda>c. hex_val c \<noteq> None) s; t = dropWhile (\<lambda>c. hex_val c \<noteq> None) s in
        if 4 < length ds \<or> ds = [] then None
        else if t \<noteq> [] \<and> hd t = CHR ''.'' then
          (if (ell = None \<and> length ip \<noteq> 12) \<or> 16 < length ip + 4 then None
           else map_option (\<lambda>fs. (ip @ fs, ell)) (parseIPv4Fields s 0 0 []))
        else
          let ip' = ip @ [of_nat (hex_num ds div 256), of_nat (hex_num ds mod 256)] in
          if t = [] then Some (ip', ell)
          else if hd t \<noteq> CHR '':'' \<or> tl t = [] then None
          else if hd (tl t) = CHR '':'' then
            (if ell \<noteq> None then None
             else if tl (tl t) = [] then Some (ip', Some (length ip'))
             else v6_loop (tl (tl t)) ip' (Some (length ip')))
          else v6_loop (tl t) ip' ell)"
  by pat_completeness auto
termination by (relation "measure (\<lambda>(s, ip, ell). 16 - length ip)") (auto simp: Let_def)

declare v6_loop.simps [simp del]

definition v6_expand :: "ip \<times> nat option \<Rightarrow> ip option" where
  "v6_expand r = (case r of (ip, ell) \<Rightarrow>
     if length ip < 16 then
       (case ell of None \<Rightarrow> None
        | Some e \<Rightarrow> Some (take e ip @ replicate (16 - length ip) 0 @ drop e ip))
     else (if ell = None then Some ip else None))"

text \<open>A zone (after a percent sign) makes \<open>ParseIP\<close> fail, whether empty or not.\<close>

definition parseIPv6 :: "string \<Rightarrow> ip option" where
  "parseIPv6 s = (if CHR ''%'' \<in> set s then None
     else if take 2 s = ''::'' then
       (if drop 2 s = [] then Some (replicate 16 0)
        else Option.bind (v6_loop (drop 2 s) [] (Some 0)) v6_expand)
     else Option.bind (v6_loop s [] None) v6_expand)"

section \<open>net.ParseIP\<close>

fun ParseAddr :: "string \<Rightarrow> string \<Rightarrow> ip option" where
  "ParseAddr all [] = None"
| "ParseAddr all (c # s) =
     (if c = CHR ''.'' then map_option (\<lambda>fs. v4_prefix @ fs) (parseIPv4Fields all 0 0 [])
      else if c = CHR '':'' then parseIPv6 all
      else if c = CHR ''%'' then None
      else ParseAddr all s)"

definition ParseIP :: "string \<Rightarrow> ip option" where
  "ParseIP s = ParseAddr s s"

section \<open>IP.String\<close>

definition octets_str :: "8 word list \<Rightarrow> string" where
  "octets_str bs = join ''.'' (map (\<lambda>b. nat_str (unat b)) bs)"

definition hex_digit :: "nat \<Rightarrow> char" where
  "hex_digit d = (if d < 10 then char_of (48 + d) else char_of (87 + d))"

text \<open>A 16-bit group in hexadecimal without leading zeros.\<close>

definition hex16 :: "nat \<Rightarrow> string" where
  "hex16 n = (let ds = dropWhile (\<lambda>d. d = 0) [n div 4096 mod 16, n div 256 mod 16, n div 16 mod 16]
     in map hex_digit (ds @ [n mod 16]))"

fun groups16 :: "8 word list \<Rightarrow> nat list" where
  "groups16 (a # b # bs) = (unat a * 256 + unat b) # groups16 bs"
| "groups16 _ = []"

text \<open>The longest run of at least two zero groups, the first one of that length.\<close>

definition zero_run :: "nat list \<Rightarrow> nat \<Rightarrow> nat" where
  "zero_run gs i = length (takeWhile (\<lambda>g. g = 0) (drop i gs))"

definition best_zero_run :: "nat list \<Rightarrow> nat \<times> nat" where
  "best_zero_run gs = foldl (\<lambda>(st, n) i. if 2 \<le> zero_run gs i \<and> n < zero_run gs i
      then (i, zero_run gs i) else (st, n)) (0, 0) [0..<length gs]"

definition v6_str :: "ip \<Rightarrow> string" where
  "v6_str a = (let gs = groups16 a; (st, n) = best_zero_run gs in
     if n = 0 then join '':'' (map hex16 gs)
     else join '':'' (map hex16 (take st gs)) @ ''::'' @ join '':'' (map hex16 (drop (st + n) gs)))"

definition is_v4_mapped :: "ip \<Rightarrow> bool" where
  "is_v4_mapped a \<longleftrightarrow> length a = 16 \<and> take 12 a = v4_prefix"

definition IP_String :: "ip \<Rightarrow> string" where
  "IP_String a = (if is_v4_mapped a then octets_str (drop 12 a) else v6_str a)"

section \<open>Parsing what was printed\<close>

lemma parse_octet:
  assumes "n < 256" and "s = [] \<or> hd s = CHR ''.''"
  shows "parseIPv4Fields (nat_str n @ s) 0 0 fs = parseIPv4Fields s n (length (nat_str n)) fs"
proof -
  consider "n < 10" | "10 \<le> n" "n < 100" | "100 \<le> n" "n < 256" using assms by linarith
  then show ?thesis
  proof cases
    case 1
    then show ?thesis by (subst (1 2) nat_str.simps) (simp add: go_lib)
  next
    case 2
    then have "nat_str n = [digit_char (n div 10), digit_char (n mod 10)]"
      by (subst nat_str.simps, subst nat_str.simps) simp
    moreover have "0 < n div 10" "n div 10 < 10" using 2 by simp_all
    ultimately show ?thesis using 2 by (simp add: go_lib)
  next
    case 3
    then have "n div 10 div 10 < 10" by simp
    with 3 have "nat_str n = [digit_char (n div 10 div 10), digit_char (n div 10 mod 10),
        digit_char (n mod 10)]"
      by (subst nat_str.simps, subst nat_str.simps, subst nat_str.simps) simp
    moreover have digits3: "0 < n div 10 div 10" "n div 10 < 26" using 3 by simp_all
    moreover have "n div 10 div 10 * 10 + n div 10 mod 10 = n div 10" "n div 10 * 10 + n mod 10 = n"
      by simp_all
    ultimately show ?thesis
      using 3 \<open>n div 10 div 10 < 10\<close> digits3 by (simp add: go_lib)
  qed
qed

lemma parse_dot: "0 < d \<Longrightarrow> s \<noteq> [] \<Longrightarrow> length fs < 3
  \<Longrightarrow> parseIPv4Fields (CHR ''.'' # s) v d fs = parseIPv4Fields s 0 0 (fs @ [of_nat v])"
  by (simp add: is_digit_def)

lemma unat_8_less: "unat (b :: 8 word) < 256"
  using unsigned_less [of b] by simp

lemma parse_octets:
  "parseIPv4Fields (octets_str [a, b, c, d]) 0 0 [] = Some [a, b, c, d]"
  by (simp add: octets_str_def parse_octet unat_8_less parse_octet [where s = "[]", simplified]
      parse_dot del: parseIPv4Fields.simps(2))

lemma ParseAddr_skip:
  "list_all (\<lambda>c. c \<notin> {CHR ''.'', CHR '':'', CHR ''%''}) s \<Longrightarrow> ParseAddr all (s @ t) = ParseAddr all t"
  by (induction s) auto

lemma ParseAddr_dot: "ParseAddr all (CHR ''.'' # s)
    = map_option (\<lambda>fs. v4_prefix @ fs) (parseIPv4Fields all 0 0 [])"
  by simp

lemma nat_str_no_sep: "list_all (\<lambda>c. c \<notin> {CHR ''.'', CHR '':'', CHR ''%''}) (nat_str n)"
  using nat_str_digits [of n] by (rule list.pred_mono_strong) (auto simp: is_digit_def)

lemma ParseIP_octets: "ParseIP (octets_str [a, b, c, d]) = Some (v4_prefix @ [a, b, c, d])"
proof -
  have "ParseAddr all (octets_str [a, b, c, d])
      = map_option (\<lambda>fs. v4_prefix @ fs) (parseIPv4Fields all 0 0 [])" for all
    by (simp only: octets_str_def list.map join.simps ParseAddr_skip nat_str_no_sep
        append.simps ParseAddr_dot)
  then show ?thesis by (simp add: ParseIP_def parse_octets)
qed

lemma IP_String_v4: "IP_String (v4_prefix @ [a, b, c, d]) = octets_str [a, b, c, d]"
  by (simp add: IP_String_def is_v4_mapped_def v4_prefix_def)

text \<open>Printing and parsing of IPv4 addresses as an instance of the encoder contract.\<close>

lemma length_4: "length xs = 4 \<Longrightarrow> \<exists>w x y z. xs = [w, x, y, z]"
  by (auto simp: numeral_eq_Suc length_Suc_conv)

lemma v4_mapped_cases: "is_v4_mapped a \<Longrightarrow> \<exists>w x y z. a = v4_prefix @ [w, x, y, z]"
proof -
  assume a: "is_v4_mapped a"
  then have "length (drop 12 a) = 4" by (simp add: is_v4_mapped_def)
  then obtain w x y z where "drop 12 a = [w, x, y, z]"
    using length_4 by blast
  with a show ?thesis unfolding is_v4_mapped_def by (metis append_take_drop_id)
qed

interpretation ipv4: codec IP_String ParseIP is_v4_mapped
  by unfold_locales (auto dest!: v4_mapped_cases simp: IP_String_v4 ParseIP_octets)

text \<open>Every parsed address has sixteen bytes, so index 15 is in range.\<close>

lemma parseIPv4Fields_length:
  "parseIPv4Fields s v d fs = Some r \<Longrightarrow> length fs \<le> 3 \<Longrightarrow> length r = 4"
  by (induction s v d fs rule: parseIPv4Fields.induct) (auto split: if_splits)

lemma v6_loop_length:
  "v6_loop s ip ell = Some (r, e) \<Longrightarrow> even (length ip) \<Longrightarrow> length ip \<le> 16 \<Longrightarrow> length r \<le> 16"
proof (induction s ip ell rule: v6_loop.induct)
  case (1 s ip ell)
  let ?ds = "takeWhile (\<lambda>c. hex_val c \<noteq> None) s" and ?t = "dropWhile (\<lambda>c. hex_val c \<noteq> None) s"
  have even: "length ip < 16 \<Longrightarrow> length ip + 2 \<le> 16" using "1.prems"(2) by presburger
  note step = "1.prems"(1) [unfolded v6_loop.simps [of s ip ell] Let_def]
  show ?case
    using step even "1.IH"(1) [OF _ refl refl] "1.IH"(2) [OF _ refl refl] "1.prems"(2,3)
      parseIPv4Fields_length [of s 0 0 "[]"]
    by (auto split: if_splits)
qed

lemma v6_expand_length: "v6_expand (ip, ell) = Some r \<Longrightarrow> length ip \<le> 16 \<Longrightarrow> length r = 16"
  by (auto simp: v6_expand_def split: if_splits option.splits)

lemma ParseAddr_length: "ParseAddr all s = Some a \<Longrightarrow> length a = 16"
  by (induction all s rule: ParseAddr.induct)
     (auto simp: v4_prefix_def parseIPv6_def bind_eq_Some_conv split: if_splits
       dest!: parseIPv4Fields_length v6_loop_length v6_expand_length)

lemma ParseIP_length: "ParseIP s = Some a \<Longrightarrow> length a = 16"
  by (simp add: ParseIP_def ParseAddr_length)

end
