(* ===== verification/Json.thy ===== *)
theory Json
  imports Utf8 NetIP
begin

text \<open>
  \<open>encoding/json\<close>: the texts \<open>json.Marshal\<close> writes and the syntax
  \<open>json.Unmarshal\<close> accepts.  A value is a tree; a number keeps its literal, as the decoder
  does until it knows the type of the field.  The parser is a lexer followed by a stack machine
  over the tokens, with Go's limit of 10000 nested arrays and objects.
\<close>

datatype json = JNull | JBool bool | JNum string | JStr string | JArr "json list"
  | JObj "(string \<times> json) list"

section \<open>Strings\<close>

definition hex4 :: "nat \<Rightarrow> string" where
  "hex4 n = [hex_digit (n div 4096 mod 16), hex_digit (n div 256 mod 16),
     hex_digit (n div 16 mod 16), hex_digit (n mod 16)]"

definition u_escape :: "nat \<Rightarrow> string" where
  "u_escape n = CHR 92 # CHR ''u'' # hex4 n"

text \<open>One ASCII byte as \<open>appendString\<close> writes it with HTML escaping on.\<close>

definition quote_ascii :: "char \<Rightarrow> string" where
  "quote_ascii c = (if c = CHR 34 \<or> c = CHR 92 then [CHR 92, c]
     else if code c = 8 then [CHR 92, CHR ''b'']
     else if code c = 12 then [CHR 92, CHR ''f'']
     else if code c = 10 then [CHR 92, CHR ''n'']
     else if code c = 13 then [CHR 92, CHR ''r'']
     else if code c = 9 then [CHR 92, CHR ''t'']
     else if code c < 32 \<or> c \<in> {CHR ''<'', CHR ''>'', CHR ''&''} then u_escape (code c)
     else [c])"

text \<open>A whole string: invalid bytes become \<open>\\ufffd\<close>, U+2028 and U+2029 are escaped.\<close>

definition quote_rune :: "string \<Rightarrow> string" where
  "quote_rune r = (if r = encode_rune 8232 then u_escape 8232
     else if r = encode_rune 8233 then u_escape 8233 else r)"

function quote_chars :: "string \<Rightarrow> string" where
  "quote_chars s = (if s = [] then []
     else if rune_len s = 0 then u_escape 65533 @ quote_chars (tl s)
     else if rune_len s = 1 then quote_ascii (hd s) @ quote_chars (tl s)
     else quote_rune (take (rune_len s) s) @ quote_chars (drop (rune_len s) s))"
  by pat_completeness auto
termination by (relation "measure length") auto

declare quote_chars.simps [simp del]

definition quote :: "string \<Rightarrow> string" where
  "quote s = CHR 34 # quote_chars s @ [CHR 34]"

text \<open>
  Reading a string after its opening quote: the content and the rest of the input.  A surrogate
  escape followed by the escape of its second half is one code point, any other surrogate is the
  replacement character.
\<close>

definition getu4 :: "string \<Rightarrow> nat option" where
  "getu4 s = (if 4 \<le> length s \<and> list_all (\<lambda>c. hex_val c \<noteq> None) (take 4 s)
     then Some (hex_num (take 4 s)) else None)"

definition getu6 :: "string \<Rightarrow> nat option" where
  "getu6 s = (if take 2 s = [CHR 92, CHR ''u''] then getu4 (drop 2 s) else None)"

definition simple_escape :: "char \<Rightarrow> char option" where
  "simple_escape e = map_of [(CHR 34, CHR 34), (CHR 92, CHR 92), (CHR ''/'', CHR ''/''),
     (CHR ''b'', CHR 8), (CHR ''f'', CHR 12), (CHR ''n'', CHR 10), (CHR ''r'', CHR 13),
     (CHR ''t'', CHR 9)] e"

definition is_surrogate :: "nat \<Rightarrow> bool" where
  "is_surrogate u \<longleftrightarrow> 55296 \<le> u \<and> u < 57344"

definition surrogate_pair :: "nat \<Rightarrow> nat \<Rightarrow> nat option" where
  "surrogate_pair u v = (if 55296 \<le> u \<and> u < 56320 \<and> 56320 \<le> v \<and> v < 57344
     then Some ((u - 55296) * 1024 + (v - 56320) + 65536) else None)"

text \<open>What one \<open>\\u\<close> escape (after its first two bytes) stands for, and the rest.\<close>

definition unquote_u :: "string \<Rightarrow> (string \<times> string) option" where
  "unquote_u t = (case getu4 t of None \<Rightarrow> None
     | Some u \<Rightarrow>
        (if \<not> is_surrogate u then Some (encode_rune u, drop 4 t)
         else (case Option.bind (getu6 (drop 4 t)) (surrogate_pair u) of
             Some r \<Rightarrow> Some (encode_rune r, drop 10 t)
           | None \<Rightarrow> Some (replacement, drop 4 t))))"

text \<open>One element of a string literal: its bytes and the rest of the input.\<close>

definition unquote1 :: "string \<Rightarrow> (string \<times> string) option" where
  "unquote1 s =
     (if hd s = CHR 92 then
        (if tl s = [] then None
         else if hd (tl s) = CHR ''u'' then unquote_u (tl (tl s))
         else map_option (\<lambda>c. ([c], tl (tl s))) (simple_escape (hd (tl s))))
      else if code (hd s) < 32 then None
      else if rune_len s = 0 then Some (replacement, tl s)
      else Some (take (rune_len s) s, drop (rune_len s) s))"

lemma unquote1_shorter: "unquote1 s = Some (r, t) \<Longrightarrow> s \<noteq> [] \<Longrightarrow> length t < length s"
  by (cases s)
     (auto simp: unquote1_def unquote_u_def is_surrogate_def split: if_splits option.splits)

function unquote :: "string \<Rightarrow> (string \<times> string) option" where
  "unquote s = (if s = [] then None
     else if hd s = CHR 34 then Some ([], tl s)
     else (case unquote1 s of None \<Rightarrow> None
       | Some (r, t) \<Rightarrow> map_option (\<lambda>(c, u). (r @ c, u)) (unquote t)))"
  by pat_completeness auto
termination
  by (relation "measure length") (auto dest: unquote1_shorter)

declare unquote.simps [simp del]

lemma unquote_shorter: "unquote s = Some (c, t) \<Longrightarrow> length t < length s"
proof (induction s arbitrary: c t rule: unquote.induct)
  case (1 s)
  show ?case
  proof (cases "s = [] \<or> hd s = CHR 34")
    case True
    with "1.prems" show ?thesis
      by (cases s) (simp_all add: unquote.simps [of "[]"] unquote.simps [of "_ # _"])
  next
    case False
    with "1.prems" obtain r u v where "unquote1 s = Some (r, u)" "unquote u = Some (v, t)"
      by (auto simp: unquote.simps [of s] split: option.splits)
    with False "1.IH" [OF _ _ this(1) refl this(2)] show ?thesis
      by (auto dest: unquote1_shorter)
  qed
qed

section \<open>Numbers\<close>

text \<open>The longest number at the head of the input: its literal and the rest.\<close>

definition digits_at :: "string \<Rightarrow> string \<times> string" where
  "digits_at s = (takeWhile is_digit s, dropWhile is_digit s)"

definition lex_frac :: "string \<Rightarrow> (string \<times> string) option" where
  "lex_frac s = (if s \<noteq> [] \<and> hd s = CHR ''.'' then
       (case digits_at (tl s) of (ds, t) \<Rightarrow> if ds = [] then None else Some (CHR ''.'' # ds, t))
     else Some ([], s))"

definition lex_exp :: "string \<Rightarrow> (string \<times> string) option" where
  "lex_exp s = (if s \<noteq> [] \<and> hd s \<in> {CHR ''e'', CHR ''E''} then
       (let sg = (if tl s \<noteq> [] \<and> hd (tl s) \<in> {CHR ''+'', CHR ''-''} then [hd (tl s)] else []) in
        case digits_at (drop (length sg) (tl s)) of (ds, t) \<Rightarrow>
          if ds = [] then None else Some (hd s # sg @ ds, t))
     else Some ([], s))"

definition lex_int :: "string \<Rightarrow> (string \<times> string) option" where
  "lex_int s = (if s = [] \<or> \<not> is_digit (hd s) then None
     else if hd s = CHR ''0'' then Some (''0'', tl s) else Some (digits_at s))"

definition lex_number :: "string \<Rightarrow> (string \<times> string) option" where
  "lex_number s =
     (let m = (if s \<noteq> [] \<and> hd s = CHR ''-'' then ''-'' else []) in
      case lex_int (drop (length m) s) of None \<Rightarrow> None
      | Some (i, t) \<Rightarrow>
         (case lex_frac t of None \<Rightarrow> None
          | Some (f, u) \<Rightarrow>
             (case lex_exp u of None \<Rightarrow> None
              | Some (e, v) \<Rightarrow> Some (m @ i @ f @ e, v))))"

lemma dropWhile_shorter: "length (dropWhile P s) \<le> length s"
  by (induction s) auto

lemma lex_frac_le: "lex_frac s = Some (a, t) \<Longrightarrow> length t \<le> length s"
  using dropWhile_shorter [of is_digit "tl s"]
  by (auto simp: lex_frac_def digits_at_def split: if_splits)

lemma lex_exp_le: "lex_exp s = Some (a, t) \<Longrightarrow> length t \<le> length s"
  using dropWhile_shorter [of is_digit "tl s"] dropWhile_shorter [of is_digit "tl (tl s)"]
  by (cases s) (auto simp: lex_exp_def digits_at_def drop_Suc Let_def split: if_splits)

lemma lex_int_less: "lex_int s = Some (a, t) \<Longrightarrow> length t < length s"
  using dropWhile_shorter [of is_digit "tl s"]
  by (cases s) (auto simp: lex_int_def digits_at_def split: if_splits)

lemma lex_number_shorter:
  assumes "lex_number s = Some (a, t)"
  shows "length t < length s"
proof -
  obtain n i u f v e where "lex_int (drop n s) = Some (i, u)" "lex_frac u = Some (f, v)"
      "lex_exp v = Some (e, t)"
    using assms unfolding lex_number_def Let_def by (auto split: option.splits prod.splits)
  then have "length t < length (drop n s)"
    using lex_int_less lex_frac_le lex_exp_le by (meson le_less_trans le_trans)
  then show ?thesis by simp
qed

section \<open>Tokens\<close>

datatype tok = TLB | TRB | TLC | TRC | TComma | TColon | TStr string | TNum string
  | TTrue | TFalse | TNull

definition is_space :: "char \<Rightarrow> bool" where
  "is_space c \<longleftrightarrow> code c \<in> {32, 9, 10, 13}"

definition punct :: "char \<Rightarrow> tok option" where
  "punct c = map_of [(CHR ''['', TLB), (CHR '']'', TRB), (CHR ''{'', TLC), (CHR ''}'', TRC),
     (CHR '','', TComma), (CHR '':'', TColon)] c"

text \<open>One token at the head of a non-empty input without leading space, and the rest.\<close>

definition lex1 :: "string \<Rightarrow> (tok \<times> string) option" where
  "lex1 s = (case punct (hd s) of Some t \<Rightarrow> Some (t, tl s)
     | None \<Rightarrow>
        if hd s = CHR 34 then map_option (\<lambda>(c, t). (TStr c, t)) (unquote (tl s))
        else if take 4 s = ''true'' then Some (TTrue, drop 4 s)
        else if take 5 s = ''false'' then Some (TFalse, drop 5 s)
        else if take 4 s = ''null'' then Some (TNull, drop 4 s)
        else map_option (\<lambda>(n, t). (TNum n, t)) (lex_number s))"

lemma lex1_shorter: "lex1 s = Some (k, t) \<Longrightarrow> s \<noteq> [] \<Longrightarrow> length t < length s"
proof -
  assume k: "lex1 s = Some (k, t)" and s: "s \<noteq> []"
  have "t = tl s \<or> t = drop 4 s \<or> t = drop 5 s \<or> (\<exists>c. unquote (tl s) = Some (c, t))
      \<or> (\<exists>n. lex_number s = Some (n, t))"
    using k by (auto simp: lex1_def split: option.splits if_splits)
  then show ?thesis
    using s lex_number_shorter [of s _ t] unquote_shorter [of "tl s" _ t] by (cases s) auto
qed

function lex :: "string \<Rightarrow> tok list option" where
  "lex s = (if s = [] then Some []
     else if is_space (hd s) then lex (tl s)
     else (case lex1 s of None \<Rightarrow> None
       | Some (k, t) \<Rightarrow> map_option (\<lambda>ks. k # ks) (lex t)))"
  by pat_completeness auto
termination
  by (relation "measure length") (auto dest: lex1_shorter)

declare lex.simps [simp del]

end
