(* ===== verification/JsonText.thy ===== *)
theory JsonText
  imports Json
begin

text \<open>
  The text of a JSON value as \<open>json.Marshal\<close> writes it, the parser behind
  \<open>json.Unmarshal\<close>, and the round trip between the two: a value without invalid UTF-8 that is
  not nested too deeply is read back unchanged.
\<close>

section \<open>Printing\<close>

fun json_text :: "json \<Rightarrow> string" where
  "json_text JNull = ''null''"
| "json_text (JBool b) = (if b then ''true'' else ''false'')"
| "json_text (JNum n) = n"
| "json_text (JStr s) = quote s"
| "json_text (JArr xs) = ''['' @ join '','' (map json_text xs) @ '']''"
| "json_text (JObj kvs) = ''{'' @ join '','' (map (\<lambda>(k, v). quote k @ '':'' @ json_text v) kvs) @ ''}''"

section \<open>Parsing\<close>

text \<open>
  The parser's position: a value is expected (possibly the first of an array, which may also be
  closed), a key is expected (likewise), a colon after a key, or a value has been completed.
\<close>

datatype mode = MVal bool | MKey bool | MColon string | MDone json

datatype frame = FArr "json list" | FObj "(string \<times> json) list" | FKey "(string \<times> json) list" string

definition max_depth :: nat where
  "max_depth = 10000"

definition push :: "mode \<Rightarrow> frame \<Rightarrow> frame list \<Rightarrow> (mode \<times> frame list) option" where
  "push m f st = (if length st < max_depth then Some (m, f # st) else None)"

fun value_step :: "tok \<Rightarrow> bool \<Rightarrow> frame list \<Rightarrow> (mode \<times> frame list) option" where
  "value_step TLB f st = push (MVal True) (FArr []) st"
| "value_step TLC f st = push (MKey True) (FObj []) st"
| "value_step (TStr s) f st = Some (MDone (JStr s), st)"
| "value_step (TNum n) f st = Some (MDone (JNum n), st)"
| "value_step TTrue f st = Some (MDone (JBool True), st)"
| "value_step TFalse f st = Some (MDone (JBool False), st)"
| "value_step TNull f st = Some (MDone JNull, st)"
| "value_step TRB True (FArr xs # st) = Some (MDone (JArr xs), st)"
| "value_step _ _ _ = None"

fun key_step :: "tok \<Rightarrow> bool \<Rightarrow> frame list \<Rightarrow> (mode \<times> frame list) option" where
  "key_step (TStr k) f st = Some (MColon k, st)"
| "key_step TRC True (FObj kvs # st) = Some (MDone (JObj kvs), st)"
| "key_step _ _ _ = None"

fun colon_step :: "tok \<Rightarrow> string \<Rightarrow> frame list \<Rightarrow> (mode \<times> frame list) option" where
  "colon_step TColon k (FObj kvs # st) = Some (MVal False, FKey kvs k # st)"
| "colon_step _ _ _ = None"

fun done_step :: "tok \<Rightarrow> json \<Rightarrow> frame list \<Rightarrow> (mode \<times> frame list) option" where
  "done_step TComma v (FArr xs # st) = Some (MVal False, FArr (xs @ [v]) # st)"
| "done_step TRB v (FArr xs # st) = Some (MDone (JArr (xs @ [v])), st)"
| "done_step TComma v (FKey kvs k # st) = Some (MKey False, FObj (kvs @ [(k, v)]) # st)"
| "done_step TRC v (FKey kvs k # st) = Some (MDone (JObj (kvs @ [(k, v)])), st)"
| "done_step _ _ _ = None"

fun parse_step :: "tok \<Rightarrow> mode \<Rightarrow> frame list \<Rightarrow> (mode \<times> frame list) option" where
  "parse_step t (MVal f) st = value_step t f st"
| "parse_step t (MKey f) st = key_step t f st"
| "parse_step t (MColon k) st = colon_step t k st"
| "parse_step t (MDone v) st = done_step t v st"

fun parse_run :: "tok list \<Rightarrow> mode \<Rightarrow> frame list \<Rightarrow> json option" where
  "parse_run [] (MDone v) [] = Some v"
| "parse_run [] _ _ = None"
| "parse_run (t # ts) m st = (case parse_step t m st of None \<Rightarrow> None
     | Some (m', st') \<Rightarrow> parse_run ts m' st')"

definition json_parse :: "string \<Rightarrow> json option" where
  "json_parse s = Option.bind (lex s) (\<lambda>ts. parse_run ts (MVal False) [])"

section \<open>Reading strings back\<close>

lemma hex_val_digit: "d < 16 \<Longrightarrow> hex_val (hex_digit d) = Some d"
  by (auto simp: hex_val_def hex_digit_def Let_def)

lemma digits16: "n < 65536 \<Longrightarrow>
  16 * (16 * (16 * (n div 4096 mod 16) + n div 256 mod 16) + n div 16 mod 16) + n mod 16 = (n :: nat)"
proof -
  assume n: "n < 65536"
  have d: "n div 256 = n div 16 div 16" "n div 4096 = n div 16 div 16 div 16"
    using div_mult2_eq [of n 16 16] div_mult2_eq [of n 16 256] div_mult2_eq [of "n div 16" 16 16]
    by simp_all
  have "n div 4096 < 16" using n by simp
  then have e: "n div 16 div 16 div 16 mod 16 = n div 16 div 16 div 16"
    unfolding d by (rule mod_less)
  show ?thesis unfolding d e by (simp only: mult_div_mod_eq)
qed

lemma getu4_hex4: "n < 65536 \<Longrightarrow> getu4 (hex4 n @ t) = Some n"
  using digits16 [of n] by (simp add: getu4_def hex4_def hex_val_digit hex_num_def)

lemma unquote1_u_escape:
  "n < 65536 \<Longrightarrow> \<not> is_surrogate n \<Longrightarrow> unquote1 (u_escape n @ t) = Some (encode_rune n, t)"
  by (simp add: unquote1_def u_escape_def unquote_u_def getu4_hex4) (simp add: hex4_def)

lemma quote_ascii_cases:
  "c \<in> {CHR 34, CHR 92, CHR 8, CHR 12, CHR 10, CHR 13, CHR 9}
   \<or> quote_ascii c = u_escape (code c)
   \<or> (quote_ascii c = [c] \<and> c \<noteq> CHR 92 \<and> \<not> code c < 32)"
  by (simp add: quote_ascii_def char_eq_iff_nat)

lemma unquote1_ascii:
  assumes c: "code c < 128"
  shows "unquote1 (quote_ascii c @ t) = Some ([c], t)"
  using quote_ascii_cases [of c]
proof (elim disjE conjE)
  assume "c \<in> {CHR 34, CHR 92, CHR 8, CHR 12, CHR 10, CHR 13, CHR 9}"
  then show ?thesis
    by (elim insertE emptyE) (simp_all add: quote_ascii_def unquote1_def simple_escape_def)
next
  assume "quote_ascii c = u_escape (code c)"
  with c show ?thesis
    by (simp add: unquote1_u_escape is_surrogate_def encode_rune_def)
next
  assume "quote_ascii c = [c]" "c \<noteq> CHR 92" "\<not> code c < 32"
  with c show ?thesis by (simp add: unquote1_def rune_len_ascii)
qed

lemma quote_ascii_hd: "quote_ascii c \<noteq> [] \<and> hd (quote_ascii c) \<noteq> CHR 34"
  by (auto simp: quote_ascii_def u_escape_def)

lemma rune_not_nil: "1 < rune_len s \<Longrightarrow> take (rune_len s) s \<noteq> [] \<and> hd (take (rune_len s) s) = hd s"
  by (cases s) (auto simp: rune_len_def hd_take)

lemma unquote1_quote_rune:
  assumes n: "1 < rune_len s"
  shows "unquote1 (quote_rune (take (rune_len s) s) @ t) = Some (take (rune_len s) s, t)
    \<and> quote_rune (take (rune_len s) s) \<noteq> [] \<and> hd (quote_rune (take (rune_len s) s)) \<noteq> CHR 34"
proof -
  let ?r = "take (rune_len s) s"
  have len: "rune_len (?r @ t) = rune_len s" using n by (simp add: rune_len_take)
  have big: "128 \<le> code (hd s)" using n by (rule rune_len_hd_big)
  then have hd: "hd s \<noteq> CHR 92" "hd s \<noteq> CHR 34" "\<not> code (hd s) < 32" by auto
  have l: "length ?r = rune_len s" using rune_len_le [of s] by simp
  have plain: "unquote1 (?r @ t) = Some (?r, t)"
    using len hd rune_not_nil [OF n] n l by (simp add: unquote1_def)
  consider "?r = encode_rune 8232" | "?r = encode_rune 8233" | "quote_rune ?r = ?r"
    unfolding quote_rune_def by presburger
  then show ?thesis
  proof cases
    case 3
    then show ?thesis using plain rune_not_nil [OF n] hd by simp
  qed (simp_all add: quote_rune_def unquote1_u_escape is_surrogate_def, simp_all add: u_escape_def encode_rune_def)
qed

lemma unquote_step:
  "unquote1 s = Some (r, t) \<Longrightarrow> s \<noteq> [] \<Longrightarrow> hd s \<noteq> CHR 34
   \<Longrightarrow> unquote s = map_option (\<lambda>(c, u). (r @ c, u)) (unquote t)"
  by (subst unquote.simps) simp

lemma unquote_quote_chars: "utf8_ok s \<Longrightarrow> unquote (quote_chars s @ CHR 34 # t) = Some (s, t)"
proof (induction s rule: quote_chars.induct)
  case (1 s)
  consider "s = []" | "s \<noteq> []" "rune_len s = 1" | "s \<noteq> []" "1 < rune_len s"
    using "1.prems" by (cases "rune_len s") (auto simp: utf8_ok.simps [of s] split: if_splits)
  then show ?case
  proof cases
    case 1
    then show ?thesis by (simp add: quote_chars.simps unquote.simps)
  next
    case 2
    then have c: "code (hd s) < 128" and ok: "utf8_ok (tl s)"
      using rune_len_one "1.prems" by (auto simp: utf8_ok.simps [of s] drop_Suc)
    have eq: "quote_chars s = quote_ascii (hd s) @ quote_chars (tl s)"
      using 2 by (simp add: quote_chars.simps [of s])
    have "unquote (quote_chars (tl s) @ CHR 34 # t) = Some (tl s, t)"
      using "1.IH"(2) [OF 2(1) _ 2(2) ok] 2 by simp
    moreover have "unquote1 (quote_ascii (hd s) @ (quote_chars (tl s) @ CHR 34 # t))
        = Some ([hd s], quote_chars (tl s) @ CHR 34 # t)" by (rule unquote1_ascii [OF c])
    ultimately show ?thesis
      using quote_ascii_hd [of "hd s"] 2(1) by (simp add: eq unquote_step)
  next
    case 3
    then have ok: "utf8_ok (drop (rune_len s) s)"
      using "1.prems" by (auto simp: utf8_ok.simps [of s] split: if_splits)
    let ?q = "quote_rune (take (rune_len s) s)"
    have eq: "quote_chars s = ?q @ quote_chars (drop (rune_len s) s)"
      using 3 by (simp add: quote_chars.simps [of s])
    have "unquote (quote_chars (drop (rune_len s) s) @ CHR 34 # t) = Some (drop (rune_len s) s, t)"
      using "1.IH"(3) [OF 3(1) _ _ ok] 3 by simp
    then show ?thesis
      using unquote1_quote_rune [OF 3(2), of "quote_chars (drop (rune_len s) s) @ CHR 34 # t"]
      by (simp add: eq unquote_step)
  qed
qed

section \<open>Lexing printed text\<close>

fun toks :: "json \<Rightarrow> tok list" where
  "toks JNull = [TNull]"
| "toks (JBool b) = [if b then TTrue else TFalse]"
| "toks (JNum n) = [TNum n]"
| "toks (JStr s) = [TStr s]"
| "toks (JArr xs) = TLB # join [TComma] (map toks xs) @ [TRB]"
| "toks (JObj kvs) = TLC # join [TComma] (map (\<lambda>(k, v). TStr k # TColon # toks v) kvs) @ [TRC]"

text \<open>
  Values whose text is read back: strings and keys are valid UTF-8, numbers are decimal integers.
\<close>

fun json_ok :: "json \<Rightarrow> bool" where
  "json_ok (JNum n) = (\<exists>i. n = int_str i)"
| "json_ok (JStr s) = utf8_ok s"
| "json_ok (JArr xs) = (\<forall>x \<in> set xs. json_ok x)"
| "json_ok (JObj kvs) = (\<forall>(k, v) \<in> set kvs. utf8_ok k \<and> json_ok v)"
| "json_ok _ = True"

fun json_depth :: "json \<Rightarrow> nat" where
  "json_depth (JArr xs) = Suc (Max (insert 0 (set (map json_depth xs))))"
| "json_depth (JObj kvs) = Suc (Max (insert 0 (set (map (\<lambda>(k, v). json_depth v) kvs))))"
| "json_depth _ = 0"

text \<open>What may follow a value: nothing, or a byte that ends a number.\<close>

definition ends_value :: "string \<Rightarrow> bool" where
  "ends_value t \<longleftrightarrow> t = [] \<or> hd t \<in> {CHR '','', CHR '']'', CHR ''}''}"

lemma lex_step:
  "lex1 s = Some (k, t) \<Longrightarrow> s \<noteq> [] \<Longrightarrow> \<not> is_space (hd s) \<Longrightarrow> lex s = map_option (\<lambda>ks. k # ks) (lex t)"
  by (subst lex.simps) simp

lemma lex_punct: "punct c = Some k \<Longrightarrow> lex (c # t) = map_option (\<lambda>ks. k # ks) (lex t)"
  by (rule lex_step) (auto simp: lex1_def punct_def is_space_def split: if_splits)

lemma lex_quote: "utf8_ok s \<Longrightarrow> lex (quote s @ t) = map_option (\<lambda>ks. TStr s # ks) (lex t)"
  by (rule lex_step) (auto simp: lex1_def punct_def quote_def unquote_quote_chars is_space_def)

lemma lex_words:
  "lex (''true'' @ t) = map_option (\<lambda>ks. TTrue # ks) (lex t)"
  "lex (''false'' @ t) = map_option (\<lambda>ks. TFalse # ks) (lex t)"
  "lex (''null'' @ t) = map_option (\<lambda>ks. TNull # ks) (lex t)"
  by (rule lex_step; simp add: lex1_def punct_def is_space_def)+

lemma ends_value_no_digit: "ends_value t \<Longrightarrow> t = [] \<or> \<not> is_digit (hd t)"
  by (auto simp: ends_value_def is_digit_def)

lemma digits_at_append:
  "list_all is_digit s \<Longrightarrow> ends_value t \<Longrightarrow> digits_at (s @ t) = (s, t)"
  using takeWhile_append_stop [of s is_digit t] dropWhile_append_stop [of s is_digit t]
    ends_value_no_digit [of t]
  by (simp only: digits_at_def list_all_iff)

lemma digit_char_zero: "d < 10 \<Longrightarrow> digit_char d = CHR ''0'' \<longleftrightarrow> d = 0"
  by (simp add: digit_char_def char_eq_iff_nat)

lemma hd_nat_str_nonzero: "n \<noteq> 0 \<Longrightarrow> hd (nat_str n) \<noteq> CHR ''0''"
proof (induction n rule: nat_str.induct)
  case (1 n)
  then show ?case by (subst nat_str.simps) (auto simp: digit_char_zero)
qed

lemma lex_int_nat_str: "ends_value t \<Longrightarrow> lex_int (nat_str n @ t) = Some (nat_str n, t)"
proof (cases "n = 0")
  case True
  then show ?thesis by (simp add: lex_int_def nat_str.simps [of 0] digit_char_def is_digit_def char_eq_iff_nat)
next
  case False
  assume "ends_value t"
  then show ?thesis
    using hd_nat_str_digit [of n] hd_nat_str_nonzero [OF False] nat_str_digits [of n]
    by (simp add: lex_int_def digits_at_append)
qed

lemma lex_number_int_str: "ends_value t \<Longrightarrow> lex_number (int_str i @ t) = Some (int_str i, t)"
proof -
  assume t: "ends_value t"
  then have "lex_frac t = Some ([], t)" "lex_exp t = Some ([], t)"
    by (auto simp: lex_frac_def lex_exp_def ends_value_def)
  moreover have "hd (nat_str n) \<noteq> CHR ''-''" for n
    using hd_nat_str_digit [of n] not_digit_minus by metis
  ultimately show ?thesis
    by (simp add: lex_number_def int_str_def Let_def lex_int_nat_str [OF t])
qed

lemma digit_no_punct:
  "is_digit c \<Longrightarrow> c \<notin> {CHR ''['', CHR '']'', CHR ''{'', CHR ''}'', CHR '','', CHR '':'', CHR 34,
     CHR ''t'', CHR ''f'', CHR ''n'', CHR '' '', CHR 9, CHR 10, CHR 13}"
  unfolding is_digit_def by (intro notI, elim insertE emptyE) simp_all

lemma digit_no_word:
  assumes "is_digit c \<or> c = CHR ''-''"
  shows "punct c = None \<and> c \<noteq> CHR 34 \<and> c \<noteq> CHR ''t''
    \<and> c \<noteq> CHR ''f'' \<and> c \<noteq> CHR ''n'' \<and> \<not> is_space c"
  using assms
proof
  assume d: "is_digit c"
  then have "\<not> is_space c" by (auto simp: is_digit_def is_space_def)
  with digit_no_punct [OF d] show ?thesis by (simp add: punct_def)
qed (simp add: punct_def is_space_def)

lemma int_str_hd: "int_str i \<noteq> [] \<and> (is_digit (hd (int_str i)) \<or> hd (int_str i) = CHR ''-'')"
  using hd_nat_str_digit by (simp add: int_str_def)

lemma take_hd: "take n s = c # w \<Longrightarrow> hd s = c"
  by (cases n; cases s) auto

lemma lex_int_str: "ends_value t \<Longrightarrow> lex (int_str i @ t) = map_option (\<lambda>ks. TNum (int_str i) # ks) (lex t)"
proof -
  assume t: "ends_value t"
  let ?s = "int_str i @ t"
  have "hd ?s = hd (int_str i)" using int_str_hd [of i] by (intro hd_append2) blast
  then have d: "is_digit (hd ?s) \<or> hd ?s = CHR ''-''" and s: "?s \<noteq> []"
    using int_str_hd [of i] by simp_all
  note nw = digit_no_word [OF d]
  have "take 4 ?s \<noteq> ''true''" "take 5 ?s \<noteq> ''false''" "take 4 ?s \<noteq> ''null''"
    using nw take_hd [of 4 ?s "CHR ''t''" "''rue''"] take_hd [of 5 ?s "CHR ''f''" "''alse''"]
      take_hd [of 4 ?s "CHR ''n''" "''ull''"] by blast+
  then have "lex1 ?s = Some (TNum (int_str i), t)"
    unfolding lex1_def by (simp only: nw lex_number_int_str [OF t] option.case option.map prod.case if_False if_True)
  then show ?thesis using nw s by (simp only: lex_step not_False_eq_True)
qed

lemma lex_join:
  assumes "\<And>x t ks. x \<in> set xs \<Longrightarrow> ends_value t \<Longrightarrow> lex t = Some ks \<Longrightarrow> lex (f x @ t) = Some (g x @ ks)"
    and "ends_value t" and "lex t = Some ks"
  shows "lex (join '','' (map f xs) @ t) = Some (join [TComma] (map g xs) @ ks)"
  using assms
proof (induction xs)
  case Nil
  then show ?case by simp
next
  case (Cons x xs)
  show ?case
  proof (cases xs)
    case Nil
    with Cons.prems show ?thesis by simp
  next
    case (Cons y ys)
    have "lex (join '','' (map f xs) @ t) = Some (join [TComma] (map g xs) @ ks)"
      using Cons.IH Cons.prems by simp
    then have "lex (CHR '','' # join '','' (map f xs) @ t) = Some (TComma # join [TComma] (map g xs) @ ks)"
      by (simp add: lex_punct punct_def)
    moreover have "ends_value (CHR '','' # join '','' (map f xs) @ t)" by (simp add: ends_value_def)
    ultimately show ?thesis
      using Cons.prems(1) [of x] \<open>xs = y # ys\<close> by simp
  qed
qed

lemma lex_json_text:
  "json_ok v \<Longrightarrow> ends_value t \<Longrightarrow> lex t = Some ks \<Longrightarrow> lex (json_text v @ t) = Some (toks v @ ks)"
proof (induction v arbitrary: t ks)
  case (JArr xs)
  have "lex (join '','' (map json_text xs) @ CHR '']'' # t) = Some (join [TComma] (map toks xs) @ TRB # ks)"
    using JArr by (intro lex_join) (auto simp: ends_value_def lex_punct punct_def)
  then show ?case by (simp add: lex_punct punct_def)
next
  case (JObj kvs)
  have "lex (join '','' (map (\<lambda>(k, v). quote k @ '':'' @ json_text v) kvs) @ CHR ''}'' # t)
      = Some (join [TComma] (map (\<lambda>(k, v). TStr k # TColon # toks v) kvs) @ TRC # ks)"
  proof (rule lex_join)
    fix kv t' ks'
    assume kv: "kv \<in> set kvs" and t': "ends_value t'" "lex t' = Some ks'"
    obtain k v where "kv = (k, v)" by (cases kv)
    with kv JObj.prems JObj.IH [OF kv, of v t' ks'] t' show
      "lex ((case kv of (k, v) \<Rightarrow> quote k @ '':'' @ json_text v) @ t')
       = Some ((case kv of (k, v) \<Rightarrow> TStr k # TColon # toks v) @ ks')"
      by (auto simp: lex_quote lex_punct punct_def)
  qed (use JObj.prems in \<open>auto simp: ends_value_def lex_punct punct_def\<close>)
  then show ?case by (simp add: lex_punct punct_def)
qed (auto simp: lex_words [simplified] lex_quote lex_int_str)

section \<open>Parsing the tokens of a value\<close>

lemma parse_run_step:
  "parse_step t m st = Some (m', st') \<Longrightarrow> parse_run (t # ts) m st = parse_run ts m' st'"
  by simp

lemma parse_elements:
  assumes "\<And>x ts b st. x \<in> set xs \<Longrightarrow> length st \<le> d
      \<Longrightarrow> parse_run (toks x @ ts) (MVal b) st = parse_run ts (MDone x) st"
    and "length st < d" and "xs \<noteq> []"
  shows "parse_run (join [TComma] (map toks xs) @ TRB # ts) (MVal b) (FArr ys # st)
      = parse_run ts (MDone (JArr (ys @ xs))) st"
  using assms
proof (induction xs arbitrary: ys b)
  case (Cons x xs)
  then show ?case by (cases xs) simp_all
qed simp

lemma parse_members:
  assumes "\<And>k v ts b st. (k, v) \<in> set kvs \<Longrightarrow> length st \<le> d
      \<Longrightarrow> parse_run (toks v @ ts) (MVal b) st = parse_run ts (MDone v) st"
    and "length st < d" and "kvs \<noteq> []"
  shows "parse_run (join [TComma] (map (\<lambda>(k, v). TStr k # TColon # toks v) kvs) @ TRC # ts)
        (MKey b) (FObj ys # st)
      = parse_run ts (MDone (JObj (ys @ kvs))) st"
  using assms
proof (induction kvs arbitrary: ys b)
  case (Cons kv kvs)
  obtain k v where kv: "kv = (k, v)" by (cases kv)
  show ?case
  proof (cases kvs)
    case Nil
    with kv Cons.prems show ?thesis by simp
  next
    case tail: (Cons kv' kvs')
    obtain k' v' where kv': "kv' = (k', v')" by (cases kv')
    have "\<And>k v ts b st. (k, v) \<in> set kvs \<Longrightarrow> length st \<le> d
      \<Longrightarrow> parse_run (toks v @ ts) (MVal b) st = parse_run ts (MDone v) st"
      by (rule Cons.prems(1)) (rule list.set_intros(2))
    from Cons.IH [OF this Cons.prems(2), where b = False and ys = "ys @ [(k, v)]"] kv Cons.prems(1) [of k v] Cons.prems(2)
    show ?thesis by (simp add: tail kv')
  qed
qed simp

lemma parse_toks:
  "json_depth v + length st \<le> max_depth \<Longrightarrow> parse_run (toks v @ ts) (MVal b) st = parse_run ts (MDone v) st"
proof (induction v arbitrary: ts b st)
  case (JArr xs)
  let ?d = "Max (insert 0 (set (map json_depth xs)))"
  have le: "json_depth x \<le> ?d" if "x \<in> set xs" for x using that by simp
  have room: "Suc (length st) \<le> max_depth - ?d" "length st < max_depth"
    using JArr.prems by simp_all
  have elem: "parse_run (toks x @ us) (MVal c) st' = parse_run us (MDone x) st'"
    if "x \<in> set xs" "length st' \<le> max_depth - ?d" for x us c st'
    using JArr.IH [OF that(1), of st'] that(2) le [OF that(1)] room by simp
  show ?case
  proof (cases xs)
    case Nil
    with room show ?thesis by (simp add: push_def)
  next
    case Cons
    then have "xs \<noteq> []" by simp
    have "length st < max_depth - ?d" using room by simp
    from parse_elements [OF elem this \<open>xs \<noteq> []\<close>, where ts = ts and b = True and ys = "[]"] room show ?thesis
      by (simp add: push_def)
  qed
next
  case (JObj kvs)
  let ?d = "Max (insert 0 (set (map (\<lambda>(k, v). json_depth v) kvs)))"
  have le: "json_depth v \<le> ?d" if "(k, v) \<in> set kvs" for k v
    using that by (force intro: Max_ge)
  have room: "Suc (length st) \<le> max_depth - ?d" "length st < max_depth"
    using JObj.prems by simp_all
  have memb: "parse_run (toks v @ us) (MVal c) st' = parse_run us (MDone v) st'"
    if "(k, v) \<in> set kvs" "length st' \<le> max_depth - ?d" for k v us c st'
    using JObj.IH [OF that(1), of v st'] that(2) le [OF that(1)] room by simp
  show ?case
  proof (cases kvs)
    case Nil
    with room show ?thesis by (simp add: push_def)
  next
    case Cons
    then have "kvs \<noteq> []" by simp
    have "length st < max_depth - ?d" using room by simp
    from parse_members [OF memb this \<open>kvs \<noteq> []\<close>, where ts = ts and b = True and ys = "[]"] room show ?thesis
      by (simp add: push_def)
  qed
qed simp_all

definition printable :: "json \<Rightarrow> bool" where
  "printable v \<longleftrightarrow> json_ok v \<and> json_depth v \<le> max_depth"

interpretation json: codec json_text json_parse printable
proof
  fix v assume v: "printable v"
  then have "lex (json_text v) = Some (toks v)"
    using lex_json_text [of v "[]" "[]"] by (simp add: printable_def ends_value_def lex.simps)
  then show "json_parse (json_text v) = Some v"
    using v parse_toks [of v "[]" "[]" False] by (simp add: json_parse_def printable_def)
qed

end
