(* ===== verification/Base64.thy ===== *)
theory Base64
  imports GoStrings
begin

text \<open>
  \<open>base64.StdEncoding\<close>: the machine controller encodes the bootstrap data with it before
  it puts them into the create request.  The decoder is the inverse used to state that nothing of
  the bootstrap data is lost.
\<close>

section \<open>The alphabet\<close>

definition b64_char :: "nat \<Rightarrow> char" where
  "b64_char i = (if i < 26 then char_of (65 + i)
     else if i < 52 then char_of (71 + i)
     else if i < 62 then char_of (i - 4)
     else if i = 62 then CHR ''+'' else CHR ''/'')"

definition b64_val :: "char \<Rightarrow> nat option" where
  "b64_val c = (let x = (of_char c :: nat) in
     if 65 \<le> x \<and> x < 91 then Some (x - 65)
     else if 97 \<le> x \<and> x < 123 then Some (x - 71)
     else if 48 \<le> x \<and> x < 58 then Some (x + 4)
     else if c = CHR ''+'' then Some 62
     else if c = CHR ''/'' then Some 63 else None)"

lemma b64_val_char [simp]: "i < 64 \<Longrightarrow> b64_val (b64_char i) = Some i"
  by (auto simp: b64_val_def b64_char_def Let_def)

lemma b64_char_not_pad [simp]: "i < 64 \<Longrightarrow> b64_char i \<noteq> CHR ''=''"
  by (auto simp: b64_char_def char_eq_iff_nat)

section \<open>Encoding and decoding\<close>

text \<open>Three bytes make one number of 24 bits, written as four digits of six bits.\<close>

definition b64_quad :: "nat \<Rightarrow> string" where
  "b64_quad x = [b64_char (x div 262144 mod 64), b64_char (x div 4096 mod 64),
     b64_char (x div 64 mod 64), b64_char (x mod 64)]"

fun b64_encode :: "string \<Rightarrow> string" where
  "b64_encode (a # b # c # s) = b64_quad (of_char a * 65536 + of_char b * 256 + of_char c) @ b64_encode s"
| "b64_encode [a, b] = take 3 (b64_quad (of_char a * 65536 + of_char b * 256)) @ ''=''"
| "b64_encode [a] = take 2 (b64_quad (of_char a * 65536)) @ ''==''"
| "b64_encode [] = []"

definition bytes_of :: "nat \<Rightarrow> string" where
  "bytes_of x = [char_of (x div 65536 mod 256), char_of (x div 256 mod 256), char_of (x mod 256)]"

definition b64_num :: "char list \<Rightarrow> nat option" where
  "b64_num cs = foldl (\<lambda>r c. case r of None \<Rightarrow> None | Some n \<Rightarrow>
     map_option (\<lambda>v. n * 64 + v) (b64_val c)) (Some 0) cs"

fun b64_decode :: "string \<Rightarrow> string option" where
  "b64_decode [] = Some []"
| "b64_decode (p # q # r # t # s) =
     (if t = CHR ''='' \<and> s = [] then
        (if r = CHR ''='' then map_option (\<lambda>n. take 1 (bytes_of (n * 4096))) (b64_num [p, q])
         else map_option (\<lambda>n. take 2 (bytes_of (n * 64))) (b64_num [p, q, r]))
      else (case b64_num [p, q, r, t] of None \<Rightarrow> None
            | Some n \<Rightarrow> map_option (\<lambda>u. bytes_of n @ u) (b64_decode s)))"
| "b64_decode _ = None"

lemma split_digits64:
  "(x :: nat) div 4096 = x div 64 div 64"
  "x div 262144 = x div 64 div 64 div 64"
  using div_mult2_eq [of x 64 64] div_mult2_eq [of x 64 4096] div_mult2_eq [of "x div 64" 64 64]
  by simp_all

lemma base64_digits:
  "262144 * (x div 262144) + 4096 * (x div 4096 mod 64) + x div 64 mod 64 * 64 + x mod 64 = (x :: nat)"
proof -
  define r0 y where "r0 = x mod 64" and "y = x div 64"
  define r1 z where "r1 = y mod 64" and "z = y div 64"
  define r2 w where "r2 = z mod 64" and "w = z div 64"
  have "y * 64 + r0 = x" "z * 64 + r1 = y" "w * 64 + r2 = z"
    by (simp_all only: r0_def y_def r1_def z_def r2_def w_def div_mult_mod_eq)
  then have "262144 * w + 4096 * r2 + r1 * 64 + r0 = x" by linarith
  then show ?thesis
    by (simp only: split_digits64 r0_def y_def r1_def z_def r2_def w_def)
qed

lemma b64_num_quad: "x < 16777216 \<Longrightarrow> b64_num (b64_quad x) = Some x"
  by (simp add: b64_num_def b64_quad_def base64_digits)

lemma byte_push: "c < 256 \<Longrightarrow> (k * 256 + c) div 256 = k" "c < 256 \<Longrightarrow> (k * 256 + c) mod 256 = (c :: nat)"
  by simp_all

lemma bytes_of_sum:
  "bytes_of (of_char a * 65536 + of_char b * 256 + of_char c) = [a, b, c]"
proof -
  have x: "of_char a * 65536 + of_char b * 256 + of_char c
      = (of_char a * 256 + of_char b) * 256 + (of_char c :: nat)" by simp
  have d: "(n :: nat) div 65536 = n div 256 div 256" for n
    using div_mult2_eq [of n 256 256] by simp
  show ?thesis
    by (simp only: bytes_of_def x d byte_push of_char_less_256 of_char_mod_256 char_of_char)
qed

text \<open>The first three and the first two digits, for the two padded endings.\<close>

lemma b64_num_prefix:
  assumes "x < 16777216"
  shows "b64_num (take 3 (b64_quad x)) = Some (x div 64)"
    and "b64_num (take 2 (b64_quad x)) = Some (x div 4096)"
proof -
  have "x div 64 = 64 * (64 * (x div 262144) + x div 4096 mod 64) + x div 64 mod 64"
       "x div 4096 = 64 * (x div 262144) + x div 4096 mod 64"
    by (simp_all only: split_digits64 mult_div_mod_eq)
  moreover have "x div 262144 < 64" using assms by simp
  ultimately show "b64_num (take 3 (b64_quad x)) = Some (x div 64)"
    and "b64_num (take 2 (b64_quad x)) = Some (x div 4096)"
    by (simp_all add: b64_num_def b64_quad_def)
qed

lemma sum_bound: "(of_char a :: nat) * 65536 + of_char b * 256 + of_char c < 16777216"
  using of_char_less_256 [of a] of_char_less_256 [of b] of_char_less_256 [of c] by linarith

lemma b64_roundtrip: "b64_decode (b64_encode s) = Some s"
proof (induction s rule: b64_encode.induct)
  case (1 a b c s)
  define x where "x = (of_char a :: nat) * 65536 + of_char b * 256 + of_char c"
  have x: "b64_num (b64_quad x) = Some x" "bytes_of x = [a, b, c]"
    unfolding x_def by (simp_all only: b64_num_quad sum_bound bytes_of_sum)
  then show ?case
    using 1 by (simp add: x_def [symmetric] b64_quad_def)
next
  case (2 a b)
  define x where "x = (of_char a :: nat) * 65536 + of_char b * 256"
  have "x < 16777216" "bytes_of x = [a, b, char_of (0 :: nat)]"
    using sum_bound [of a b "char_of (0 :: nat)"] bytes_of_sum [of a b "char_of (0 :: nat)"]
    by (simp_all add: x_def)
  moreover have "x div 64 * 64 = x" unfolding x_def by presburger
  ultimately show ?case
    using b64_num_prefix(1) [of x] by (simp add: x_def [symmetric] b64_quad_def)
next
  case (3 a)
  define x where "x = (of_char a :: nat) * 65536"
  have "x < 16777216" "bytes_of x = [a, char_of (0 :: nat), char_of (0 :: nat)]"
    using sum_bound [of a "char_of (0 :: nat)" "char_of (0 :: nat)"]
      bytes_of_sum [of a "char_of (0 :: nat)" "char_of (0 :: nat)"]
    by (simp_all add: x_def)
  moreover have "x div 4096 * 4096 = x" by (simp add: x_def)
  ultimately show ?case
    using b64_num_prefix(2) [of x] by (simp add: x_def [symmetric] b64_quad_def)
next
  case 4
  then show ?case by simp
qed

interpretation base64: codec b64_encode b64_decode "\<lambda>_. True"
  by unfold_locales (rule b64_roundtrip)

text \<open>
  \<open>EncodedLen\<close> sizes the buffer that \<open>Encode\<close> then writes; the two agree, so the
  buffer has no unwritten tail.
\<close>

definition b64_EncodedLen :: "nat \<Rightarrow> nat" where
  "b64_EncodedLen n = (n + 2) div 3 * 4"

lemma length_b64_encode: "length (b64_encode s) = b64_EncodedLen (length s)"
proof (induction s rule: b64_encode.induct)
  case (1 a b c s)
  have "(5 + length s) div 3 = Suc (Suc (Suc (length s)) div 3)" by presburger
  with 1 show ?case by (simp add: b64_EncodedLen_def b64_quad_def)
qed (simp_all add: b64_EncodedLen_def b64_quad_def)

end
