(* ===== verification/ApiTypes.thy ===== *)
theory ApiTypes
  imports Prelude
begin

text \<open>
  The API objects of \<open>api/v1beta1\<close> and the fields the controllers read of the Kubernetes and
  Cluster API objects.  A nil map, pointer or timestamp is \<open>None\<close>; a nil slice and an empty one
  are the same list, since the controllers never tell them apart.  The named string types of the
  source are strings: their constants are given by datatypes and value functions, next to the
  lists of admitted values of the validation markers.
\<close>

section \<open>Kubernetes object metadata\<close>

text \<open>The fields of \<open>metav1.ObjectMeta\<close> that the source reads or writes.\<close>

record ObjectMeta =
  om_Namespace :: string
  om_Name :: string
  om_Annotations :: "(string \<rightharpoonup> string) option"
  om_Finalizers :: "string list"
  om_DeletionTimestamp :: "int option"

record nsname =
  nn_Namespace :: string
  nn_Name :: string

text \<open>A read of a Go map: a missing key, and a nil map, give the empty string.\<close>

definition annotation :: "ObjectMeta \<Rightarrow> string \<Rightarrow> string" where
  "annotation om k = (case om_Annotations om of None \<Rightarrow> [] | Some m \<Rightarrow>
     (case m k of None \<Rightarrow> [] | Some v \<Rightarrow> v))"

text \<open>A store into a Go map: a panic (here \<open>None\<close>) when the map is nil.\<close>

definition annotate :: "string \<Rightarrow> string \<Rightarrow> ObjectMeta \<Rightarrow> ObjectMeta option" where
  "annotate k v om = (case om_Annotations om of None \<Rightarrow> None
     | Some m \<Rightarrow> Some (om\<lparr>om_Annotations := Some (m(k \<mapsto> v))\<rparr>))"

lemma annotate_Some_iff:
  "annotate k v om = Some om' \<longleftrightarrow>
     (\<exists>m. om_Annotations om = Some m \<and> om' = om\<lparr>om_Annotations := Some (m(k \<mapsto> v))\<rparr>)"
  by (auto simp: annotate_def split: option.splits)

lemma annotate_None_iff: "annotate k v om = None \<longleftrightarrow> om_Annotations om = None"
  by (simp add: annotate_def split: option.splits)

lemma annotation_annotate:
  "annotate k v om = Some om' \<Longrightarrow> annotation om' j = (if j = k then v else annotation om j)"
  by (auto simp: annotate_Some_iff annotation_def)

section \<open>BMCMachine\<close>

definition MachineFinalizer :: string where
  "MachineFinalizer = ''bmcmachine.infrastructure.cluster.x-k8s.io''"

record BMCMachineSpec =
  mspec_ProviderID :: "string option"
  mspec_Description :: string
  mspec_OS :: string
  mspec_Type :: string
  mspec_Location :: string
  mspec_InstallDefaultSSHKeys :: "bool option"
  mspec_SSHKeyIDs :: "string list"
  mspec_NetworkType :: string

datatype NetworkType = PublicAndPrivate | PrivateOnly | UserDefined

fun NetworkType_value :: "NetworkType \<Rightarrow> string" where
  "NetworkType_value PublicAndPrivate = ''PUBLIC_AND_PRIVATE''"
| "NetworkType_value PrivateOnly = ''PRIVATE_ONLY''"
| "NetworkType_value UserDefined = ''USER_DEFINED''"

definition NetworkType_enum :: "string list" where
  "NetworkType_enum = [''PUBLIC_AND_PRIVATE'', ''PRIVATE_ONLY'', ''USER_DEFINED'']"

datatype LocationID = Phoenix | Ashburn | Singapore | Amsterdam

fun LocationID_value :: "LocationID \<Rightarrow> string" where
  "LocationID_value Phoenix = ''PHX''"
| "LocationID_value Ashburn = ''ASH''"
| "LocationID_value Singapore = ''SGP''"
| "LocationID_value Amsterdam = ''NLD''"

definition LocationID_enum :: "string list" where
  "LocationID_enum = [''PHX'', ''ASH'', ''SGP'', ''NLD'']"

datatype ServerOS = UbuntuBionic | UbuntuFocal | UbuntuJammy

fun ServerOS_value :: "ServerOS \<Rightarrow> string" where
  "ServerOS_value UbuntuBionic = ''ubuntu/bionic''"
| "ServerOS_value UbuntuFocal = ''ubuntu/focal''"
| "ServerOS_value UbuntuJammy = ''ubuntu/jammy''"

definition ServerOS_enum :: "string list" where
  "ServerOS_enum = [''ubuntu/bionic'', ''ubuntu/focal'', ''ubuntu/jammy'']"

datatype ServerType
  = S0D1Small | S0D1Medium | S1C1Small | S1C1Medium | S1C2Medium | S1C2Large | S1E1Small
  | S1E1Medium | S1E1Large | S2C1Small | S2C1Medium | S2C1Large | S2C2Small | S2C2Medium
  | S2C2Large | D2C1Medium | D2C2Medium | D2C3Medium | D2C4Medium | D2C5Medium | D2C1Large
  | D2C2Large | D2C3Large | D2C4Large | D2C4StoragePliops1 | D2C5Large | D2M1Medium | D2M1Large
  | D2M2Medium | D2M2Large | D2M2Xlarge | D1C1Small | D1C2Small | D1C3Small | D1C4Small
  | D1C1Medium | D1C2Medium | D1C3Medium | D1C4Medium | D1C1Large | D1C2Large | D1C3Large
  | D1C4Large | D1M1Medium | D1M2Medium | D1M3Medium | D1M4Medium

fun ServerType_value :: "ServerType \<Rightarrow> string" where
  "ServerType_value S0D1Small = ''s0.d1.small''"
| "ServerType_value S0D1Medium = ''s0.d1.medium''"
| "ServerType_value S1C1Small = ''s1.c1.small''"
| "ServerType_value S1C1Medium = ''s1.c1.medium''"
| "ServerType_value S1C2Medium = ''s1.c2.medium''"
| "ServerType_value S1C2Large = ''s1.c2.large''"
| "ServerType_value S1E1Small = ''s1.e1.small''"
| "ServerType_value S1E1Medium = ''s1.e1.medium''"
| "ServerType_value S1E1Large = ''s1.e1.large''"
| "ServerType_value S2C1Small = ''s2.c1.small''"
| "ServerType_value S2C1Medium = ''s2.c1.medium''"
| "ServerType_value S2C1Large = ''s2.c1.large''"
| "ServerType_value S2C2Small = ''s2.c2.small''"
| "ServerType_value S2C2Medium = ''s2.c2.medium''"
| "ServerType_value S2C2Large = ''s2.c2.large''"
| "ServerType_value D2C1Medium = ''d2.c1.medium''"
| "ServerType_value D2C2Medium = ''d2.c2.medium''"
| "ServerType_value D2C3Medium = ''d2.c3.medium''"
| "ServerType_value D2C4Medium = ''d2.c4.medium''"
| "ServerType_value D2C5Medium = ''d2.c5.medium''"
| "ServerType_value D2C1Large = ''d2.c1.large''"
| "ServerType_value D2C2Large = ''d2.c2.large''"
| "ServerType_value D2C3Large = ''d2.c3.large''"
| "ServerType_value D2C4Large = ''d2.c4.large''"
| "ServerType_value D2C4StoragePliops1 = ''d2.c4.storage.pliops1''"
| "ServerType_value D2C5Large = ''d2.c5.large''"
| "ServerType_value D2M1Medium = ''d2.m1.medium''"
| "ServerType_value D2M1Large = ''d2.m1.large''"
| "ServerType_value D2M2Medium = ''d2.m2.medium''"
| "ServerType_value D2M2Large = ''d2.m2.large''"
| "ServerType_value D2M2Xlarge = ''d2.m2.xlarge''"
| "ServerType_value D1C1Small = ''d1.c1.small''"
| "ServerType_value D1C2Small = ''d1.c2.small''"
| "ServerType_value D1C3Small = ''d1.c3.small''"
| "ServerType_value D1C4Small = ''d1.c4.small''"
| "ServerType_value D1C1Medium = ''d1.c1.medium''"
| "ServerType_value D1C2Medium = ''d1.c2.medium''"
| "ServerType_value D1C3Medium = ''d1.c3.medium''"
| "ServerType_value D1C4Medium = ''d1.c4.medium''"
| "ServerType_value D1C1Large = ''d1.c1.large''"
| "ServerType_value D1C2Large = ''d1.c2.large''"
| "ServerType_value D1C3Large = ''d1.c3.large''"
| "ServerType_value D1C4Large = ''d1.c4.large''"
| "ServerType_value D1M1Medium = ''d1.m1.medium''"
| "ServerType_value D1M2Medium = ''d1.m2.medium''"
| "ServerType_value D1M3Medium = ''d1.m3.medium''"
| "ServerType_value D1M4Medium = ''d1.m4.medium''"

definition ServerType_enum :: "string list" where
  "ServerType_enum = [
     ''s0.d1.small'', ''s0.d1.medium'', ''s1.c1.small'', ''s1.c1.medium'', ''s1.c2.medium'',
     ''s1.c2.large'', ''s1.e1.small'', ''s1.e1.medium'', ''s1.e1.large'', ''s2.c1.small'',
     ''s2.c1.medium'', ''s2.c1.large'', ''s2.c2.small'', ''s2.c2.medium'', ''s2.c2.large'',
     ''d2.c1.medium'', ''d2.c2.medium'', ''d2.c3.medium'', ''d2.c4.medium'', ''d2.c5.medium'',
     ''d2.c1.large'', ''d2.c2.large'', ''d2.c3.large'', ''d2.c4.large'',
     ''d2.c4.storage.pliops1'', ''d2.c5.large'', ''d2.m1.medium'', ''d2.m1.large'',
     ''d2.m2.medium'', ''d2.m2.large'', ''d2.m2.xlarge'', ''d1.c1.small'', ''d1.c2.small'',
     ''d1.c3.small'', ''d1.c4.small'', ''d1.c1.medium'', ''d1.c2.medium'', ''d1.c3.medium'',
     ''d1.c4.medium'', ''d1.c1.large'', ''d1.c2.large'', ''d1.c3.large'', ''d1.c4.large'',
     ''d1.m1.medium'', ''d1.m2.medium'', ''d1.m3.medium'', ''d1.m4.medium'']"

definition ServerType_all :: "ServerType list" where
  "ServerType_all = [
     S0D1Small, S0D1Medium, S1C1Small, S1C1Medium, S1C2Medium, S1C2Large, S1E1Small,
     S1E1Medium, S1E1Large, S2C1Small, S2C1Medium, S2C1Large, S2C2Small, S2C2Medium, S2C2Large,
     D2C1Medium, D2C2Medium, D2C3Medium, D2C4Medium, D2C5Medium, D2C1Large, D2C2Large,
     D2C3Large, D2C4Large, D2C4StoragePliops1, D2C5Large, D2M1Medium, D2M1Large, D2M2Medium,
     D2M2Large, D2M2Xlarge, D1C1Small, D1C2Small, D1C3Small, D1C4Small, D1C1Medium, D1C2Medium,
     D1C3Medium, D1C4Medium, D1C1Large, D1C2Large, D1C3Large, D1C4Large, D1M1Medium,
     D1M2Medium, D1M3Medium, D1M4Medium]"

datatype ServerPricingModel = PMHourly | PMOneMonthReservation | PMTwelveMonthsReservation
  | PMTwentyFourMonthsReservation | PMThirtySixMonthsReservation

fun ServerPricingModel_value :: "ServerPricingModel \<Rightarrow> string" where
  "ServerPricingModel_value PMHourly = ''HOURLY''"
| "ServerPricingModel_value PMOneMonthReservation = ''ONE_MONTH_RESERVATION''"
| "ServerPricingModel_value PMTwelveMonthsReservation = ''TWELVE_MONTHS_RESERVATION''"
| "ServerPricingModel_value PMTwentyFourMonthsReservation = ''TWENTY_FOUR_MONTHS_RESERVATION''"
| "ServerPricingModel_value PMThirtySixMonthsReservation = ''THIRTY_SIX_MONTHS_RESERVATION''"

definition ServerPricingModel_enum :: "string list" where
  "ServerPricingModel_enum = [''HOURLY'', ''ONE_MONTH_RESERVATION'', ''TWELVE_MONTHS_RESERVATION'',
     ''TWENTY_FOUR_MONTHS_RESERVATION'', ''THIRTY_SIX_MONTHS_RESERVATION'']"

text \<open>
  What the validation markers of the specification admit.  The length of the description counts
  characters, which are the bytes of a UTF-8 string that do not continue a sequence; an empty network
  type is left out of the object and not validated.
\<close>

definition machine_spec_admitted :: "BMCMachineSpec \<Rightarrow> bool" where
  "machine_spec_admitted s \<longleftrightarrow>
     length (filter (\<lambda>c. \<not> (128 \<le> (of_char c :: nat) \<and> (of_char c :: nat) < 192)) (mspec_Description s)) \<le> 250
     \<and> mspec_OS s \<in> set ServerOS_enum \<and> mspec_Type s \<in> set ServerType_enum
     \<and> mspec_Location s \<in> set LocationID_enum
     \<and> (mspec_NetworkType s = [] \<or> mspec_NetworkType s \<in> set NetworkType_enum)"

text \<open>The parts of Kubernetes types that appear in the status.\<close>

record NodeAddress =
  na_Type :: string
  na_Address :: string

record ObjectReference =
  or_APIVersion :: string
  or_Kind :: string
  or_Name :: string
  or_UID :: string

text \<open>
  The observed state of a machine.  The CPU frequency is a Kubernetes quantity, a type of another
  repository that the controllers only copy: its canonical text stands for it.
\<close>

record BMCMachineStatus =
  mstat_BMCServerID :: string
  mstat_BMCStatus :: string
  mstat_CPU :: string
  mstat_CPUCount :: "32 word"
  mstat_CPUCores :: "32 word"
  mstat_CPUFrequency :: string
  mstat_Ram :: string
  mstat_Storage :: string
  mstat_PrivateIPAddresses :: "string list"
  mstat_PublicIPAddresses :: "string list"
  mstat_Ready :: bool
  mstat_Addresses :: "NodeAddress list"
  mstat_FailureReason :: "string option"
  mstat_FailureMessage :: "string option"
  mstat_NodeRef :: "ObjectReference option"

definition zero_machine_status :: BMCMachineStatus where
  "zero_machine_status = \<lparr>mstat_BMCServerID = [], mstat_BMCStatus = [], mstat_CPU = [],
     mstat_CPUCount = 0, mstat_CPUCores = 0, mstat_CPUFrequency = [], mstat_Ram = [],
     mstat_Storage = [], mstat_PrivateIPAddresses = [], mstat_PublicIPAddresses = [],
     mstat_Ready = False, mstat_Addresses = [], mstat_FailureReason = None,
     mstat_FailureMessage = None, mstat_NodeRef = None\<rparr>"

record BMCMachine =
  bm_Meta :: ObjectMeta
  bm_Spec :: BMCMachineSpec
  bm_Status :: BMCMachineStatus

section \<open>BMCMachineTemplate\<close>

text \<open>The metadata of a template's resource is a type of Cluster API: a parameter.\<close>

record 'm BMCMachineTemplateResource =
  mtr_ObjectMeta :: 'm
  mtr_Spec :: BMCMachineSpec

record 'm BMCMachineTemplateSpec =
  mts_Template :: "'m BMCMachineTemplateResource"

record 'm BMCMachineTemplate =
  mt_Meta :: ObjectMeta
  mt_Spec :: "'m BMCMachineTemplateSpec"

section \<open>BMCCluster\<close>

definition ClusterFinalizer :: string where
  "ClusterFinalizer = ''bmccluster.infrastructure.cluster.x-k8s.io''"

definition NONE :: string where
  "NONE = ''NONE''"

definition KUBEVIP :: string where
  "KUBEVIP = ''KUBEVIP''"

definition VIPMANAGER_enum :: "string list" where
  "VIPMANAGER_enum = [''KUBEVIP'', ''NONE'']"

record Tag =
  tag_Name :: string
  tag_Value :: string

record APIEndpoint =
  ep_Host :: string
  ep_Port :: "32 word"

record BMCClusterSpec =
  cspec_Location :: string
  cspec_ControlPlaneEndpoint :: APIEndpoint
  cspec_VIPManager :: string

record BMCClusterStatus =
  cstat_Ready :: bool
  cstat_ErrorMessage :: "string option"
  cstat_ID :: string
  cstat_CIDR :: string
  cstat_BMCStatus :: string

definition zero_cluster_status :: BMCClusterStatus where
  "zero_cluster_status = \<lparr>cstat_Ready = False, cstat_ErrorMessage = None, cstat_ID = [],
     cstat_CIDR = [], cstat_BMCStatus = []\<rparr>"

record BMCCluster =
  bc_Meta :: ObjectMeta
  bc_Spec :: BMCClusterSpec
  bc_Status :: BMCClusterStatus

section \<open>Cluster API and Kubernetes objects\<close>

text \<open>
  The fields the controllers and their watches use; the infrastructure reference by its name, the two ways
  to pause a cluster, by its specification and by an annotation, as flags.
\<close>

record Cluster =
  cl_Namespace :: string
  cl_Name :: string
  cl_InfrastructureReady :: bool
  cl_InfrastructureRef :: "string option"
  cl_ControlPlaneEndpoint :: APIEndpoint
  cl_Paused :: bool
  cl_AnnotatedPaused :: bool

record Machine =
  mach_Namespace :: string
  mach_Name :: string
  mach_DataSecretName :: "string option"
  mach_InfrastructureRefName :: string

record Node =
  node_Name :: string
  node_UID :: string
  node_ProviderID :: string

section \<open>The declared constants are the admitted values\<close>

lemma ServerType_all_complete: "t \<in> set ServerType_all"
  by (cases t) (simp_all add: ServerType_all_def)

lemma ServerType_enum_values: "ServerType_enum = map ServerType_value ServerType_all"
  by (simp add: ServerType_enum_def ServerType_all_def)

lemma ServerType_values: "set ServerType_enum = range ServerType_value" "inj ServerType_value"
proof -
  have all: "set ServerType_all = UNIV" using ServerType_all_complete by blast
  then show "set ServerType_enum = range ServerType_value" by (simp add: ServerType_enum_values)
  have "distinct (map ServerType_value ServerType_all)"
    unfolding ServerType_enum_values [symmetric] by (simp add: ServerType_enum_def)
  then show "inj ServerType_value" by (simp add: distinct_map all)
qed

text \<open>A type given by the list of its values: the list enumerates them, without repetition.\<close>

lemma enum_values:
  assumes "\<And>x. x \<in> set xs" and "ys = map f xs" and "distinct ys"
  shows "set ys = range f \<and> inj f"
proof -
  have "set xs = UNIV" using assms(1) by blast
  with assms(2,3) show ?thesis by (simp add: distinct_map)
qed

lemma all_values:
  "t \<in> set [PublicAndPrivate, PrivateOnly, UserDefined]" "l \<in> set [Phoenix, Ashburn, Singapore, Amsterdam]"
  "o' \<in> set [UbuntuBionic, UbuntuFocal, UbuntuJammy]"
  "p \<in> set [PMHourly, PMOneMonthReservation, PMTwelveMonthsReservation, PMTwentyFourMonthsReservation,
     PMThirtySixMonthsReservation]"
  by ((cases t; simp), (cases l; simp), (cases o'; simp), (cases p; simp))

text \<open>
  For each of the named string types of the machine's specification and of the pricing model, the
  validation marker admits exactly the values of the declared constants, and no two constants have
  the same value: every admitted value has one name in the source.
\<close>

theorem markers_admit_constants:
  "(set NetworkType_enum = range NetworkType_value \<and> inj NetworkType_value)
   \<and> (set LocationID_enum = range LocationID_value \<and> inj LocationID_value)
   \<and> (set ServerOS_enum = range ServerOS_value \<and> inj ServerOS_value)
   \<and> (set ServerType_enum = range ServerType_value \<and> inj ServerType_value)
   \<and> (set ServerPricingModel_enum = range ServerPricingModel_value \<and> inj ServerPricingModel_value)
   \<and> set VIPMANAGER_enum = {NONE, KUBEVIP}"
proof (intro conjI)
  have "set NetworkType_enum = range NetworkType_value \<and> inj NetworkType_value"
    by (rule enum_values [OF all_values(1)]) (simp_all add: NetworkType_enum_def)
  then show "set NetworkType_enum = range NetworkType_value" "inj NetworkType_value" by simp_all
  have "set LocationID_enum = range LocationID_value \<and> inj LocationID_value"
    by (rule enum_values [OF all_values(2)]) (simp_all add: LocationID_enum_def)
  then show "set LocationID_enum = range LocationID_value" "inj LocationID_value" by simp_all
  have "set ServerOS_enum = range ServerOS_value \<and> inj ServerOS_value"
    by (rule enum_values [OF all_values(3)]) (simp_all add: ServerOS_enum_def)
  then show "set ServerOS_enum = range ServerOS_value" "inj ServerOS_value" by simp_all
  have "set ServerPricingModel_enum = range ServerPricingModel_value \<and> inj ServerPricingModel_value"
    by (rule enum_values [OF all_values(4)]) (simp_all add: ServerPricingModel_enum_def)
  then show "set ServerPricingModel_enum = range ServerPricingModel_value" "inj ServerPricingModel_value" by simp_all
qed (simp_all add: ServerType_values VIPMANAGER_enum_def NONE_def KUBEVIP_def insert_commute)

text \<open>Admitted values are ASCII.\<close>

lemma admitted_ascii:
  assumes "machine_spec_admitted s"
  shows "list_all (list_all (\<lambda>c. (of_char c :: nat) < 128)) [mspec_OS s, mspec_Type s, mspec_Location s, mspec_NetworkType s]"
proof -
  have "list_all (list_all (\<lambda>c. (of_char c :: nat) < 128)) (ServerOS_enum @ LocationID_enum @ NetworkType_enum)"
    by (simp add: ServerOS_enum_def LocationID_enum_def NetworkType_enum_def)
  moreover have "list_all (list_all (\<lambda>c. (of_char c :: nat) < 128)) ServerType_enum"
    by (simp add: ServerType_enum_def)
  ultimately show ?thesis
    using assms by (auto simp: machine_spec_admitted_def list_all_iff [of "list_all _"])
qed

end
