(* ===== verification/Wire.thy ===== *)
theory Wire
  imports JsonText Base64 ApiTypes
begin

text \<open>
  What crosses the wire to the Bare Metal Cloud API: the request types of the two controllers with
  the members \<open>json.Marshal\<close> writes for them (\<open>omitempty\<close> included), and
  \<open>json.Unmarshal\<close> into the two status types, driven by the JSON names of the struct fields.
  Fields whose types belong to other repositories (a quantity, node addresses, an object reference)
  are decoded by parameters.
\<close>

section \<open>json.Unmarshal into a struct\<close>

datatype json_error = SyntaxError | TypeError

type_synonym 's field_decoder = "json \<Rightarrow> 's \<Rightarrow> 's option"

text \<open>
  Go compares a member name with the field names exactly first, then by case folding.  Two
  non-ASCII letters fold to ASCII ones: the long s and the Kelvin sign.
\<close>

definition upper :: "char \<Rightarrow> char" where
  "upper c = (if 97 \<le> code c \<and> code c \<le> 122 then char_of (code c - 32) else c)"

function fold_name :: "string \<Rightarrow> string" where
  "fold_name s = (if s = [] then []
     else if take 2 s = map char_of [197, 191 :: nat] then CHR ''S'' # fold_name (drop 2 s)
     else if take 3 s = map char_of [226, 132, 170 :: nat] then CHR ''K'' # fold_name (drop 3 s)
     else upper (hd s) # fold_name (tl s))"
  by pat_completeness auto
termination by (relation "measure length") auto

declare fold_name.simps [simp del]

definition find_field :: "(string \<times> 'd) list \<Rightarrow> string \<Rightarrow> 'd option" where
  "find_field fs k = (case map_of fs k of Some d \<Rightarrow> Some d
     | None \<Rightarrow> map_of (map (\<lambda>(n, d). (fold_name n, d)) fs) (fold_name k))"

fun decode_members :: "(string \<times> 's field_decoder) list \<Rightarrow> (string \<times> json) list \<Rightarrow> 's \<Rightarrow> 's option" where
  "decode_members fs [] s = Some s"
| "decode_members fs ((k, v) # kvs) s =
     (case find_field fs k of None \<Rightarrow> decode_members fs kvs s
      | Some d \<Rightarrow> Option.bind (d v s) (decode_members fs kvs))"

definition decode_struct :: "(string \<times> 's field_decoder) list \<Rightarrow> 's field_decoder" where
  "decode_struct fs v s = (case v of JNull \<Rightarrow> Some s | JObj kvs \<Rightarrow> decode_members fs kvs s
     | _ \<Rightarrow> None)"

definition Unmarshal :: "(string \<times> 's field_decoder) list \<Rightarrow> 's \<Rightarrow> string \<Rightarrow> json_error + 's" where
  "Unmarshal fs zero body = (case json_parse body of None \<Rightarrow> Inl SyntaxError
     | Some v \<Rightarrow> (case decode_struct fs v zero of None \<Rightarrow> Inl TypeError | Some s \<Rightarrow> Inr s))"

text \<open>Decoders of the field types: null leaves a value unchanged and clears a pointer or a slice.\<close>

definition dec_string :: "(string \<Rightarrow> 's \<Rightarrow> 's) \<Rightarrow> 's field_decoder" where
  "dec_string put v s = (case v of JNull \<Rightarrow> Some s | JStr x \<Rightarrow> Some (put x s) | _ \<Rightarrow> None)"

definition dec_bool :: "(bool \<Rightarrow> 's \<Rightarrow> 's) \<Rightarrow> 's field_decoder" where
  "dec_bool put v s = (case v of JNull \<Rightarrow> Some s | JBool b \<Rightarrow> Some (put b s) | _ \<Rightarrow> None)"

definition dec_int32 :: "(32 word \<Rightarrow> 's \<Rightarrow> 's) \<Rightarrow> 's field_decoder" where
  "dec_int32 put v s = (case v of JNull \<Rightarrow> Some s
     | JNum n \<Rightarrow> (case parse_int n of
          Some i \<Rightarrow> (if - (2 ^ 31) \<le> i \<and> i < 2 ^ 31 then Some (put (word_of_int i) s) else None)
        | None \<Rightarrow> None)
     | _ \<Rightarrow> None)"

definition dec_string_ptr :: "(string option \<Rightarrow> 's \<Rightarrow> 's) \<Rightarrow> 's field_decoder" where
  "dec_string_ptr put v s = (case v of JNull \<Rightarrow> Some (put None s)
     | JStr x \<Rightarrow> Some (put (Some x) s) | _ \<Rightarrow> None)"

text \<open>An element of a string slice: null keeps what the slot held (the empty string if new).\<close>

fun dec_elements :: "string list \<Rightarrow> json list \<Rightarrow> string list option" where
  "dec_elements old [] = Some []"
| "dec_elements old (v # vs) = (case v of
     JStr x \<Rightarrow> map_option (\<lambda>xs. x # xs) (dec_elements (drop 1 old) vs)
   | JNull \<Rightarrow> map_option (\<lambda>xs. (case old of [] \<Rightarrow> [] | x # _ \<Rightarrow> x) # xs) (dec_elements (drop 1 old) vs)
   | _ \<Rightarrow> None)"

definition dec_strings :: "('s \<Rightarrow> string list) \<Rightarrow> (string list \<Rightarrow> 's \<Rightarrow> 's) \<Rightarrow> 's field_decoder" where
  "dec_strings get put v s = (case v of JNull \<Rightarrow> Some (put [] s)
     | JArr vs \<Rightarrow> map_option (\<lambda>xs. put xs s) (dec_elements (get s) vs) | _ \<Rightarrow> None)"

section \<open>The status types\<close>

text \<open>Decoders of the types that other repositories define.\<close>

record foreign_decoders =
  dec_Quantity :: "json \<Rightarrow> string option"
  dec_Addresses :: "json \<Rightarrow> NodeAddress list option"
  dec_NodeRef :: "json \<Rightarrow> ObjectReference option option"

definition dec_foreign :: "(json \<Rightarrow> 'a option) \<Rightarrow> ('a \<Rightarrow> 's \<Rightarrow> 's) \<Rightarrow> 's field_decoder" where
  "dec_foreign d put v s = map_option (\<lambda>x. put x s) (d v)"

definition machine_status_fields :: "foreign_decoders \<Rightarrow> (string \<times> BMCMachineStatus field_decoder) list" where
  "machine_status_fields fd =
    [(''id'', dec_string (\<lambda>x. mstat_BMCServerID_update (\<lambda>_. x))),
     (''status'', dec_string (\<lambda>x. mstat_BMCStatus_update (\<lambda>_. x))),
     (''cpu'', dec_string (\<lambda>x. mstat_CPU_update (\<lambda>_. x))),
     (''cpuCount'', dec_int32 (\<lambda>x. mstat_CPUCount_update (\<lambda>_. x))),
     (''coresPerCpu'', dec_int32 (\<lambda>x. mstat_CPUCores_update (\<lambda>_. x))),
     (''cpuFrequency'', dec_foreign (dec_Quantity fd) (\<lambda>x. mstat_CPUFrequency_update (\<lambda>_. x))),
     (''ram'', dec_string (\<lambda>x. mstat_Ram_update (\<lambda>_. x))),
     (''storage'', dec_string (\<lambda>x. mstat_Storage_update (\<lambda>_. x))),
     (''privateIpAddresses'', dec_strings mstat_PrivateIPAddresses (\<lambda>x. mstat_PrivateIPAddresses_update (\<lambda>_. x))),
     (''publicIpAddresses'', dec_strings mstat_PublicIPAddresses (\<lambda>x. mstat_PublicIPAddresses_update (\<lambda>_. x))),
     (''ready'', dec_bool (\<lambda>x. mstat_Ready_update (\<lambda>_. x))),
     (''addresses'', dec_foreign (dec_Addresses fd) (\<lambda>x. mstat_Addresses_update (\<lambda>_. x))),
     (''failureReason'', dec_string_ptr (\<lambda>x. mstat_FailureReason_update (\<lambda>_. x))),
     (''failureMessage'', dec_string_ptr (\<lambda>x. mstat_FailureMessage_update (\<lambda>_. x))),
     (''nodeRef'', dec_foreign (dec_NodeRef fd) (\<lambda>x. mstat_NodeRef_update (\<lambda>_. x)))]"

definition unmarshal_machine_status :: "foreign_decoders \<Rightarrow> string \<Rightarrow> json_error + BMCMachineStatus" where
  "unmarshal_machine_status fd body = Unmarshal (machine_status_fields fd) zero_machine_status body"

definition cluster_status_fields :: "(string \<times> BMCClusterStatus field_decoder) list" where
  "cluster_status_fields =
    [(''ready'', dec_bool (\<lambda>x. cstat_Ready_update (\<lambda>_. x))),
     (''errorMessage'', dec_string_ptr (\<lambda>x. cstat_ErrorMessage_update (\<lambda>_. x))),
     (''id'', dec_string (\<lambda>x. cstat_ID_update (\<lambda>_. x))),
     (''cidr'', dec_string (\<lambda>x. cstat_CIDR_update (\<lambda>_. x))),
     (''status'', dec_string (\<lambda>x. cstat_BMCStatus_update (\<lambda>_. x)))]"

definition unmarshal_cluster_status :: "string \<Rightarrow> json_error + BMCClusterStatus" where
  "unmarshal_cluster_status body = Unmarshal cluster_status_fields zero_cluster_status body"

section \<open>Requests\<close>

record CloudInit =
  ci_UserData :: string

record OSConfiguration =
  osc_CloudInit :: CloudInit

record IPBlock =
  ipb_ID :: string

record IPBlocksConfiguration =
  ibc_ConfigurationType :: string
  ibc_IPBlocks :: "IPBlock list"

record NetworkConfiguration =
  nc_IPBlocksConfiguration :: IPBlocksConfiguration

record BMCCreateServerRequest =
  csr_Hostname :: string
  csr_Description :: string
  csr_OS :: string
  csr_Type :: string
  csr_Location :: string
  csr_InstallDefaultSSHKeys :: "bool option"
  csr_SSHKeyIDs :: "string list"
  csr_NetworkType :: string
  csr_OSConfiguration :: OSConfiguration
  csr_NetworkConfiguration :: NetworkConfiguration

record IPBlockRequest =
  ibr_CIDRBlockSize :: string
  ibr_Location :: string
  ibr_Description :: string

text \<open>An \<open>omitempty\<close> string or slice is left out when empty; a struct never is.\<close>

definition omit_string :: "string \<Rightarrow> string \<Rightarrow> (string \<times> json) list" where
  "omit_string k v = (if v = [] then [] else [(k, JStr v)])"

definition omit_list :: "string \<Rightarrow> json list \<Rightarrow> (string \<times> json) list" where
  "omit_list k vs = (if vs = [] then [] else [(k, JArr vs)])"

definition json_OSConfiguration :: "OSConfiguration \<Rightarrow> json" where
  "json_OSConfiguration c = JObj [(''cloudInit'',
     JObj (omit_string ''userData'' (ci_UserData (osc_CloudInit c))))]"

definition json_NetworkConfiguration :: "NetworkConfiguration \<Rightarrow> json" where
  "json_NetworkConfiguration n = (let b = nc_IPBlocksConfiguration n in
     JObj [(''ipBlocksConfiguration'',
       JObj (omit_string ''configurationType'' (ibc_ConfigurationType b)
         @ omit_list ''ipBlocks'' (map (\<lambda>i. JObj (omit_string ''id'' (ipb_ID i))) (ibc_IPBlocks b))))])"

definition json_CreateServerRequest :: "BMCCreateServerRequest \<Rightarrow> json" where
  "json_CreateServerRequest r = JObj
     (omit_string ''hostname'' (csr_Hostname r)
      @ omit_string ''description'' (csr_Description r)
      @ omit_string ''os'' (csr_OS r)
      @ omit_string ''type'' (csr_Type r)
      @ omit_string ''location'' (csr_Location r)
      @ [(''installDefaultSshKeys'', case csr_InstallDefaultSSHKeys r of None \<Rightarrow> JNull | Some b \<Rightarrow> JBool b)]
      @ omit_list ''sshKeyIds'' (map JStr (csr_SSHKeyIDs r))
      @ omit_string ''networkType'' (csr_NetworkType r)
      @ [(''osConfiguration'', json_OSConfiguration (csr_OSConfiguration r)),
         (''networkConfiguration'', json_NetworkConfiguration (csr_NetworkConfiguration r))])"

definition json_IPBlockRequest :: "IPBlockRequest \<Rightarrow> json" where
  "json_IPBlockRequest r = JObj
     (omit_string ''cidrBlockSize'' (ibr_CIDRBlockSize r)
      @ omit_string ''location'' (ibr_Location r)
      @ omit_string ''description'' (ibr_Description r))"

section \<open>Requests survive the wire\<close>

text \<open>Member names and fixed strings are ASCII.\<close>

lemma utf8_ok_literal: "list_all (\<lambda>c. code c < 128) s \<Longrightarrow> utf8_ok s"
  by (rule utf8_ok_ascii)

definition request_ok :: "BMCCreateServerRequest \<Rightarrow> bool" where
  "request_ok r \<longleftrightarrow> list_all utf8_ok ([csr_Hostname r, csr_Description r, csr_OS r, csr_Type r,
     csr_Location r, csr_NetworkType r, ci_UserData (osc_CloudInit (csr_OSConfiguration r)),
     ibc_ConfigurationType (nc_IPBlocksConfiguration (csr_NetworkConfiguration r))]
     @ csr_SSHKeyIDs r
     @ map ipb_ID (ibc_IPBlocks (nc_IPBlocksConfiguration (csr_NetworkConfiguration r))))"

text \<open>Both conditions on an object are conditions on its members, one by one.\<close>

lemma json_ok_JObj: "json_ok (JObj kvs) \<longleftrightarrow> list_all (\<lambda>kv. utf8_ok (fst kv) \<and> json_ok (snd kv)) kvs"
  by (auto simp: list_all_iff)

lemma json_ok_JArr: "json_ok (JArr vs) \<longleftrightarrow> list_all json_ok vs"
  by (simp add: list_all_iff)

lemma json_depth_JObj: "json_depth (JObj kvs) \<le> Suc n \<longleftrightarrow> list_all (\<lambda>kv. json_depth (snd kv) \<le> n) kvs"
  by (auto simp: list_all_iff)

lemma json_depth_JArr: "json_depth (JArr vs) \<le> Suc n \<longleftrightarrow> list_all (\<lambda>v. json_depth v \<le> n) vs"
  by (auto simp: list_all_iff)

lemma list_all_omit_string: "list_all P (omit_string k v) \<longleftrightarrow> v = [] \<or> P (k, JStr v)"
  by (simp add: omit_string_def)

lemma list_all_omit_list: "list_all P (omit_list k vs) \<longleftrightarrow> vs = [] \<or> P (k, JArr vs)"
  by (simp add: omit_list_def)

lemmas member_rules = json_ok_JObj json_ok_JArr json_depth_JObj json_depth_JArr
  list_all_omit_string list_all_omit_list list.pred_map list.pred_True comp_def Let_def

lemma json_depth_OSConfiguration: "json_depth (json_OSConfiguration c) \<le> Suc (Suc 0)"
  by (simp add: json_OSConfiguration_def member_rules del: json_depth.simps(1,2))

lemma json_depth_NetworkConfiguration: "json_depth (json_NetworkConfiguration n) \<le> Suc (Suc (Suc (Suc 0)))"
  by (simp add: json_NetworkConfiguration_def member_rules del: json_depth.simps(1,2))

lemma json_depth_request: "json_depth (json_CreateServerRequest r) \<le> Suc (Suc (Suc (Suc (Suc 0))))"
  using json_depth_OSConfiguration [of "csr_OSConfiguration r"]
    json_depth_NetworkConfiguration [of "csr_NetworkConfiguration r"]
  by (simp add: json_CreateServerRequest_def member_rules del: json_depth.simps(1,2) split: option.split)

lemma utf8_ok_names:
  "list_all utf8_ok [''hostname'', ''description'', ''os'', ''type'', ''location'',
     ''installDefaultSshKeys'', ''sshKeyIds'', ''networkType'', ''osConfiguration'',
     ''networkConfiguration'', ''cloudInit'', ''userData'', ''ipBlocksConfiguration'',
     ''configurationType'', ''ipBlocks'', ''id'', ''cidrBlockSize'']"
  by (simp add: utf8_ok_ascii)

lemma printable_request:
  assumes r: "request_ok r"
  shows "printable (json_CreateServerRequest r)"
proof -
  have "json_ok (json_OSConfiguration (csr_OSConfiguration r))"
    using r utf8_ok_names
    by (simp add: json_OSConfiguration_def member_rules request_ok_def del: json_ok.simps(3,4))
  moreover have "json_ok (json_NetworkConfiguration (csr_NetworkConfiguration r))"
    using r utf8_ok_names
    by (simp add: json_NetworkConfiguration_def member_rules request_ok_def del: json_ok.simps(3,4))
       (auto simp: list_all_iff)
  ultimately have "json_ok (json_CreateServerRequest r)"
    using r utf8_ok_names
    by (simp add: json_CreateServerRequest_def member_rules request_ok_def del: json_ok.simps(3,4)
        split: option.split)
  then show ?thesis
    using json_depth_request [of r] by (simp add: printable_def max_depth_def)
qed

end
