(* ===== verification/Environment.thy ===== *)
theory Environment
  imports Wire
begin

text \<open>
  What a reconciliation sees of the world around the program, and what it does to it.  The record
  \<open>env\<close> holds one function for every call into code of other repositories or into a remote
  service: Cluster API helpers, the finalizer helpers of controller-runtime, the Kubernetes API and
  the Bare Metal Cloud HTTP API.  The effects on the world (requests, events, patches) are a log, in
  the order in which they happen.
\<close>

section \<open>Errors and results\<close>

text \<open>
  An error value: made by code outside the program (with its text), by \<open>fmt.Errorf\<close>, by
  \<open>errors.Wrapf\<close> around another error, or by \<open>json.Unmarshal\<close>.
\<close>

datatype goerr = LibErr string | Errorf string | Wrapf goerr string | JsonErr json_error

record Result =
  RequeueAfter :: int

definition Minute :: int where
  "Minute = 60 * 10 ^ 9"

definition noRequeue :: Result where
  "noRequeue = \<lparr>RequeueAfter = 0\<rparr>"

definition requeueAfter1Min :: Result where
  "requeueAfter1Min = \<lparr>RequeueAfter = 1 * Minute\<rparr>"

definition requeueAfter2Min :: Result where
  "requeueAfter2Min = \<lparr>RequeueAfter = 2 * Minute\<rparr>"

definition requeueAfter5Min :: Result where
  "requeueAfter5Min = \<lparr>RequeueAfter = 5 * Minute\<rparr>"

lemmas requeue_defs = noRequeue_def requeueAfter1Min_def requeueAfter2Min_def requeueAfter5Min_def

lemma requeue_distinct [simp]:
  "noRequeue \<noteq> requeueAfter1Min" "noRequeue \<noteq> requeueAfter2Min" "noRequeue \<noteq> requeueAfter5Min"
  "requeueAfter1Min \<noteq> noRequeue" "requeueAfter2Min \<noteq> noRequeue" "requeueAfter5Min \<noteq> noRequeue"
  "requeueAfter1Min \<noteq> requeueAfter2Min" "requeueAfter1Min \<noteq> requeueAfter5Min"
  "requeueAfter2Min \<noteq> requeueAfter1Min" "requeueAfter2Min \<noteq> requeueAfter5Min"
  "requeueAfter5Min \<noteq> requeueAfter1Min" "requeueAfter5Min \<noteq> requeueAfter2Min"
  by (simp_all add: requeue_defs Minute_def)

text \<open>The value a Go reconciler returns: a result and an error that may be nil.\<close>

type_synonym verdict = "Result \<times> goerr option"

section \<open>HTTP\<close>

datatype http_method = GET | POST | DELETE

record http_request =
  hr_Method :: http_method
  hr_URL :: string
  hr_ContentType :: "string option"
  hr_Body :: string

text \<open>
  The outcome of a request: the call fails, reading the body fails, or a status code and a body
  arrive.
\<close>

datatype http_outcome = DoError goerr | ReadError int goerr | Response int string

section \<open>Effects\<close>

datatype effect =
    Http http_request
  | Event string string string
  | NodePatch Node
  | PatchMachine BMCMachine
  | PatchCluster BMCCluster

definition is_http :: "effect \<Rightarrow> bool" where
  "is_http e \<longleftrightarrow> (case e of Http r \<Rightarrow> True | _ \<Rightarrow> False)"

definition is_post :: "effect \<Rightarrow> bool" where
  "is_post e \<longleftrightarrow> (case e of Http r \<Rightarrow> hr_Method r = POST | _ \<Rightarrow> False)"

definition is_event :: "effect \<Rightarrow> bool" where
  "is_event e \<longleftrightarrow> (case e of Event t r m \<Rightarrow> True | _ \<Rightarrow> False)"

definition is_note :: "effect \<Rightarrow> bool" where
  "is_note e \<longleftrightarrow> (case e of Event t r m \<Rightarrow> True | NodePatch n \<Rightarrow> True | _ \<Rightarrow> False)"

lemma effect_kinds [simp]:
  "is_http (Http r)" "\<not> is_http (Event t s m)" "\<not> is_http (NodePatch n)"
  "\<not> is_http (PatchMachine bm)" "\<not> is_http (PatchCluster bc)"
  "is_post (Http r) \<longleftrightarrow> hr_Method r = POST" "\<not> is_post (Event t s m)" "\<not> is_post (NodePatch n)"
  "\<not> is_post (PatchMachine bm)" "\<not> is_post (PatchCluster bc)"
  "is_event (Event t s m)" "\<not> is_event (Http r)" "\<not> is_event (NodePatch n)"
  "\<not> is_event (PatchMachine bm)" "\<not> is_event (PatchCluster bc)"
  "is_note (Event t s m)" "is_note (NodePatch n)" "\<not> is_note (Http r)"
  "\<not> is_note (PatchMachine bm)" "\<not> is_note (PatchCluster bc)"
  by (simp_all add: is_http_def is_post_def is_event_def is_note_def)

lemma note_no_http: "is_note e \<Longrightarrow> \<not> is_http e"
  by (auto simp: is_note_def is_http_def split: effect.splits)

lemma post_http: "is_post e \<Longrightarrow> is_http e"
  by (auto simp: is_post_def is_http_def split: effect.splits)

lemma filter_post_http: "filter is_post (filter is_http es) = filter is_post es"
  by (auto intro!: filter_cong dest: post_http)

section \<open>The environment of one reconciliation\<close>

text \<open>The client of a workload cluster.\<close>

record remote_client =
  rc_GetNode :: "string \<Rightarrow> goerr + Node"
  rc_NewHelper :: "Node \<Rightarrow> goerr option"
  rc_Patch :: "Node \<Rightarrow> goerr option"

record env =
  AddFinalizer :: "string list \<Rightarrow> string \<Rightarrow> string list"
  RemoveFinalizer :: "string list \<Rightarrow> string \<Rightarrow> string list"
  ContainsFinalizer :: "string list \<Rightarrow> string \<Rightarrow> bool"
  IgnoreNotFound :: "goerr \<Rightarrow> goerr option"
  IsNotFound :: "goerr \<Rightarrow> bool"
  IsPaused :: "Cluster \<Rightarrow> BMCCluster \<Rightarrow> bool"
  util_IsControlPlaneMachine :: "Machine \<Rightarrow> bool"
  GetBMCMachine :: "nsname \<Rightarrow> goerr + BMCMachine"
  GetBMCCluster :: "nsname \<Rightarrow> goerr + BMCCluster"
  GetOwnerMachine :: "ObjectMeta \<Rightarrow> goerr + Machine option"
  GetOwnerCluster :: "ObjectMeta \<Rightarrow> goerr + Cluster option"
  GetClusterFromMetadata :: "Machine \<Rightarrow> goerr + Cluster"
  GetSecret :: "nsname \<Rightarrow> goerr + (string \<rightharpoonup> string)"
  ListMachines :: "string \<Rightarrow> (string \<times> string) \<Rightarrow> goerr + Machine list"
  NewClusterClient :: "nsname \<Rightarrow> goerr + remote_client"
  BMC :: "http_request \<Rightarrow> http_outcome"
  URLError :: "string \<Rightarrow> goerr option"
  BMCEndpointURL :: string
  JsonErrText :: "json_error \<Rightarrow> string"
  Decoders :: foreign_decoders
  InvalidConfigurationMachineError :: string
  CreateMachineError :: string
  NodeExternalIP :: string
  CoreGroupVersion :: string
  ClusterNameLabel :: string

text \<open>
  What controller-runtime documents of its finalizer helpers: adding makes the finalizer present
  and keeps the others, removing takes away exactly that finalizer, and the test is membership.
\<close>

definition finalizer_laws :: "env \<Rightarrow> bool" where
  "finalizer_laws E \<longleftrightarrow>
     (\<forall>fs f. set (AddFinalizer E fs f) = insert f (set fs)) \<and>
     (\<forall>fs f. set (RemoveFinalizer E fs f) = set fs - {f}) \<and>
     (\<forall>fs f. ContainsFinalizer E fs f \<longleftrightarrow> f \<in> set fs)"

lemma finalizer_lawsD:
  assumes "finalizer_laws E"
  shows "set (AddFinalizer E fs f) = insert f (set fs)"
    and "set (RemoveFinalizer E fs f) = set fs - {f}"
    and "ContainsFinalizer E fs f \<longleftrightarrow> f \<in> set fs"
  using assms by (simp_all add: finalizer_laws_def)

text \<open>The text of an error (\<open>Error()\<close>).\<close>

fun ErrorText :: "env \<Rightarrow> goerr \<Rightarrow> string" where
  "ErrorText E (LibErr s) = s"
| "ErrorText E (Errorf s) = s"
| "ErrorText E (Wrapf e s) = s @ '': '' @ ErrorText E e"
| "ErrorText E (JsonErr j) = JsonErrText E j"

text \<open>
  Sending a request: a URL that does not parse fails before anything is sent, any other request is
  logged and answered by the service.
\<close>

definition http_send :: "env \<Rightarrow> http_request \<Rightarrow> http_outcome \<times> effect list" where
  "http_send E r = (case URLError E (hr_URL r) of
     Some e \<Rightarrow> (DoError e, [])
   | None \<Rightarrow> (BMC E r, [Http r]))"

definition http_Get :: "string \<Rightarrow> http_request" where
  "http_Get url = \<lparr>hr_Method = GET, hr_URL = url, hr_ContentType = None, hr_Body = []\<rparr>"

definition http_Post :: "string \<Rightarrow> string \<Rightarrow> string \<Rightarrow> http_request" where
  "http_Post url ct body =
     \<lparr>hr_Method = POST, hr_URL = url, hr_ContentType = Some ct, hr_Body = body\<rparr>"

definition http_Delete :: "string \<Rightarrow> http_request" where
  "http_Delete url = \<lparr>hr_Method = DELETE, hr_URL = url, hr_ContentType = None, hr_Body = []\<rparr>"

lemma http_request_simps [simp]:
  "hr_Method (http_Get u) = GET" "hr_URL (http_Get u) = u"
  "hr_Method (http_Post u c b) = POST" "hr_URL (http_Post u c b) = u" "hr_Body (http_Post u c b) = b"
  "hr_Method (http_Delete u) = DELETE" "hr_URL (http_Delete u) = u"
  by (simp_all add: http_Get_def http_Post_def http_Delete_def)

lemma http_send_log: "http_send E r = (o', l) \<Longrightarrow> l = [] \<or> l = [Http r]"
  by (auto simp: http_send_def split: option.splits)

text \<open>The status codes the source treats as success.\<close>

definition http_ok :: "int \<Rightarrow> bool" where
  "http_ok c \<longleftrightarrow> c = 200 \<or> c = 201 \<or> c = 202 \<or> c = 204"

section \<open>Constants of the controllers\<close>

definition EventTypeNormal :: string where "EventTypeNormal = ''Normal''"
definition EventTypeWarning :: string where "EventTypeWarning = ''Warning''"
definition EventReasonCleanupError :: string where "EventReasonCleanupError = ''CleanupError''"
definition EventReasonCleanupSuccess :: string where "EventReasonCleanupSuccess = ''CleanupSuccess''"
definition EventReasonCreated :: string where "EventReasonCreated = ''Created''"
definition EventReasonCreateError :: string where "EventReasonCreateError = ''CreateError''"
definition EventReasonCreateErrorPermanent :: string where
  "EventReasonCreateErrorPermanent = ''CreateErrorPermanent''"
definition EventReasonCreateErrorInventory :: string where
  "EventReasonCreateErrorInventory = ''CreateErrorInventory''"
definition EventReasonCreateFailure :: string where "EventReasonCreateFailure = ''CreateServerFailure''"
definition EventReasonResourceOrphaned :: string where
  "EventReasonResourceOrphaned = ''ResourceOrphaned''"
definition EventReasonPollFailure :: string where "EventReasonPollFailure = ''PollingFailure''"
definition EventReasonStatusChange :: string where "EventReasonStatusChange = ''StatusChange''"
definition StatusIrreconcilable :: string where "StatusIrreconcilable = ''irreconcilable''"
definition StatusOrphaned :: string where "StatusOrphaned = ''orphaned''"
definition StatusStale :: string where "StatusStale = ''stale''"
definition StatusPoweredOn :: string where "StatusPoweredOn = ''powered-on''"
definition StatusError :: string where "StatusError = ''error''"
definition StatusAssigned :: string where "StatusAssigned = ''assigned''"
definition StatusNotAssigned :: string where "StatusNotAssigned = ''unassigned''"

lemmas status_defs = StatusIrreconcilable_def StatusOrphaned_def StatusStale_def
  StatusPoweredOn_def StatusError_def StatusAssigned_def StatusNotAssigned_def

lemma status_distinct [simp]:
  "StatusStale \<noteq> StatusIrreconcilable" "StatusStale \<noteq> StatusOrphaned"
  "StatusIrreconcilable \<noteq> StatusStale" "StatusIrreconcilable \<noteq> StatusOrphaned"
  "StatusOrphaned \<noteq> StatusStale" "StatusOrphaned \<noteq> StatusIrreconcilable"
  "StatusPoweredOn \<noteq> StatusError" "StatusError \<noteq> StatusPoweredOn"
  "StatusIrreconcilable \<noteq> StatusPoweredOn" "StatusPoweredOn \<noteq> StatusIrreconcilable"
  "StatusIrreconcilable \<noteq> StatusError" "StatusError \<noteq> StatusIrreconcilable"
  "StatusOrphaned \<noteq> StatusNotAssigned" "StatusNotAssigned \<noteq> StatusOrphaned"
  "StatusAssigned \<noteq> StatusNotAssigned" "StatusNotAssigned \<noteq> StatusAssigned"
  by (simp_all add: status_defs)

definition ANNOTATION_NAME_BMC_SERVER_ID :: string where
  "ANNOTATION_NAME_BMC_SERVER_ID = ''bmc.api.phoenixnap.com/server_id''"
definition ANNOTATION_NAME_BMC_CLUSTER_IP_ALLOCATION_ID :: string where
  "ANNOTATION_NAME_BMC_CLUSTER_IP_ALLOCATION_ID = ''bmc.api.phoenixnap.com/cluster_ip_allocation_id''"
definition ANNOTATION_NAME_BMC_CLUSTER_IP :: string where
  "ANNOTATION_NAME_BMC_CLUSTER_IP = ''bmc.api.phoenixnap.com/cluster_ip''"

lemma annotation_names_distinct [simp]:
  "ANNOTATION_NAME_BMC_CLUSTER_IP \<noteq> ANNOTATION_NAME_BMC_CLUSTER_IP_ALLOCATION_ID"
  "ANNOTATION_NAME_BMC_CLUSTER_IP_ALLOCATION_ID \<noteq> ANNOTATION_NAME_BMC_CLUSTER_IP"
  by (simp_all add: ANNOTATION_NAME_BMC_CLUSTER_IP_def ANNOTATION_NAME_BMC_CLUSTER_IP_ALLOCATION_ID_def)

section \<open>A concrete environment\<close>

text \<open>
  Finalizer helpers on lists, for the examples: add at the end when absent, remove every
  occurrence, test membership.  They satisfy the documented laws.
\<close>

definition list_add :: "string list \<Rightarrow> string \<Rightarrow> string list" where
  "list_add fs f = (if f \<in> set fs then fs else fs @ [f])"

definition list_remove :: "string list \<Rightarrow> string \<Rightarrow> string list" where
  "list_remove fs f = filter (\<lambda>x. x \<noteq> f) fs"

definition list_contains :: "string list \<Rightarrow> string \<Rightarrow> bool" where
  "list_contains fs f \<longleftrightarrow> f \<in> set fs"

text \<open>An environment for examples, from the answers of the Bare Metal Cloud API.\<close>

definition example_env :: "(http_request \<Rightarrow> http_outcome) \<Rightarrow> env" where
  "example_env bmc = \<lparr>
     AddFinalizer = list_add, RemoveFinalizer = list_remove, ContainsFinalizer = list_contains,
     IgnoreNotFound = (\<lambda>e. if e = LibErr ''not found'' then None else Some e),
     IsNotFound = (\<lambda>e. e = LibErr ''not found''),
     IsPaused = (\<lambda>_ _. False), util_IsControlPlaneMachine = (\<lambda>_. False),
     GetBMCMachine = (\<lambda>_. Inl (LibErr ''not found'')), GetBMCCluster = (\<lambda>_. Inl (LibErr ''not found'')),
     GetOwnerMachine = (\<lambda>_. Inr None), GetOwnerCluster = (\<lambda>_. Inr None),
     GetClusterFromMetadata = (\<lambda>_. Inl (LibErr ''not found'')),
     GetSecret = (\<lambda>_. Inr (Map.empty(''value'' \<mapsto> ''data''))), ListMachines = (\<lambda>_ _. Inr []),
     NewClusterClient = (\<lambda>_. Inl (LibErr ''no kubeconfig'')), BMC = bmc, URLError = (\<lambda>_. None),
     BMCEndpointURL = ''https://api'', JsonErrText = (\<lambda>_. ''bad json''),
     Decoders = \<lparr>dec_Quantity = (\<lambda>_. None), dec_Addresses = (\<lambda>_. None), dec_NodeRef = (\<lambda>_. None)\<rparr>,
     InvalidConfigurationMachineError = ''InvalidConfiguration'', CreateMachineError = ''CreateError'',
     NodeExternalIP = ''ExternalIP'', CoreGroupVersion = ''v1'',
     ClusterNameLabel = ''cluster.x-k8s.io/cluster-name''\<rparr>"

lemma finalizer_laws_example: "finalizer_laws (example_env bmc)"
  by (auto simp: finalizer_laws_def example_env_def list_add_def list_remove_def list_contains_def)

end
