(* ===== verification/MachineContext.thy ===== *)
theory MachineContext
  imports Environment
begin

text \<open>
  \<open>MachineContext\<close> of \<open>controllers/closures.go\<close>: the objects a machine reconciliation
  works on, one operation per method, and the log of effects.  The client handles of the Go struct
  are the environment.  A method that can panic returns an outcome.
\<close>

record MachineContext =
  mc_Cluster :: "Cluster option"
  mc_Machine :: Machine
  mc_BMCCluster :: "BMCCluster option"
  mc_BMCMachine :: BMCMachine
  mc_log :: "effect list"

section \<open>Access to the nested fields\<close>

abbreviation mc_meta :: "MachineContext \<Rightarrow> ObjectMeta" where
  "mc_meta mc \<equiv> bm_Meta (mc_BMCMachine mc)"

abbreviation mc_spec :: "MachineContext \<Rightarrow> BMCMachineSpec" where
  "mc_spec mc \<equiv> bm_Spec (mc_BMCMachine mc)"

abbreviation mc_status :: "MachineContext \<Rightarrow> BMCMachineStatus" where
  "mc_status mc \<equiv> bm_Status (mc_BMCMachine mc)"

definition upd_meta :: "(ObjectMeta \<Rightarrow> ObjectMeta) \<Rightarrow> MachineContext \<Rightarrow> MachineContext" where
  "upd_meta f mc = mc\<lparr>mc_BMCMachine := (mc_BMCMachine mc)\<lparr>bm_Meta := f (mc_meta mc)\<rparr>\<rparr>"

definition upd_spec :: "(BMCMachineSpec \<Rightarrow> BMCMachineSpec) \<Rightarrow> MachineContext \<Rightarrow> MachineContext" where
  "upd_spec f mc = mc\<lparr>mc_BMCMachine := (mc_BMCMachine mc)\<lparr>bm_Spec := f (mc_spec mc)\<rparr>\<rparr>"

definition upd_status :: "(BMCMachineStatus \<Rightarrow> BMCMachineStatus) \<Rightarrow> MachineContext \<Rightarrow> MachineContext" where
  "upd_status f mc = mc\<lparr>mc_BMCMachine := (mc_BMCMachine mc)\<lparr>bm_Status := f (mc_status mc)\<rparr>\<rparr>"

definition log_effects :: "effect list \<Rightarrow> MachineContext \<Rightarrow> MachineContext" where
  "log_effects es mc = mc\<lparr>mc_log := mc_log mc @ es\<rparr>"

text \<open>Each update changes its own part only.\<close>

lemma upd_simps [simp]:
  "mc_meta (upd_meta f mc) = f (mc_meta mc)" "mc_spec (upd_meta f mc) = mc_spec mc"
  "mc_status (upd_meta f mc) = mc_status mc" "mc_log (upd_meta f mc) = mc_log mc"
  "mc_meta (upd_spec g mc) = mc_meta mc" "mc_spec (upd_spec g mc) = g (mc_spec mc)"
  "mc_status (upd_spec g mc) = mc_status mc" "mc_log (upd_spec g mc) = mc_log mc"
  "mc_meta (upd_status h mc) = mc_meta mc" "mc_spec (upd_status h mc) = mc_spec mc"
  "mc_status (upd_status h mc) = h (mc_status mc)" "mc_log (upd_status h mc) = mc_log mc"
  "mc_BMCMachine (log_effects es mc) = mc_BMCMachine mc" "mc_log (log_effects es mc) = mc_log mc @ es"
  by (simp_all add: upd_meta_def upd_spec_def upd_status_def log_effects_def)

lemma upd_frame [simp]:
  "mc_Machine (upd_meta f mc) = mc_Machine mc" "mc_Machine (upd_spec g mc) = mc_Machine mc"
  "mc_Machine (upd_status h mc) = mc_Machine mc" "mc_Machine (log_effects es mc) = mc_Machine mc"
  "mc_Cluster (upd_meta f mc) = mc_Cluster mc" "mc_Cluster (upd_spec g mc) = mc_Cluster mc"
  "mc_Cluster (upd_status h mc) = mc_Cluster mc" "mc_Cluster (log_effects es mc) = mc_Cluster mc"
  "mc_BMCCluster (upd_meta f mc) = mc_BMCCluster mc" "mc_BMCCluster (upd_spec g mc) = mc_BMCCluster mc"
  "mc_BMCCluster (upd_status h mc) = mc_BMCCluster mc" "mc_BMCCluster (log_effects es mc) = mc_BMCCluster mc"
  by (simp_all add: upd_meta_def upd_spec_def upd_status_def log_effects_def)

section \<open>The methods\<close>

definition mc_AddFini :: "env \<Rightarrow> MachineContext \<Rightarrow> MachineContext" where
  "mc_AddFini E = upd_meta (om_Finalizers_update (\<lambda>fs. AddFinalizer E fs MachineFinalizer))"

definition mc_RemoveFini :: "env \<Rightarrow> MachineContext \<Rightarrow> MachineContext" where
  "mc_RemoveFini E = upd_meta (om_Finalizers_update (\<lambda>fs. RemoveFinalizer E fs MachineFinalizer))"

definition mc_HasFini :: "env \<Rightarrow> MachineContext \<Rightarrow> bool" where
  "mc_HasFini E mc \<longleftrightarrow> ContainsFinalizer E (om_Finalizers (mc_meta mc)) MachineFinalizer"

text \<open>\<open>IsZero\<close> of a timestamp pointer holds for nil and for the zero time.\<close>

definition time_IsZero :: "int option \<Rightarrow> bool" where
  "time_IsZero t \<longleftrightarrow> t = None \<or> t = Some 0"

definition machine_IsMarkedDeleted :: "BMCMachine option \<Rightarrow> bool" where
  "machine_IsMarkedDeleted bm = (case bm of None \<Rightarrow> False
     | Some b \<Rightarrow> om_DeletionTimestamp (bm_Meta b) \<noteq> None
         \<or> \<not> time_IsZero (om_DeletionTimestamp (bm_Meta b)))"

definition mc_GetMachineID :: "MachineContext \<Rightarrow> string" where
  "mc_GetMachineID mc = annotation (mc_meta mc) ANNOTATION_NAME_BMC_SERVER_ID"

definition provider_id :: "string \<Rightarrow> string" where
  "provider_id i = Sprintf ''bmc://servers/%s'' [FStr i]"

definition mc_SetMachineID :: "string \<Rightarrow> MachineContext \<Rightarrow> (unit, MachineContext) outcome" where
  "mc_SetMachineID i mc =
     (let mc1 = upd_spec (mspec_ProviderID_update (\<lambda>_. Some (provider_id i))) mc in
      case annotate ANNOTATION_NAME_BMC_SERVER_ID i (mc_meta mc1) of
        None \<Rightarrow> Panics NilMapWrite mc1
      | Some om \<Rightarrow> Returns () (upd_meta (\<lambda>_. om) mc1))"

text \<open>The pointers to the clusters are nil until \<open>Reconcile\<close> has looked them up.\<close>

definition mc_IsInfrastructureReady :: "MachineContext \<Rightarrow> bool option" where
  "mc_IsInfrastructureReady mc = map_option cl_InfrastructureReady (mc_Cluster mc)"

definition mc_IsDataSecretReady :: "MachineContext \<Rightarrow> bool" where
  "mc_IsDataSecretReady mc \<longleftrightarrow> mach_DataSecretName (mc_Machine mc) \<noteq> None"

text \<open>
  The bootstrap secret: its name is a pointer (\<open>None\<close>: a nil dereference), the read can fail, and
  the key can be missing.
\<close>

definition mc_GetDataSecretValue :: "env \<Rightarrow> MachineContext \<Rightarrow> (goerr + string) option" where
  "mc_GetDataSecretValue E mc = (case mach_DataSecretName (mc_Machine mc) of None \<Rightarrow> None
     | Some n \<Rightarrow>
        let om = mc_meta mc; args = [FStr (om_Namespace om), FStr (om_Name om)] in
        Some (case GetSecret E \<lparr>nn_Namespace = om_Namespace om, nn_Name = n\<rparr> of
            Inl e \<Rightarrow> Inl (Wrapf e (Sprintf ''failed to retrieve bootstrap data secret for BMCMachine %s/%s'' args))
          | Inr d \<Rightarrow> (case d ''value'' of
              None \<Rightarrow> Inl (Errorf (Sprintf ''bootstrap value is missing in data secret for BMCMachine %s/%s'' args))
            | Some v \<Rightarrow> Inr v)))"

definition mc_IsStatusEqual :: "MachineContext \<Rightarrow> string \<Rightarrow> bool" where
  "mc_IsStatusEqual mc s \<longleftrightarrow> mstat_BMCStatus (mc_status mc) = s"

definition mc_SetStatus :: "BMCMachineStatus \<Rightarrow> MachineContext \<Rightarrow> MachineContext" where
  "mc_SetStatus s = upd_status (\<lambda>_. s)"

definition merge_status :: "BMCMachineStatus \<Rightarrow> BMCMachineStatus \<Rightarrow> BMCMachineStatus" where
  "merge_status s t = t\<lparr>
     mstat_BMCServerID := mstat_BMCServerID s,
     mstat_BMCStatus := mstat_BMCStatus s,
     mstat_CPU := mstat_CPU s,
     mstat_CPUCount := mstat_CPUCount s,
     mstat_CPUCores := mstat_CPUCores s,
     mstat_CPUFrequency := mstat_CPUFrequency s,
     mstat_Ram := mstat_Ram s,
     mstat_Storage := mstat_Storage s,
     mstat_PrivateIPAddresses := mstat_PrivateIPAddresses s,
     mstat_PublicIPAddresses := mstat_PublicIPAddresses s\<rparr>"

definition mc_MergeBMCStatusProperties :: "BMCMachineStatus \<Rightarrow> MachineContext \<Rightarrow> MachineContext" where
  "mc_MergeBMCStatusProperties s = upd_status (merge_status s)"

definition mc_SetBMCStatus :: "string \<Rightarrow> MachineContext \<Rightarrow> MachineContext" where
  "mc_SetBMCStatus s = upd_status (mstat_BMCStatus_update (\<lambda>_. s))"

definition mc_GetBMCStatus :: "MachineContext \<Rightarrow> string" where
  "mc_GetBMCStatus mc = mstat_BMCStatus (mc_status mc)"

definition mc_GetHostname :: "MachineContext \<Rightarrow> string" where
  "mc_GetHostname mc = byte_replace [(CHR ''.'', CHR ''-''), (CHR ''/'', CHR ''-'')] (mach_Name (mc_Machine mc))"

definition mc_IsControlPlaneMachine :: "env \<Rightarrow> MachineContext \<Rightarrow> bool" where
  "mc_IsControlPlaneMachine E mc = util_IsControlPlaneMachine E (mc_Machine mc)"

definition mc_Event :: "string \<Rightarrow> string \<Rightarrow> string \<Rightarrow> MachineContext \<Rightarrow> MachineContext" where
  "mc_Event t r m = log_effects [Event t r m]"

definition mc_Eventf :: "string \<Rightarrow> string \<Rightarrow> string \<Rightarrow> fmt_arg list \<Rightarrow> MachineContext \<Rightarrow> MachineContext" where
  "mc_Eventf t r f args = log_effects [Event t r (Sprintf f args)]"

definition mc_GetClusterIPAllocationID :: "MachineContext \<Rightarrow> string option" where
  "mc_GetClusterIPAllocationID mc = map_option
     (\<lambda>bc. annotation (bc_Meta bc) ANNOTATION_NAME_BMC_CLUSTER_IP_ALLOCATION_ID) (mc_BMCCluster mc)"

definition mc_SetIrreconcilable :: "string \<Rightarrow> string \<Rightarrow> MachineContext \<Rightarrow> MachineContext" where
  "mc_SetIrreconcilable err msg = upd_status (\<lambda>s. s\<lparr>mstat_FailureReason := Some err,
     mstat_FailureMessage := Some msg, mstat_BMCStatus := StatusIrreconcilable\<rparr>)"

definition external_addresses :: "env \<Rightarrow> string list \<Rightarrow> NodeAddress list" where
  "external_addresses E = map (\<lambda>a. \<lparr>na_Type = NodeExternalIP E, na_Address = a\<rparr>)"

definition mc_SetReady :: "env \<Rightarrow> MachineContext \<Rightarrow> MachineContext" where
  "mc_SetReady E = upd_status (\<lambda>s. s\<lparr>mstat_Ready := True,
     mstat_Addresses := external_addresses E (mstat_PublicIPAddresses s)\<rparr>)"

definition mc_IsReady :: "MachineContext \<Rightarrow> bool" where
  "mc_IsReady mc \<longleftrightarrow> mstat_Ready (mc_status mc)"

definition GetRemoteClient :: "env \<Rightarrow> nsname \<Rightarrow> goerr + remote_client" where
  "GetRemoteClient E k = (case NewClusterClient E k of Inl e \<Rightarrow> Inl e | Inr c \<Rightarrow> Inr c)"

text \<open>
  \<open>SetNodeRef\<close>: nothing when the reference is set; otherwise look the node up in the
  workload cluster, record the reference, and write the provider id into the node.
\<close>

definition Sprintln :: "string \<Rightarrow> string" where
  "Sprintln s = s @ [CHR 10]"

definition node_reference :: "env \<Rightarrow> Node \<Rightarrow> ObjectReference" where
  "node_reference E n = \<lparr>or_APIVersion = CoreGroupVersion E, or_Kind = ''Node'',
     or_Name = node_Name n, or_UID = node_UID n\<rparr>"

definition node_event :: "env \<Rightarrow> string \<Rightarrow> goerr \<Rightarrow> MachineContext \<Rightarrow> MachineContext" where
  "node_event E f e = mc_Eventf ''Warning'' ''FailureNodeRef'' f [FStr (Sprintln (ErrorText E e))]"

definition patch_node :: "env \<Rightarrow> remote_client \<Rightarrow> Node \<Rightarrow> MachineContext \<Rightarrow> (unit, MachineContext) outcome" where
  "patch_node E rc n mc = (case rc_NewHelper rc n of
     Some e \<Rightarrow> Returns () (node_event E ''failed to create patchHelper for the workload cluster node %s'' e mc)
   | None \<Rightarrow> (case mspec_ProviderID (mc_spec mc) of
       None \<Rightarrow> Panics NilPointer mc
     | Some p \<Rightarrow>
        let n1 = n\<lparr>node_ProviderID := p\<rparr>; mc1 = log_effects [NodePatch n1] mc in
        (case rc_Patch rc n1 of
           Some e \<Rightarrow> Returns () (node_event E ''failed to patch the remote workload cluster node %s'' e mc1)
         | None \<Rightarrow> Returns () mc1)))"

definition mc_SetNodeRef :: "env \<Rightarrow> MachineContext \<Rightarrow> (unit, MachineContext) outcome" where
  "mc_SetNodeRef E mc =
     (if mstat_NodeRef (mc_status mc) \<noteq> None then Returns () mc
      else case mc_Cluster mc of None \<Rightarrow> Panics NilPointer mc
      | Some cl \<Rightarrow>
        (case GetRemoteClient E \<lparr>nn_Namespace = cl_Namespace cl, nn_Name = cl_Name cl\<rparr> of
           Inl e \<Rightarrow> Returns () (node_event E ''Getting remote client failed. %s'' e mc)
         | Inr rc \<Rightarrow>
            (case rc_GetNode rc (mc_GetHostname mc) of
               Inl e \<Rightarrow> Returns () (node_event E ''Getting node failed. %s'' e mc)
             | Inr n \<Rightarrow>
                patch_node E rc n
                  (mc_Event ''Normal'' ''SuccessNodeRef'' (''Succesfully set node ref '' @ node_Name n)
                    (upd_status (mstat_NodeRef_update (\<lambda>_. Some (node_reference E n))) mc)))))"

lemmas machine_op_defs [go_defs] = mc_AddFini_def mc_RemoveFini_def mc_HasFini_def mc_GetMachineID_def
  mc_IsStatusEqual_def mc_SetStatus_def mc_MergeBMCStatusProperties_def mc_SetBMCStatus_def
  mc_GetBMCStatus_def mc_Event_def mc_Eventf_def mc_SetIrreconcilable_def mc_SetReady_def mc_IsReady_def
  node_event_def

section \<open>Laws of the operations\<close>

lemma machine_IsMarkedDeleted_iff:
  "machine_IsMarkedDeleted (Some b) \<longleftrightarrow> om_DeletionTimestamp (bm_Meta b) \<noteq> None"
  by (auto simp: machine_IsMarkedDeleted_def time_IsZero_def)

lemma provider_id_eq: "provider_id i = ''bmc://servers/'' @ i"
  by (simp add: provider_id_def fmt_extras_def)

lemma provider_id_inject: "provider_id i = provider_id j \<longleftrightarrow> i = j"
  by (simp add: provider_id_eq)

text \<open>The server id is an annotation slot of the context.\<close>

definition set_machine_id :: "string \<Rightarrow> MachineContext \<Rightarrow> MachineContext option" where
  "set_machine_id i mc = (case mc_SetMachineID i mc of Returns _ mc' \<Rightarrow> Some mc' | Panics _ _ \<Rightarrow> None)"

lemma mc_SetMachineID_cases:
  "mc_SetMachineID i mc = (case om_Annotations (mc_meta mc) of
     None \<Rightarrow> Panics NilMapWrite (upd_spec (mspec_ProviderID_update (\<lambda>_. Some (provider_id i))) mc)
   | Some m \<Rightarrow> Returns () (upd_meta (om_Annotations_update (\<lambda>_. Some (m(ANNOTATION_NAME_BMC_SERVER_ID \<mapsto> i))))
        (upd_spec (mspec_ProviderID_update (\<lambda>_. Some (provider_id i))) mc)))"
  by (simp add: mc_SetMachineID_def annotate_def Let_def upd_meta_def upd_spec_def split: option.splits)

interpretation server_id: annotation_slot mc_GetMachineID set_machine_id
  "\<lambda>mc. om_Annotations (mc_meta mc) \<noteq> None"
  by unfold_locales
     (auto simp: set_machine_id_def mc_SetMachineID_cases mc_GetMachineID_def annotation_def split: option.splits)

text \<open>Host names: no dot and no slash, same length, and already-clean names are unchanged.\<close>

lemma mc_GetHostname_map:
  "mc_GetHostname mc = map (\<lambda>c. if c = CHR ''.'' \<or> c = CHR ''/'' then CHR ''-'' else c) (mach_Name (mc_Machine mc))"
  by (auto simp: mc_GetHostname_def byte_replace_def)

text \<open>Node references are set once: a set reference makes the operation a no-op.\<close>

lemma mc_SetNodeRef_set: "mstat_NodeRef (mc_status mc) \<noteq> None \<Longrightarrow> mc_SetNodeRef E mc = Returns () mc"
  by (simp add: mc_SetNodeRef_def)

lemma outcome_patch_node:
  "mc_status (outcome_state (patch_node E rc n mc)) = mc_status mc"
  "mc_meta (outcome_state (patch_node E rc n mc)) = mc_meta mc"
  "mc_spec (outcome_state (patch_node E rc n mc)) = mc_spec mc"
  by (simp_all add: patch_node_def go_defs Let_def split: option.splits)

text \<open>\<open>SetNodeRef\<close> touches nothing of the object but the reference.\<close>

lemma outcome_SetNodeRef:
  "mc_meta (outcome_state (mc_SetNodeRef E mc)) = mc_meta mc"
  "mc_spec (outcome_state (mc_SetNodeRef E mc)) = mc_spec mc"
  "\<exists>r. mc_status (outcome_state (mc_SetNodeRef E mc)) = (mc_status mc)\<lparr>mstat_NodeRef := r\<rparr>"
  by (auto simp: mc_SetNodeRef_def outcome_patch_node go_defs split: option.splits sum.splits)
     (metis BMCMachineStatus.surjective BMCMachineStatus.update_convs(15))+

text \<open>With a provider id and a cluster it never panics.\<close>

lemma SetNodeRef_no_panic:
  "mspec_ProviderID (mc_spec mc) \<noteq> None \<Longrightarrow> mc_Cluster mc \<noteq> None \<Longrightarrow> \<not> panicked (mc_SetNodeRef E mc)"
  by (auto simp: mc_SetNodeRef_def patch_node_def go_defs Let_def split: option.splits sum.splits)

text \<open>It sends nothing to the Bare Metal Cloud API.\<close>

lemma SetNodeRef_log:
  "\<exists>es. mc_log (outcome_state (mc_SetNodeRef E mc)) = mc_log mc @ es \<and> list_all is_note es"
  by (auto simp: mc_SetNodeRef_def patch_node_def go_defs Let_def split: option.splits sum.splits)

end
