(* ===== verification/MachineController.thy ===== *)
theory MachineController
  imports MachineContext
begin

text \<open>
  The BMCMachine reconciler of \<open>controllers/bmcmachine_controller.go\<close>.  Every function of
  the Go type is a definition over the machine context; the switch statements over status codes are
  chains of conditionals in the order of the source.
\<close>

type_synonym machine_outcome = "(verdict, MachineContext) outcome"

section \<open>reconcileCreate\<close>

definition no_network :: NetworkConfiguration where
  "no_network = \<lparr>nc_IPBlocksConfiguration = \<lparr>ibc_ConfigurationType = [], ibc_IPBlocks = []\<rparr>\<rparr>"

definition create_request :: "MachineContext \<Rightarrow> string \<Rightarrow> BMCCreateServerRequest" where
  "create_request mc bootstrap = \<lparr>
     csr_Hostname = mc_GetHostname mc,
     csr_Description = mspec_Description (mc_spec mc),
     csr_OS = mspec_OS (mc_spec mc),
     csr_Type = mspec_Type (mc_spec mc),
     csr_Location = mspec_Location (mc_spec mc),
     csr_InstallDefaultSSHKeys = mspec_InstallDefaultSSHKeys (mc_spec mc),
     csr_SSHKeyIDs = mspec_SSHKeyIDs (mc_spec mc),
     csr_NetworkType = mspec_NetworkType (mc_spec mc),
     csr_OSConfiguration = \<lparr>osc_CloudInit = \<lparr>ci_UserData = b64_encode bootstrap\<rparr>\<rparr>,
     csr_NetworkConfiguration = no_network\<rparr>"

definition user_defined_network :: "string \<Rightarrow> NetworkConfiguration" where
  "user_defined_network ipid = \<lparr>nc_IPBlocksConfiguration = \<lparr>ibc_ConfigurationType = ''USER_DEFINED'',
     ibc_IPBlocks = [\<lparr>ipb_ID = ipid\<rparr>]\<rparr>\<rparr>"

text \<open>A permanent failure is recorded once: not when the status is irreconcilable already.\<close>

definition create_irreconcilable :: "env \<Rightarrow> int \<Rightarrow> MachineContext \<Rightarrow> MachineContext" where
  "create_irreconcilable E c mc = (if mc_IsStatusEqual mc StatusIrreconcilable then mc
     else mc_SetIrreconcilable (InvalidConfigurationMachineError E) (Sprintf ''BMC create code %v'' [FInt c])
       (mc_Eventf EventTypeWarning EventReasonCreateErrorPermanent ''Code: %v'' [FInt c] mc))"

definition create_accepted :: "env \<Rightarrow> string \<Rightarrow> MachineContext \<Rightarrow> machine_outcome" where
  "create_accepted E body mc = (case unmarshal_machine_status (Decoders E) body of
     Inl j \<Rightarrow> Returns (noRequeue, Some (JsonErr j))
       (mc_Event EventTypeWarning EventReasonCreateError (ErrorText E (JsonErr j)) mc)
   | Inr ss \<Rightarrow>
      (case mc_SetMachineID (mstat_BMCServerID ss)
         (mc_SetStatus ss
           (mc_Eventf EventTypeNormal EventReasonCreated ''creatd BMC server %s'' [FStr (mstat_BMCServerID ss)] mc)) of
        Panics p mc2 \<Rightarrow> Panics p mc2
      | Returns _ mc2 \<Rightarrow> Returns (requeueAfter1Min, None) mc2))"

definition create_response :: "env \<Rightarrow> int \<Rightarrow> string \<Rightarrow> MachineContext \<Rightarrow> machine_outcome" where
  "create_response E c body mc =
     (if c = 400 \<or> c = 401 \<or> c = 403 then Returns (noRequeue, None) (create_irreconcilable E c mc)
      else if c = 406 then Returns (requeueAfter5Min, None)
        (mc_Eventf EventTypeWarning EventReasonCreateErrorInventory ''Code: %v'' [FInt c] mc)
      else if c = 409 then Returns (requeueAfter2Min, None) (create_irreconcilable E c mc)
      else if c = 500 then Returns (requeueAfter2Min, None)
        (mc_Event EventTypeWarning EventReasonCreateFailure ''Temporary API failure'' mc)
      else if http_ok c then create_accepted E body mc
      else Returns (noRequeue, Some (Errorf (Sprintf ''Unexpected response during server create: %v'' [FInt c])))
        (mc_Eventf EventTypeWarning EventReasonCreateError ''Unexpected response from API: %v'' [FInt c] mc))"

definition servers_url :: "env \<Rightarrow> string" where
  "servers_url E = Sprintf ''%s/bmc/v1/servers'' [FStr (BMCEndpointURL E)]"

definition post_server :: "env \<Rightarrow> BMCCreateServerRequest \<Rightarrow> MachineContext \<Rightarrow> machine_outcome" where
  "post_server E request mc =
     (case http_send E (http_Post (servers_url E) ''application/json'' (json_text (json_CreateServerRequest request))) of
       (out, es) \<Rightarrow>
         let mc1 = log_effects es mc in
         (case out of
            DoError e \<Rightarrow> Returns (noRequeue, Some e) (mc_Event EventTypeWarning EventReasonCreateError (ErrorText E e) mc1)
          | ReadError c e \<Rightarrow> Returns (noRequeue, Some e) (mc_Event EventTypeWarning EventReasonCreateError (ErrorText E e) mc1)
          | Response c body \<Rightarrow> create_response E c body mc1))"

text \<open>
  The control plane machine of a cluster without a VIP manager is put into the address block of the
  cluster, and waits until there is one.
\<close>

definition machine_reconcileCreate :: "env \<Rightarrow> MachineContext \<Rightarrow> machine_outcome" where
  "machine_reconcileCreate E mc = (case mc_GetDataSecretValue E mc of
     None \<Rightarrow> Panics NilPointer mc
   | Some (Inl e) \<Rightarrow> Returns (noRequeue, Some e) mc
   | Some (Inr bootstrap) \<Rightarrow>
      let request = create_request mc bootstrap in
      if \<not> mc_IsControlPlaneMachine E mc then post_server E request mc
      else (case mc_BMCCluster mc of
          None \<Rightarrow> Panics NilPointer mc
        | Some bc \<Rightarrow>
           if cspec_VIPManager (bc_Spec bc) \<noteq> NONE then post_server E request mc
           else (case mc_GetClusterIPAllocationID mc of
               None \<Rightarrow> Panics NilPointer mc
             | Some ipid \<Rightarrow>
                if ipid = [] then Returns (noRequeue, None) mc
                else post_server E (request\<lparr>csr_NetworkConfiguration := user_defined_network ipid\<rparr>) mc)))"

section \<open>reconcileSynchronize\<close>

text \<open>The four ways a poll marks the machine, each only when the status says something else.\<close>

definition poll_stale :: "MachineContext \<Rightarrow> MachineContext" where
  "poll_stale mc = (if mc_IsStatusEqual mc StatusStale then mc
     else mc_SetBMCStatus StatusStale
       (mc_Eventf EventTypeNormal EventReasonStatusChange ''%v -> %v'' [FStr (mc_GetBMCStatus mc), FStr StatusStale] mc))"

definition poll_irreconcilable :: "env \<Rightarrow> int \<Rightarrow> MachineContext \<Rightarrow> MachineContext" where
  "poll_irreconcilable E c mc = (if mc_IsStatusEqual mc StatusIrreconcilable then mc
     else mc_SetIrreconcilable (InvalidConfigurationMachineError E) (Sprintf ''BMC read code %v'' [FInt c])
       (mc_Eventf EventTypeWarning EventReasonPollFailure ''Code: %v'' [FInt c] mc))"

definition poll_orphaned :: "int \<Rightarrow> MachineContext \<Rightarrow> MachineContext" where
  "poll_orphaned c mc = (if mc_IsStatusEqual mc StatusOrphaned then mc
     else mc_SetBMCStatus StatusOrphaned
       (mc_Eventf EventTypeWarning EventReasonResourceOrphaned ''Access to BMC resource was denied'' [FInt c] mc))"

definition poll_unavailable :: "int \<Rightarrow> MachineContext \<Rightarrow> MachineContext" where
  "poll_unavailable c mc = (if mc_IsStatusEqual mc StatusStale then mc
     else mc_SetBMCStatus StatusStale (mc_Eventf EventTypeWarning EventReasonPollFailure ''Code: %v'' [FInt c] mc))"

definition poll_unreadable :: "env \<Rightarrow> json_error \<Rightarrow> MachineContext \<Rightarrow> MachineContext" where
  "poll_unreadable E j mc = (if mc_IsStatusEqual mc StatusStale then mc
     else mc_SetBMCStatus StatusStale
       (mc_Eventf EventTypeWarning EventReasonPollFailure ''error: %v'' [FStr (ErrorText E (JsonErr j))] mc))"

text \<open>The status delta: an event, the merge, and what the new status means.\<close>

definition status_delta :: "env \<Rightarrow> BMCMachineStatus \<Rightarrow> MachineContext \<Rightarrow> MachineContext" where
  "status_delta E ss mc = (if mc_IsStatusEqual mc (mstat_BMCStatus ss) then mc
     else let mc1 = mc_MergeBMCStatusProperties ss
            (mc_Eventf ''Normal'' EventReasonStatusChange ''%v -> %v''
              [FStr (mc_GetBMCStatus mc), FStr (mstat_BMCStatus ss)] mc) in
       if mc_GetBMCStatus mc1 = StatusPoweredOn then mc_SetReady E mc1
       else if mc_GetBMCStatus mc1 = StatusError then
         mc_SetIrreconcilable (CreateMachineError E) ''unrecoverable error while creating the resource at BMC'' mc1
       else mc1)"

definition poll_status :: "env \<Rightarrow> BMCMachineStatus \<Rightarrow> MachineContext \<Rightarrow> machine_outcome" where
  "poll_status E ss mc =
     (let mc1 = status_delta E ss mc in
      if mstat_BMCStatus ss = StatusPoweredOn then
        (case mc_SetNodeRef E mc1 of
           Panics p mc2 \<Rightarrow> Panics p mc2
         | Returns _ mc2 \<Rightarrow> Returns (requeueAfter2Min, None)
             (if mc_IsReady mc2 then mc2 else mc_SetReady E (mc_MergeBMCStatusProperties ss mc2)))
      else if mstat_BMCStatus ss = StatusError then Returns (noRequeue, None) mc1
      else Returns (requeueAfter1Min, None) mc1)"

definition poll_accepted :: "env \<Rightarrow> string \<Rightarrow> MachineContext \<Rightarrow> machine_outcome" where
  "poll_accepted E body mc = (case unmarshal_machine_status (Decoders E) body of
     Inl j \<Rightarrow> Returns (requeueAfter2Min, Some (JsonErr j)) (poll_unreadable E j mc)
   | Inr ss \<Rightarrow> poll_status E ss mc)"

definition poll_response :: "env \<Rightarrow> int \<Rightarrow> string \<Rightarrow> MachineContext \<Rightarrow> machine_outcome" where
  "poll_response E c body mc =
     (if c = 400 then Returns (requeueAfter5Min, None) (poll_irreconcilable E c mc)
      else if c = 401 then Returns (requeueAfter5Min, None) (poll_irreconcilable E c mc)
      else if c = 403 then Returns (noRequeue, None) (poll_orphaned c mc)
      else if c = 500 then Returns (requeueAfter5Min, None) (poll_unavailable c mc)
      else if http_ok c then poll_accepted E body mc
      else Returns (noRequeue, Some (Errorf (Sprintf ''unexpected response during server poll: %v'' [FInt c])))
        (mc_Eventf EventTypeWarning EventReasonPollFailure ''Unexpected response from API: %v'' [FInt c] mc))"

definition server_url :: "env \<Rightarrow> string \<Rightarrow> string" where
  "server_url E i = Sprintf ''%s/bmc/v1/servers/%s'' [FStr (BMCEndpointURL E), FStr i]"

definition machine_reconcileSynchronize :: "env \<Rightarrow> MachineContext \<Rightarrow> machine_outcome" where
  "machine_reconcileSynchronize E mc =
     (case http_send E (http_Get (server_url E (mc_GetMachineID mc))) of
       (out, es) \<Rightarrow>
         let mc1 = log_effects es mc in
         (case out of
            DoError e \<Rightarrow> Returns (requeueAfter2Min, Some e) (poll_stale mc1)
          | ReadError c e \<Rightarrow> Returns (requeueAfter2Min, Some e) (poll_stale mc1)
          | Response c body \<Rightarrow> poll_response E c body mc1))"

section \<open>reconcileDelete\<close>

definition deprovision_request :: "env \<Rightarrow> string \<Rightarrow> http_request" where
  "deprovision_request E i = http_Post
     (Sprintf ''%s/bmc/v1/servers/%s/actions/deprovision'' [FStr (BMCEndpointURL E), FStr i])
     ''application/json'' (CHR ''{'' # CHR 34 # ''deleteIpBlocks'' @ CHR 34 # '':true}'')"

definition delete_response :: "string \<Rightarrow> int \<Rightarrow> MachineContext \<Rightarrow> machine_outcome" where
  "delete_response i c mc =
     (if c = 400 \<or> c = 401 then Returns (requeueAfter2Min, None) (mc_SetBMCStatus StatusIrreconcilable mc)
      else if c = 403 then Returns (requeueAfter2Min, None) (mc_SetBMCStatus StatusOrphaned mc)
      else if c = 500 then Returns (requeueAfter2Min, None) mc
      else if http_ok c then Returns (noRequeue, None)
        (mc_Eventf ''Normal'' EventReasonCleanupSuccess ''Deleted BMC server %s'' [FStr i] mc)
      else Returns (requeueAfter2Min, Some (Errorf (Sprintf ''Unexpected response during server delete: %v'' [FInt c])))
        (mc_Eventf ''Warning'' EventReasonCleanupError ''Unexpected response from API: %v'' [FInt c] mc))"

definition machine_reconcileDelete :: "env \<Rightarrow> MachineContext \<Rightarrow> machine_outcome" where
  "machine_reconcileDelete E mc =
     (let mc0 = mc_RemoveFini E mc; i = mc_GetMachineID mc0 in
      if \<not> mc_IsStatusEqual mc0 StatusOrphaned \<and> i \<noteq> [] then
        (case http_send E (deprovision_request E i) of
          (out, es) \<Rightarrow>
            let mc1 = log_effects es mc0 in
            (case out of
               DoError e \<Rightarrow> Returns (noRequeue, Some e) (mc_Event ''Warning'' EventReasonCleanupError (ErrorText E e) mc1)
             | ReadError c e \<Rightarrow> Returns (noRequeue, Some e) (mc_Event ''Warning'' EventReasonCleanupError (ErrorText E e) mc1)
             | Response c body \<Rightarrow> delete_response i c mc1))
      else Returns (noRequeue, None) mc0)"

section \<open>reconcileLive and Reconcile\<close>

definition machine_reconcileLive :: "env \<Rightarrow> MachineContext \<Rightarrow> machine_outcome" where
  "machine_reconcileLive E mc =
     (let mc0 = (if mc_HasFini E mc then mc else mc_AddFini E mc) in
      case mc_IsInfrastructureReady mc0 of
        None \<Rightarrow> Panics NilPointer mc0
      | Some ready \<Rightarrow>
         if \<not> ready then Returns (noRequeue, None) mc0
         else if \<not> mc_IsDataSecretReady mc0 then Returns (noRequeue, None) mc0
         else if length (mc_GetMachineID mc0) = 0 then machine_reconcileCreate E mc0
         else machine_reconcileSynchronize E mc0)"

definition machine_context :: "BMCMachine \<Rightarrow> Machine \<Rightarrow> MachineContext" where
  "machine_context bm m = \<lparr>mc_Cluster = None, mc_Machine = m, mc_BMCCluster = None,
     mc_BMCMachine = bm, mc_log = []\<rparr>"

text \<open>
  After the context is set up: deletion comes first, before the clusters are looked up and before
  the pause annotation is honoured.
\<close>

definition machine_dispatch :: "env \<Rightarrow> MachineContext \<Rightarrow> machine_outcome" where
  "machine_dispatch E mc =
     (if machine_IsMarkedDeleted (Some (mc_BMCMachine mc)) then machine_reconcileDelete E mc
      else case GetClusterFromMetadata E (mc_Machine mc) of
        Inl e \<Rightarrow> Returns (noRequeue, Some e) mc
      | Inr cluster \<Rightarrow>
         (case cl_InfrastructureRef cluster of
            None \<Rightarrow> Panics NilPointer mc
          | Some n \<Rightarrow>
             (case GetBMCCluster E \<lparr>nn_Namespace = om_Namespace (mc_meta mc), nn_Name = n\<rparr> of
                Inl e \<Rightarrow> Returns (noRequeue, None) mc
              | Inr bmcCluster \<Rightarrow>
                 if IsPaused E cluster bmcCluster then Returns (noRequeue, None) mc
                 else machine_reconcileLive E
                   (mc\<lparr>mc_Cluster := Some cluster, mc_BMCCluster := Some bmcCluster\<rparr>))))"

text \<open>The deferred patch of \<open>Reconcile\<close> runs after a return and while a panic unwinds.\<close>

primrec machine_finish :: "machine_outcome \<Rightarrow> (verdict, effect list) outcome" where
  "machine_finish (Returns v mc) = Returns v (mc_log mc @ [PatchMachine (mc_BMCMachine mc)])"
| "machine_finish (Panics p mc) = Panics p (mc_log mc @ [PatchMachine (mc_BMCMachine mc)])"

definition machine_Reconcile :: "env \<Rightarrow> nsname \<Rightarrow> (verdict, effect list) outcome" where
  "machine_Reconcile E req = (case GetBMCMachine E req of
     Inl e \<Rightarrow> Returns (noRequeue, IgnoreNotFound E e) []
   | Inr bm \<Rightarrow> (case GetOwnerMachine E (bm_Meta bm) of
       Inl e \<Rightarrow> Returns (noRequeue, Some e) []
     | Inr None \<Rightarrow> Returns (noRequeue, None) []
     | Inr (Some m) \<Rightarrow> machine_finish (machine_dispatch E (machine_context bm m))))"

lemmas machine_poll_defs [go_defs] = poll_stale_def poll_irreconcilable_def poll_orphaned_def
  poll_unavailable_def poll_unreadable_def create_irreconcilable_def

end
