(* ===== verification/ClusterContext.thy ===== *)
theory ClusterContext
  imports Environment
begin

text \<open>
  \<open>ClusterContext\<close> of \<open>controllers/closures.go\<close>: the Cluster API cluster and the
  BMCCluster of a cluster reconciliation, one operation per method, and the log of effects.
\<close>

record ClusterContext =
  cc_Cluster :: Cluster
  cc_BMCCluster :: BMCCluster
  cc_log :: "effect list"

abbreviation cc_meta :: "ClusterContext \<Rightarrow> ObjectMeta" where
  "cc_meta cc \<equiv> bc_Meta (cc_BMCCluster cc)"

abbreviation cc_spec :: "ClusterContext \<Rightarrow> BMCClusterSpec" where
  "cc_spec cc \<equiv> bc_Spec (cc_BMCCluster cc)"

abbreviation cc_status :: "ClusterContext \<Rightarrow> BMCClusterStatus" where
  "cc_status cc \<equiv> bc_Status (cc_BMCCluster cc)"

definition cupd_meta :: "(ObjectMeta \<Rightarrow> ObjectMeta) \<Rightarrow> ClusterContext \<Rightarrow> ClusterContext" where
  "cupd_meta f cc = cc\<lparr>cc_BMCCluster := (cc_BMCCluster cc)\<lparr>bc_Meta := f (cc_meta cc)\<rparr>\<rparr>"

definition cupd_spec :: "(BMCClusterSpec \<Rightarrow> BMCClusterSpec) \<Rightarrow> ClusterContext \<Rightarrow> ClusterContext" where
  "cupd_spec f cc = cc\<lparr>cc_BMCCluster := (cc_BMCCluster cc)\<lparr>bc_Spec := f (cc_spec cc)\<rparr>\<rparr>"

definition cupd_status :: "(BMCClusterStatus \<Rightarrow> BMCClusterStatus) \<Rightarrow> ClusterContext \<Rightarrow> ClusterContext" where
  "cupd_status f cc = cc\<lparr>cc_BMCCluster := (cc_BMCCluster cc)\<lparr>bc_Status := f (cc_status cc)\<rparr>\<rparr>"

definition clog_effects :: "effect list \<Rightarrow> ClusterContext \<Rightarrow> ClusterContext" where
  "clog_effects es cc = cc\<lparr>cc_log := cc_log cc @ es\<rparr>"

lemma cupd_simps [simp]:
  "cc_meta (cupd_meta f cc) = f (cc_meta cc)" "cc_spec (cupd_meta f cc) = cc_spec cc"
  "cc_status (cupd_meta f cc) = cc_status cc" "cc_log (cupd_meta f cc) = cc_log cc"
  "cc_meta (cupd_spec g cc) = cc_meta cc" "cc_spec (cupd_spec g cc) = g (cc_spec cc)"
  "cc_status (cupd_spec g cc) = cc_status cc" "cc_log (cupd_spec g cc) = cc_log cc"
  "cc_meta (cupd_status h cc) = cc_meta cc" "cc_spec (cupd_status h cc) = cc_spec cc"
  "cc_status (cupd_status h cc) = h (cc_status cc)" "cc_log (cupd_status h cc) = cc_log cc"
  "cc_BMCCluster (clog_effects es cc) = cc_BMCCluster cc" "cc_log (clog_effects es cc) = cc_log cc @ es"
  "cc_Cluster (cupd_meta f cc) = cc_Cluster cc" "cc_Cluster (cupd_spec g cc) = cc_Cluster cc"
  "cc_Cluster (cupd_status h cc) = cc_Cluster cc" "cc_Cluster (clog_effects es cc) = cc_Cluster cc"
  by (simp_all add: cupd_meta_def cupd_spec_def cupd_status_def clog_effects_def)

section \<open>The methods\<close>

definition cluster_time_IsZero :: "int option \<Rightarrow> bool" where
  "cluster_time_IsZero t \<longleftrightarrow> t = None \<or> t = Some 0"

definition cluster_IsMarkedDeleted :: "BMCCluster option \<Rightarrow> bool" where
  "cluster_IsMarkedDeleted bc = (case bc of None \<Rightarrow> False
     | Some b \<Rightarrow> om_DeletionTimestamp (bc_Meta b) \<noteq> None
         \<or> \<not> cluster_time_IsZero (om_DeletionTimestamp (bc_Meta b)))"

definition cc_AddFini :: "env \<Rightarrow> ClusterContext \<Rightarrow> ClusterContext" where
  "cc_AddFini E = cupd_meta (om_Finalizers_update (\<lambda>fs. AddFinalizer E fs ClusterFinalizer))"

definition cc_RemoveFini :: "env \<Rightarrow> ClusterContext \<Rightarrow> ClusterContext" where
  "cc_RemoveFini E = cupd_meta (om_Finalizers_update (\<lambda>fs. RemoveFinalizer E fs ClusterFinalizer))"

definition cc_HasFini :: "env \<Rightarrow> ClusterContext \<Rightarrow> bool" where
  "cc_HasFini E cc \<longleftrightarrow> ContainsFinalizer E (om_Finalizers (cc_meta cc)) ClusterFinalizer"

definition cc_GetIPAllocationID :: "ClusterContext \<Rightarrow> string" where
  "cc_GetIPAllocationID cc = annotation (cc_meta cc) ANNOTATION_NAME_BMC_CLUSTER_IP_ALLOCATION_ID"

definition cc_SetIPAllocationID :: "string \<Rightarrow> ClusterContext \<Rightarrow> ClusterContext option" where
  "cc_SetIPAllocationID i cc = map_option (\<lambda>om. cupd_meta (\<lambda>_. om) cc)
     (annotate ANNOTATION_NAME_BMC_CLUSTER_IP_ALLOCATION_ID i (cc_meta cc))"

definition cc_SetIP :: "string \<Rightarrow> ClusterContext \<Rightarrow> ClusterContext option" where
  "cc_SetIP i cc = map_option (\<lambda>om. cupd_meta (\<lambda>_. om) cc)
     (annotate ANNOTATION_NAME_BMC_CLUSTER_IP i (cc_meta cc))"

definition cc_GetIP :: "ClusterContext \<Rightarrow> string" where
  "cc_GetIP cc = annotation (cc_meta cc) ANNOTATION_NAME_BMC_CLUSTER_IP"

definition cc_Event :: "string \<Rightarrow> string \<Rightarrow> string \<Rightarrow> ClusterContext \<Rightarrow> ClusterContext" where
  "cc_Event t r m = clog_effects [Event t r m]"

definition cc_Eventf :: "string \<Rightarrow> string \<Rightarrow> string \<Rightarrow> fmt_arg list \<Rightarrow> ClusterContext \<Rightarrow> ClusterContext" where
  "cc_Eventf t r f args = clog_effects [Event t r (Sprintf f args)]"

definition cc_SetStatus :: "BMCClusterStatus \<Rightarrow> ClusterContext \<Rightarrow> ClusterContext" where
  "cc_SetStatus s = cupd_status (\<lambda>t. t\<lparr>cstat_ID := cstat_ID s, cstat_CIDR := cstat_CIDR s,
     cstat_BMCStatus := cstat_BMCStatus s\<rparr>)"

definition cc_SetBMCStatus :: "string \<Rightarrow> ClusterContext \<Rightarrow> ClusterContext" where
  "cc_SetBMCStatus s = cupd_status (cstat_BMCStatus_update (\<lambda>_. s))"

definition cc_GetBMCStatus :: "ClusterContext \<Rightarrow> string" where
  "cc_GetBMCStatus cc = cstat_BMCStatus (cc_status cc)"

definition cc_IsStatusEqual :: "ClusterContext \<Rightarrow> string \<Rightarrow> bool" where
  "cc_IsStatusEqual cc s \<longleftrightarrow> cstat_BMCStatus (cc_status cc) = s"

definition cc_SetControlPlaneEndpoint :: "string \<Rightarrow> int \<Rightarrow> ClusterContext \<Rightarrow> ClusterContext" where
  "cc_SetControlPlaneEndpoint host port cc =
     (let ep = \<lparr>ep_Host = host, ep_Port = word_of_int port\<rparr> in
      (cupd_spec (cspec_ControlPlaneEndpoint_update (\<lambda>_. ep)) cc)
        \<lparr>cc_Cluster := (cc_Cluster cc)\<lparr>cl_ControlPlaneEndpoint := ep\<rparr>\<rparr>)"

definition cc_SetReady :: "ClusterContext \<Rightarrow> ClusterContext" where
  "cc_SetReady = cupd_status (cstat_Ready_update (\<lambda>_. True))"

definition cc_IsReady :: "ClusterContext \<Rightarrow> bool" where
  "cc_IsReady cc \<longleftrightarrow> cstat_Ready (cc_status cc)"

lemmas cluster_op_defs [go_defs] = cc_AddFini_def cc_RemoveFini_def cc_HasFini_def cc_Event_def
  cc_Eventf_def cc_SetStatus_def cc_SetBMCStatus_def cc_GetBMCStatus_def cc_IsStatusEqual_def
  cc_SetReady_def cc_IsReady_def

section \<open>Laws of the operations\<close>

lemma cluster_IsMarkedDeleted_iff:
  "cluster_IsMarkedDeleted (Some b) \<longleftrightarrow> om_DeletionTimestamp (bc_Meta b) \<noteq> None"
  by (auto simp: cluster_IsMarkedDeleted_def cluster_time_IsZero_def)

lemma cc_SetControlPlaneEndpoint_simps [simp]:
  "cc_meta (cc_SetControlPlaneEndpoint h p cc) = cc_meta cc"
  "cc_status (cc_SetControlPlaneEndpoint h p cc) = cc_status cc"
  "cc_log (cc_SetControlPlaneEndpoint h p cc) = cc_log cc"
  "cspec_ControlPlaneEndpoint (cc_spec (cc_SetControlPlaneEndpoint h p cc))
    = \<lparr>ep_Host = h, ep_Port = word_of_int p\<rparr>"
  "cl_ControlPlaneEndpoint (cc_Cluster (cc_SetControlPlaneEndpoint h p cc))
    = \<lparr>ep_Host = h, ep_Port = word_of_int p\<rparr>"
  "cspec_VIPManager (cc_spec (cc_SetControlPlaneEndpoint h p cc)) = cspec_VIPManager (cc_spec cc)"
  by (simp_all add: cc_SetControlPlaneEndpoint_def Let_def cupd_spec_def)

lemma cc_SetIP_simps:
  assumes "cc_SetIP i cc = Some cc'"
  shows "cc_status cc' = cc_status cc" "cc_spec cc' = cc_spec cc" "cc_log cc' = cc_log cc"
    "cc_GetIP cc' = i" "cc_GetIPAllocationID cc' = cc_GetIPAllocationID cc"
    "om_Finalizers (cc_meta cc') = om_Finalizers (cc_meta cc)"
  using assms by (auto simp: cc_SetIP_def cc_GetIP_def cc_GetIPAllocationID_def annotation_annotate
      annotate_Some_iff annotation_def)

lemma cc_SetIPAllocationID_simps:
  assumes "cc_SetIPAllocationID i cc = Some cc'"
  shows "cc_status cc' = cc_status cc" "cc_spec cc' = cc_spec cc" "cc_log cc' = cc_log cc"
    "cc_GetIPAllocationID cc' = i" "cc_GetIP cc' = cc_GetIP cc"
    "om_Finalizers (cc_meta cc') = om_Finalizers (cc_meta cc)"
  using assms by (auto simp: cc_SetIPAllocationID_def cc_GetIP_def cc_GetIPAllocationID_def
      annotation_annotate annotate_Some_iff annotation_def)

text \<open>Both identifiers are annotation slots of the context.\<close>

interpretation ip_allocation: annotation_slot cc_GetIPAllocationID cc_SetIPAllocationID
  "\<lambda>cc. om_Annotations (cc_meta cc) \<noteq> None"
  by unfold_locales
     (auto simp: cc_SetIPAllocationID_def cc_GetIPAllocationID_def annotate_def annotation_def split: option.splits)

interpretation cluster_ip: annotation_slot cc_GetIP cc_SetIP
  "\<lambda>cc. om_Annotations (cc_meta cc) \<noteq> None"
  by unfold_locales
     (auto simp: cc_SetIP_def cc_GetIP_def annotate_def annotation_def split: option.splits)

end
