(* ===== verification/ClusterController.thy ===== *)
theory ClusterController
  imports ClusterContext NetIP
begin

text \<open>
  The BMCCluster reconciler of \<open>controllers/bmccluster_controller.go\<close>.  The cluster owns a
  block of two public addresses; the second one is its address and control plane endpoint.
\<close>

type_synonym cluster_outcome = "(verdict, ClusterContext) outcome"

section \<open>reconcileCreate\<close>

definition ip_block_request :: "ClusterContext \<Rightarrow> IPBlockRequest" where
  "ip_block_request cc = \<lparr>ibr_CIDRBlockSize = ''/31'', ibr_Location = cspec_Location (cc_spec cc),
     ibr_Description = Sprintf ''CAPI cluster for BMC %s/%s''
       [FStr (om_Namespace (cc_meta cc)), FStr (om_Name (cc_meta cc))]\<rparr>"

text \<open>The address after the one a slice holds, in its last byte only.\<close>

definition next_address :: "ip \<Rightarrow> ip" where
  "next_address a = a[15 := a ! 15 + 1]"

text \<open>
  What follows a readable answer.  The allocation id is stored before the address is computed, so a
  panic in between leaves an object with an allocation id and no address.
\<close>

definition cluster_allocated :: "BMCClusterStatus \<Rightarrow> ClusterContext \<Rightarrow> cluster_outcome" where
  "cluster_allocated ips cc =
     (let cc1 = cc_SetStatus ips
        (cc_Eventf EventTypeNormal EventReasonCreated ''Created BMC IP-Block %s'' [FStr (cstat_ID ips)] cc) in
      case cc_SetIPAllocationID (cstat_ID ips) cc1 of
        None \<Rightarrow> Panics NilMapWrite cc1
      | Some cc2 \<Rightarrow>
         (case ParseIP (TrimSuffix (cstat_CIDR ips) ''/31'') of
            None \<Rightarrow> Panics (IndexOutOfRange 15 0) cc2
          | Some a \<Rightarrow>
             let addr = IP_String (next_address a) in
             (case cc_SetIP addr cc2 of
                None \<Rightarrow> Panics NilMapWrite cc2
              | Some cc3 \<Rightarrow> Returns (noRequeue, None) (cc_SetReady (cc_SetControlPlaneEndpoint addr 6443 cc3)))))"

definition cluster_create_accepted :: "env \<Rightarrow> string \<Rightarrow> ClusterContext \<Rightarrow> cluster_outcome" where
  "cluster_create_accepted E body cc = (case unmarshal_cluster_status body of
     Inl j \<Rightarrow> Returns (noRequeue, Some (JsonErr j))
       (cc_Event EventTypeWarning EventReasonCreateError (ErrorText E (JsonErr j)) cc)
   | Inr ips \<Rightarrow> cluster_allocated ips cc)"

definition cluster_create_irreconcilable :: "int \<Rightarrow> ClusterContext \<Rightarrow> ClusterContext" where
  "cluster_create_irreconcilable c cc = (if cc_IsStatusEqual cc StatusIrreconcilable then cc
     else cc_SetBMCStatus StatusIrreconcilable
       (cc_Eventf EventTypeWarning EventReasonCreateErrorPermanent ''Code: %v'' [FInt c] cc))"

definition cluster_create_response :: "env \<Rightarrow> int \<Rightarrow> string \<Rightarrow> ClusterContext \<Rightarrow> cluster_outcome" where
  "cluster_create_response E c body cc =
     (if c = 400 \<or> c = 401 \<or> c = 403 then Returns (noRequeue, None) (cluster_create_irreconcilable c cc)
      else if c = 500 then Returns (noRequeue, None)
        (cc_Eventf EventTypeWarning EventReasonCreateFailure ''Code: %v'' [FInt c] cc)
      else if http_ok c then cluster_create_accepted E body cc
      else Returns (noRequeue, Some (Errorf (Sprintf ''Unexpected response during server create: %v'' [FInt c])))
        (cc_Eventf EventTypeWarning EventReasonCreateError ''Unexpected response from the API: %s'' [FInt c] cc))"

definition ip_blocks_url :: "env \<Rightarrow> string" where
  "ip_blocks_url E = Sprintf ''%s/ips/v1/ip-blocks'' [FStr (BMCEndpointURL E)]"

definition allocate_http :: "env \<Rightarrow> ClusterContext \<Rightarrow> http_request" where
  "allocate_http E cc = http_Post (ip_blocks_url E) ''application/json''
     (json_text (json_IPBlockRequest (ip_block_request cc)))"

definition cluster_reconcileCreate :: "env \<Rightarrow> ClusterContext \<Rightarrow> cluster_outcome" where
  "cluster_reconcileCreate E cc =
     (case http_send E (allocate_http E cc) of
       (out, es) \<Rightarrow>
         let cc1 = clog_effects es cc in
         (case out of
            DoError e \<Rightarrow> Returns (noRequeue, Some e) (cc_Event EventTypeWarning EventReasonCreateError (ErrorText E e) cc1)
          | ReadError c e \<Rightarrow> Returns (noRequeue, Some e) (cc_Event EventTypeWarning EventReasonCreateError (ErrorText E e) cc1)
          | Response c body \<Rightarrow> cluster_create_response E c body cc1))"

section \<open>reconcileSynchronize\<close>

definition cluster_stale :: "ClusterContext \<Rightarrow> ClusterContext" where
  "cluster_stale cc = (if cc_IsStatusEqual cc StatusStale then cc
     else cc_SetBMCStatus StatusStale
       (cc_Eventf EventTypeNormal EventReasonStatusChange ''%v -> %v'' [FStr (cc_GetBMCStatus cc), FStr StatusStale] cc))"

definition cluster_irreconcilable :: "int \<Rightarrow> ClusterContext \<Rightarrow> ClusterContext" where
  "cluster_irreconcilable c cc = (if cc_IsStatusEqual cc StatusIrreconcilable then cc
     else cc_SetBMCStatus StatusIrreconcilable
       (cc_Eventf EventTypeWarning EventReasonPollFailure ''Code: %v'' [FInt c] cc))"

text \<open>A denied resource and a service failure give the same event, with different statuses.\<close>

definition cluster_denied :: "string \<Rightarrow> int \<Rightarrow> ClusterContext \<Rightarrow> ClusterContext" where
  "cluster_denied s c cc = (if cc_IsStatusEqual cc s then cc
     else cc_SetBMCStatus s
       (cc_Eventf EventTypeWarning EventReasonResourceOrphaned ''Access to BMC resource was denied: %v'' [FInt c] cc))"

definition cluster_unreadable :: "env \<Rightarrow> json_error \<Rightarrow> ClusterContext \<Rightarrow> ClusterContext" where
  "cluster_unreadable E j cc = (if cc_IsStatusEqual cc StatusStale then cc
     else cc_SetBMCStatus StatusStale
       (cc_Eventf EventTypeWarning EventReasonPollFailure ''error: %v'' [FStr (ErrorText E (JsonErr j))] cc))"

definition cluster_status_delta :: "BMCClusterStatus \<Rightarrow> ClusterContext \<Rightarrow> ClusterContext" where
  "cluster_status_delta ss cc = (if cc_IsStatusEqual cc (cstat_BMCStatus ss) then cc
     else cc_SetStatus ss
       (cc_Eventf EventTypeNormal EventReasonStatusChange ''%v -> %v''
         [FStr (cc_GetBMCStatus cc), FStr (cstat_BMCStatus ss)] cc))"

text \<open>The block is in use without a VIP manager, or free with kube-vip: the cluster is ready.\<close>

definition ready_assigned :: "ClusterContext \<Rightarrow> ClusterContext" where
  "ready_assigned cc = (if cc_IsStatusEqual cc StatusAssigned \<and> cspec_VIPManager (cc_spec cc) = NONE
     \<and> \<not> cc_IsReady cc then cc_SetReady cc else cc)"

definition ready_unassigned :: "ClusterContext \<Rightarrow> ClusterContext" where
  "ready_unassigned cc = (if cc_IsStatusEqual cc StatusNotAssigned \<and> cspec_VIPManager (cc_spec cc) = KUBEVIP
     \<and> \<not> cc_IsReady cc then cc_SetReady cc else cc)"

definition cluster_poll_accepted :: "env \<Rightarrow> string \<Rightarrow> ClusterContext \<Rightarrow> verdict \<times> ClusterContext" where
  "cluster_poll_accepted E body cc = (case unmarshal_cluster_status body of
     Inl j \<Rightarrow> ((requeueAfter2Min, Some (JsonErr j)), cluster_unreadable E j cc)
   | Inr ss \<Rightarrow> ((requeueAfter5Min, None), ready_unassigned (ready_assigned (cluster_status_delta ss cc))))"

definition cluster_poll_response :: "env \<Rightarrow> int \<Rightarrow> string \<Rightarrow> ClusterContext \<Rightarrow> verdict \<times> ClusterContext" where
  "cluster_poll_response E c body cc =
     (if c = 400 then ((requeueAfter5Min, None), cluster_irreconcilable c cc)
      else if c = 401 then ((requeueAfter5Min, None), cluster_irreconcilable c cc)
      else if c = 403 then ((noRequeue, None), cluster_denied StatusOrphaned c cc)
      else if c = 500 then ((requeueAfter5Min, None), cluster_denied StatusStale c cc)
      else if http_ok c then cluster_poll_accepted E body cc
      else ((noRequeue, Some (Errorf (Sprintf ''Unexpected response during server poll: %v'' [FInt c]))),
        cc_Eventf EventTypeWarning EventReasonPollFailure ''Unexpected response from API: %v'' [FInt c] cc))"

definition ip_block_url :: "env \<Rightarrow> string \<Rightarrow> string" where
  "ip_block_url E i = Sprintf ''%s/ips/v1/ip-blocks/%s'' [FStr (BMCEndpointURL E), FStr i]"

text \<open>A poll never panics: the result is a verdict and a context.\<close>

definition cluster_reconcileSynchronize :: "env \<Rightarrow> ClusterContext \<Rightarrow> verdict \<times> ClusterContext" where
  "cluster_reconcileSynchronize E cc =
     (case http_send E (http_Get (ip_block_url E (cc_GetIPAllocationID cc))) of
       (out, es) \<Rightarrow>
         let cc1 = clog_effects es cc in
         (case out of
            DoError e \<Rightarrow> ((requeueAfter2Min, Some e), cluster_stale cc1)
          | ReadError c e \<Rightarrow> ((requeueAfter2Min, Some e), cluster_stale cc1)
          | Response c body \<Rightarrow> cluster_poll_response E c body cc1))"

section \<open>reconcileDelete\<close>

definition cluster_deleted :: "env \<Rightarrow> ClusterContext \<Rightarrow> ClusterContext" where
  "cluster_deleted E cc = cc_RemoveFini E (cc_Eventf EventTypeNormal ''ClusterDeleted'' ''Deleted cluster %s/%s''
     [FStr (om_Namespace (cc_meta cc)), FStr (om_Name (cc_meta cc))] cc)"

text \<open>
  The body of the response is closed whether or not there is a response: a failed call, like a URL
  that does not parse, is a nil dereference.  The status code is not looked at.
\<close>

definition cluster_reconcileDelete :: "env \<Rightarrow> ClusterContext \<Rightarrow> cluster_outcome" where
  "cluster_reconcileDelete E cc =
     (if cc_IsStatusEqual cc ''unassigned'' then
        (case http_send E (http_Delete (ip_block_url E (cc_GetIPAllocationID cc))) of
          (out, es) \<Rightarrow>
            let cc1 = clog_effects es cc in
            (case out of
               DoError e \<Rightarrow> Panics NilPointer cc1
             | ReadError c e \<Rightarrow> Returns (noRequeue, None) (cluster_deleted E cc1)
             | Response c body \<Rightarrow> Returns (noRequeue, None) (cluster_deleted E cc1)))
      else Returns (noRequeue, None) (cluster_deleted E cc))"

section \<open>reconcileLive and Reconcile\<close>

definition cluster_reconcileLive :: "env \<Rightarrow> ClusterContext \<Rightarrow> cluster_outcome" where
  "cluster_reconcileLive E cc =
     (let cc0 = (if cc_HasFini E cc then cc else cc_AddFini E cc) in
      if length (cc_GetIP cc0) = 0 then cluster_reconcileCreate E cc0
      else case cluster_reconcileSynchronize E cc0 of (v, cc1) \<Rightarrow> Returns v cc1)"

definition cluster_context :: "BMCCluster \<Rightarrow> Cluster \<Rightarrow> ClusterContext" where
  "cluster_context bc cl = \<lparr>cc_Cluster = cl, cc_BMCCluster = bc, cc_log = []\<rparr>"

definition cluster_dispatch :: "env \<Rightarrow> ClusterContext \<Rightarrow> cluster_outcome" where
  "cluster_dispatch E cc =
     (if cluster_IsMarkedDeleted (Some (cc_BMCCluster cc)) then cluster_reconcileDelete E cc
      else cluster_reconcileLive E cc)"

text \<open>Only the BMCCluster is patched; the change to the Cluster object is not sent.\<close>

primrec cluster_finish :: "cluster_outcome \<Rightarrow> (verdict, effect list) outcome" where
  "cluster_finish (Returns v cc) = Returns v (cc_log cc @ [PatchCluster (cc_BMCCluster cc)])"
| "cluster_finish (Panics p cc) = Panics p (cc_log cc @ [PatchCluster (cc_BMCCluster cc)])"

definition cluster_Reconcile :: "env \<Rightarrow> nsname \<Rightarrow> (verdict, effect list) outcome" where
  "cluster_Reconcile E req = (case GetBMCCluster E req of
     Inl e \<Rightarrow> Returns (noRequeue, IgnoreNotFound E e) []
   | Inr bc \<Rightarrow> (case GetOwnerCluster E (bc_Meta bc) of
       Inl e \<Rightarrow> Returns (noRequeue, Some e) []
     | Inr None \<Rightarrow> Returns (noRequeue, None) []
     | Inr (Some cl) \<Rightarrow>
        if IsPaused E cl bc then Returns (noRequeue, None) []
        else cluster_finish (cluster_dispatch E (cluster_context bc cl))))"

lemmas cluster_mark_defs [go_defs] = cluster_create_irreconcilable_def cluster_stale_def
  cluster_irreconcilable_def cluster_denied_def cluster_unreadable_def cluster_status_delta_def

end
