(* ===== verification/Examples.thy ===== *)
theory Examples
  imports MachineController ClusterController
begin

text \<open>
  Concrete objects, contexts and response bodies, at which the properties are instantiated.
\<close>

section \<open>Objects\<close>

definition example_meta :: ObjectMeta where
  "example_meta = \<lparr>om_Namespace = ''ns'', om_Name = ''m'', om_Annotations = Some Map.empty,
     om_Finalizers = [], om_DeletionTimestamp = None\<rparr>"

definition example_spec :: BMCMachineSpec where
  "example_spec = \<lparr>mspec_ProviderID = None, mspec_Description = [], mspec_OS = ''ubuntu/jammy'',
     mspec_Type = ''s1.c1.small'', mspec_Location = ''PHX'', mspec_InstallDefaultSSHKeys = Some True,
     mspec_SSHKeyIDs = [], mspec_NetworkType = []\<rparr>"

definition example_machine :: BMCMachine where
  "example_machine = \<lparr>bm_Meta = example_meta, bm_Spec = example_spec, bm_Status = zero_machine_status\<rparr>"

definition example_owner :: Machine where
  "example_owner = \<lparr>mach_Namespace = ''ns'', mach_Name = ''m.1'', mach_DataSecretName = Some ''secret'',
     mach_InfrastructureRefName = ''m''\<rparr>"

definition example_cluster :: Cluster where
  "example_cluster = \<lparr>cl_Namespace = ''ns'', cl_Name = ''c'', cl_InfrastructureReady = True,
     cl_InfrastructureRef = Some ''c'', cl_ControlPlaneEndpoint = \<lparr>ep_Host = [], ep_Port = 0\<rparr>,
     cl_Paused = False, cl_AnnotatedPaused = False\<rparr>"

definition example_bmccluster :: BMCCluster where
  "example_bmccluster = \<lparr>bc_Meta = example_meta\<lparr>om_Name := ''c''\<rparr>,
     bc_Spec = \<lparr>cspec_Location = ''PHX'', cspec_ControlPlaneEndpoint = \<lparr>ep_Host = [], ep_Port = 0\<rparr>,
       cspec_VIPManager = KUBEVIP\<rparr>, bc_Status = zero_cluster_status\<rparr>"

definition example_mc :: MachineContext where
  "example_mc = \<lparr>mc_Cluster = Some example_cluster, mc_Machine = example_owner,
     mc_BMCCluster = Some example_bmccluster, mc_BMCMachine = example_machine, mc_log = []\<rparr>"

text \<open>The JSON body of a server with an id and a status, and what the decoder makes of it.\<close>

definition server_body :: "string \<Rightarrow> string \<Rightarrow> string" where
  "server_body i s = json_text (JObj [(''id'', JStr i), (''status'', JStr s)])"

definition server_status :: "string \<Rightarrow> string \<Rightarrow> BMCMachineStatus" where
  "server_status i s = zero_machine_status\<lparr>mstat_BMCServerID := i, mstat_BMCStatus := s\<rparr>"

lemma unmarshal_server_body:
  assumes "utf8_ok i" and "utf8_ok s"
  shows "unmarshal_machine_status fd (server_body i s) = Inr (server_status i s)"
proof -
  have "printable (JObj [(''id'', JStr i), (''status'', JStr s)])"
    using assms by (simp add: printable_def max_depth_def utf8_ok_ascii)
  then have "json_parse (server_body i s) = Some (JObj [(''id'', JStr i), (''status'', JStr s)])"
    unfolding server_body_def by (rule json.dec_enc)
  then show ?thesis
    by (simp add: unmarshal_machine_status_def Unmarshal_def decode_struct_def find_field_def
        machine_status_fields_def dec_string_def server_status_def)
qed

text \<open>The same for an address block.\<close>

definition block_body :: "string \<Rightarrow> string \<Rightarrow> string \<Rightarrow> string" where
  "block_body i n s = json_text (JObj [(''id'', JStr i), (''cidr'', JStr n), (''status'', JStr s)])"

definition block_status :: "string \<Rightarrow> string \<Rightarrow> string \<Rightarrow> BMCClusterStatus" where
  "block_status i n s = zero_cluster_status\<lparr>cstat_ID := i, cstat_CIDR := n, cstat_BMCStatus := s\<rparr>"

lemma unmarshal_block_body:
  assumes "utf8_ok i" and "utf8_ok n" and "utf8_ok s"
  shows "unmarshal_cluster_status (block_body i n s) = Inr (block_status i n s)"
proof -
  let ?v = "JObj [(''id'', JStr i), (''cidr'', JStr n), (''status'', JStr s)]"
  have "printable ?v"
    using assms by (simp add: printable_def max_depth_def utf8_ok_ascii)
  then have "json_parse (block_body i n s) = Some ?v"
    unfolding block_body_def by (rule json.dec_enc)
  then show ?thesis
    by (simp add: unmarshal_cluster_status_def Unmarshal_def decode_struct_def find_field_def
        cluster_status_fields_def dec_string_def block_status_def)
qed

definition example_cc :: ClusterContext where
  "example_cc = \<lparr>cc_Cluster = example_cluster, cc_BMCCluster = example_bmccluster, cc_log = []\<rparr>"

end
