(* ===== verification/MachineFacts.thy ===== *)
theory MachineFacts
  imports MachineController
begin

text \<open>
  What each step of the machine reconciler leaves alone and what it may change: frame facts for the
  object's parts, growth of the effect log, and the requests that can be in it.  The properties of
  the controller are proved from these.
\<close>

named_theorems machine_frame \<open>parts of the machine that an operation leaves alone\<close>

section \<open>Marking the machine after a failed call\<close>

lemma poll_frame [machine_frame]:
  "mc_meta (poll_stale mc) = mc_meta mc" "mc_spec (poll_stale mc) = mc_spec mc"
  "mc_meta (poll_irreconcilable E c mc) = mc_meta mc" "mc_spec (poll_irreconcilable E c mc) = mc_spec mc"
  "mc_meta (poll_orphaned c mc) = mc_meta mc" "mc_spec (poll_orphaned c mc) = mc_spec mc"
  "mc_meta (poll_unavailable c mc) = mc_meta mc" "mc_spec (poll_unavailable c mc) = mc_spec mc"
  "mc_meta (poll_unreadable E j mc) = mc_meta mc" "mc_spec (poll_unreadable E j mc) = mc_spec mc"
  "mc_meta (create_irreconcilable E c mc) = mc_meta mc" "mc_spec (create_irreconcilable E c mc) = mc_spec mc"
  "mc_meta (status_delta E ss mc) = mc_meta mc" "mc_spec (status_delta E ss mc) = mc_spec mc"
  by (simp_all add: go_defs status_delta_def Let_def)

lemma poll_refs [machine_frame]:
  "mc_Machine (poll_stale mc) = mc_Machine mc" "mc_Cluster (poll_stale mc) = mc_Cluster mc"
  "mc_Machine (poll_irreconcilable E c mc) = mc_Machine mc" "mc_Cluster (poll_irreconcilable E c mc) = mc_Cluster mc"
  "mc_Machine (poll_orphaned c mc) = mc_Machine mc" "mc_Cluster (poll_orphaned c mc) = mc_Cluster mc"
  "mc_Machine (poll_unavailable c mc) = mc_Machine mc" "mc_Cluster (poll_unavailable c mc) = mc_Cluster mc"
  "mc_Machine (poll_unreadable E j mc) = mc_Machine mc" "mc_Cluster (poll_unreadable E j mc) = mc_Cluster mc"
  "mc_Machine (status_delta E ss mc) = mc_Machine mc" "mc_Cluster (status_delta E ss mc) = mc_Cluster mc"
  by (simp_all add: go_defs status_delta_def Let_def)

text \<open>Readiness and a recorded failure are kept by every mark and by a status change.\<close>

lemma poll_ready [machine_frame]:
  "mstat_Ready (mc_status (poll_stale mc)) = mstat_Ready (mc_status mc)"
  "mstat_Ready (mc_status (poll_irreconcilable E c mc)) = mstat_Ready (mc_status mc)"
  "mstat_Ready (mc_status (poll_orphaned c mc)) = mstat_Ready (mc_status mc)"
  "mstat_Ready (mc_status (poll_unavailable c mc)) = mstat_Ready (mc_status mc)"
  "mstat_Ready (mc_status (poll_unreadable E j mc)) = mstat_Ready (mc_status mc)"
  by (simp_all add: go_defs)

lemma status_delta_ready:
  "mstat_Ready (mc_status (status_delta E ss mc)) \<longleftrightarrow> mstat_Ready (mc_status mc)
     \<or> (\<not> mc_IsStatusEqual mc (mstat_BMCStatus ss) \<and> mstat_BMCStatus ss = StatusPoweredOn)"
  by (auto simp: status_delta_def go_defs Let_def merge_status_def)

definition has_failure :: "MachineContext \<Rightarrow> bool" where
  "has_failure mc \<longleftrightarrow> mstat_FailureReason (mc_status mc) \<noteq> None"

lemma poll_failure_kept [machine_frame]:
  "has_failure mc \<Longrightarrow> has_failure (poll_stale mc)"
  "has_failure mc \<Longrightarrow> has_failure (poll_irreconcilable E c mc)"
  "has_failure mc \<Longrightarrow> has_failure (poll_orphaned c mc)"
  "has_failure mc \<Longrightarrow> has_failure (poll_unavailable c mc)"
  "has_failure mc \<Longrightarrow> has_failure (poll_unreadable E j mc)"
  "has_failure mc \<Longrightarrow> has_failure (status_delta E ss mc)"
  by (auto simp: has_failure_def go_defs status_delta_def Let_def merge_status_def)

section \<open>The log\<close>

text \<open>A log extension by events and node patches only.\<close>

definition quiet :: "MachineContext \<Rightarrow> MachineContext \<Rightarrow> bool" where
  "quiet mc mc' \<longleftrightarrow> (\<exists>es. mc_log mc' = mc_log mc @ es \<and> list_all is_note es)"

lemma quiet_refl [simp]: "quiet mc mc"
  by (simp add: quiet_def)

lemma quiet_trans: "quiet a b \<Longrightarrow> quiet b c \<Longrightarrow> quiet a c"
  by (fastforce simp: quiet_def)

lemma quiet_events:
  "quiet mc (poll_stale mc)" "quiet mc (poll_irreconcilable E c mc)" "quiet mc (poll_orphaned c mc)"
  "quiet mc (poll_unavailable c mc)" "quiet mc (poll_unreadable E j mc)"
  "quiet mc (create_irreconcilable E c mc)" "quiet mc (status_delta E ss mc)"
  "quiet mc (mc_Event t r m mc)" "quiet mc (mc_Eventf t r m args mc)"
  by (auto simp: quiet_def go_defs status_delta_def Let_def)

lemma quiet_SetNodeRef: "quiet mc (outcome_state (mc_SetNodeRef E mc))"
  using SetNodeRef_log [of E mc] by (simp add: quiet_def)

lemma quiet_same_log: "mc_log mc' = mc_log mc \<Longrightarrow> quiet mc mc'"
  by (simp add: quiet_def)

lemma quiet_http: "quiet mc mc' \<Longrightarrow> filter is_http (mc_log mc') = filter is_http (mc_log mc)"
  by (auto simp: quiet_def list_all_iff filter_empty_conv) (blast dest: note_no_http)

section \<open>reconcileSynchronize\<close>

lemma poll_status_frame [machine_frame]:
  "mc_meta (outcome_state (poll_status E ss mc)) = mc_meta mc"
  "mc_spec (outcome_state (poll_status E ss mc)) = mc_spec mc"
  using outcome_SetNodeRef(1,2) [of E "status_delta E ss mc"]
  by (cases "mc_SetNodeRef E (status_delta E ss mc)";
      auto simp: poll_status_def Let_def machine_frame mc_SetReady_def mc_MergeBMCStatusProperties_def)+

lemma quiet_poll_status: "quiet mc (outcome_state (poll_status E ss mc))"
proof -
  have d: "quiet mc (status_delta E ss mc)" by (rule quiet_events)
  have "quiet mc (outcome_state (mc_SetNodeRef E (status_delta E ss mc)))"
    using d quiet_SetNodeRef by (rule quiet_trans)
  then show ?thesis
    using d by (cases "mc_SetNodeRef E (status_delta E ss mc)")
      (auto simp: poll_status_def Let_def quiet_def mc_SetReady_def mc_MergeBMCStatusProperties_def)
qed

lemma poll_response_frame [machine_frame]:
  "mc_meta (outcome_state (poll_response E c body mc)) = mc_meta mc"
  "mc_spec (outcome_state (poll_response E c body mc)) = mc_spec mc"
  by (auto simp: poll_response_def poll_accepted_def machine_frame mc_Eventf_def split: sum.split)

lemma quiet_poll_response: "quiet mc (outcome_state (poll_response E c body mc))"
  by (auto simp: poll_response_def poll_accepted_def quiet_events quiet_poll_status split: sum.split)

text \<open>The poll: one request for the server of the annotation, unless the URL does not parse.\<close>

lemma sync_frame [machine_frame]:
  "mc_meta (outcome_state (machine_reconcileSynchronize E mc)) = mc_meta mc"
  "mc_spec (outcome_state (machine_reconcileSynchronize E mc)) = mc_spec mc"
  by (auto simp: machine_reconcileSynchronize_def Let_def machine_frame split: prod.split http_outcome.split)

section \<open>reconcileCreate\<close>

lemma create_accepted_meta:
  "om_Finalizers (mc_meta (outcome_state (create_accepted E body mc))) = om_Finalizers (mc_meta mc)"
  "om_DeletionTimestamp (mc_meta (outcome_state (create_accepted E body mc))) = om_DeletionTimestamp (mc_meta mc)"
  by (auto simp: create_accepted_def mc_SetMachineID_cases go_defs split: sum.split option.split)

lemma quiet_create_response: "quiet mc (outcome_state (create_response E c body mc))"
proof -
  have "quiet mc (outcome_state (create_accepted E body mc))"
    by (auto simp: create_accepted_def mc_SetMachineID_cases quiet_def go_defs split: sum.split option.split)
  then show ?thesis
    by (auto simp: create_response_def quiet_events)
qed

text \<open>The request a create sends, and when it is sent.\<close>

definition create_http :: "env \<Rightarrow> BMCCreateServerRequest \<Rightarrow> http_request" where
  "create_http E r = http_Post (servers_url E) ''application/json'' (json_text (json_CreateServerRequest r))"

text \<open>The request of the create flow, or the reason why none is made.\<close>

definition planned_request :: "env \<Rightarrow> MachineContext \<Rightarrow> string \<Rightarrow> BMCCreateServerRequest option" where
  "planned_request E mc bootstrap =
     (let r = create_request mc bootstrap in
      if \<not> mc_IsControlPlaneMachine E mc then Some r
      else case mc_BMCCluster mc of None \<Rightarrow> None
      | Some bc \<Rightarrow>
         if cspec_VIPManager (bc_Spec bc) \<noteq> NONE then Some r
         else let ipid = annotation (bc_Meta bc) ANNOTATION_NAME_BMC_CLUSTER_IP_ALLOCATION_ID in
           if ipid = [] then None
           else Some (r\<lparr>csr_NetworkConfiguration := user_defined_network ipid\<rparr>))"

lemma machine_reconcileCreate_planned:
  "mc_GetDataSecretValue E mc = Some (Inr b) \<Longrightarrow> planned_request E mc b = Some r
   \<Longrightarrow> machine_reconcileCreate E mc = post_server E r mc"
  by (auto simp: machine_reconcileCreate_def planned_request_def mc_GetClusterIPAllocationID_def Let_def
      split: option.splits if_splits)

text \<open>A create either plans a request and posts it, or leaves the context as it is.\<close>

lemma machine_reconcileCreate_cases:
  "(\<exists>b r. mc_GetDataSecretValue E mc = Some (Inr b) \<and> planned_request E mc b = Some r
      \<and> machine_reconcileCreate E mc = post_server E r mc)
   \<or> outcome_state (machine_reconcileCreate E mc) = mc"
  by (auto simp: machine_reconcileCreate_def planned_request_def mc_GetClusterIPAllocationID_def Let_def
      split: option.splits sum.splits if_splits)

section \<open>The identifiers fit together\<close>

text \<open>An object with a server id has the provider id made from it.\<close>

definition machine_linked :: "BMCMachine \<Rightarrow> bool" where
  "machine_linked bm \<longleftrightarrow> (let i = annotation (bm_Meta bm) ANNOTATION_NAME_BMC_SERVER_ID in
     i = [] \<or> mspec_ProviderID (bm_Spec bm) = Some (provider_id i))"

abbreviation mc_linked :: "MachineContext \<Rightarrow> bool" where
  "mc_linked mc \<equiv> machine_linked (mc_BMCMachine mc)"

lemma mc_linked_iff:
  "mc_linked mc \<longleftrightarrow> mc_GetMachineID mc = [] \<or> mspec_ProviderID (mc_spec mc) = Some (provider_id (mc_GetMachineID mc))"
  by (simp add: machine_linked_def mc_GetMachineID_def Let_def)

lemma mc_linked_frame:
  assumes "mc_linked mc" and "om_Annotations (mc_meta mc') = om_Annotations (mc_meta mc)" and "mc_spec mc' = mc_spec mc"
  shows "mc_linked mc'"
  using assms by (simp add: mc_linked_iff mc_GetMachineID_def annotation_def)

lemma mc_linked_log [simp]: "mc_linked (log_effects es mc) = mc_linked mc"
  by (simp add: log_effects_def)

lemma linked_create_accepted: "mc_linked mc \<Longrightarrow> mc_linked (outcome_state (create_accepted E body mc))"
  by (auto simp: create_accepted_def mc_SetMachineID_cases machine_linked_def annotation_def mc_Event_def
      mc_Eventf_def mc_SetStatus_def Let_def split: sum.split option.splits)

lemma linked_create_response: "mc_linked mc \<Longrightarrow> mc_linked (outcome_state (create_response E c body mc))"
  using linked_create_accepted [of mc E body] mc_linked_frame [of mc "create_irreconcilable E d mc" for d]
  by (auto simp: create_response_def machine_frame mc_Event_def mc_Eventf_def)

lemma linked_post_server: "mc_linked mc \<Longrightarrow> mc_linked (outcome_state (post_server E r mc))"
  by (simp add: post_server_def Let_def mc_Event_def linked_create_response split: prod.split http_outcome.split)

lemma mc_linked_create: "mc_linked mc \<Longrightarrow> mc_linked (outcome_state (machine_reconcileCreate E mc))"
  using machine_reconcileCreate_cases [of E mc] linked_post_server [of mc E] by auto

lemma mc_AddFini_simps [simp]:
  "mc_GetMachineID (mc_AddFini E mc) = mc_GetMachineID mc" "mc_log (mc_AddFini E mc) = mc_log mc"
  "mc_spec (mc_AddFini E mc) = mc_spec mc" "mc_status (mc_AddFini E mc) = mc_status mc"
  "mc_Cluster (mc_AddFini E mc) = mc_Cluster mc" "mc_Machine (mc_AddFini E mc) = mc_Machine mc"
  "mc_BMCCluster (mc_AddFini E mc) = mc_BMCCluster mc"
  "om_Annotations (mc_meta (mc_AddFini E mc)) = om_Annotations (mc_meta mc)"
  "om_Namespace (mc_meta (mc_AddFini E mc)) = om_Namespace (mc_meta mc)"
  "om_Name (mc_meta (mc_AddFini E mc)) = om_Name (mc_meta mc)"
  by (simp_all add: mc_AddFini_def mc_GetMachineID_def annotation_def)

lemma mc_linked_sync: "mc_linked mc \<Longrightarrow> mc_linked (outcome_state (machine_reconcileSynchronize E mc))"
  by (erule mc_linked_frame) (simp_all add: sync_frame)

lemma mc_linked_live:
  assumes "mc_linked mc"
  shows "mc_linked (outcome_state (machine_reconcileLive E mc))"
proof -
  let ?mc0 = "if mc_HasFini E mc then mc else mc_AddFini E mc"
  have "mc_linked ?mc0" using assms by (simp add: mc_linked_iff)
  then show ?thesis
    using mc_linked_create [of ?mc0 E] mc_linked_sync [of ?mc0 E]
    by (auto simp: machine_reconcileLive_def Let_def split: option.split)
qed

section \<open>reconcileDelete\<close>

lemma delete_response_frame [machine_frame]:
  "mc_meta (outcome_state (delete_response i c mc)) = mc_meta mc"
  "mc_spec (outcome_state (delete_response i c mc)) = mc_spec mc"
  by (simp_all add: delete_response_def go_defs)

lemma quiet_delete_response: "quiet mc (outcome_state (delete_response i c mc))"
  by (simp add: delete_response_def quiet_def go_defs)

lemma delete_frame:
  "mc_meta (outcome_state (machine_reconcileDelete E mc)) = mc_meta (mc_RemoveFini E mc)"
  "mc_spec (outcome_state (machine_reconcileDelete E mc)) = mc_spec mc"
  by (simp_all add: machine_reconcileDelete_def Let_def machine_frame mc_Event_def mc_RemoveFini_def
      split: prod.split http_outcome.split)

lemma delete_no_panic: "\<not> panicked (machine_reconcileDelete E mc)"
  by (simp add: machine_reconcileDelete_def delete_response_def Let_def split: prod.split http_outcome.split)

lemma mc_RemoveFini_simps [simp]:
  "mc_GetMachineID (mc_RemoveFini E mc) = mc_GetMachineID mc" "mc_log (mc_RemoveFini E mc) = mc_log mc"
  "mc_status (mc_RemoveFini E mc) = mc_status mc" "mc_spec (mc_RemoveFini E mc) = mc_spec mc"
  "om_Annotations (mc_meta (mc_RemoveFini E mc)) = om_Annotations (mc_meta mc)"
  by (simp_all add: mc_RemoveFini_def mc_GetMachineID_def annotation_def)

lemma mc_linked_delete: "mc_linked mc \<Longrightarrow> mc_linked (outcome_state (machine_reconcileDelete E mc))"
  by (erule mc_linked_frame) (simp_all add: delete_frame)

lemma mc_linked_dispatch: "mc_linked mc \<Longrightarrow> mc_linked (outcome_state (machine_dispatch E mc))"
  by (simp add: machine_dispatch_def mc_linked_delete mc_linked_live split: sum.split option.split)

section \<open>The request of a reconciliation\<close>

definition create_plan :: "env \<Rightarrow> MachineContext \<Rightarrow> http_request option" where
  "create_plan E mc = (case mc_GetDataSecretValue E mc of
     Some (Inr b) \<Rightarrow> map_option (create_http E) (planned_request E mc b) | _ \<Rightarrow> None)"

definition live_request :: "env \<Rightarrow> MachineContext \<Rightarrow> http_request option" where
  "live_request E mc =
     (if mc_IsInfrastructureReady mc \<noteq> Some True \<or> \<not> mc_IsDataSecretReady mc then None
      else if mc_GetMachineID mc = [] then create_plan E mc
      else Some (http_Get (server_url E (mc_GetMachineID mc))))"

definition delete_request :: "env \<Rightarrow> MachineContext \<Rightarrow> http_request option" where
  "delete_request E mc = (if \<not> mc_IsStatusEqual mc StatusOrphaned \<and> mc_GetMachineID mc \<noteq> []
     then Some (deprovision_request E (mc_GetMachineID mc)) else None)"

definition sent :: "env \<Rightarrow> http_request option \<Rightarrow> effect list" where
  "sent E r = (case r of None \<Rightarrow> [] | Some r \<Rightarrow> snd (http_send E r))"

lemma sent_http: "filter is_http (sent E r) = sent E r" "length (sent E r) \<le> 1"
  "e \<in> set (sent E r) \<Longrightarrow> \<exists>q. r = Some q \<and> e = Http q"
  by (auto simp: sent_def http_send_def split: option.splits)

text \<open>The context after a run: the log has the request and notes, in this order, and nothing else.\<close>

definition ran :: "env \<Rightarrow> http_request option \<Rightarrow> MachineContext \<Rightarrow> MachineContext \<Rightarrow> bool" where
  "ran E r mc mc' \<longleftrightarrow> quiet (log_effects (sent E r) mc) mc'"

lemma ran_None [simp]: "ran E None mc mc"
  by (simp add: ran_def sent_def quiet_def)

lemma ran_post_server: "ran E (Some (create_http E r)) mc (outcome_state (post_server E r mc))"
  by (auto simp: ran_def sent_def post_server_def create_http_def Let_def quiet_create_response quiet_events
      split: prod.split http_outcome.split)

lemma ran_create: "ran E (create_plan E mc) mc (outcome_state (machine_reconcileCreate E mc))"
proof (cases "\<exists>b r. mc_GetDataSecretValue E mc = Some (Inr b) \<and> planned_request E mc b = Some r")
  case True
  then show ?thesis
    by (auto simp: create_plan_def machine_reconcileCreate_planned ran_post_server)
next
  case False
  then have "create_plan E mc = None"
    by (auto simp: create_plan_def split: option.split sum.split)
  with False machine_reconcileCreate_cases [of E mc] show ?thesis by auto
qed

lemma ran_sync: "ran E (Some (http_Get (server_url E (mc_GetMachineID mc)))) mc
    (outcome_state (machine_reconcileSynchronize E mc))"
  by (simp add: ran_def sent_def machine_reconcileSynchronize_def Let_def quiet_poll_response quiet_events
      split: prod.split http_outcome.split)

lemma ran_delete: "ran E (delete_request E mc) mc (outcome_state (machine_reconcileDelete E mc))"
proof -
  have "quiet (log_effects es mc) mc' \<longleftrightarrow> quiet (log_effects es (mc_RemoveFini E mc)) mc'" for es mc'
    by (simp add: quiet_def)
  then show ?thesis
    by (auto simp: ran_def sent_def machine_reconcileDelete_def delete_request_def mc_IsStatusEqual_def Let_def
        quiet_delete_response quiet_events quiet_same_log split: prod.split http_outcome.split)
qed

lemma planned_request_AddFini [simp]: "planned_request E (mc_AddFini E mc) b = planned_request E mc b"
  by (cases "mc_BMCCluster mc")
     (simp_all add: planned_request_def create_request_def mc_IsControlPlaneMachine_def mc_GetHostname_def Let_def)

lemma mc_GetDataSecretValue_AddFini [simp]: "mc_GetDataSecretValue E (mc_AddFini E mc) = mc_GetDataSecretValue E mc"
  by (simp add: mc_GetDataSecretValue_def Let_def split: option.split sum.split)

lemma create_plan_AddFini [simp]: "create_plan E (mc_AddFini E mc) = create_plan E mc"
  by (simp add: create_plan_def split: option.split sum.split)

lemma ready_AddFini [simp]:
  "mc_IsInfrastructureReady (mc_AddFini E mc) = mc_IsInfrastructureReady mc"
  "mc_IsDataSecretReady (mc_AddFini E mc) = mc_IsDataSecretReady mc"
  by (simp_all add: mc_IsInfrastructureReady_def mc_IsDataSecretReady_def)

lemma live_request_AddFini: "live_request E (mc_AddFini E mc) = live_request E mc"
  by (simp add: live_request_def)

text \<open>The context after the finalizer has been seen to, and the rest of \<open>reconcileLive\<close>.\<close>

definition with_finalizer :: "env \<Rightarrow> MachineContext \<Rightarrow> MachineContext" where
  "with_finalizer E mc = (if mc_HasFini E mc then mc else mc_AddFini E mc)"

lemma machine_reconcileLive_unfold:
  "machine_reconcileLive E mc =
     (case mc_IsInfrastructureReady (with_finalizer E mc) of
        None \<Rightarrow> Panics NilPointer (with_finalizer E mc)
      | Some ready \<Rightarrow>
         if \<not> ready then Returns (noRequeue, None) (with_finalizer E mc)
         else if \<not> mc_IsDataSecretReady (with_finalizer E mc) then Returns (noRequeue, None) (with_finalizer E mc)
         else if mc_GetMachineID (with_finalizer E mc) = [] then machine_reconcileCreate E (with_finalizer E mc)
         else machine_reconcileSynchronize E (with_finalizer E mc))"
  by (simp only: machine_reconcileLive_def Let_def with_finalizer_def length_0_conv)

lemma with_finalizer_simps [simp]:
  "mc_GetMachineID (with_finalizer E mc) = mc_GetMachineID mc" "mc_log (with_finalizer E mc) = mc_log mc"
  "mc_spec (with_finalizer E mc) = mc_spec mc" "mc_status (with_finalizer E mc) = mc_status mc"
  "mc_Cluster (with_finalizer E mc) = mc_Cluster mc" "mc_BMCCluster (with_finalizer E mc) = mc_BMCCluster mc"
  "om_Annotations (mc_meta (with_finalizer E mc)) = om_Annotations (mc_meta mc)"
  "live_request E (with_finalizer E mc) = live_request E mc"
  "mc_IsInfrastructureReady (with_finalizer E mc) = mc_IsInfrastructureReady mc"
  "mc_IsDataSecretReady (with_finalizer E mc) = mc_IsDataSecretReady mc"
  by (simp_all add: with_finalizer_def live_request_AddFini)

lemma ran_live: "ran E (live_request E mc) mc (outcome_state (machine_reconcileLive E mc))"
proof -
  have "ran E (live_request E (with_finalizer E mc)) (with_finalizer E mc) (outcome_state (machine_reconcileLive E mc))"
    using ran_create [of E "with_finalizer E mc"] ran_sync [of E "with_finalizer E mc"]
    unfolding live_request_def machine_reconcileLive_unfold by (simp split: option.split)
  then show ?thesis by (simp add: ran_def quiet_def)
qed

section \<open>Reconcile\<close>

text \<open>The context of a live reconciliation, when all objects are found and nothing is paused.\<close>

definition live_context :: "env \<Rightarrow> MachineContext \<Rightarrow> MachineContext option" where
  "live_context E mc =
     (if machine_IsMarkedDeleted (Some (mc_BMCMachine mc)) then None
      else case GetClusterFromMetadata E (mc_Machine mc) of
        Inl e \<Rightarrow> None
      | Inr cl \<Rightarrow> (case cl_InfrastructureRef cl of None \<Rightarrow> None
          | Some n \<Rightarrow>
             (case GetBMCCluster E \<lparr>nn_Namespace = om_Namespace (mc_meta mc), nn_Name = n\<rparr> of
                Inl e \<Rightarrow> None
              | Inr bc \<Rightarrow> if IsPaused E cl bc then None
                  else Some (mc\<lparr>mc_Cluster := Some cl, mc_BMCCluster := Some bc\<rparr>))))"

lemma live_context_frame:
  "live_context E mc = Some mc1 \<Longrightarrow> mc_BMCMachine mc1 = mc_BMCMachine mc \<and> mc_log mc1 = mc_log mc
     \<and> mc_Machine mc1 = mc_Machine mc \<and> mc_Cluster mc1 \<noteq> None \<and> mc_BMCCluster mc1 \<noteq> None"
  by (auto simp: live_context_def split: if_splits sum.splits option.splits)

lemma machine_dispatch_cases:
  obtains (delete) "machine_IsMarkedDeleted (Some (mc_BMCMachine mc))"
      "machine_dispatch E mc = machine_reconcileDelete E mc"
  | (live) mc1 where "\<not> machine_IsMarkedDeleted (Some (mc_BMCMachine mc))" "live_context E mc = Some mc1"
      "machine_dispatch E mc = machine_reconcileLive E mc1"
  | (nothing) "\<not> machine_IsMarkedDeleted (Some (mc_BMCMachine mc))" "live_context E mc = None"
      "outcome_state (machine_dispatch E mc) = mc"
  by (cases "machine_IsMarkedDeleted (Some (mc_BMCMachine mc))"; cases "live_context E mc")
     (auto simp: machine_dispatch_def live_context_def split: sum.splits option.splits if_splits)

definition machine_request :: "env \<Rightarrow> MachineContext \<Rightarrow> http_request option" where
  "machine_request E mc = (if machine_IsMarkedDeleted (Some (mc_BMCMachine mc)) then delete_request E mc
     else Option.bind (live_context E mc) (live_request E))"

lemma ran_dispatch: "ran E (machine_request E mc) mc (outcome_state (machine_dispatch E mc))"
proof (cases rule: machine_dispatch_cases [of mc E])
  case delete
  then show ?thesis by (simp add: machine_request_def ran_delete)
next
  case (live mc1)
  with ran_live [of E mc1] live_context_frame [of E mc mc1] show ?thesis
    by (simp add: machine_request_def ran_def quiet_def)
next
  case nothing
  then show ?thesis by (simp add: machine_request_def)
qed

lemma machine_log_shape:
  assumes "mc_log mc = []"
  shows "filter is_http (mc_log (outcome_state (machine_dispatch E mc))) = sent E (machine_request E mc)"
    and "e \<in> set (mc_log (outcome_state (machine_dispatch E mc))) \<Longrightarrow> is_http e \<or> is_note e"
proof -
  obtain es where l: "mc_log (outcome_state (machine_dispatch E mc)) = sent E (machine_request E mc) @ es"
    and n: "list_all is_note es"
    using ran_dispatch [of E mc] assms by (auto simp: ran_def quiet_def)
  from n have "filter is_http es = []"
    by (auto simp: filter_empty_conv list_all_iff) (blast dest: note_no_http)
  then show "filter is_http (mc_log (outcome_state (machine_dispatch E mc))) = sent E (machine_request E mc)"
    by (simp add: l sent_http)
  show "is_http e \<or> is_note e" if "e \<in> set (mc_log (outcome_state (machine_dispatch E mc)))"
    using that n sent_http(3) [of e E "machine_request E mc"] by (auto simp: l list_all_iff)
qed

lemma machine_finish_state:
  "outcome_state (machine_finish r) = mc_log (outcome_state r) @ [PatchMachine (mc_BMCMachine (outcome_state r))]"
  by (cases r) simp_all

lemma machine_finish_panicked: "panicked (machine_finish r) = panicked r"
  by (cases r) simp_all

lemma machine_Reconcile_run:
  "GetBMCMachine E req = Inr bm \<Longrightarrow> GetOwnerMachine E (bm_Meta bm) = Inr (Some m)
   \<Longrightarrow> machine_Reconcile E req = machine_finish (machine_dispatch E (machine_context bm m))"
  by (simp add: machine_Reconcile_def)

lemma machine_Reconcile_cases:
  "(\<exists>v. machine_Reconcile E req = Returns v [])
   \<or> (\<exists>bm m. GetBMCMachine E req = Inr bm \<and> GetOwnerMachine E (bm_Meta bm) = Inr (Some m)
        \<and> machine_Reconcile E req = machine_finish (machine_dispatch E (machine_context bm m)))"
  by (auto simp: machine_Reconcile_def split: sum.split option.split)

lemma machine_context_simps [simp]:
  "mc_BMCMachine (machine_context bm m) = bm" "mc_log (machine_context bm m) = []"
  "mc_Machine (machine_context bm m) = m" "mc_Cluster (machine_context bm m) = None"
  by (simp_all add: machine_context_def)

lemma machine_patched:
  assumes "PatchMachine bm' \<in> set (outcome_state (machine_finish (machine_dispatch E (machine_context bm m))))"
  shows "bm' = mc_BMCMachine (outcome_state (machine_dispatch E (machine_context bm m)))"
  using assms machine_log_shape(2) [where mc = "machine_context bm m" and e = "PatchMachine bm'" and E = E]
  by (auto simp: machine_finish_state)

section \<open>No panics\<close>

lemma sync_no_panic:
  assumes "mspec_ProviderID (mc_spec mc) \<noteq> None" and "mc_Cluster mc \<noteq> None"
  shows "\<not> panicked (machine_reconcileSynchronize E mc)"
proof -
  have "\<not> panicked (poll_status E ss mc')" if "mspec_ProviderID (mc_spec mc') \<noteq> None" "mc_Cluster mc' \<noteq> None" for ss mc'
    using SetNodeRef_no_panic [of "status_delta E ss mc'" E] that
    by (cases "mc_SetNodeRef E (status_delta E ss mc')") (auto simp: poll_status_def Let_def machine_frame)
  then have "\<not> panicked (poll_response E c body mc')"
    if "mspec_ProviderID (mc_spec mc') \<noteq> None" "mc_Cluster mc' \<noteq> None" for c body mc'
    using that by (simp add: poll_response_def poll_accepted_def split: sum.split)
  then show ?thesis
    using assms by (simp add: machine_reconcileSynchronize_def Let_def split: prod.split http_outcome.split)
qed

lemma create_no_panic:
  assumes "om_Annotations (mc_meta mc) \<noteq> None" and "mc_BMCCluster mc \<noteq> None" and "mc_IsDataSecretReady mc"
  shows "\<not> panicked (machine_reconcileCreate E mc)"
proof -
  have "\<not> panicked (create_response E c body mc')" if "om_Annotations (mc_meta mc') \<noteq> None" for c body mc'
    using that by (auto simp: create_response_def create_accepted_def mc_SetMachineID_cases go_defs
        split: sum.split option.split)
  then have "\<not> panicked (post_server E r mc)" for r
    using assms(1) by (simp add: post_server_def Let_def split: prod.split http_outcome.split)
  then show ?thesis
    using assms(2,3) by (auto simp: machine_reconcileCreate_def mc_GetDataSecretValue_def mc_IsDataSecretReady_def
        mc_GetClusterIPAllocationID_def Let_def split: option.split sum.split)
qed

end
