(* ===== verification/MachineProps.thy ===== *)
theory MachineProps
  imports MachineFacts Examples
begin

text \<open>
  What the machine reconciler guarantees, branch by branch: creation, polling, deletion, and the
  whole of \<open>Reconcile\<close> with its deferred patch.
\<close>

section \<open>Creation\<close>

text \<open>
  C24. When the create request is answered with a success code and a readable server, the machine
  takes the whole reported status, its id is stored in the annotation and in the provider id, and the
  next look is after one minute.
\<close>

theorem create_success:
  assumes "create_response E c body mc = r"
    and "http_ok c" and "unmarshal_machine_status (Decoders E) body = Inr ss"
    and "om_Annotations (mc_meta mc) \<noteq> None"
  shows "\<exists>mc'. r = Returns (requeueAfter1Min, None) mc'
    \<and> mc_GetMachineID mc' = mstat_BMCServerID ss
    \<and> mspec_ProviderID (mc_spec mc') = Some (''bmc://servers/'' @ mstat_BMCServerID ss)
    \<and> mc_status mc' = ss"
  using assms by (auto simp: create_response_def http_ok_def create_accepted_def mc_SetMachineID_cases
      mc_GetMachineID_def annotation_def provider_id_eq go_defs)

theorem create_success_witness:
  "\<exists>mc'. create_response (example_env (\<lambda>_. DoError (LibErr []))) 201 (server_body ''s1'' ''creating'') example_mc
      = Returns (requeueAfter1Min, None) mc'
    \<and> mc_GetMachineID mc' = ''s1''
    \<and> mspec_ProviderID (mc_spec mc') = Some ''bmc://servers/s1''
    \<and> mc_status mc' = server_status ''s1'' ''creating''"
proof -
  have u: "unmarshal_machine_status fd (server_body ''s1'' ''creating'') = Inr (server_status ''s1'' ''creating'')" for fd
    by (rule unmarshal_server_body) (simp_all add: utf8_ok_ascii)
  show ?thesis
    using create_success [OF refl _ u, where c = 201 and mc = example_mc
        and E = "example_env (\<lambda>_. DoError (LibErr []))"]
    by (simp add: http_ok_def example_mc_def example_machine_def example_meta_def server_status_def)
qed

lemma b64_char_ascii: "i < 64 \<Longrightarrow> code (b64_char i) < 128"
  by (auto simp: b64_char_def)

lemma b64_encode_ascii: "list_all (\<lambda>c. code c < 128) (b64_encode s)"
  by (induction s rule: b64_encode.induct) (simp_all add: b64_quad_def b64_char_ascii)

lemma utf8_ok_nil: "utf8_ok []"
  by (rule utf8_ok_ascii) simp

lemma planned_request_ok:
  assumes p: "planned_request E mc b = Some r"
    and a: "machine_spec_admitted (mc_spec mc)" "list_all (\<lambda>c. code c < 128) (mach_Name (mc_Machine mc))"
      "list_all utf8_ok (mspec_Description (mc_spec mc) # mspec_SSHKeyIDs (mc_spec mc))"
      "\<And>bc. mc_BMCCluster mc = Some bc \<Longrightarrow> utf8_ok (annotation (bc_Meta bc) ANNOTATION_NAME_BMC_CLUSTER_IP_ALLOCATION_ID)"
  shows "request_ok r"
proof -
  have host: "utf8_ok (mc_GetHostname mc)"
    using a(2) by (intro utf8_ok_ascii) (auto simp: mc_GetHostname_map list_all_iff)
  have enums: "utf8_ok (mspec_OS (mc_spec mc))" "utf8_ok (mspec_Type (mc_spec mc))"
    "utf8_ok (mspec_Location (mc_spec mc))" "utf8_ok (mspec_NetworkType (mc_spec mc))"
    using admitted_ascii [OF a(1)] by (simp_all add: utf8_ok_ascii)
  have u: "utf8_ok (b64_encode b)" by (rule utf8_ok_ascii) (rule b64_encode_ascii)
  have "utf8_ok ''USER_DEFINED''" by (rule utf8_ok_ascii) simp
  then show ?thesis
    using p a(3,4) host enums u
    by (auto simp: planned_request_def create_request_def request_ok_def no_network_def user_defined_network_def
        utf8_ok_nil Let_def split: if_splits option.splits)
qed

text \<open>The request a creation sends is the planned one.\<close>

lemma create_sends_planned:
  assumes "mc_log mc = []" and "mc_GetDataSecretValue E mc = Some (Inr b)"
    and "Http q \<in> set (mc_log (outcome_state (machine_reconcileCreate E mc)))"
  obtains r where "planned_request E mc b = Some r" and "q = create_http E r"
proof -
  have "ran E (create_plan E mc) mc (outcome_state (machine_reconcileCreate E mc))" by (rule ran_create)
  then obtain es where "mc_log (outcome_state (machine_reconcileCreate E mc)) = sent E (create_plan E mc) @ es"
    and "list_all is_note es"
    using assms(1) by (auto simp: ran_def quiet_def)
  moreover have "\<not> is_note (Http q)" by (simp add: is_note_def)
  ultimately have "Http q \<in> set (sent E (create_plan E mc))"
    using assms(3) by (auto simp: list_all_iff)
  then have "create_plan E mc = Some q" using sent_http(3) [of "Http q"] by auto
  then show thesis
    using assms(2) that by (auto simp: create_plan_def split: option.splits)
qed

text \<open>A member with an empty string or slice is left out when its tag says \<open>omitempty\<close>.\<close>

definition present :: "(string \<times> json) list \<Rightarrow> (string \<times> json) list" where
  "present kvs = filter (\<lambda>(k, v). v \<noteq> JStr [] \<and> v \<noteq> JArr []) kvs"

lemma present_simps [simp]:
  "present [] = []" "present ((k, JStr s) # kvs) = omit_string k s @ present kvs"
  "present ((k, JArr vs) # kvs) = omit_list k vs @ present kvs"
  "present ((k, JObj ms) # kvs) = (k, JObj ms) # present kvs" "present ((k, JBool x) # kvs) = (k, JBool x) # present kvs"
  "present ((k, JNull) # kvs) = (k, JNull) # present kvs"
  by (simp_all add: present_def omit_string_def omit_list_def)

text \<open>
  What the body of a create request should say, with the user data u: the members of the API's server
  object, each with the value of the machine, its owner or its cluster it stands for.
\<close>

definition server_members :: "env \<Rightarrow> MachineContext \<Rightarrow> string \<Rightarrow> (string \<times> json) list" where
  "server_members E mc u = present [
     (''hostname'', JStr (map (\<lambda>c. if c = CHR ''.'' \<or> c = CHR ''/'' then CHR ''-'' else c) (mach_Name (mc_Machine mc)))),
     (''description'', JStr (mspec_Description (mc_spec mc))),
     (''os'', JStr (mspec_OS (mc_spec mc))),
     (''type'', JStr (mspec_Type (mc_spec mc))),
     (''location'', JStr (mspec_Location (mc_spec mc))),
     (''installDefaultSshKeys'', case mspec_InstallDefaultSSHKeys (mc_spec mc) of None \<Rightarrow> JNull | Some x \<Rightarrow> JBool x),
     (''sshKeyIds'', JArr (map JStr (mspec_SSHKeyIDs (mc_spec mc)))),
     (''networkType'', JStr (mspec_NetworkType (mc_spec mc))),
     (''osConfiguration'', JObj [(''cloudInit'', JObj (present [(''userData'', JStr u)]))]),
     (''networkConfiguration'', JObj [(''ipBlocksConfiguration'', JObj (case mc_BMCCluster mc of
         Some bc \<Rightarrow> if mc_IsControlPlaneMachine E mc \<and> cspec_VIPManager (bc_Spec bc) = NONE
           then [(''configurationType'', JStr ''USER_DEFINED''), (''ipBlocks'', JArr [JObj [(''id'',
             JStr (annotation (bc_Meta bc) ANNOTATION_NAME_BMC_CLUSTER_IP_ALLOCATION_ID))]])] else []
       | None \<Rightarrow> []))])]"

lemma planned_members:
  assumes "planned_request E mc b = Some r"
  shows "json_CreateServerRequest r = JObj (server_members E mc (b64_encode b))"
proof -
  have "csr_NetworkConfiguration r = (case mc_BMCCluster mc of
      Some bc \<Rightarrow> if mc_IsControlPlaneMachine E mc \<and> cspec_VIPManager (bc_Spec bc) = NONE
        then user_defined_network (annotation (bc_Meta bc) ANNOTATION_NAME_BMC_CLUSTER_IP_ALLOCATION_ID) else no_network
      | None \<Rightarrow> no_network)"
    and i: "\<And>bc. mc_BMCCluster mc = Some bc \<Longrightarrow> mc_IsControlPlaneMachine E mc \<Longrightarrow> cspec_VIPManager (bc_Spec bc) = NONE
      \<Longrightarrow> annotation (bc_Meta bc) ANNOTATION_NAME_BMC_CLUSTER_IP_ALLOCATION_ID \<noteq> []"
    and "r = create_request mc b\<lparr>csr_NetworkConfiguration := csr_NetworkConfiguration r\<rparr>"
    using assms by (auto simp: planned_request_def create_request_def Let_def split: if_splits option.splits)
  then show ?thesis
    by (auto simp: server_members_def json_CreateServerRequest_def create_request_def json_OSConfiguration_def json_NetworkConfiguration_def
        mc_GetHostname_map no_network_def user_defined_network_def omit_string_def omit_list_def Let_def
        split: option.splits)
qed

text \<open>
  C36. What the service reads in the body of a create request: the host name, which is the name of the
  owner with dots and slashes replaced, the members of the machine's specification under their names,
  user data that decode to exactly the bootstrap data of the secret, whatever bytes these have, and the
  address block of the cluster for a control plane machine of a cluster without VIP manager, and no block
  for any other machine.  Empty members are left out.  The specification is an admitted one, and the
  texts from outside are well-formed UTF-8.
\<close>

theorem create_body_roundtrip:
  assumes "mc_log mc = []" and "mc_GetDataSecretValue E mc = Some (Inr b)"
    and "Http q \<in> set (mc_log (outcome_state (machine_reconcileCreate E mc)))"
    and "machine_spec_admitted (mc_spec mc)" and "list_all (\<lambda>c. code c < 128) (mach_Name (mc_Machine mc))"
    and "list_all utf8_ok (mspec_Description (mc_spec mc) # mspec_SSHKeyIDs (mc_spec mc))"
    and "\<And>bc. mc_BMCCluster mc = Some bc \<Longrightarrow> utf8_ok (annotation (bc_Meta bc) ANNOTATION_NAME_BMC_CLUSTER_IP_ALLOCATION_ID)"
  shows "\<exists>u. b64_decode u = Some b \<and> json_parse (hr_Body q) = Some (JObj (server_members E mc u))"
proof -
  obtain r where r: "planned_request E mc b = Some r" "q = create_http E r"
    using create_sends_planned [OF assms(1-3)] by blast
  have "request_ok r" using r(1) assms(4-7) by (rule planned_request_ok)
  then have "json_parse (hr_Body q) = Some (json_CreateServerRequest r)"
    using r(2) by (simp add: create_http_def json.dec_enc printable_request)
  then show ?thesis
    unfolding planned_members [OF r(1)] by (intro exI [of _ "b64_encode b"]) (simp add: b64_roundtrip)
qed

lemma example_mc_simps:
  "mc_spec example_mc = example_spec" "mc_Machine example_mc = example_owner" "mc_meta example_mc = example_meta"
  "mc_BMCCluster example_mc = Some example_bmccluster" "bc_Meta example_bmccluster = example_meta\<lparr>om_Name := ''c''\<rparr>"
  by (simp_all add: example_mc_def example_machine_def example_bmccluster_def)

theorem create_body_roundtrip_witness:
  "\<exists>(q :: http_request) u. b64_decode u = Some ''data'' \<and> json_parse (hr_Body q) = Some (JObj [(''hostname'', JStr ''m-1''),
     (''os'', JStr ''ubuntu/jammy''), (''type'', JStr ''s1.c1.small''), (''location'', JStr ''PHX''),
     (''installDefaultSshKeys'', JBool True), (''osConfiguration'', JObj [(''cloudInit'', JObj [(''userData'', JStr u)])]),
     (''networkConfiguration'', JObj [(''ipBlocksConfiguration'', JObj [])])])"
proof -
  let ?E = "example_env (\<lambda>_. DoError (LibErr []))"
  have s: "mc_GetDataSecretValue ?E example_mc = Some (Inr ''data'')"
    by (simp add: mc_GetDataSecretValue_def example_env_def example_mc_simps example_owner_def)
  have p: "planned_request ?E example_mc ''data'' = Some (create_request example_mc ''data'')"
    by (simp add: planned_request_def example_env_def mc_IsControlPlaneMachine_def)
  have "BMC ?E r = DoError (LibErr [])" "URLError ?E u = None" for r u by (simp_all add: example_env_def)
  then have q: "Http (create_http ?E (create_request example_mc ''data''))
      \<in> set (mc_log (outcome_state (machine_reconcileCreate ?E example_mc)))"
    unfolding machine_reconcileCreate_planned [OF s p]
    by (simp add: post_server_def http_send_def create_http_def mc_Event_def Let_def)
  have a: "machine_spec_admitted (mc_spec example_mc)"
    by (simp add: machine_spec_admitted_def example_mc_simps example_spec_def ServerOS_enum_def ServerType_enum_def
        LocationID_enum_def)
  have l: "mc_log example_mc = []" by (simp add: example_mc_def)
  have h: "list_all (\<lambda>c. code c < 128) (mach_Name (mc_Machine example_mc))"
    "list_all utf8_ok (mspec_Description (mc_spec example_mc) # mspec_SSHKeyIDs (mc_spec example_mc))"
    by (simp_all add: example_mc_simps example_spec_def example_owner_def utf8_ok_nil)
  have i: "utf8_ok (annotation (bc_Meta bc) ANNOTATION_NAME_BMC_CLUSTER_IP_ALLOCATION_ID)"
    if "mc_BMCCluster example_mc = Some bc" for bc
    using that by (auto simp: example_mc_simps example_meta_def annotation_def utf8_ok_nil)
  have c: "\<not> mc_IsControlPlaneMachine ?E example_mc" by (simp add: mc_IsControlPlaneMachine_def example_env_def)
  have o: "omit_string k [] = []" "omit_string k (x # xs) = [(k, JStr (x # xs))]" "omit_list k [] = []" for k x xs
    by (simp_all add: omit_string_def omit_list_def)
  have m: "server_members ?E example_mc u = [(''hostname'', JStr ''m-1''),
     (''os'', JStr ''ubuntu/jammy''), (''type'', JStr ''s1.c1.small''), (''location'', JStr ''PHX''),
     (''installDefaultSshKeys'', JBool True), (''osConfiguration'', JObj [(''cloudInit'', JObj [(''userData'', JStr u)])]),
     (''networkConfiguration'', JObj [(''ipBlocksConfiguration'', JObj [])])]" if "u \<noteq> []" for u
    using that by (cases u) (simp_all add: server_members_def c example_mc_simps example_spec_def example_owner_def o)
  obtain u where u: "b64_decode u = Some ''data''" and p: "json_parse (hr_Body (create_http ?E (create_request example_mc ''data'')))
      = Some (JObj (server_members ?E example_mc u))"
    using create_body_roundtrip [OF l s q a h i] by blast
  have "u \<noteq> []" using u by (intro notI) simp
  with u p m show ?thesis by (intro exI conjI) auto
qed

text \<open>
  The user data of every create request decodes to exactly the bootstrap data of the secret, and
  only a control plane machine of a cluster without VIP manager names an address block: the one
  allocated to its cluster.
\<close>

theorem planned_request_content:
  assumes "planned_request E mc b = Some r"
  shows "b64_decode (ci_UserData (osc_CloudInit (csr_OSConfiguration r))) = Some b
    \<and> (if mc_IsControlPlaneMachine E mc \<and> (\<exists>bc. mc_BMCCluster mc = Some bc \<and> cspec_VIPManager (bc_Spec bc) = NONE)
       then \<exists>i. mc_GetClusterIPAllocationID mc = Some i \<and> i \<noteq> []
         \<and> csr_NetworkConfiguration r = user_defined_network i
       else csr_NetworkConfiguration r = no_network)"
  using assms
  by (auto simp: planned_request_def create_request_def b64_roundtrip
      mc_GetClusterIPAllocationID_def Let_def split: if_splits option.splits)

theorem planned_request_content_witness:
  "b64_decode (ci_UserData (osc_CloudInit (csr_OSConfiguration (create_request example_mc ''#!'')))) = Some ''#!''"
proof -
  have "planned_request (example_env (\<lambda>_. DoError (LibErr []))) example_mc ''#!'' = Some (create_request example_mc ''#!'')"
    by (simp add: planned_request_def example_env_def mc_IsControlPlaneMachine_def)
  from planned_request_content [OF this] show ?thesis by blast
qed

section \<open>Waiting\<close>

text \<open>
  Before the cluster infrastructure is ready, or before the bootstrap data exist, a live
  reconciliation does nothing but see to the finalizer: no request, no event, no status change.
\<close>

theorem live_waits:
  assumes "mc_Cluster mc = Some cl"
    and "\<not> cl_InfrastructureReady cl \<or> mach_DataSecretName (mc_Machine mc) = None"
  shows "machine_reconcileLive E mc
    = Returns (noRequeue, None) (if mc_HasFini E mc then mc else mc_AddFini E mc)"
  using assms by (auto simp: machine_reconcileLive_def mc_IsInfrastructureReady_def mc_IsDataSecretReady_def
      mc_AddFini_def Let_def)

theorem live_waits_witness:
  "machine_reconcileLive (example_env (\<lambda>_. Response 500 []))
     (example_mc\<lparr>mc_Cluster := Some (example_cluster\<lparr>cl_InfrastructureReady := False\<rparr>)\<rparr>)
   = Returns (noRequeue, None) (mc_AddFini (example_env (\<lambda>_. Response 500 []))
       (example_mc\<lparr>mc_Cluster := Some (example_cluster\<lparr>cl_InfrastructureReady := False\<rparr>)\<rparr>))"
  using live_waits [of "example_mc\<lparr>mc_Cluster := Some (example_cluster\<lparr>cl_InfrastructureReady := False\<rparr>)\<rparr>"
      "example_cluster\<lparr>cl_InfrastructureReady := False\<rparr>" "example_env (\<lambda>_. Response 500 [])"]
  by (simp add: mc_HasFini_def example_env_def list_contains_def example_mc_def example_machine_def example_meta_def)

section \<open>Polling\<close>

text \<open>What a powered-on answer makes of the machine.\<close>

lemma powered_on_status:
  assumes "mstat_BMCStatus ss = StatusPoweredOn"
    and "mspec_ProviderID (mc_spec mc) \<noteq> None" and "mc_Cluster mc \<noteq> None"
  shows "\<exists>mc'. poll_status E ss mc = Returns (requeueAfter2Min, None) mc'
    \<and> mc_IsReady mc' \<and> mc_GetBMCStatus mc' = StatusPoweredOn
    \<and> (mc_IsReady mc \<and> mc_GetBMCStatus mc = StatusPoweredOn
       \<or> mstat_Addresses (mc_status mc') = external_addresses E (mstat_PublicIPAddresses ss))"
proof -
  let ?d = "status_delta E ss mc"
  have "\<not> panicked (mc_SetNodeRef E ?d)"
    by (rule SetNodeRef_no_panic) (use assms in \<open>simp_all add: machine_frame\<close>)
  then obtain mc2 where n: "mc_SetNodeRef E ?d = Returns () mc2"
    by (cases "mc_SetNodeRef E ?d") auto
  then obtain r where s: "mc_status mc2 = (mc_status ?d)\<lparr>mstat_NodeRef := r\<rparr>"
    using outcome_SetNodeRef(3) [of E ?d] by auto
  show ?thesis
  proof (cases "mc_GetBMCStatus mc = StatusPoweredOn")
    case True
    then have d: "?d = mc" using assms(1) by (simp add: status_delta_def go_defs)
    with n s have n': "mc_SetNodeRef E mc = Returns () mc2"
      and s': "mc_status mc2 = (mc_status mc)\<lparr>mstat_NodeRef := r\<rparr>" by simp_all
    show ?thesis
      using True assms(1) s' by (auto simp: poll_status_def d n' Let_def go_defs merge_status_def)
  next
    case False
    then have d: "mc_status ?d = (let m = merge_status ss (mc_status mc) in
        m\<lparr>mstat_Ready := True, mstat_Addresses := external_addresses E (mstat_PublicIPAddresses m)\<rparr>)"
      using assms(1) by (auto simp: status_delta_def go_defs Let_def merge_status_def)
    then have "mc_IsReady mc2" using s by (simp add: mc_IsReady_def Let_def)
    then show ?thesis
      using s d assms(1) by (auto simp: poll_status_def n Let_def go_defs merge_status_def)
  qed
qed

text \<open>
  A poll that reports a powered-on server makes the machine ready with that status and asks for
  the next poll in two minutes; when the machine was not ready or the status is news, the addresses
  are the reported public addresses.
\<close>

theorem poll_powered_on:
  assumes "mstat_BMCStatus ss = StatusPoweredOn"
    and "mspec_ProviderID (mc_spec mc) \<noteq> None" and "mc_Cluster mc \<noteq> None"
  shows "\<exists>mc'. poll_status E ss mc = Returns (requeueAfter2Min, None) mc'
    \<and> mc_IsReady mc' \<and> mc_GetBMCStatus mc' = StatusPoweredOn
    \<and> (mc_IsReady mc \<and> mc_GetBMCStatus mc = StatusPoweredOn
       \<or> mstat_Addresses (mc_status mc') = external_addresses E (mstat_PublicIPAddresses ss))"
  using assms by (rule powered_on_status)

text \<open>The example machine with a provider id, created and then polled.\<close>

definition example_created :: MachineContext where
  "example_created = upd_spec (mspec_ProviderID_update (\<lambda>_. Some (provider_id ''s1'')))
     (upd_meta (om_Annotations_update (\<lambda>_. Some (Map.empty(ANNOTATION_NAME_BMC_SERVER_ID \<mapsto> ''s1''))))
       (mc_SetStatus (server_status ''s1'' ''creating'') example_mc))"

theorem poll_powered_on_witness:
  "\<exists>mc'. poll_status (example_env (\<lambda>_. Response 500 [])) (server_status ''s1'' ''powered-on'') example_created
      = Returns (requeueAfter2Min, None) mc'
    \<and> mc_IsReady mc' \<and> mc_GetBMCStatus mc' = StatusPoweredOn
    \<and> mstat_Addresses (mc_status mc') = []"
  using poll_powered_on [of "server_status ''s1'' ''powered-on''" example_created "example_env (\<lambda>_. Response 500 [])"]
  by (auto simp: server_status_def StatusPoweredOn_def example_created_def example_mc_def go_defs
      external_addresses_def zero_machine_status_def)

text \<open>A poll never takes readiness away, and never clears a recorded failure.\<close>

lemma poll_status_ready:
  "mstat_Ready (mc_status mc) \<Longrightarrow> mstat_Ready (mc_status (outcome_state (poll_status E ss mc)))"
  using outcome_SetNodeRef(3) [of E "status_delta E ss mc"] status_delta_ready [of E ss mc]
  by (cases "mc_SetNodeRef E (status_delta E ss mc)")
     (auto simp: poll_status_def Let_def mc_SetReady_def mc_IsReady_def)

lemma poll_status_failure:
  "has_failure mc \<Longrightarrow> has_failure (outcome_state (poll_status E ss mc))"
  using outcome_SetNodeRef(3) [of E "status_delta E ss mc"] poll_failure_kept(6) [of mc E ss]
  by (cases "mc_SetNodeRef E (status_delta E ss mc)")
     (auto simp: poll_status_def Let_def go_defs has_failure_def merge_status_def)

lemma has_failure_log [simp]: "has_failure (log_effects es mc) = has_failure mc"
  by (simp add: has_failure_def)

text \<open>
  Readiness and a recorded failure are permanent under polling: no answer of the API takes the
  machine's Ready flag away or clears its failure reason, so a machine that once failed with a
  transient 401 stays marked as failed after it has recovered.
\<close>

theorem sync_ready_and_failure_sticky:
  "(mc_IsReady mc \<longrightarrow> mc_IsReady (outcome_state (machine_reconcileSynchronize E mc)))
   \<and> (mstat_FailureReason (mc_status mc) \<noteq> None \<longrightarrow>
        mstat_FailureReason (mc_status (outcome_state (machine_reconcileSynchronize E mc))) \<noteq> None)"
proof -
  have "mc_IsReady mc \<Longrightarrow> mc_IsReady (outcome_state (machine_reconcileSynchronize E mc))"
    by (auto simp: machine_reconcileSynchronize_def mc_IsReady_def Let_def poll_response_def poll_accepted_def
        machine_frame mc_Eventf_def poll_status_ready split: prod.split http_outcome.split sum.split)
  moreover have "has_failure mc \<Longrightarrow> has_failure (outcome_state (machine_reconcileSynchronize E mc))"
    by (auto simp: machine_reconcileSynchronize_def Let_def poll_response_def poll_accepted_def
        machine_frame mc_Eventf_def poll_status_failure split: prod.split http_outcome.split sum.split)
  ultimately show ?thesis by (simp add: has_failure_def)
qed

theorem sync_ready_and_failure_sticky_witness:
  "mstat_FailureReason (mc_status (outcome_state (machine_reconcileSynchronize
     (example_env (\<lambda>_. Response 200 (server_body ''s1'' ''powered-on'')))
     (mc_SetIrreconcilable ''InvalidConfiguration'' ''BMC read code 401'' example_created)))) \<noteq> None"
  using sync_ready_and_failure_sticky [of "mc_SetIrreconcilable ''InvalidConfiguration'' ''BMC read code 401'' example_created"]
  by (simp add: mc_SetIrreconcilable_def)

lemma poll_status_verdict:
  "poll_status E ss mc = Returns v mc' \<Longrightarrow> v = (if mstat_BMCStatus ss = StatusPoweredOn then (requeueAfter2Min, None)
     else if mstat_BMCStatus ss = StatusError then (noRequeue, None) else (requeueAfter1Min, None))"
  by (auto simp: poll_status_def Let_def split: outcome.splits if_splits)

text \<open>
  Which polls end the polling: the controller asks for no further poll, and reports no error,
  exactly when access to the server is denied (403) or the server is reported in the error state.
  In particular a recorded 400 or 401 is polled again.
\<close>

theorem poll_stops_iff:
  assumes "poll_response E c body mc = Returns v mc'"
  shows "v = (noRequeue, None) \<longleftrightarrow> c = 403 \<or> (http_ok c \<and>
    (\<exists>ss. unmarshal_machine_status (Decoders E) body = Inr ss \<and> mstat_BMCStatus ss = StatusError))"
proof (cases "unmarshal_machine_status (Decoders E) body")
  case (Inl j)
  with assms show ?thesis
    by (auto simp: poll_response_def http_ok_def poll_accepted_def split: if_splits)
next
  case (Inr ss)
  then have "poll_accepted E body mc = poll_status E ss mc" by (simp add: poll_accepted_def)
  with assms Inr poll_status_verdict [of E ss mc v mc'] show ?thesis
    by (auto simp: poll_response_def http_ok_def split: if_splits)
qed

theorem poll_stops_iff_witness:
  "poll_response (example_env (\<lambda>_. DoError (LibErr []))) 403 [] example_mc
     = Returns (noRequeue, None) (poll_orphaned 403 example_mc)
   \<and> poll_response (example_env (\<lambda>_. DoError (LibErr []))) 401 [] example_mc
     \<noteq> Returns (noRequeue, None) (poll_irreconcilable (example_env (\<lambda>_. DoError (LibErr []))) 401 example_mc)"
  using poll_stops_iff [where c = 403 and mc = example_mc and body = "[]" and E = "example_env (\<lambda>_. DoError (LibErr []))"]
    poll_stops_iff [where c = 401 and mc = example_mc and body = "[]" and E = "example_env (\<lambda>_. DoError (LibErr []))"]
  by (auto simp: poll_response_def http_ok_def)

lemma poll_marks_once:
  "poll_irreconcilable E c (poll_irreconcilable E c mc) = poll_irreconcilable E c mc"
  "poll_orphaned c (poll_orphaned c mc) = poll_orphaned c mc"
  "poll_unavailable c (poll_unavailable c mc) = poll_unavailable c mc"
  by (simp_all add: poll_irreconcilable_def poll_orphaned_def poll_unavailable_def mc_IsStatusEqual_def
      mc_SetIrreconcilable_def mc_SetBMCStatus_def)

text \<open>
  A failing poll of a machine is recorded once: the same answer again, in the state it left, adds
  no event and changes nothing.
\<close>

theorem poll_failure_recorded_once:
  assumes "c \<in> {400, 401, 403, 500}" and "poll_response E c body mc = Returns v mc'"
  shows "poll_response E c body mc' = Returns v mc'"
  using assms by (auto simp: poll_response_def poll_marks_once)

theorem poll_failure_recorded_once_witness:
  "poll_response (example_env (\<lambda>_. DoError (LibErr []))) 500 [] (poll_unavailable 500 example_mc)
     = Returns (requeueAfter5Min, None) (poll_unavailable 500 example_mc)"
  by (rule poll_failure_recorded_once [where mc = example_mc]) (simp_all add: poll_response_def)

section \<open>Failed creation\<close>

text \<open>
  A failed create leaves the machine without a server id and keeps its metadata and
  specification, so that it can be tried again; a retry is asked for after 406 (no inventory), 409 and
  500 only; and the codes 400, 401, 403 and 409 leave the status irreconcilable.
\<close>

theorem create_failure:
  assumes "\<not> http_ok c"
  shows "\<exists>q e mc'. create_response E c body mc = Returns (q, e) mc'
    \<and> mc_meta mc' = mc_meta mc \<and> mc_spec mc' = mc_spec mc
    \<and> (q = noRequeue \<longleftrightarrow> c \<notin> {406, 409, 500}) \<and> (e = None \<longleftrightarrow> c \<in> {400, 401, 403, 406, 409, 500})
    \<and> (c \<in> {400, 401, 403, 409} \<longrightarrow> mc_GetBMCStatus mc' = StatusIrreconcilable)
    \<and> (c \<notin> {400, 401, 403, 409} \<longrightarrow> mc_status mc' = mc_status mc)"
  using assms by (auto simp: create_response_def machine_frame go_defs)

theorem create_failure_witness:
  "\<exists>mc'. create_response (example_env (\<lambda>_. DoError (LibErr []))) 409 [] example_mc = Returns (requeueAfter2Min, None) mc'
    \<and> mc_GetBMCStatus mc' = StatusIrreconcilable"
proof -
  have "\<not> http_ok 409" by (simp add: http_ok_def)
  from create_failure [OF this, of "example_env (\<lambda>_. DoError (LibErr []))" "[]" example_mc] show ?thesis
    by (auto simp: create_response_def)
qed

text \<open>
  A control plane machine of a cluster without VIP manager is not created before the cluster has
  an address block: nothing is sent, nothing changes, and no requeue is asked for.
\<close>

theorem create_waits_for_block:
  assumes "mc_GetDataSecretValue E mc = Some (Inr b)" and "mc_IsControlPlaneMachine E mc"
    and "mc_BMCCluster mc = Some bc" and "cspec_VIPManager (bc_Spec bc) = NONE"
    and "annotation (bc_Meta bc) ANNOTATION_NAME_BMC_CLUSTER_IP_ALLOCATION_ID = []"
  shows "machine_reconcileCreate E mc = Returns (noRequeue, None) mc"
  using assms by (simp add: machine_reconcileCreate_def mc_GetClusterIPAllocationID_def Let_def)

theorem create_waits_for_block_witness:
  "machine_reconcileCreate ((example_env (\<lambda>_. Response 500 []))\<lparr>util_IsControlPlaneMachine := \<lambda>_. True\<rparr>)
     (example_mc\<lparr>mc_BMCCluster := Some (example_bmccluster\<lparr>bc_Spec := (bc_Spec example_bmccluster)\<lparr>cspec_VIPManager := NONE\<rparr>\<rparr>)\<rparr>)
   = Returns (noRequeue, None)
       (example_mc\<lparr>mc_BMCCluster := Some (example_bmccluster\<lparr>bc_Spec := (bc_Spec example_bmccluster)\<lparr>cspec_VIPManager := NONE\<rparr>\<rparr>)\<rparr>)"
  by (rule create_waits_for_block [where b = "''data''"
        and bc = "example_bmccluster\<lparr>bc_Spec := (bc_Spec example_bmccluster)\<lparr>cspec_VIPManager := NONE\<rparr>\<rparr>"])
     (simp_all add: mc_GetDataSecretValue_def example_mc_def example_owner_def example_env_def
        mc_IsControlPlaneMachine_def example_bmccluster_def example_meta_def annotation_def Let_def)

text \<open>
  The host name of a server is the machine's name with every dot and slash replaced by a dash: it
  has the same length, the same other characters in the same places, and no dot or slash.
\<close>

theorem hostname_clean:
  "length (mc_GetHostname mc) = length (mach_Name (mc_Machine mc))
   \<and> set (mc_GetHostname mc) \<inter> {CHR ''.'', CHR ''/''} = {}
   \<and> (\<forall>i < length (mach_Name (mc_Machine mc)). mach_Name (mc_Machine mc) ! i \<notin> {CHR ''.'', CHR ''/''}
        \<longrightarrow> mc_GetHostname mc ! i = mach_Name (mc_Machine mc) ! i)"
  by (auto simp: mc_GetHostname_map)

theorem hostname_clean_witness: "mc_GetHostname example_mc ! 0 = CHR ''m''"
  using hostname_clean [of example_mc] by (simp add: example_mc_def example_owner_def)

section \<open>Deletion\<close>

text \<open>
  C30. Deleting a machine never panics and always removes its finalizer, and only that one, before
  anything is known of the server: whatever the service answers, server errors included, the object
  can disappear.  The one request it makes, if any, deprovisions the server of the annotation; it is
  left out when there is no server id or the machine is orphaned.
\<close>

theorem machine_delete_outcome:
  assumes "finalizer_laws E"
  shows "\<not> panicked (machine_reconcileDelete E mc)
    \<and> set (om_Finalizers (mc_meta (outcome_state (machine_reconcileDelete E mc))))
        = set (om_Finalizers (mc_meta mc)) - {MachineFinalizer}
    \<and> (\<exists>es. mc_log (outcome_state (machine_reconcileDelete E mc)) = mc_log mc @ sent E
          (if mc_GetBMCStatus mc \<noteq> StatusOrphaned \<and> mc_GetMachineID mc \<noteq> []
           then Some (deprovision_request E (mc_GetMachineID mc)) else None) @ es \<and> list_all is_note es)"
  using ran_delete [of E mc] finalizer_lawsD(2) [OF assms]
  by (simp add: delete_no_panic delete_frame mc_RemoveFini_def ran_def quiet_def delete_request_def
      mc_IsStatusEqual_def mc_GetBMCStatus_def)

theorem machine_delete_outcome_witness:
  "MachineFinalizer \<notin> set (om_Finalizers (mc_meta (outcome_state
     (machine_reconcileDelete (example_env (\<lambda>_. Response 500 [])) example_created))))"
  using machine_delete_outcome [OF finalizer_laws_example, of "\<lambda>_. Response 500 []" example_created] by simp

section \<open>Reconcile\<close>

definition machine_env :: "BMCMachine \<Rightarrow> (http_request \<Rightarrow> http_outcome) \<Rightarrow> env" where
  "machine_env bm bmc = (example_env bmc)\<lparr>GetBMCMachine := \<lambda>_. Inr bm, GetOwnerMachine := \<lambda>_. Inr (Some example_owner),
     GetClusterFromMetadata := \<lambda>_. Inr example_cluster, GetBMCCluster := \<lambda>_. Inr example_bmccluster\<rparr>"

text \<open>
  C20. A reconciliation of a machine whose object and owner are found makes at most one request and ends
  with exactly one patch of the object.  A POST is sent in two situations only: to create a server for a
  live machine without a server id, and to deprovision the server of a machine that is being deleted.
\<close>

theorem machine_Reconcile_one_request:
  assumes "GetBMCMachine E req = Inr bm" and "GetOwnerMachine E (bm_Meta bm) = Inr (Some m)"
  shows "\<exists>es bm'. outcome_state (machine_Reconcile E req) = es @ [PatchMachine bm']
    \<and> length (filter is_http es) \<le> 1 \<and> (\<forall>e \<in> set es. is_http e \<or> is_note e)
    \<and> (\<forall>r. Http r \<in> set es \<and> hr_Method r = POST \<longrightarrow>
        (if machine_IsMarkedDeleted (Some bm)
         then r = deprovision_request E (annotation (bm_Meta bm) ANNOTATION_NAME_BMC_SERVER_ID)
         else annotation (bm_Meta bm) ANNOTATION_NAME_BMC_SERVER_ID = [] \<and> (\<exists>q. r = create_http E q)))"
proof -
  let ?mc = "machine_context bm m"
  let ?es = "mc_log (outcome_state (machine_dispatch E ?mc))"
  have shape: "filter is_http ?es = sent E (machine_request E ?mc)" "\<forall>e \<in> set ?es. is_http e \<or> is_note e"
    using machine_log_shape [where mc = ?mc and E = E] by simp_all
  have posts: "if machine_IsMarkedDeleted (Some bm)
      then r = deprovision_request E (annotation (bm_Meta bm) ANNOTATION_NAME_BMC_SERVER_ID)
      else annotation (bm_Meta bm) ANNOTATION_NAME_BMC_SERVER_ID = [] \<and> (\<exists>q. r = create_http E q)"
    if r: "Http r \<in> set ?es" "hr_Method r = POST" for r
  proof -
    have "Http r \<in> set (filter is_http ?es)" using r(1) by simp
    then have q: "machine_request E ?mc = Some r"
      unfolding shape(1) by (auto dest!: sent_http(3))
    show ?thesis
    proof (cases "machine_IsMarkedDeleted (Some bm)")
      case True
      with q show ?thesis
        by (auto simp: machine_request_def delete_request_def mc_GetMachineID_def split: if_splits)
    next
      case False
      with q obtain mc1 where l: "live_context E ?mc = Some mc1" "live_request E mc1 = Some r"
        by (auto simp: machine_request_def bind_eq_Some_conv)
      then have "mc_GetMachineID mc1 = annotation (bm_Meta bm) ANNOTATION_NAME_BMC_SERVER_ID"
        using live_context_frame [OF l(1)] by (simp add: mc_GetMachineID_def)
      with l(2) r(2) False show ?thesis
        by (auto simp: live_request_def create_plan_def split: if_splits option.splits sum.splits)
    qed
  qed
  show ?thesis
  proof (intro exI conjI)
    show "outcome_state (machine_Reconcile E req)
        = ?es @ [PatchMachine (mc_BMCMachine (outcome_state (machine_dispatch E ?mc)))]"
      by (simp add: machine_Reconcile_run [OF assms] machine_finish_state)
    show "length (filter is_http ?es) \<le> 1" unfolding shape(1) by (rule sent_http(2))
    show "\<forall>e \<in> set ?es. is_http e \<or> is_note e" by (rule shape(2))
  qed (use posts in blast)
qed

theorem machine_Reconcile_one_request_witness:
  "\<exists>es bm'. outcome_state (machine_Reconcile (machine_env (mc_BMCMachine example_created) (\<lambda>_. Response 500 []))
       \<lparr>nn_Namespace = ''ns'', nn_Name = ''m''\<rparr>) = es @ [PatchMachine bm'] \<and> filter is_post es = []"
proof -
  let ?bm = "mc_BMCMachine example_created"
  have i: "annotation (bm_Meta ?bm) ANNOTATION_NAME_BMC_SERVER_ID \<noteq> []" "\<not> machine_IsMarkedDeleted (Some ?bm)"
    by (simp_all add: example_created_def annotation_def machine_IsMarkedDeleted_iff example_mc_def
        example_machine_def example_meta_def mc_SetStatus_def)
  have f: "GetBMCMachine (machine_env ?bm (\<lambda>_. Response 500 [])) req = Inr ?bm"
    "GetOwnerMachine (machine_env ?bm (\<lambda>_. Response 500 [])) om = Inr (Some example_owner)" for req om
    by (simp_all add: machine_env_def)
  obtain es bm' where "outcome_state (machine_Reconcile (machine_env ?bm (\<lambda>_. Response 500 []))
       \<lparr>nn_Namespace = ''ns'', nn_Name = ''m''\<rparr>) = es @ [PatchMachine bm']"
    and "\<forall>r. Http r \<in> set es \<longrightarrow> hr_Method r \<noteq> POST"
    using machine_Reconcile_one_request [OF f] i by (metis (no_types, lifting))
  then show ?thesis
    by (auto simp: filter_empty_conv is_post_def split: effect.split)
qed

lemma example_machine_facts:
  "annotation (bm_Meta example_machine) k = []" "\<not> machine_IsMarkedDeleted (Some example_machine)"
  "om_Annotations (bm_Meta example_machine) = Some Map.empty"
  by (simp_all add: example_machine_def example_meta_def annotation_def machine_IsMarkedDeleted_iff)

lemma machine_env_finds:
  "GetBMCMachine (machine_env bm bmc) req = Inr bm"
  "GetOwnerMachine (machine_env bm bmc) om = Inr (Some example_owner)"
  "GetClusterFromMetadata (machine_env bm bmc) m = Inr example_cluster"
  "GetBMCCluster (machine_env bm bmc) req = Inr example_bmccluster"
  by (simp_all add: machine_env_def)

text \<open>
  C29. A reconciliation of a machine does not panic, whatever the services answer, if the object has an
  annotation map, the provider id of its server id, and a cluster with an infrastructure reference.
\<close>

theorem machine_no_panic:
  assumes "GetBMCMachine E req = Inr bm" and "machine_linked bm" and "om_Annotations (bm_Meta bm) \<noteq> None"
    and "\<And>m cl. GetClusterFromMetadata E m = Inr cl \<Longrightarrow> cl_InfrastructureRef cl \<noteq> None"
  shows "\<not> panicked (machine_Reconcile E req)"
proof -
  have "\<not> panicked (machine_dispatch E (machine_context bm m))" for m
  proof (cases rule: machine_dispatch_cases [of "machine_context bm m" E])
    case delete
    then show ?thesis by (simp add: delete_no_panic)
  next
    case (live mc1)
    let ?mc = "with_finalizer E mc1"
    have f: "mc_BMCMachine mc1 = bm" "mc_Cluster mc1 \<noteq> None" "mc_BMCCluster mc1 \<noteq> None"
      using live_context_frame [OF live(2)] by simp_all
    have "\<not> panicked (machine_reconcileCreate E ?mc)" if "mc_IsDataSecretReady ?mc"
      by (rule create_no_panic) (use f assms(3) that in simp_all)
    moreover have "\<not> panicked (machine_reconcileSynchronize E ?mc)" if "mc_GetMachineID mc1 \<noteq> []"
      by (rule sync_no_panic) (use f assms(2) that mc_linked_iff [of mc1] in auto)
    ultimately show ?thesis
      unfolding live(3) machine_reconcileLive_unfold using f
      by (auto simp: mc_IsInfrastructureReady_def split: option.split)
  next
    case nothing
    then show ?thesis using assms(4)
      by (auto simp: machine_dispatch_def live_context_def split: sum.splits option.splits if_splits)
  qed
  then show ?thesis
    using machine_Reconcile_cases [of E req] assms(1) by (auto simp: machine_finish_panicked)
qed

theorem machine_no_panic_witness:
  "\<not> panicked (machine_Reconcile (machine_env example_machine (\<lambda>_. Response 201 (server_body ''s1'' ''creating'')))
     \<lparr>nn_Namespace = ''ns'', nn_Name = ''m''\<rparr>)"
proof (rule machine_no_panic)
  show "GetBMCMachine (machine_env example_machine (\<lambda>_. Response 201 (server_body ''s1'' ''creating'')))
     \<lparr>nn_Namespace = ''ns'', nn_Name = ''m''\<rparr> = Inr example_machine" by (rule machine_env_finds)
qed (simp_all add: machine_linked_def example_machine_facts machine_env_finds,
     auto simp: machine_env_def example_cluster_def)

lemma ErrorText_paused [simp]: "ErrorText (E\<lparr>IsPaused := p\<rparr>) e = ErrorText E e"
  by (induction e) simp_all

lemma http_send_paused [simp]: "http_send (E\<lparr>IsPaused := p\<rparr>) r = http_send E r"
  by (simp add: http_send_def split: option.split)

lemma machine_reconcileDelete_paused [simp]:
  "machine_reconcileDelete (E\<lparr>IsPaused := p\<rparr>) mc = machine_reconcileDelete E mc"
  by (simp add: machine_reconcileDelete_def deprovision_request_def mc_RemoveFini_def Let_def
      split: prod.split http_outcome.split)

text \<open>
  The pause does not reach a machine that is being deleted: its reconciliation is the same with
  and without it, deprovisioning included.
\<close>

theorem machine_delete_ignores_pause:
  assumes "GetBMCMachine E req = Inr bm" and "om_DeletionTimestamp (bm_Meta bm) \<noteq> None"
  shows "machine_Reconcile (E\<lparr>IsPaused := p\<rparr>) req = machine_Reconcile E req"
proof -
  have d: "machine_dispatch (E\<lparr>IsPaused := p\<rparr>) (machine_context bm m) = machine_dispatch E (machine_context bm m)" for m
    using assms(2) by (simp add: machine_dispatch_def machine_IsMarkedDeleted_iff)
  show ?thesis
    using assms(1) by (simp add: machine_Reconcile_def d split: sum.split option.split)
qed

definition example_deleting :: BMCMachine where
  "example_deleting = (mc_BMCMachine example_created)\<lparr>bm_Meta :=
     (mc_meta example_created)\<lparr>om_DeletionTimestamp := Some 1\<rparr>\<rparr>"

theorem machine_delete_ignores_pause_witness:
  "machine_Reconcile ((machine_env example_deleting (\<lambda>_. Response 200 []))\<lparr>IsPaused := \<lambda>_ _. True\<rparr>)
     \<lparr>nn_Namespace = ''ns'', nn_Name = ''m''\<rparr>
   = machine_Reconcile (machine_env example_deleting (\<lambda>_. Response 200 [])) \<lparr>nn_Namespace = ''ns'', nn_Name = ''m''\<rparr>"
  by (rule machine_delete_ignores_pause [OF machine_env_finds(1)]) (simp add: example_deleting_def)

end
