(* ===== verification/Scheme.thy ===== *)
theory Scheme
  imports Prelude
begin

text \<open>
  The registration of the API types: the group and version of \<open>api/v1beta1/groupversion_info.go\<close>, the
  init functions of the files that declare the types, and the init function of \<open>main.go\<close>, which puts the
  types into the scheme of the manager.  What controller-runtime's builder and the schemes do is library
  code and a parameter; the definitions give which types are registered, where and in which order.
\<close>

record group_version =
  gv_Group :: string
  gv_Version :: string

definition GroupVersion :: group_version where
  "GroupVersion = \<lparr>gv_Group = ''infrastructure.cluster.x-k8s.io'', gv_Version = ''v1beta1''\<rparr>"

text \<open>A Go type is given by its package and its name.\<close>

record go_type =
  gt_Package :: string
  gt_Name :: string

definition v1beta1 :: "string \<Rightarrow> go_type" where
  "v1beta1 n = \<lparr>gt_Package = ''api/v1beta1'', gt_Name = n\<rparr>"

definition capi :: "string \<Rightarrow> go_type" where
  "capi n = \<lparr>gt_Package = ''sigs.k8s.io/cluster-api/api/v1beta1'', gt_Name = n\<rparr>"

text \<open>
  The builder of controller-runtime and the schemes of apimachinery, Kubernetes and Cluster API.  Adding
  to a scheme may fail.
\<close>

record ('b, 's) scheme_library =
  sl_Builder :: "group_version \<Rightarrow> 'b"
  sl_Register :: "go_type list \<Rightarrow> 'b \<Rightarrow> 'b"
  sl_AddToScheme :: "'b \<Rightarrow> 's \<Rightarrow> 's \<times> string option"
  sl_NewScheme :: 's
  sl_clientgo_AddToScheme :: "'s \<Rightarrow> 's \<times> string option"
  sl_clusterv1_AddToScheme :: "'s \<Rightarrow> 's \<times> string option"

text \<open>Every init function of the package registers the types of its file.\<close>

definition bmccluster_init :: "('b, 's) scheme_library \<Rightarrow> 'b \<Rightarrow> 'b" where
  "bmccluster_init L = sl_Register L [v1beta1 ''BMCCluster'', v1beta1 ''BMCClusterList'']"

definition bmcmachine_init :: "('b, 's) scheme_library \<Rightarrow> 'b \<Rightarrow> 'b" where
  "bmcmachine_init L = sl_Register L [v1beta1 ''BMCMachine'', v1beta1 ''BMCMachineList'']"

definition bmcmachinetemplate_init :: "('b, 's) scheme_library \<Rightarrow> 'b \<Rightarrow> 'b" where
  "bmcmachinetemplate_init L = sl_Register L [v1beta1 ''BMCMachineTemplate'', v1beta1 ''BMCMachineTemplateList'']"

text \<open>
  The builder when the package is initialised: the files of a package are initialised in the order of
  their names.  \<open>AddToScheme\<close> is the method of this builder; it runs when \<open>main\<close> is initialised.
\<close>

definition SchemeBuilder :: "('b, 's) scheme_library \<Rightarrow> 'b" where
  "SchemeBuilder L = bmcmachinetemplate_init L (bmcmachine_init L (bmccluster_init L (sl_Builder L GroupVersion)))"

definition AddToScheme :: "('b, 's) scheme_library \<Rightarrow> 's \<Rightarrow> 's \<times> string option" where
  "AddToScheme L = sl_AddToScheme L (SchemeBuilder L)"

text \<open>The errors of all three calls are discarded.\<close>

definition main_init :: "('b, 's) scheme_library \<Rightarrow> 's" where
  "main_init L = fst (sl_clusterv1_AddToScheme L (fst (AddToScheme L (fst (sl_clientgo_AddToScheme L (sl_NewScheme L))))))"

end
