(* ===== verification/Watches.thy ===== *)
theory Watches
  imports Examples MachineProps Scheme
begin

text \<open>
  What wakes up the reconcilers: \<open>BMCClusterToBMCMachines\<close>, which maps a BMCCluster to the machines of its
  cluster, and the two \<open>SetupWithManager\<close> functions, which register each controller with its event filter
  and its watches.
\<close>

section \<open>The machines of a cluster\<close>

text \<open>The object of a watch event: a handler tests its type before it uses it.\<close>

datatype watched = WatchedCluster BMCCluster | WatchedMachine BMCMachine | WatchedOwner Machine | WatchedOwnerCluster Cluster

text \<open>The loop over the listed machines, with the requests collected so far.\<close>

fun infrastructure_requests :: "Machine list \<Rightarrow> nsname list \<Rightarrow> nsname list" where
  "infrastructure_requests [] result = result"
| "infrastructure_requests (m # ms) result =
     (if 0 < length (mach_InfrastructureRefName m)
      then infrastructure_requests ms
        (result @ [\<lparr>nn_Namespace = mach_Namespace m, nn_Name = mach_InfrastructureRefName m\<rparr>])
      else infrastructure_requests ms result)"

definition BMCClusterToBMCMachines :: "env \<Rightarrow> watched \<Rightarrow> nsname list" where
  "BMCClusterToBMCMachines E o' = (case o' of
     WatchedCluster bc \<Rightarrow>
      (case GetOwnerCluster E (bc_Meta bc) of
         Inl e \<Rightarrow> []
       | Inr None \<Rightarrow> []
       | Inr (Some cl) \<Rightarrow>
          (case ListMachines E (om_Namespace (bc_Meta bc)) (ClusterNameLabel E, cl_Name cl) of
             Inl e \<Rightarrow> []
           | Inr ms \<Rightarrow> infrastructure_requests ms []))
   | _ \<Rightarrow> [])"

lemma infrastructure_requests_eq:
  "infrastructure_requests ms result = result
     @ map (\<lambda>m. \<lparr>nn_Namespace = mach_Namespace m, nn_Name = mach_InfrastructureRefName m\<rparr>)
         (filter (\<lambda>m. mach_InfrastructureRefName m \<noteq> []) ms)"
  by (induction ms arbitrary: result) auto

text \<open>
  What the Kubernetes list call promises: it returns machines of the asked namespace that carry the
  asked label, and all of them.
\<close>

definition list_law :: "env \<Rightarrow> Machine set \<Rightarrow> (Machine \<Rightarrow> string \<Rightarrow> string option) \<Rightarrow> bool" where
  "list_law E store label \<longleftrightarrow> (\<forall>ns k v ms. ListMachines E ns (k, v) = Inr ms \<longrightarrow>
     set ms = {m \<in> store. mach_Namespace m = ns \<and> label m k = Some v})"

text \<open>
  A change of a BMCCluster wakes up exactly the infrastructure machines of its own cluster: those
  that a stored machine of the same namespace, labelled with the name of the owner cluster, refers to
  by a name that is not empty.
\<close>

theorem cluster_wakes_machines:
  assumes "list_law E store label" and "GetOwnerCluster E (bc_Meta bc) = Inr (Some cl)"
    and "ListMachines E (om_Namespace (bc_Meta bc)) (ClusterNameLabel E, cl_Name cl) = Inr ms"
  shows "set (BMCClusterToBMCMachines E (WatchedCluster bc)) =
    {r. nn_Namespace r = om_Namespace (bc_Meta bc) \<and> nn_Name r \<noteq> [] \<and> (\<exists>m \<in> store.
        mach_Namespace m = om_Namespace (bc_Meta bc) \<and> label m (ClusterNameLabel E) = Some (cl_Name cl)
        \<and> mach_InfrastructureRefName m = nn_Name r)}"
proof -
  have "set ms = {m \<in> store. mach_Namespace m = om_Namespace (bc_Meta bc) \<and> label m (ClusterNameLabel E) = Some (cl_Name cl)}"
    using assms(1,3) unfolding list_law_def by blast
  then show ?thesis
    using assms(2,3) by (auto simp: BMCClusterToBMCMachines_def infrastructure_requests_eq intro!: image_eqI)
qed

definition watch_label :: "Machine \<Rightarrow> string \<Rightarrow> string option" where
  "watch_label m k = (if k = ''cluster.x-k8s.io/cluster-name'' then Some ''c'' else None)"

definition watch_env :: env where
  "watch_env = (example_env (\<lambda>_. DoError (LibErr [])))\<lparr>GetOwnerCluster := \<lambda>_. Inr (Some example_cluster),
     ListMachines := \<lambda>ns (k, v). Inr (filter (\<lambda>m. mach_Namespace m = ns \<and> watch_label m k = Some v) [example_owner])\<rparr>"

theorem cluster_wakes_machines_witness:
  "\<lparr>nn_Namespace = ''ns'', nn_Name = ''m''\<rparr> \<in> set (BMCClusterToBMCMachines watch_env (WatchedCluster example_bmccluster))"
proof -
  have law: "list_law watch_env {example_owner} watch_label"
    by (auto simp: list_law_def watch_env_def)
  have o: "GetOwnerCluster watch_env (bc_Meta example_bmccluster) = Inr (Some example_cluster)"
    by (simp add: watch_env_def)
  have f: "mach_Namespace example_owner = ''ns''" "mach_InfrastructureRefName example_owner = ''m''"
    "om_Namespace (bc_Meta example_bmccluster) = ''ns''"
    by (simp_all add: example_owner_def example_bmccluster_def example_meta_def)
  have l: "watch_label example_owner (ClusterNameLabel watch_env) = Some (cl_Name example_cluster)"
    by (simp add: watch_label_def watch_env_def example_env_def example_cluster_def)
  have "ListMachines watch_env (om_Namespace (bc_Meta example_bmccluster)) (ClusterNameLabel watch_env, cl_Name example_cluster)
      = Inr (filter (\<lambda>m. mach_Namespace m = ''ns'' \<and> watch_label m (ClusterNameLabel watch_env) = Some (cl_Name example_cluster))
          [example_owner])"
    by (simp add: watch_env_def example_bmccluster_def example_meta_def)
  from cluster_wakes_machines [OF law o this] show ?thesis using f l by simp
qed

section \<open>The registration with the manager\<close>

text \<open>
  A controller as its builder collects it: the type it is for, the filter of all its events, and the
  watches with their handlers and predicates.
\<close>

record watch =
  wa_Type :: go_type
  wa_Handler :: "watched \<Rightarrow> nsname list"
  wa_Predicates :: "(watched \<Rightarrow> bool) list"

record controller =
  ct_For :: go_type
  ct_EventFilter :: "watched \<Rightarrow> bool"
  ct_Watches :: "watch list"

text \<open>The helpers of Cluster API and the builder of controller-runtime are parameters.\<close>

record manager =
  ClusterToTypedObjectsMapper :: "go_type \<Rightarrow> goerr + (watched \<Rightarrow> nsname list)"
  MachineToInfrastructureMapFunc :: "group_version \<times> string \<Rightarrow> watched \<Rightarrow> nsname list"
  ClusterToInfrastructureMapFunc :: "group_version \<times> string \<Rightarrow> go_type \<Rightarrow> watched \<Rightarrow> nsname list"
  ResourceNotPaused :: "watched \<Rightarrow> bool"
  ClusterUnpaused :: "watched \<Rightarrow> bool"
  ClusterUnpausedAndInfrastructureReady :: "watched \<Rightarrow> bool"
  Build :: "controller \<Rightarrow> goerr option"

definition machine_SetupWithManager :: "env \<Rightarrow> manager \<Rightarrow> goerr + controller" where
  "machine_SetupWithManager E M = (case ClusterToTypedObjectsMapper M (v1beta1 ''BMCMachineList'') of
     Inl e \<Rightarrow> Inl (Wrapf e ''Failed to create cluster to object mapper func'')
   | Inr objFunc \<Rightarrow>
      let c = \<lparr>ct_For = v1beta1 ''BMCMachine'', ct_EventFilter = ResourceNotPaused M, ct_Watches = [
         \<lparr>wa_Type = capi ''Machine'',
          wa_Handler = MachineToInfrastructureMapFunc M (GroupVersion, ''BMCMachine''), wa_Predicates = []\<rparr>,
         \<lparr>wa_Type = v1beta1 ''BMCCluster'', wa_Handler = BMCClusterToBMCMachines E, wa_Predicates = []\<rparr>,
         \<lparr>wa_Type = capi ''Cluster'', wa_Handler = objFunc,
          wa_Predicates = [ClusterUnpausedAndInfrastructureReady M]\<rparr>]\<rparr>
      in case Build M c of Some e \<Rightarrow> Inl (Wrapf e ''Failed to create controller'') | None \<Rightarrow> Inr c)"

definition cluster_SetupWithManager :: "manager \<Rightarrow> goerr + controller" where
  "cluster_SetupWithManager M =
     (let c = \<lparr>ct_For = v1beta1 ''BMCCluster'', ct_EventFilter = ResourceNotPaused M, ct_Watches = [
         \<lparr>wa_Type = capi ''Cluster'',
          wa_Handler = ClusterToInfrastructureMapFunc M (GroupVersion, ''BMCCluster'') (v1beta1 ''BMCCluster''),
          wa_Predicates = [ClusterUnpaused M]\<rparr>]\<rparr>
      in case Build M c of Some e \<Rightarrow> Inl (Wrapf e ''error creating cluster controller'') | None \<Rightarrow> Inr c)"

section \<open>What is delivered\<close>

fun watched_type :: "watched \<Rightarrow> go_type" where
  "watched_type (WatchedCluster bc) = v1beta1 ''BMCCluster''"
| "watched_type (WatchedMachine bm) = v1beta1 ''BMCMachine''"
| "watched_type (WatchedOwner m) = capi ''Machine''"
| "watched_type (WatchedOwnerCluster cl) = capi ''Cluster''"

fun watched_key :: "watched \<Rightarrow> nsname" where
  "watched_key (WatchedCluster bc) = \<lparr>nn_Namespace = om_Namespace (bc_Meta bc), nn_Name = om_Name (bc_Meta bc)\<rparr>"
| "watched_key (WatchedMachine bm) = \<lparr>nn_Namespace = om_Namespace (bm_Meta bm), nn_Name = om_Name (bm_Meta bm)\<rparr>"
| "watched_key (WatchedOwner m) = \<lparr>nn_Namespace = mach_Namespace m, nn_Name = mach_Name m\<rparr>"
| "watched_key (WatchedOwnerCluster cl) = \<lparr>nn_Namespace = cl_Namespace cl, nn_Name = cl_Name cl\<rparr>"

text \<open>
  What controller-runtime documents of a controller: an event that passes the filter enqueues the
  object itself when the controller is for its type, and what the handlers make of it of those watches of
  its type whose predicates hold.
\<close>

definition delivery_law :: "(controller \<Rightarrow> watched \<Rightarrow> nsname set) \<Rightarrow> bool" where
  "delivery_law deliver \<longleftrightarrow> (\<forall>c ob. deliver c ob = (if ct_EventFilter c ob
     then (if watched_type ob = ct_For c then {watched_key ob} else {})
       \<union> set (concat (map (\<lambda>w. wa_Handler w ob)
           (filter (\<lambda>w. wa_Type w = watched_type ob \<and> list_all (\<lambda>p. p ob) (wa_Predicates w)) (ct_Watches c))))
     else {}))"

lemma type_names [simp]:
  "v1beta1 m = v1beta1 n \<longleftrightarrow> m = n" "capi m = capi n \<longleftrightarrow> m = n" "v1beta1 m \<noteq> capi n" "capi n \<noteq> v1beta1 m"
  by (simp_all add: v1beta1_def capi_def)

lemma machine_setup_iff:
  "machine_SetupWithManager E M = Inr c \<longleftrightarrow> (\<exists>f. ClusterToTypedObjectsMapper M (v1beta1 ''BMCMachineList'') = Inr f
     \<and> Build M c = None \<and> c = \<lparr>ct_For = v1beta1 ''BMCMachine'', ct_EventFilter = ResourceNotPaused M, ct_Watches = [
         \<lparr>wa_Type = capi ''Machine'', wa_Handler = MachineToInfrastructureMapFunc M (GroupVersion, ''BMCMachine''),
          wa_Predicates = []\<rparr>,
         \<lparr>wa_Type = v1beta1 ''BMCCluster'', wa_Handler = BMCClusterToBMCMachines E, wa_Predicates = []\<rparr>,
         \<lparr>wa_Type = capi ''Cluster'', wa_Handler = f, wa_Predicates = [ClusterUnpausedAndInfrastructureReady M]\<rparr>]\<rparr>)"
  by (auto simp: machine_SetupWithManager_def Let_def split: sum.splits option.splits)

text \<open>What each event delivers to the machine controller.\<close>

lemma machine_deliveries:
  assumes "machine_SetupWithManager E M = Inr c" and "delivery_law deliver" and "ResourceNotPaused M ob"
  shows "deliver c ob = (case ob of
      WatchedMachine bm \<Rightarrow> {watched_key ob}
    | WatchedOwner m \<Rightarrow> set (MachineToInfrastructureMapFunc M (GroupVersion, ''BMCMachine'') ob)
    | WatchedCluster bc \<Rightarrow> set (BMCClusterToBMCMachines E ob)
    | WatchedOwnerCluster cl \<Rightarrow> if ClusterUnpausedAndInfrastructureReady M ob
        then set (projr (ClusterToTypedObjectsMapper M (v1beta1 ''BMCMachineList'')) ob) else {})"
proof -
  obtain f where f: "ClusterToTypedObjectsMapper M (v1beta1 ''BMCMachineList'') = Inr f"
    and c: "c = \<lparr>ct_For = v1beta1 ''BMCMachine'', ct_EventFilter = ResourceNotPaused M, ct_Watches = [
         \<lparr>wa_Type = capi ''Machine'', wa_Handler = MachineToInfrastructureMapFunc M (GroupVersion, ''BMCMachine''),
          wa_Predicates = []\<rparr>,
         \<lparr>wa_Type = v1beta1 ''BMCCluster'', wa_Handler = BMCClusterToBMCMachines E, wa_Predicates = []\<rparr>,
         \<lparr>wa_Type = capi ''Cluster'', wa_Handler = f, wa_Predicates = [ClusterUnpausedAndInfrastructureReady M]\<rparr>]\<rparr>"
    using assms(1) by (auto simp: machine_setup_iff)
  have law: "deliver c ob = set (if watched_type ob = ct_For c then [watched_key ob] else []) \<union> set (concat (map (\<lambda>w. wa_Handler w ob)
      (filter (\<lambda>w. wa_Type w = watched_type ob \<and> list_all (\<lambda>p. p ob) (wa_Predicates w)) (ct_Watches c))))"
    using assms(2,3) by (simp add: delivery_law_def c)
  show ?thesis
    unfolding law by (cases ob) (simp_all add: c f)
qed

text \<open>A paused object wakes up neither controller.\<close>

lemma paused_delivers_nothing:
  assumes "machine_SetupWithManager E M = Inr c \<or> cluster_SetupWithManager M = Inr c" and "delivery_law deliver"
    and "\<not> ResourceNotPaused M ob"
  shows "deliver c ob = {}"
proof -
  have "ct_EventFilter c = ResourceNotPaused M"
    using assms(1) by (auto simp: machine_setup_iff cluster_SetupWithManager_def Let_def split: option.splits)
  with assms(2,3) show ?thesis by (simp add: delivery_law_def)
qed

section \<open>Every wait ends with a wake-up\<close>

text \<open>
  How the objects of one machine hang together, with what Cluster API documents of its mappers: a
  cluster maps to the infrastructure machines of its machines, and a machine to its own.
\<close>

definition wired :: "env \<Rightarrow> manager \<Rightarrow> nsname \<Rightarrow> Machine \<Rightarrow> Cluster \<Rightarrow> BMCCluster \<Rightarrow> bool" where
  "wired E M key m cl bc \<longleftrightarrow>
     nn_Namespace key = om_Namespace (bc_Meta bc) \<and> mach_Namespace m = nn_Namespace key
     \<and> mach_InfrastructureRefName m = nn_Name key \<and> nn_Name key \<noteq> []
     \<and> (\<forall>m'. mach_Namespace m' = nn_Namespace key \<and> mach_InfrastructureRefName m' = nn_Name key
          \<longrightarrow> key \<in> set (MachineToInfrastructureMapFunc M (GroupVersion, ''BMCMachine'') (WatchedOwner m')))
     \<and> (\<forall>f cl'. ClusterToTypedObjectsMapper M (v1beta1 ''BMCMachineList'') = Inr f \<and> cl_Namespace cl' = cl_Namespace cl
          \<and> cl_Name cl' = cl_Name cl \<longrightarrow> key \<in> set (f (WatchedOwnerCluster cl')))
     \<and> (\<forall>a. GetOwnerCluster E ((bc_Meta bc)\<lparr>om_Annotations := a\<rparr>) = Inr (Some cl))
     \<and> (\<exists>ms. ListMachines E (om_Namespace (bc_Meta bc)) (ClusterNameLabel E, cl_Name cl) = Inr ms \<and> m \<in> set ms)"

lemma cluster_wakes_machine:
  assumes "wired E M key m cl bc" and "bc_Meta bc' = (bc_Meta bc)\<lparr>om_Annotations := a\<rparr>"
  shows "key \<in> set (BMCClusterToBMCMachines E (WatchedCluster bc'))"
proof -
  obtain ms where "ListMachines E (om_Namespace (bc_Meta bc)) (ClusterNameLabel E, cl_Name cl) = Inr ms" "m \<in> set ms"
    using assms(1) by (auto simp: wired_def)
  moreover have "key = \<lparr>nn_Namespace = mach_Namespace m, nn_Name = mach_InfrastructureRefName m\<rparr>"
    and "mach_InfrastructureRefName m \<noteq> []"
    using assms(1) by (simp_all add: wired_def)
  ultimately show ?thesis
    using assms by (auto simp: BMCClusterToBMCMachines_def wired_def infrastructure_requests_eq intro!: image_eqI [of _ _ m])
qed

text \<open>A live reconciliation that stops without a request, a requeue or an error waits for one of three things.\<close>

lemma silent_create:
  assumes "machine_reconcileCreate E mc = Returns (noRequeue, None) mc'" and "create_plan E mc = None"
    and "mc_BMCCluster mc = Some bc"
  shows "cspec_VIPManager (bc_Spec bc) = NONE
    \<and> annotation (bc_Meta bc) ANNOTATION_NAME_BMC_CLUSTER_IP_ALLOCATION_ID = []"
  using assms
  by (auto simp: create_plan_def planned_request_def machine_reconcileCreate_def Let_def
      split: if_splits option.splits sum.splits)

lemma silent_stop:
  assumes "machine_reconcileLive E mc = Returns (noRequeue, None) mc'" and "live_request E mc = None"
    and "mc_Cluster mc = Some cl" and "mc_BMCCluster mc = Some bc"
  shows "\<not> cl_InfrastructureReady cl \<or> mach_DataSecretName (mc_Machine mc) = None
    \<or> (cspec_VIPManager (bc_Spec bc) = NONE \<and> annotation (bc_Meta bc) ANNOTATION_NAME_BMC_CLUSTER_IP_ALLOCATION_ID = [])"
proof (cases "cl_InfrastructureReady cl \<and> mach_DataSecretName (mc_Machine mc) \<noteq> None")
  case True
  then have r: "mc_IsInfrastructureReady mc = Some True" "mc_IsDataSecretReady mc"
    using assms(3) by (simp_all add: mc_IsInfrastructureReady_def mc_IsDataSecretReady_def)
  then have p: "mc_GetMachineID mc = []" "create_plan E mc = None"
    using assms(2) by (simp_all add: live_request_def split: if_splits)
  then have "create_plan E (with_finalizer E mc) = None"
    by (simp add: with_finalizer_def)
  moreover have "machine_reconcileCreate E (with_finalizer E mc) = Returns (noRequeue, None) mc'"
    using assms(1) r p(1) by (simp add: machine_reconcileLive_unfold)
  ultimately show ?thesis
    using silent_create [of E "with_finalizer E mc" mc' bc] assms(4) by simp
qed auto

text \<open>
  No wait is forgotten: when a live reconciliation stops without a request, a requeue or an error, it
  waits for the cluster's infrastructure, the bootstrap secret or the address block, and the event of
  the change that ends the wait enqueues the machine again: the watches of the controller cover every
  silent stop.
\<close>

theorem waits_are_woken:
  assumes "machine_SetupWithManager E M = Inr c" and "delivery_law deliver" and "wired E M key (mc_Machine mc) cl bc"
    and "machine_reconcileLive E mc = Returns (noRequeue, None) mc'" and "live_request E mc = None"
    and "mc_Cluster mc = Some cl" and "mc_BMCCluster mc = Some bc"
  shows "(\<not> cl_InfrastructureReady cl \<and> (\<forall>cl'. cl' = cl\<lparr>cl_InfrastructureReady := True\<rparr>
        \<and> ResourceNotPaused M (WatchedOwnerCluster cl') \<and> ClusterUnpausedAndInfrastructureReady M (WatchedOwnerCluster cl')
        \<longrightarrow> key \<in> deliver c (WatchedOwnerCluster cl')))
    \<or> (mach_DataSecretName (mc_Machine mc) = None \<and> (\<forall>m' n. m' = (mc_Machine mc)\<lparr>mach_DataSecretName := Some n\<rparr>
        \<and> ResourceNotPaused M (WatchedOwner m') \<longrightarrow> key \<in> deliver c (WatchedOwner m')))
    \<or> (annotation (bc_Meta bc) ANNOTATION_NAME_BMC_CLUSTER_IP_ALLOCATION_ID = []
        \<and> (\<forall>bc' a. bc_Meta bc' = (bc_Meta bc)\<lparr>om_Annotations := a\<rparr> \<and> ResourceNotPaused M (WatchedCluster bc')
        \<longrightarrow> key \<in> deliver c (WatchedCluster bc')))"
proof -
  obtain f where f: "ClusterToTypedObjectsMapper M (v1beta1 ''BMCMachineList'') = Inr f"
    using assms(1) by (auto simp: machine_setup_iff)
  note d = machine_deliveries [OF assms(1,2)]
  have 1: "key \<in> deliver c (WatchedOwnerCluster cl')"
    if "cl' = cl\<lparr>cl_InfrastructureReady := True\<rparr>" "ResourceNotPaused M (WatchedOwnerCluster cl')"
      "ClusterUnpausedAndInfrastructureReady M (WatchedOwnerCluster cl')" for cl'
    using d [OF that(2)] that(1,3) assms(3) f by (simp add: wired_def)
  have 2: "key \<in> deliver c (WatchedOwner m')"
    if "m' = (mc_Machine mc)\<lparr>mach_DataSecretName := Some n\<rparr>" "ResourceNotPaused M (WatchedOwner m')" for m' n
    using d [OF that(2)] that(1) assms(3) by (simp add: wired_def)
  have 3: "key \<in> deliver c (WatchedCluster bc')"
    if "bc_Meta bc' = (bc_Meta bc)\<lparr>om_Annotations := a\<rparr>" "ResourceNotPaused M (WatchedCluster bc')" for bc' a
    using d [OF that(2)] cluster_wakes_machine [OF assms(3) that(1)] by simp
  show ?thesis using silent_stop [OF assms(4-7)] 1 2 3 by blast
qed

text \<open>A manager that delivers as documented, and a machine whose cluster is not ready yet.\<close>

definition watch_key :: nsname where
  "watch_key = \<lparr>nn_Namespace = ''ns'', nn_Name = ''m''\<rparr>"

definition watch_manager :: manager where
  "watch_manager = \<lparr>ClusterToTypedObjectsMapper = \<lambda>_. Inr (\<lambda>_. [watch_key]),
     MachineToInfrastructureMapFunc = \<lambda>_ ob. (case ob of
        WatchedOwner m \<Rightarrow> [\<lparr>nn_Namespace = mach_Namespace m, nn_Name = mach_InfrastructureRefName m\<rparr>] | _ \<Rightarrow> []),
     ClusterToInfrastructureMapFunc = \<lambda>_ _ _. [], ResourceNotPaused = \<lambda>_. True, ClusterUnpaused = \<lambda>_. True,
     ClusterUnpausedAndInfrastructureReady = \<lambda>ob. (case ob of WatchedOwnerCluster cl \<Rightarrow> cl_InfrastructureReady cl | _ \<Rightarrow> False),
     Build = \<lambda>_. None\<rparr>"

definition watch_deliver :: "controller \<Rightarrow> watched \<Rightarrow> nsname set" where
  "watch_deliver c ob = (if ct_EventFilter c ob
     then (if watched_type ob = ct_For c then {watched_key ob} else {})
       \<union> set (concat (map (\<lambda>w. wa_Handler w ob)
           (filter (\<lambda>w. wa_Type w = watched_type ob \<and> list_all (\<lambda>p. p ob) (wa_Predicates w)) (ct_Watches c))))
     else {})"

definition unready_cluster :: Cluster where
  "unready_cluster = example_cluster\<lparr>cl_InfrastructureReady := False\<rparr>"

definition unready_env :: env where
  "unready_env = watch_env\<lparr>GetOwnerCluster := \<lambda>_. Inr (Some unready_cluster)\<rparr>"

definition block_cluster :: BMCCluster where
  "block_cluster = example_bmccluster\<lparr>bc_Meta :=
     (bc_Meta example_bmccluster)\<lparr>om_Annotations := Some [ANNOTATION_NAME_BMC_CLUSTER_IP_ALLOCATION_ID \<mapsto> ''b'']\<rparr>\<rparr>"

theorem waits_are_woken_witness:
  "\<exists>c. machine_SetupWithManager unready_env watch_manager = Inr c
     \<and> watch_key \<in> watch_deliver c (WatchedOwnerCluster (unready_cluster\<lparr>cl_InfrastructureReady := True\<rparr>))"
proof -
  define mc where "mc = example_mc\<lparr>mc_Cluster := Some unready_cluster, mc_BMCCluster := Some block_cluster\<rparr>"
  obtain c where c: "machine_SetupWithManager unready_env watch_manager = Inr c"
    by (auto simp: machine_setup_iff watch_manager_def)
  have d: "delivery_law watch_deliver"
    by (simp add: delivery_law_def watch_deliver_def)
  have o: "mc_Machine mc = example_owner" "mach_Namespace example_owner = ''ns''" "mach_InfrastructureRefName example_owner = ''m''"
    "mach_DataSecretName example_owner = Some ''secret''" "om_Namespace (bc_Meta block_cluster) = ''ns''"
    "mc_Cluster mc = Some unready_cluster" "mc_BMCCluster mc = Some block_cluster"
    "annotation (bc_Meta block_cluster) ANNOTATION_NAME_BMC_CLUSTER_IP_ALLOCATION_ID = ''b''"
    by (simp_all add: mc_def example_mc_def example_owner_def block_cluster_def example_bmccluster_def example_meta_def annotation_def)
  have "watch_label example_owner (ClusterNameLabel unready_env) = Some (cl_Name unready_cluster)"
    by (simp add: watch_label_def unready_env_def unready_cluster_def watch_env_def example_env_def example_cluster_def)
  then have w: "wired unready_env watch_manager watch_key (mc_Machine mc) unready_cluster block_cluster"
    by (simp add: wired_def o watch_key_def watch_manager_def unready_env_def watch_env_def)
  have ready: "mc_IsInfrastructureReady mc = Some False"
    by (simp add: mc_IsInfrastructureReady_def o unready_cluster_def)
  then have l: "machine_reconcileLive unready_env mc = Returns (noRequeue, None) (with_finalizer unready_env mc)"
    by (simp add: machine_reconcileLive_unfold)
  have q: "live_request unready_env mc = None"
    using ready by (simp add: live_request_def)
  have m: "ResourceNotPaused watch_manager ob" "ClusterUnpausedAndInfrastructureReady watch_manager (WatchedOwnerCluster cl) = cl_InfrastructureReady cl" for ob cl
    by (simp_all add: watch_manager_def)
  from waits_are_woken [OF c d w l q o(6,7)] show ?thesis
    by (auto simp: o m c)
qed

end
