(* ===== verification/Life.thy ===== *)
theory Life
  imports Environment
begin

text \<open>
  The life of one API object under a controller: reconciliations in environments that may change from
  one to the next, edits by others, patches that get lost, and the removal by the API server of a
  deleted object without finalizers.  The world keeps every request the controller has sent with its
  outcome.  Two contracts of a controller are locales here: keeping an invariant of the object, and
  creating an external resource under the guard of an identifier stored in the object.
\<close>

section \<open>Worlds and steps\<close>

record 'o world =
  w_obj :: "'o option"
  w_log :: "(http_request \<times> http_outcome) list"

text \<open>
  What a reconciliation makes of the stored object: the object it patches, and the requests it sends.
\<close>

type_synonym 'o run = "env \<Rightarrow> 'o \<Rightarrow> 'o \<times> http_request list"

definition requests :: "effect list \<Rightarrow> http_request list" where
  "requests es = concat (map (\<lambda>e. case e of Http r \<Rightarrow> [r] | _ \<Rightarrow> []) es)"

lemma requests_simps [simp]:
  "requests [] = []" "requests (Http r # es) = r # requests es" "requests (es @ fs) = requests es @ requests fs"
  by (simp_all add: requests_def)

lemma requests_filter: "requests (filter is_http es) = requests es"
  by (induction es) (auto simp: requests_def is_http_def split: effect.split)

definition exchanges :: "env \<Rightarrow> http_request list \<Rightarrow> (http_request \<times> http_outcome) list" where
  "exchanges E rs = map (\<lambda>r. (r, BMC E r)) rs"

inductive life_step :: "'o run \<Rightarrow> (env \<Rightarrow> bool) \<Rightarrow> ('o \<Rightarrow> 'o \<Rightarrow> bool) \<Rightarrow> ('o \<Rightarrow> bool) \<Rightarrow> bool
    \<Rightarrow> 'o world \<Rightarrow> 'o world \<Rightarrow> bool"
  for run ok edit gone lossy where
  reconcile: "w_obj w = Some x \<Longrightarrow> ok E \<Longrightarrow> run E x = (y, rs)
    \<Longrightarrow> life_step run ok edit gone lossy w \<lparr>w_obj = Some y, w_log = w_log w @ exchanges E rs\<rparr>"
| lost_patch: "lossy \<Longrightarrow> w_obj w = Some x \<Longrightarrow> ok E \<Longrightarrow> run E x = (y, rs)
    \<Longrightarrow> life_step run ok edit gone lossy w \<lparr>w_obj = Some x, w_log = w_log w @ exchanges E rs\<rparr>"
| edited: "w_obj w = Some x \<Longrightarrow> edit x y \<Longrightarrow> life_step run ok edit gone lossy w (w\<lparr>w_obj := Some y\<rparr>)"
| collected: "w_obj w = Some x \<Longrightarrow> gone x \<Longrightarrow> life_step run ok edit gone lossy w (w\<lparr>w_obj := None\<rparr>)"

inductive life :: "'o run \<Rightarrow> (env \<Rightarrow> bool) \<Rightarrow> ('o \<Rightarrow> 'o \<Rightarrow> bool) \<Rightarrow> ('o \<Rightarrow> bool) \<Rightarrow> bool \<Rightarrow> ('o \<Rightarrow> bool)
    \<Rightarrow> 'o world \<Rightarrow> bool"
  for run ok edit gone lossy init where
  born: "init x \<Longrightarrow> life run ok edit gone lossy init \<lparr>w_obj = Some x, w_log = []\<rparr>"
| later: "life run ok edit gone lossy init w \<Longrightarrow> life_step run ok edit gone lossy w w'
    \<Longrightarrow> life run ok edit gone lossy init w'"

text \<open>The steps at the end of a life.\<close>

lemma life_reconciled:
  "life run ok edit gone lossy init w \<Longrightarrow> w_obj w = Some x \<Longrightarrow> ok E \<Longrightarrow> run E x = (y, rs)
   \<Longrightarrow> life run ok edit gone lossy init \<lparr>w_obj = Some y, w_log = w_log w @ exchanges E rs\<rparr>"
  by (erule life.later) (rule life_step.reconcile)

lemma life_first:
  "init x \<Longrightarrow> ok E \<Longrightarrow> run E x = (y, rs)
   \<Longrightarrow> life run ok edit gone lossy init \<lparr>w_obj = Some y, w_log = exchanges E rs\<rparr>"
  using life_reconciled [OF life.born [of init x run ok edit gone lossy], of x E y rs] by simp

lemma life_lost_patch:
  "life run ok edit gone True init w \<Longrightarrow> w_obj w = Some x \<Longrightarrow> ok E \<Longrightarrow> run E x = (y, rs)
   \<Longrightarrow> life run ok edit gone True init \<lparr>w_obj = Some x, w_log = w_log w @ exchanges E rs\<rparr>"
  by (erule life.later) (rule life_step.lost_patch [OF TrueI])

lemma life_edited:
  "life run ok edit gone lossy init w \<Longrightarrow> w_obj w = Some x \<Longrightarrow> edit x y
   \<Longrightarrow> life run ok edit gone lossy init (w\<lparr>w_obj := Some y\<rparr>)"
  by (erule life.later) (rule life_step.edited)

lemma life_collected:
  "life run ok edit gone lossy init w \<Longrightarrow> w_obj w = Some x \<Longrightarrow> gone x
   \<Longrightarrow> life run ok edit gone lossy init (w\<lparr>w_obj := None\<rparr>)"
  by (erule life.later) (rule life_step.collected)

inductive_cases life_stepE: "life_step run ok edit gone lossy w w'"

text \<open>A gone object stays gone, and nothing is sent for it any more.\<close>

lemma no_step_when_gone: "w_obj w = None \<Longrightarrow> \<not> life_step run ok edit gone lossy w w'"
  by (auto elim: life_stepE)

section \<open>Accepted requests\<close>

text \<open>
  A request counts as accepted when the service answered with a success code, also when the body of
  the answer could not be read.
\<close>

fun accepted :: "http_outcome \<Rightarrow> bool" where
  "accepted (DoError e) = False"
| "accepted (ReadError c e) = http_ok c"
| "accepted (Response c b) = http_ok c"

definition accepted_count :: "(http_request \<Rightarrow> bool) \<Rightarrow> (http_request \<times> http_outcome) list \<Rightarrow> nat" where
  "accepted_count P l = length (filter (\<lambda>(r, out). P r \<and> accepted out) l)"

lemma accepted_count_simps [simp]:
  "accepted_count P [] = 0" "accepted_count P (l @ m) = accepted_count P l + accepted_count P m"
  by (simp_all add: accepted_count_def)

lemma accepted_count_none: "filter P rs = [] \<Longrightarrow> accepted_count P (exchanges E rs) = 0"
  by (auto simp: accepted_count_def exchanges_def filter_empty_conv)

lemma accepted_count_le: "accepted_count P (exchanges E rs) \<le> length (filter P rs)"
  by (induction rs) (auto simp: accepted_count_def exchanges_def)

lemma accepted_count_pos:
  "accepted_count P (exchanges E rs) \<noteq> 0 \<Longrightarrow> \<exists>r \<in> set rs. P r \<and> accepted (BMC E r)"
  by (auto simp: accepted_count_def exchanges_def filter_empty_conv)

section \<open>Keeping an invariant\<close>

locale object_invariant =
  fixes run :: "'o run" and ok :: "env \<Rightarrow> bool" and edit :: "'o \<Rightarrow> 'o \<Rightarrow> bool" and inv :: "'o \<Rightarrow> bool"
  assumes run_inv: "inv x \<Longrightarrow> ok E \<Longrightarrow> run E x = (y, rs) \<Longrightarrow> inv y"
    and edit_inv: "inv x \<Longrightarrow> edit x y \<Longrightarrow> inv y"
begin

lemma life_inv:
  assumes "life run ok edit gone lossy inv w" and "w_obj w = Some x"
  shows "inv x"
  using assms
proof (induction arbitrary: x rule: life.induct)
  case (born z)
  then show ?case by simp
next
  case (later w w')
  from later.hyps(2) later.prems show ?case
    by (cases rule: life_step.cases) (auto dest: run_inv edit_inv later.IH)
qed

end

section \<open>Creating a resource once\<close>

text \<open>
  A controller that creates an external resource and stores its identifier: with an identifier it
  creates nothing and keeps it; without one it sends at most one create, and after an accepted one the
  identifier is there.
\<close>

locale creator = object_invariant run ok edit storable
  for run :: "'o run" and ok and edit and storable +
  fixes ident :: "'o \<Rightarrow> string" and is_create :: "http_request \<Rightarrow> bool"
  assumes run_created: "ident x \<noteq> [] \<Longrightarrow> ok E \<Longrightarrow> run E x = (y, rs) \<Longrightarrow> ident y = ident x \<and> filter is_create rs = []"
    and run_creates: "ident x = [] \<Longrightarrow> storable x \<Longrightarrow> ok E \<Longrightarrow> run E x = (y, rs)
      \<Longrightarrow> length (filter is_create rs) \<le> 1 \<and> ((\<exists>r \<in> set rs. is_create r \<and> accepted (BMC E r)) \<longrightarrow> ident y \<noteq> [])"
    and edit_ident: "edit x y \<Longrightarrow> ident y = ident x"
begin

lemma reconcile_counts:
  assumes "storable x" and "ok E" and "run E x = (y, rs)"
  shows "accepted_count is_create (exchanges E rs) \<le> (if ident x = [] then 1 else 0)
    \<and> (ident x \<noteq> [] \<or> accepted_count is_create (exchanges E rs) \<noteq> 0 \<longrightarrow> ident y \<noteq> [])"
proof (cases "ident x = []")
  case True
  then show ?thesis
    using run_creates [OF True assms] accepted_count_le [of is_create E rs] accepted_count_pos [of is_create E rs]
    by auto
next
  case False
  then show ?thesis
    using run_created [OF False assms(2,3)] accepted_count_none [of is_create rs E] by simp
qed

text \<open>At most one accepted create in a life without lost patches, and one only with an identifier.\<close>

lemma created_once:
  assumes "life run ok edit gone False storable w"
  shows "accepted_count is_create (w_log w) \<le> 1
    \<and> (\<forall>x. w_obj w = Some x \<longrightarrow> storable x \<and> (accepted_count is_create (w_log w) = 0 \<or> ident x \<noteq> []))"
  using assms
proof (induction rule: life.induct)
  case (born x)
  then show ?case by simp
next
  case (later w w')
  from later.hyps(2) show ?case
  proof (cases rule: life_step.cases)
    case (reconcile x E y rs)
    then show ?thesis
      using later.IH reconcile_counts [of x E y rs] run_inv [of x E y rs] by (auto split: if_splits)
  next
    case (edited x y)
    then show ?thesis using later.IH edit_ident edit_inv by auto
  qed (use later.IH in auto)
qed

end

end
