(* ===== verification/ClusterFacts.thy ===== *)
theory ClusterFacts
  imports ClusterController
begin

text \<open>
  What each step of the cluster reconciler leaves alone and what it may change, for the properties of
  the controller.
\<close>

named_theorems cluster_frame \<open>parts of the cluster that an operation leaves alone\<close>

section \<open>Marks\<close>

lemma cluster_mark_frame [cluster_frame]:
  "cc_meta (cluster_create_irreconcilable c cc) = cc_meta cc" "cc_spec (cluster_create_irreconcilable c cc) = cc_spec cc"
  "cc_meta (cluster_stale cc) = cc_meta cc" "cc_spec (cluster_stale cc) = cc_spec cc"
  "cc_meta (cluster_irreconcilable c cc) = cc_meta cc" "cc_spec (cluster_irreconcilable c cc) = cc_spec cc"
  "cc_meta (cluster_denied s c cc) = cc_meta cc" "cc_spec (cluster_denied s c cc) = cc_spec cc"
  "cc_meta (cluster_unreadable E j cc) = cc_meta cc" "cc_spec (cluster_unreadable E j cc) = cc_spec cc"
  "cc_meta (cluster_status_delta ss cc) = cc_meta cc" "cc_spec (cluster_status_delta ss cc) = cc_spec cc"
  "cc_meta (ready_assigned cc) = cc_meta cc" "cc_spec (ready_assigned cc) = cc_spec cc"
  "cc_meta (ready_unassigned cc) = cc_meta cc" "cc_spec (ready_unassigned cc) = cc_spec cc"
  by (simp_all add: go_defs ready_assigned_def ready_unassigned_def)

lemma cluster_mark_ready [cluster_frame]:
  "cstat_Ready (cc_status (cluster_create_irreconcilable c cc)) = cstat_Ready (cc_status cc)"
  "cstat_Ready (cc_status (cluster_stale cc)) = cstat_Ready (cc_status cc)"
  "cstat_Ready (cc_status (cluster_irreconcilable c cc)) = cstat_Ready (cc_status cc)"
  "cstat_Ready (cc_status (cluster_denied s c cc)) = cstat_Ready (cc_status cc)"
  "cstat_Ready (cc_status (cluster_unreadable E j cc)) = cstat_Ready (cc_status cc)"
  "cstat_Ready (cc_status (cluster_status_delta ss cc)) = cstat_Ready (cc_status cc)"
  by (simp_all add: go_defs)

lemma cluster_ready_conditions:
  "cstat_Ready (cc_status (ready_unassigned (ready_assigned cc))) \<longleftrightarrow> cstat_Ready (cc_status cc)
     \<or> (cstat_BMCStatus (cc_status cc) = StatusAssigned \<and> cspec_VIPManager (cc_spec cc) = NONE)
     \<or> (cstat_BMCStatus (cc_status cc) = StatusNotAssigned \<and> cspec_VIPManager (cc_spec cc) = KUBEVIP)"
  "cstat_BMCStatus (cc_status (ready_unassigned (ready_assigned cc))) = cstat_BMCStatus (cc_status cc)"
  by (auto simp: ready_assigned_def ready_unassigned_def go_defs)

section \<open>The log\<close>

definition cquiet :: "ClusterContext \<Rightarrow> ClusterContext \<Rightarrow> bool" where
  "cquiet cc cc' \<longleftrightarrow> filter is_http (cc_log cc') = filter is_http (cc_log cc)
     \<and> (\<forall>e \<in> set (cc_log cc'). e \<in> set (cc_log cc) \<or> is_event e)"

lemma cquiet_trans: "cquiet a b \<Longrightarrow> cquiet b c \<Longrightarrow> cquiet a c"
  by (auto simp: cquiet_def)

lemma cquiet_refl [simp]: "cquiet cc cc"
  by (simp add: cquiet_def)

lemma cquiet_marks [simp]:
  "cquiet cc (cluster_create_irreconcilable c cc)" "cquiet cc (cluster_stale cc)"
  "cquiet cc (cluster_irreconcilable c cc)" "cquiet cc (cluster_denied s c cc)"
  "cquiet cc (cluster_unreadable E j cc)" "cquiet cc (cluster_status_delta ss cc)"
  "cquiet cc (cc_Event t r m cc)" "cquiet cc (cc_Eventf t r m args cc)"
  by (simp_all add: cquiet_def go_defs)

lemma ready_log [simp]: "cc_log (ready_unassigned (ready_assigned cc)) = cc_log cc"
  by (simp add: ready_assigned_def ready_unassigned_def go_defs)

lemma cquiet_http: "cquiet cc cc' \<Longrightarrow> filter is_http (cc_log cc') = filter is_http (cc_log cc)"
  by (simp add: cquiet_def)

section \<open>reconcileSynchronize\<close>

lemma cluster_poll_response_frame [cluster_frame]:
  "cc_meta (snd (cluster_poll_response E c body cc)) = cc_meta cc"
  "cc_spec (snd (cluster_poll_response E c body cc)) = cc_spec cc"
  by (simp_all add: cluster_poll_response_def cluster_poll_accepted_def cluster_frame cc_Eventf_def split: sum.split)

lemma cluster_poll_response_ready:
  "cstat_Ready (cc_status cc) \<Longrightarrow> cstat_Ready (cc_status (snd (cluster_poll_response E c body cc)))"
  by (simp add: cluster_poll_response_def cluster_poll_accepted_def cluster_frame cluster_ready_conditions
      cc_Eventf_def split: sum.split)

lemma cquiet_poll_response: "cquiet cc (snd (cluster_poll_response E c body cc))"
proof -
  have "cquiet cc (ready_unassigned (ready_assigned (cluster_status_delta ss cc)))" for ss
    using cquiet_marks(6) [of cc ss] by (simp add: cquiet_def)
  then show ?thesis
    by (simp add: cluster_poll_response_def cluster_poll_accepted_def split: sum.split)
qed

lemma cluster_sync_frame [cluster_frame]:
  "cc_meta (snd (cluster_reconcileSynchronize E cc)) = cc_meta cc"
  "cc_spec (snd (cluster_reconcileSynchronize E cc)) = cc_spec cc"
  by (simp_all add: cluster_reconcileSynchronize_def Let_def cluster_frame split: prod.split http_outcome.split)

lemma cluster_sync_ready:
  "cstat_Ready (cc_status cc) \<Longrightarrow> cstat_Ready (cc_status (snd (cluster_reconcileSynchronize E cc)))"
  by (simp add: cluster_reconcileSynchronize_def Let_def cluster_frame cluster_poll_response_ready
      split: prod.split http_outcome.split)

lemma cluster_sync_log:
  "cquiet (clog_effects (snd (http_send E (http_Get (ip_block_url E (cc_GetIPAllocationID cc))))) cc)
     (snd (cluster_reconcileSynchronize E cc))"
  by (simp add: cluster_reconcileSynchronize_def Let_def cquiet_poll_response
      split: prod.split http_outcome.split)

section \<open>reconcileCreate\<close>

text \<open>A stored identifier changes no part of the context but the annotations.\<close>

lemma cc_SetIP_Some: "om_Annotations (cc_meta cc) \<noteq> None \<Longrightarrow> \<exists>cc'. cc_SetIP i cc = Some cc'"
  using cluster_ip.put_succeeds [of cc i] by blast

lemma cc_SetIPAllocationID_Some:
  "om_Annotations (cc_meta cc) \<noteq> None \<Longrightarrow> \<exists>cc'. cc_SetIPAllocationID i cc = Some cc'"
  using ip_allocation.put_succeeds [of cc i] by blast

lemma cquiet_SetIP: "cc_SetIP i cc = Some cc' \<Longrightarrow> cc_log cc' = cc_log cc"
  by (rule cc_SetIP_simps(3))

text \<open>
  The outcome of an accepted allocation, by what can go wrong: no annotation map, an unreadable
  address, or neither.
\<close>

definition allocation_noted :: "BMCClusterStatus \<Rightarrow> ClusterContext \<Rightarrow> ClusterContext" where
  "allocation_noted ips cc = cc_SetStatus ips
     (cc_Eventf EventTypeNormal EventReasonCreated ''Created BMC IP-Block %s'' [FStr (cstat_ID ips)] cc)"

lemma allocation_noted_simps [simp]:
  "cc_meta (allocation_noted ips cc) = cc_meta cc" "cc_spec (allocation_noted ips cc) = cc_spec cc"
  "cstat_Ready (cc_status (allocation_noted ips cc)) = cstat_Ready (cc_status cc)"
  "cstat_ID (cc_status (allocation_noted ips cc)) = cstat_ID ips"
  "cstat_BMCStatus (cc_status (allocation_noted ips cc)) = cstat_BMCStatus ips"
  "cc_log (allocation_noted ips cc) = cc_log cc @ [Event EventTypeNormal EventReasonCreated
      (Sprintf ''Created BMC IP-Block %s'' [FStr (cstat_ID ips)])]"
  by (simp_all add: allocation_noted_def go_defs)

lemma cluster_allocated_noted:
  "cluster_allocated ips cc = (let cc1 = allocation_noted ips cc in
      case cc_SetIPAllocationID (cstat_ID ips) cc1 of
        None \<Rightarrow> Panics NilMapWrite cc1
      | Some cc2 \<Rightarrow>
         (case ParseIP (TrimSuffix (cstat_CIDR ips) ''/31'') of
            None \<Rightarrow> Panics (IndexOutOfRange 15 0) cc2
          | Some a \<Rightarrow>
             let addr = IP_String (next_address a) in
             (case cc_SetIP addr cc2 of
                None \<Rightarrow> Panics NilMapWrite cc2
              | Some cc3 \<Rightarrow> Returns (noRequeue, None) (cc_SetReady (cc_SetControlPlaneEndpoint addr 6443 cc3)))))"
  by (simp only: cluster_allocated_def allocation_noted_def Let_def)

lemma cluster_allocated_no_map:
  "om_Annotations (cc_meta cc) = None
   \<Longrightarrow> cluster_allocated ips cc = Panics NilMapWrite (allocation_noted ips cc)"
  using ip_allocation.put_None_iff [of "cstat_ID ips" "allocation_noted ips cc"]
  by (simp add: cluster_allocated_noted Let_def)

lemma cluster_allocated_bad_address:
  assumes "om_Annotations (cc_meta cc) \<noteq> None" and "ParseIP (TrimSuffix (cstat_CIDR ips) ''/31'') = None"
  shows "\<exists>cc'. cluster_allocated ips cc = Panics (IndexOutOfRange 15 0) cc'
    \<and> cc_SetIPAllocationID (cstat_ID ips) (allocation_noted ips cc) = Some cc'"
  using assms ip_allocation.put_succeeds [of "allocation_noted ips cc" "cstat_ID ips"]
  by (auto simp: cluster_allocated_noted Let_def)

lemma cluster_allocated_ok:
  assumes "om_Annotations (cc_meta cc) \<noteq> None" and "ParseIP (TrimSuffix (cstat_CIDR ips) ''/31'') = Some a"
  shows "\<exists>cc1 cc2. cc_SetIPAllocationID (cstat_ID ips) (allocation_noted ips cc) = Some cc1
    \<and> cc_SetIP (IP_String (next_address a)) cc1 = Some cc2
    \<and> cluster_allocated ips cc = Returns (noRequeue, None)
        (cc_SetReady (cc_SetControlPlaneEndpoint (IP_String (next_address a)) 6443 cc2))"
proof -
  obtain cc1 where 1: "cc_SetIPAllocationID (cstat_ID ips) (allocation_noted ips cc) = Some cc1"
    using assms ip_allocation.put_succeeds [of "allocation_noted ips cc" "cstat_ID ips"] by auto
  obtain cc2 where 2: "cc_SetIP (IP_String (next_address a)) cc1 = Some cc2"
    using cc_SetIP_Some [OF ip_allocation.put_has_map [OF 1]] by blast
  show ?thesis
    using assms 1 2 by (simp add: cluster_allocated_noted Let_def)
qed

lemma cluster_allocated_log: "cquiet cc (outcome_state (cluster_allocated ips cc))"
proof (cases "om_Annotations (cc_meta cc)")
  case None
  then show ?thesis by (simp add: cluster_allocated_no_map cquiet_def)
next
  case (Some m)
  show ?thesis
  proof (cases "ParseIP (TrimSuffix (cstat_CIDR ips) ''/31'')")
    case None
    with Some cluster_allocated_bad_address [of cc ips] show ?thesis
      by (auto simp: cquiet_def cc_SetIPAllocationID_simps(3))
  next
    case (Some a)
    with \<open>om_Annotations (cc_meta cc) = _\<close> cluster_allocated_ok [of cc ips a] show ?thesis
      by (auto simp: cquiet_def cc_SetIPAllocationID_simps(3) cc_SetIP_simps(3) cc_SetReady_def)
  qed
qed

lemma cquiet_create_response: "cquiet cc (outcome_state (cluster_create_response E c body cc))"
  by (simp add: cluster_create_response_def cluster_create_accepted_def cluster_allocated_log split: sum.split)

lemma cluster_create_log:
  "cquiet (clog_effects (snd (http_send E (allocate_http E cc))) cc) (outcome_state (cluster_reconcileCreate E cc))"
  by (simp add: cluster_reconcileCreate_def Let_def cquiet_create_response split: prod.split http_outcome.split)

section \<open>reconcileDelete\<close>

lemma cluster_deleted_simps [simp]:
  "cc_spec (cluster_deleted E cc) = cc_spec cc" "cc_status (cluster_deleted E cc) = cc_status cc"
  "om_Annotations (cc_meta (cluster_deleted E cc)) = om_Annotations (cc_meta cc)"
  "om_Finalizers (cc_meta (cluster_deleted E cc)) = RemoveFinalizer E (om_Finalizers (cc_meta cc)) ClusterFinalizer"
  by (simp_all add: cluster_deleted_def go_defs)

lemma cquiet_deleted [simp]: "cquiet cc (cluster_deleted E cc)"
  by (simp add: cluster_deleted_def cquiet_def go_defs)

text \<open>The request a reconciliation of an existing, unpaused cluster makes, if any.\<close>

definition cluster_request :: "env \<Rightarrow> ClusterContext \<Rightarrow> http_request option" where
  "cluster_request E cc =
     (if cluster_IsMarkedDeleted (Some (cc_BMCCluster cc)) then
        (if cc_IsStatusEqual cc StatusNotAssigned
         then Some (http_Delete (ip_block_url E (cc_GetIPAllocationID cc))) else None)
      else if cc_GetIP cc = [] then Some (allocate_http E cc)
      else Some (http_Get (ip_block_url E (cc_GetIPAllocationID cc))))"

definition request_log :: "env \<Rightarrow> http_request option \<Rightarrow> effect list" where
  "request_log E r = (case r of None \<Rightarrow> [] | Some r \<Rightarrow> snd (http_send E r))"

lemma request_log_http: "filter is_http (request_log E r) = request_log E r" "length (request_log E r) \<le> 1"
  by (auto simp: request_log_def http_send_def split: option.split)

lemma cc_AddFini_simps [simp]:
  "cc_GetIP (cc_AddFini E cc) = cc_GetIP cc" "cc_GetIPAllocationID (cc_AddFini E cc) = cc_GetIPAllocationID cc"
  "cc_spec (cc_AddFini E cc) = cc_spec cc" "cc_status (cc_AddFini E cc) = cc_status cc"
  "cc_log (cc_AddFini E cc) = cc_log cc" "allocate_http E' (cc_AddFini E cc) = allocate_http E' cc"
  "om_Annotations (cc_meta (cc_AddFini E cc)) = om_Annotations (cc_meta cc)"
  by (simp_all add: cc_AddFini_def cc_GetIP_def cc_GetIPAllocationID_def annotation_def allocate_http_def
      ip_block_request_def)

lemma cquiet_cong_log: "cc_log cc = cc_log cc' \<Longrightarrow> cquiet cc d = cquiet cc' d"
  by (simp add: cquiet_def)

lemma cluster_live_log:
  assumes "\<not> cluster_IsMarkedDeleted (Some (cc_BMCCluster cc))"
  shows "cquiet (clog_effects (request_log E (cluster_request E cc)) cc) (outcome_state (cluster_reconcileLive E cc))"
proof -
  let ?cc0 = "if cc_HasFini E cc then cc else cc_AddFini E cc"
  have same: "cc_GetIP ?cc0 = cc_GetIP cc" "cc_GetIPAllocationID ?cc0 = cc_GetIPAllocationID cc"
    "allocate_http E ?cc0 = allocate_http E cc" "cc_log ?cc0 = cc_log cc" by simp_all
  have c: "cquiet (clog_effects es ?cc0) d \<longleftrightarrow> cquiet (clog_effects es cc) d" for es d
    by (rule cquiet_cong_log) (simp add: same)
  show ?thesis
    using cluster_create_log [of E ?cc0] cluster_sync_log [of E ?cc0] assms
    unfolding c same
    by (auto simp: cluster_reconcileLive_def Let_def same cluster_request_def request_log_def split: prod.split)
qed

lemma cluster_delete_log:
  assumes "cluster_IsMarkedDeleted (Some (cc_BMCCluster cc))"
  shows "cquiet (clog_effects (request_log E (cluster_request E cc)) cc) (outcome_state (cluster_reconcileDelete E cc))"
  using assms cquiet_deleted [of "clog_effects [] cc" E]
  by (auto simp: cluster_reconcileDelete_def cluster_request_def request_log_def cc_IsStatusEqual_def
      StatusNotAssigned_def Let_def cquiet_def clog_effects_def
      cluster_deleted_def go_defs split: prod.split http_outcome.split)

lemma cluster_dispatch_log:
  "cquiet (clog_effects (request_log E (cluster_request E cc)) cc) (outcome_state (cluster_dispatch E cc))"
  by (simp add: cluster_dispatch_def cluster_live_log cluster_delete_log)

section \<open>The identifiers fit together\<close>

text \<open>
  An object with an address has it as the host of its endpoint, on port 6443, and is ready.
\<close>

definition cluster_linked :: "BMCCluster \<Rightarrow> bool" where
  "cluster_linked bc \<longleftrightarrow> (let ip = annotation (bc_Meta bc) ANNOTATION_NAME_BMC_CLUSTER_IP in
     ip = [] \<or> (cspec_ControlPlaneEndpoint (bc_Spec bc) = \<lparr>ep_Host = ip, ep_Port = 6443\<rparr>
       \<and> cstat_Ready (bc_Status bc)))"

abbreviation cc_linked :: "ClusterContext \<Rightarrow> bool" where
  "cc_linked cc \<equiv> cluster_linked (cc_BMCCluster cc)"

lemma cc_linked_iff:
  "cc_linked cc \<longleftrightarrow> cc_GetIP cc = []
     \<or> (cspec_ControlPlaneEndpoint (cc_spec cc) = \<lparr>ep_Host = cc_GetIP cc, ep_Port = 6443\<rparr> \<and> cc_IsReady cc)"
  by (simp add: cluster_linked_def cc_GetIP_def cc_IsReady_def Let_def)

lemma linked_no_ip: "cc_GetIP cc = [] \<Longrightarrow> cc_linked cc"
  by (simp add: cc_linked_iff)

text \<open>Keeping the annotations, the specification and readiness keeps the link.\<close>

lemma linked_frame:
  assumes "cc_linked cc" and "om_Annotations (cc_meta cc') = om_Annotations (cc_meta cc)"
    and "cc_spec cc' = cc_spec cc" and "cstat_Ready (cc_status cc) \<longrightarrow> cstat_Ready (cc_status cc')"
  shows "cc_linked cc'"
  using assms by (auto simp: cc_linked_iff cc_GetIP_def annotation_def cc_IsReady_def)

lemma cc_linked_allocated:
  assumes "cc_GetIP cc = []"
  shows "cc_linked (outcome_state (cluster_allocated ips cc))"
proof (cases "om_Annotations (cc_meta cc)")
  case None
  with assms show ?thesis
    by (intro linked_no_ip) (simp add: cluster_allocated_no_map cc_GetIP_def)
next
  case (Some m)
  show ?thesis
  proof (cases "ParseIP (TrimSuffix (cstat_CIDR ips) ''/31'')")
    case None
    with Some obtain cc1 where "cluster_allocated ips cc = Panics (IndexOutOfRange 15 0) cc1"
      and "cc_SetIPAllocationID (cstat_ID ips) (allocation_noted ips cc) = Some cc1"
      using cluster_allocated_bad_address [of cc ips] by auto
    with assms show ?thesis
      using cc_SetIPAllocationID_simps(5) by (intro linked_no_ip) (fastforce simp: cc_GetIP_def)
  next
    case addr: (Some a)
    obtain cc1 cc2 where 2: "cc_SetIP (IP_String (next_address a)) cc1 = Some cc2"
      and r: "cluster_allocated ips cc = Returns (noRequeue, None)
        (cc_SetReady (cc_SetControlPlaneEndpoint (IP_String (next_address a)) 6443 cc2))"
      using cluster_allocated_ok [OF _ addr, of cc] Some by auto
    show ?thesis
      using cc_SetIP_simps(4) [OF 2] by (simp add: r cc_linked_iff cc_SetReady_def cc_IsReady_def cc_GetIP_def)
  qed
qed

lemma cc_linked_create_response:
  assumes "cc_GetIP cc = []"
  shows "cc_linked (outcome_state (cluster_create_response E c body cc))"
  using assms cc_linked_allocated [OF assms]
  by (auto simp: cluster_create_response_def cluster_create_accepted_def cc_linked_iff cc_GetIP_def
      cluster_frame cc_Event_def cc_Eventf_def split: sum.split)

lemma linked_create:
  assumes "cc_GetIP cc = []"
  shows "cc_linked (outcome_state (cluster_reconcileCreate E cc))"
  using assms cc_linked_create_response [of "clog_effects es cc" for es]
  by (auto simp: cluster_reconcileCreate_def Let_def cc_linked_iff cc_GetIP_def cc_Event_def
      split: prod.split http_outcome.split)

lemma linked_live:
  assumes "cc_linked cc"
  shows "cc_linked (outcome_state (cluster_reconcileLive E cc))"
proof -
  let ?cc0 = "if cc_HasFini E cc then cc else cc_AddFini E cc"
  have l: "cc_linked ?cc0" using assms by (simp add: cc_linked_iff cc_IsReady_def)
  have "cc_linked (snd (cluster_reconcileSynchronize E ?cc0))"
    using l by (rule linked_frame) (simp_all add: cluster_frame cluster_sync_ready)
  then show ?thesis
    using linked_create [of ?cc0 E] by (auto simp: cluster_reconcileLive_def Let_def split: prod.split)
qed

lemma linked_delete:
  assumes "cc_linked cc"
  shows "cc_linked (outcome_state (cluster_reconcileDelete E cc))"
  using assms by (rule linked_frame)
    (simp_all add: cluster_reconcileDelete_def Let_def split: prod.split http_outcome.split)

lemma linked_dispatch: "cc_linked cc \<Longrightarrow> cc_linked (outcome_state (cluster_dispatch E cc))"
  by (simp add: cluster_dispatch_def linked_live linked_delete)

section \<open>Reconcile\<close>

lemma cluster_finish_state:
  "outcome_state (cluster_finish r) = cc_log (outcome_state r) @ [PatchCluster (cc_BMCCluster (outcome_state r))]"
  by (cases r) simp_all

lemma cluster_Reconcile_run:
  "GetBMCCluster E req = Inr bc \<Longrightarrow> GetOwnerCluster E (bc_Meta bc) = Inr (Some cl) \<Longrightarrow> \<not> IsPaused E cl bc
   \<Longrightarrow> cluster_Reconcile E req = cluster_finish (cluster_dispatch E (cluster_context bc cl))"
  by (simp add: cluster_Reconcile_def)

text \<open>Every reconciliation that does anything is one that finds all its objects.\<close>

lemma cluster_Reconcile_cases:
  "(\<exists>v. cluster_Reconcile E req = Returns v [])
   \<or> (\<exists>bc cl. GetBMCCluster E req = Inr bc \<and> GetOwnerCluster E (bc_Meta bc) = Inr (Some cl) \<and> \<not> IsPaused E cl bc
        \<and> cluster_Reconcile E req = cluster_finish (cluster_dispatch E (cluster_context bc cl)))"
  by (auto simp: cluster_Reconcile_def split: sum.split option.split)

lemma cluster_log_shape:
  assumes "cc_log cc = []"
  shows "filter is_http (cc_log (outcome_state (cluster_dispatch E cc))) = request_log E (cluster_request E cc)"
    and "e \<in> set (cc_log (outcome_state (cluster_dispatch E cc))) \<Longrightarrow> is_http e \<or> is_event e"
proof -
  have l: "cquiet (clog_effects (request_log E (cluster_request E cc)) cc) (outcome_state (cluster_dispatch E cc))"
    by (rule cluster_dispatch_log)
  then show "filter is_http (cc_log (outcome_state (cluster_dispatch E cc))) = request_log E (cluster_request E cc)"
    using assms by (simp add: cquiet_def request_log_http)
  show "is_http e \<or> is_event e" if "e \<in> set (cc_log (outcome_state (cluster_dispatch E cc)))"
    using l that assms request_log_http(1) [of E "cluster_request E cc"]
    by (auto simp: cquiet_def filter_id_conv)
qed

end
