(* ===== verification/ClusterProps.thy ===== *)
theory ClusterProps
  imports ClusterFacts Examples
begin

text \<open>
  What the cluster reconciler guarantees: the allocation of the address block, polling, deletion, and
  the whole of \<open>Reconcile\<close> with its deferred patch.
\<close>

section \<open>Allocation\<close>

lemma next_address_v4: "next_address (v4_prefix @ [a, b, c, d]) = v4_prefix @ [a, b, c, d + 1]"
  by (simp add: next_address_def v4_prefix_def nth_append list_update_append numeral_eq_Suc)

text \<open>
  C14. An accepted allocation of an IPv4 block of two addresses whose first address is even: the
  cluster gets the second address of the block, without carry into the other octets, both as its
  annotation and as the host of the control plane endpoint on port 6443; the allocation id is stored,
  the status is the reported one, and the cluster is ready.
\<close>

theorem cluster_create_success:
  assumes "http_ok st" and "unmarshal_cluster_status body = Inr ips"
    and "cstat_CIDR ips = octets_str [a, b, c, d] @ ''/31''" and "even (unat d)"
    and "om_Annotations (cc_meta cc) \<noteq> None"
  shows "\<exists>cc'. cluster_create_response E st body cc = Returns (noRequeue, None) cc'
    \<and> cc_GetIP cc' = octets_str [a, b, c, d + 1] \<and> unat (d + 1) = unat d + 1
    \<and> cc_GetIPAllocationID cc' = cstat_ID ips
    \<and> cspec_ControlPlaneEndpoint (cc_spec cc') = \<lparr>ep_Host = cc_GetIP cc', ep_Port = 6443\<rparr>
    \<and> cc_GetBMCStatus cc' = cstat_BMCStatus ips \<and> cc_IsReady cc'"
proof -
  let ?host = "octets_str [a, b, c, d + 1]"
  have "ParseIP (TrimSuffix (cstat_CIDR ips) ''/31'') = Some (v4_prefix @ [a, b, c, d])"
    using assms(3) by (simp add: ParseIP_octets)
  from cluster_allocated_ok [OF assms(5) this]
  obtain cc1 cc2 where 1: "cc_SetIPAllocationID (cstat_ID ips) (allocation_noted ips cc) = Some cc1"
    and 2: "cc_SetIP ?host cc1 = Some cc2"
    and r: "cluster_allocated ips cc
      = Returns (noRequeue, None) (cc_SetReady (cc_SetControlPlaneEndpoint ?host 6443 cc2))"
    by (auto simp: next_address_v4 IP_String_v4)
  have "unat d \<noteq> 255"
  proof
    assume "unat d = 255"
    with assms(4) show False by simp
  qed
  then have "unat (d + 1) = unat d + 1"
    using unat_8_less [of d] by (simp add: unat_word_ariths)
  then show ?thesis
    using assms(1,2) cc_SetIP_simps [OF 2] cc_SetIPAllocationID_simps [OF 1] r
    by (auto simp: cluster_create_response_def http_ok_def cluster_create_accepted_def cc_GetBMCStatus_def
        cc_IsReady_def cc_SetReady_def cc_GetIP_def cc_GetIPAllocationID_def)
qed

theorem cluster_create_success_witness:
  "\<exists>cc'. cluster_create_response (example_env (\<lambda>_. DoError (LibErr []))) 201
       (block_body ''b1'' ''10.1.2.4/31'' ''unassigned'') example_cc = Returns (noRequeue, None) cc'
    \<and> cc_GetIP cc' = ''10.1.2.5''
    \<and> cspec_ControlPlaneEndpoint (cc_spec cc') = \<lparr>ep_Host = ''10.1.2.5'', ep_Port = 6443\<rparr>"
proof -
  have u: "unmarshal_cluster_status (block_body ''b1'' ''10.1.2.4/31'' ''unassigned'')
      = Inr (block_status ''b1'' ''10.1.2.4/31'' ''unassigned'')"
    by (rule unmarshal_block_body) (simp_all add: utf8_ok_ascii)
  have o: "octets_str [10, 1, 2, 4] = ''10.1.2.4''" "octets_str [10, 1, 2, 4 + 1] = ''10.1.2.5''"
    by code_simp+
  show ?thesis
    using cluster_create_success [OF _ u, of 201 10 1 2 4 example_cc "example_env (\<lambda>_. DoError (LibErr []))"]
    unfolding o by (auto simp: http_ok_def block_status_def example_cc_def example_bmccluster_def example_meta_def)
qed

text \<open>
  An accepted allocation that the controller cannot finish panics, after the block has been paid
  for: without an annotation map nothing of the allocation but the status is kept; with an answer
  whose block is not the text of an address followed by /31, the allocation id is kept but no
  address, and the cluster is not made ready.
\<close>

theorem cluster_create_panics:
  assumes "http_ok st" and "unmarshal_cluster_status body = Inr ips"
    and "om_Annotations (cc_meta cc) = None \<or> ParseIP (TrimSuffix (cstat_CIDR ips) ''/31'') = None"
  shows "\<exists>p cc'. cluster_create_response E st body cc = Panics p cc'
    \<and> cc_GetIP cc' = cc_GetIP cc \<and> cc_IsReady cc' = cc_IsReady cc
    \<and> cc_GetIPAllocationID cc' = (if om_Annotations (cc_meta cc) = None then [] else cstat_ID ips)"
proof -
  have r: "cluster_create_response E st body cc = cluster_allocated ips cc"
    using assms(1,2) by (auto simp: cluster_create_response_def http_ok_def cluster_create_accepted_def)
  show ?thesis
  proof (cases "om_Annotations (cc_meta cc)")
    case None
    then show ?thesis
      by (simp add: r cluster_allocated_no_map cc_GetIP_def cc_GetIPAllocationID_def annotation_def cc_IsReady_def)
  next
    case (Some m)
    with assms(3) cluster_allocated_bad_address [of cc ips] obtain cc1 where
      "cluster_allocated ips cc = Panics (IndexOutOfRange 15 0) cc1"
      and 1: "cc_SetIPAllocationID (cstat_ID ips) (allocation_noted ips cc) = Some cc1" by auto
    then show ?thesis
      using cc_SetIPAllocationID_simps [OF 1] Some by (auto simp: r cc_GetIP_def cc_IsReady_def)
  qed
qed

theorem cluster_create_panics_witness:
  "\<exists>p cc'. cluster_create_response (example_env (\<lambda>_. DoError (LibErr []))) 200
       (block_body ''b1'' ''10.1.2.0/30'' ''unassigned'') example_cc = Panics p cc'
    \<and> cc_GetIP cc' = [] \<and> \<not> cc_IsReady cc' \<and> cc_GetIPAllocationID cc' = ''b1''"
proof -
  have u: "unmarshal_cluster_status (block_body ''b1'' ''10.1.2.0/30'' ''unassigned'')
      = Inr (block_status ''b1'' ''10.1.2.0/30'' ''unassigned'')"
    by (rule unmarshal_block_body) (simp_all add: utf8_ok_ascii)
  have "ParseIP (TrimSuffix ''10.1.2.0/30'' ''/31'') = None"
    by (simp add: TrimSuffix_def HasSuffix_def ParseIP_def is_digit_def digit_val_def)
  then show ?thesis
    using cluster_create_panics [OF _ u, where st = 200 and cc = example_cc
        and E = "example_env (\<lambda>_. DoError (LibErr []))"]
    by (simp add: http_ok_def block_status_def example_cc_def example_bmccluster_def example_meta_def
        cc_GetIP_def annotation_def cc_IsReady_def zero_cluster_status_def)
qed

text \<open>
  A failed allocation leaves the object's metadata and specification as they are and is not
  retried by the controller itself: no failing answer asks for a requeue, and for the codes 400, 401,
  403 and, against the comment in the source, 500 there is not even an error to back off on.
\<close>

theorem cluster_create_failure:
  assumes "\<not> http_ok st"
  shows "\<exists>e cc'. cluster_create_response E st body cc = Returns (noRequeue, e) cc'
    \<and> (e = None \<longleftrightarrow> st \<in> {400, 401, 403, 500})
    \<and> cc_meta cc' = cc_meta cc \<and> cc_spec cc' = cc_spec cc \<and> cc_IsReady cc' = cc_IsReady cc
    \<and> (st = 500 \<longrightarrow> cc_status cc' = cc_status cc)"
  using assms by (auto simp: cluster_create_response_def cluster_frame cc_IsReady_def cc_Eventf_def)

theorem cluster_create_failure_witness:
  "\<exists>cc'. cluster_create_response (example_env (\<lambda>_. DoError (LibErr []))) 500 [] example_cc = Returns (noRequeue, None) cc'
    \<and> cc_status cc' = cc_status example_cc"
  using cluster_create_failure [where st = 500 and cc = example_cc and body = "[]"
      and E = "example_env (\<lambda>_. DoError (LibErr []))"]
  by (simp add: http_ok_def) blast

text \<open>
  The body of an allocation request is read back as a request for a block of two addresses at the
  location of the specification, described by namespace and name of the cluster.
\<close>

theorem ip_block_request_roundtrip:
  assumes "utf8_ok (cspec_Location (cc_spec cc))" and "cspec_Location (cc_spec cc) \<noteq> []"
    and "utf8_ok (''CAPI cluster for BMC '' @ om_Namespace (cc_meta cc) @ ''/'' @ om_Name (cc_meta cc))"
  shows "json_parse (hr_Body (allocate_http E cc)) = Some (JObj
    [(''cidrBlockSize'', JStr ''/31''), (''location'', JStr (cspec_Location (cc_spec cc))),
     (''description'', JStr (''CAPI cluster for BMC '' @ om_Namespace (cc_meta cc) @ ''/'' @ om_Name (cc_meta cc)))])"
proof -
  let ?d = "''CAPI cluster for BMC '' @ om_Namespace (cc_meta cc) @ ''/'' @ om_Name (cc_meta cc)"
  let ?v = "JObj [(''cidrBlockSize'', JStr ''/31''), (''location'', JStr (cspec_Location (cc_spec cc))),
     (''description'', JStr ?d)]"
  have "Sprintf ''CAPI cluster for BMC %s/%s'' [FStr (om_Namespace (cc_meta cc)), FStr (om_Name (cc_meta cc))] = ?d"
    by (simp add: fmt_extras_def)
  then have "json_IPBlockRequest (ip_block_request cc) = ?v"
    using assms(2) by (simp add: json_IPBlockRequest_def ip_block_request_def omit_string_def)
  moreover have "printable ?v"
    using assms(1,3) by (simp add: printable_def max_depth_def utf8_ok_ascii)
  ultimately show ?thesis by (simp add: allocate_http_def json.dec_enc del: json_text.simps)
qed

theorem ip_block_request_roundtrip_witness:
  "json_parse (hr_Body (allocate_http (example_env (\<lambda>_. DoError (LibErr []))) example_cc)) = Some (JObj
    [(''cidrBlockSize'', JStr ''/31''), (''location'', JStr ''PHX''),
     (''description'', JStr ''CAPI cluster for BMC ns/c'')])"
  using ip_block_request_roundtrip [of example_cc "example_env (\<lambda>_. DoError (LibErr []))"]
  by (simp add: example_cc_def example_bmccluster_def example_meta_def utf8_ok_ascii)

section \<open>Polling\<close>

text \<open>
  A readable poll takes over the reported status and makes the cluster ready exactly in two
  states, an assigned block without VIP manager and an unassigned one with kube-vip; the next poll is
  in five minutes.  The allocation fields are refreshed only when the status is news.
\<close>

theorem cluster_poll_readable:
  assumes "http_ok st" and "unmarshal_cluster_status body = Inr ss"
  shows "\<exists>cc'. cluster_poll_response E st body cc = ((requeueAfter5Min, None), cc')
    \<and> cc_GetBMCStatus cc' = cstat_BMCStatus ss
    \<and> (cc_IsReady cc' \<longleftrightarrow> cc_IsReady cc
         \<or> (cstat_BMCStatus ss = StatusAssigned \<and> cspec_VIPManager (cc_spec cc) = NONE)
         \<or> (cstat_BMCStatus ss = StatusNotAssigned \<and> cspec_VIPManager (cc_spec cc) = KUBEVIP))
    \<and> (cstat_ID (cc_status cc'), cstat_CIDR (cc_status cc'))
        = (if cc_GetBMCStatus cc = cstat_BMCStatus ss then (cstat_ID (cc_status cc), cstat_CIDR (cc_status cc))
           else (cstat_ID ss, cstat_CIDR ss))"
proof -
  let ?d = "cluster_status_delta ss cc"
  have r: "cluster_poll_response E st body cc = ((requeueAfter5Min, None), ready_unassigned (ready_assigned ?d))"
    using assms by (auto simp: cluster_poll_response_def http_ok_def cluster_poll_accepted_def)
  have d: "cstat_BMCStatus (cc_status ?d) = cstat_BMCStatus ss"
    "(cstat_ID (cc_status ?d), cstat_CIDR (cc_status ?d))
      = (if cc_GetBMCStatus cc = cstat_BMCStatus ss then (cstat_ID (cc_status cc), cstat_CIDR (cc_status cc))
         else (cstat_ID ss, cstat_CIDR ss))"
    by (simp_all add: go_defs)
  have i: "cstat_ID (cc_status (ready_unassigned (ready_assigned ?d))) = cstat_ID (cc_status ?d)"
    "cstat_CIDR (cc_status (ready_unassigned (ready_assigned ?d))) = cstat_CIDR (cc_status ?d)"
    by (simp_all add: ready_unassigned_def ready_assigned_def go_defs)
  show ?thesis
    unfolding r using d by (simp add: cc_GetBMCStatus_def cc_IsReady_def cluster_ready_conditions cluster_frame i)
qed

theorem cluster_poll_readable_witness:
  "\<exists>cc'. cluster_poll_response (example_env (\<lambda>_. DoError (LibErr []))) 200
       (block_body ''b1'' ''10.1.2.4/31'' ''unassigned'') example_cc = ((requeueAfter5Min, None), cc')
    \<and> cc_IsReady cc'"
proof -
  have u: "unmarshal_cluster_status (block_body ''b1'' ''10.1.2.4/31'' ''unassigned'')
      = Inr (block_status ''b1'' ''10.1.2.4/31'' ''unassigned'')"
    by (rule unmarshal_block_body) (simp_all add: utf8_ok_ascii)
  show ?thesis
    using cluster_poll_readable [OF _ u, where st = 200 and cc = example_cc
        and E = "example_env (\<lambda>_. DoError (LibErr []))"]
    by (auto simp: http_ok_def block_status_def StatusNotAssigned_def example_cc_def example_bmccluster_def)
qed

lemma cluster_marks_once:
  "cluster_irreconcilable c (cluster_irreconcilable c cc) = cluster_irreconcilable c cc"
  "cluster_denied s c (cluster_denied s c cc) = cluster_denied s c cc"
  by (simp_all add: cluster_irreconcilable_def cluster_denied_def cc_IsStatusEqual_def cc_SetBMCStatus_def)

text \<open>
  A failing poll is recorded once: repeating it in the state it left adds no event and changes
  nothing.
\<close>

theorem cluster_poll_failure_recorded_once:
  assumes "st \<in> {400, 401, 403, 500}" and "cluster_poll_response E st body cc = (v, cc')"
  shows "cluster_poll_response E st body cc' = (v, cc')"
  using assms by (auto simp: cluster_poll_response_def cluster_marks_once)

theorem cluster_poll_failure_recorded_once_witness:
  "cluster_poll_response (example_env (\<lambda>_. DoError (LibErr []))) 500 [] (cluster_denied StatusStale 500 example_cc)
     = ((requeueAfter5Min, None), cluster_denied StatusStale 500 example_cc)"
  by (rule cluster_poll_failure_recorded_once [where st = 500 and cc = example_cc]) (simp_all add: cluster_poll_response_def)

section \<open>Deletion\<close>

text \<open>
  C33. Deletion either finishes or panics.  It panics exactly when the block counts as unassigned and
  the delete call gives no response, and then the object is left as it was, finalizer included, so
  the deletion hangs until the call goes through.  Otherwise the cluster's finalizer is gone, and no
  other one, whatever status code the call was answered with.
\<close>

theorem cluster_delete_outcome:
  assumes "finalizer_laws E"
  shows "(panicked (cluster_reconcileDelete E cc) \<longleftrightarrow> cc_GetBMCStatus cc = StatusNotAssigned
      \<and> (\<exists>e. fst (http_send E (http_Delete (ip_block_url E (cc_GetIPAllocationID cc)))) = DoError e))
    \<and> (if panicked (cluster_reconcileDelete E cc)
      then cc_BMCCluster (outcome_state (cluster_reconcileDelete E cc)) = cc_BMCCluster cc
      else set (om_Finalizers (cc_meta (outcome_state (cluster_reconcileDelete E cc))))
        = set (om_Finalizers (cc_meta cc)) - {ClusterFinalizer})"
  using finalizer_lawsD(2) [OF assms]
  by (auto simp: cluster_reconcileDelete_def cc_IsStatusEqual_def cc_GetBMCStatus_def StatusNotAssigned_def
      Let_def split: prod.split http_outcome.split)

theorem cluster_delete_outcome_witness:
  "panicked (cluster_reconcileDelete (example_env (\<lambda>_. DoError (LibErr ''timeout'')))
      (cc_SetBMCStatus StatusNotAssigned example_cc))
   \<and> ClusterFinalizer \<notin> set (om_Finalizers (cc_meta (outcome_state
      (cluster_reconcileDelete (example_env (\<lambda>_. Response 500 [])) example_cc))))"
  using cluster_delete_outcome [OF finalizer_laws_example, of "\<lambda>_. DoError (LibErr ''timeout'')"
      "cc_SetBMCStatus StatusNotAssigned example_cc"]
    cluster_delete_outcome [OF finalizer_laws_example, of "\<lambda>_. Response 500 []" example_cc]
  by (auto simp: cc_GetBMCStatus_def cc_SetBMCStatus_def http_send_def example_env_def
      split: if_splits)

section \<open>Reconcile\<close>

text \<open>The example cluster behind an environment that finds it.\<close>

definition cluster_env :: "BMCCluster \<Rightarrow> (http_request \<Rightarrow> http_outcome) \<Rightarrow> env" where
  "cluster_env bc bmc = (example_env bmc)\<lparr>GetBMCCluster := \<lambda>_. Inr bc, GetOwnerCluster := \<lambda>_. Inr (Some example_cluster)\<rparr>"

text \<open>
  A reconciliation of a cluster makes at most one request, the one that its state calls for
  (delete the block, allocate one, or read it), and ends with exactly one patch of the object; with
  an address in place it never allocates again.
\<close>

theorem cluster_Reconcile_one_request:
  assumes "GetBMCCluster E req = Inr bc" and "GetOwnerCluster E (bc_Meta bc) = Inr (Some cl)"
    and "\<not> IsPaused E cl bc"
  shows "\<exists>es bc'. outcome_state (cluster_Reconcile E req) = es @ [PatchCluster bc']
    \<and> filter is_http es = request_log E (cluster_request E (cluster_context bc cl)) \<and> length (filter is_http es) \<le> 1
    \<and> (\<forall>e \<in> set es. is_http e \<or> is_event e)
    \<and> (annotation (bc_Meta bc) ANNOTATION_NAME_BMC_CLUSTER_IP \<noteq> [] \<longrightarrow> filter is_post es = [])"
proof -
  let ?cc = "cluster_context bc cl"
  let ?es = "cc_log (outcome_state (cluster_dispatch E ?cc))"
  have shape: "filter is_http ?es = request_log E (cluster_request E ?cc)"
    "\<forall>e \<in> set ?es. is_http e \<or> is_event e"
    using cluster_log_shape [where cc = ?cc and E = E] by (simp_all add: cluster_context_def)
  have "filter is_post ?es = filter is_post (filter is_http ?es)"
    by (simp only: filter_post_http)
  moreover have "filter is_post (request_log E (cluster_request E ?cc)) = []"
    if "annotation (bc_Meta bc) ANNOTATION_NAME_BMC_CLUSTER_IP \<noteq> []"
    using that by (auto simp: cluster_request_def request_log_def http_send_def cc_GetIP_def cluster_context_def
        split: option.split)
  ultimately show ?thesis
    using shape cluster_Reconcile_run [OF assms] request_log_http(2)
    by (simp add: cluster_finish_state)
qed

theorem cluster_Reconcile_one_request_witness:
  "\<exists>es bc'. outcome_state (cluster_Reconcile (cluster_env example_bmccluster (\<lambda>_. Response 500 []))
       \<lparr>nn_Namespace = ''ns'', nn_Name = ''c''\<rparr>) = es @ [PatchCluster bc']
    \<and> filter is_http es = [Http (allocate_http (cluster_env example_bmccluster (\<lambda>_. Response 500 [])) example_cc)]"
  using cluster_Reconcile_one_request [where E = "cluster_env example_bmccluster (\<lambda>_. Response 500 [])"
      and bc = example_bmccluster and cl = example_cluster and req = "\<lparr>nn_Namespace = ''ns'', nn_Name = ''c''\<rparr>"]
  by (auto simp: cluster_env_def example_env_def cluster_request_def request_log_def http_send_def
      cluster_IsMarkedDeleted_iff cluster_context_def cc_GetIP_def example_bmccluster_def example_meta_def
      annotation_def example_cc_def)

end
