(* ===== verification/ClusterSystem.thy ===== *)
theory ClusterSystem
  imports Life ClusterProps
begin

text \<open>
  The life of a BMCCluster under its reconciler: the link between its address, endpoint and readiness,
  the conditions under which one address block at most is allocated, and what happens without them.
\<close>

section \<open>One reconciliation as a run\<close>

definition patched_cluster :: "BMCCluster \<Rightarrow> effect list \<Rightarrow> BMCCluster" where
  "patched_cluster bc es = foldl (\<lambda>b e. case e of PatchCluster p \<Rightarrow> p | _ \<Rightarrow> b) bc es"

definition cluster_run :: "env \<Rightarrow> BMCCluster \<Rightarrow> BMCCluster \<times> http_request list" where
  "cluster_run E bc =
     (let req = \<lparr>nn_Namespace = om_Namespace (bc_Meta bc), nn_Name = om_Name (bc_Meta bc)\<rparr>;
          es = outcome_state (cluster_Reconcile (E\<lparr>GetBMCCluster := \<lambda>_. Inr bc\<rparr>) req)
      in (patched_cluster bc es, requests es))"

definition block_create :: "string \<Rightarrow> http_request \<Rightarrow> bool" where
  "block_create base r \<longleftrightarrow> hr_Method r = POST \<and> hr_URL r = base @ ''/ips/v1/ip-blocks''"

text \<open>
  Reliable service: every accepted allocation is answered with a readable block whose text is an
  address followed by /31.
\<close>

definition reliable_blocks :: "string \<Rightarrow> env \<Rightarrow> bool" where
  "reliable_blocks base E \<longleftrightarrow> BMCEndpointURL E = base \<and>
     (\<forall>r. block_create base r \<and> accepted (BMC E r) \<longrightarrow> (\<exists>c body ips. BMC E r = Response c body
        \<and> unmarshal_cluster_status body = Inr ips \<and> ParseIP (TrimSuffix (cstat_CIDR ips) ''/31'') \<noteq> None))"

definition cluster_edit :: "BMCCluster \<Rightarrow> BMCCluster \<Rightarrow> bool" where
  "cluster_edit x y \<longleftrightarrow> om_Annotations (bc_Meta y) = om_Annotations (bc_Meta x)"

definition cluster_gone :: "BMCCluster \<Rightarrow> bool" where
  "cluster_gone bc \<longleftrightarrow> om_DeletionTimestamp (bc_Meta bc) \<noteq> None \<and> om_Finalizers (bc_Meta bc) = []"

definition cluster_storable :: "BMCCluster \<Rightarrow> bool" where
  "cluster_storable bc \<longleftrightarrow> om_Annotations (bc_Meta bc) \<noteq> None"

definition cluster_ident :: "BMCCluster \<Rightarrow> string" where
  "cluster_ident bc = annotation (bc_Meta bc) ANNOTATION_NAME_BMC_CLUSTER_IP"

section \<open>Runs in terms of the reconciler\<close>

lemma cluster_requests_dispatch:
  "cc_log cc = [] \<Longrightarrow> requests (cc_log (outcome_state (cluster_dispatch E cc)))
     = requests (request_log E (cluster_request E cc))"
  using requests_filter [of "cc_log (outcome_state (cluster_dispatch E cc))"] cluster_log_shape(1) [of cc E] by simp

lemma cluster_context_simps [simp]:
  "cc_BMCCluster (cluster_context bc cl) = bc" "cc_log (cluster_context bc cl) = []"
  by (simp_all add: cluster_context_def)

lemma cluster_run_cases:
  obtains (idle) "cluster_run E bc = (bc, [])"
  | (run) cl E' where "E' = E\<lparr>GetBMCCluster := \<lambda>_. Inr bc\<rparr>"
      "cluster_run E bc = (cc_BMCCluster (outcome_state (cluster_dispatch E' (cluster_context bc cl))),
         requests (request_log E' (cluster_request E' (cluster_context bc cl))))"
proof -
  let ?E = "E\<lparr>GetBMCCluster := \<lambda>_. Inr bc\<rparr>"
  let ?req = "\<lparr>nn_Namespace = om_Namespace (bc_Meta bc), nn_Name = om_Name (bc_Meta bc)\<rparr>"
  consider v where "cluster_Reconcile ?E ?req = Returns v []"
    | cl where "cluster_Reconcile ?E ?req = cluster_finish (cluster_dispatch ?E (cluster_context bc cl))"
    using cluster_Reconcile_cases [of ?E ?req] by auto
  then show thesis
  proof cases
    case 1
    then show thesis by (intro idle) (simp add: cluster_run_def Let_def patched_cluster_def)
  next
    case 2
    then show thesis
      using cluster_requests_dispatch [of "cluster_context bc _" ?E]
      by (intro run [OF refl]) (simp add: cluster_run_def Let_def cluster_finish_state patched_cluster_def requests_def)
  qed
qed

section \<open>The link for life\<close>

lemma cluster_run_linked: "cluster_linked x \<Longrightarrow> cluster_run E x = (y, rs) \<Longrightarrow> cluster_linked y"
  by (cases rule: cluster_run_cases [of E x]) (use linked_dispatch [of "cluster_context x _"] in auto)

text \<open>Edits by others that leave the annotations, the endpoint and readiness alone.\<close>

definition cluster_user_edit :: "BMCCluster \<Rightarrow> BMCCluster \<Rightarrow> bool" where
  "cluster_user_edit x y \<longleftrightarrow> cluster_edit x y \<and> cstat_Ready (bc_Status y) = cstat_Ready (bc_Status x)
     \<and> cspec_ControlPlaneEndpoint (bc_Spec y) = cspec_ControlPlaneEndpoint (bc_Spec x)"

lemma cluster_user_edit_linked: "cluster_linked x \<Longrightarrow> cluster_user_edit x y \<Longrightarrow> cluster_linked y"
  by (simp add: cluster_user_edit_def cluster_edit_def cluster_linked_def annotation_def)

interpretation cluster_link: object_invariant cluster_run "\<lambda>_. True" cluster_user_edit cluster_linked
  by unfold_locales (blast intro: cluster_run_linked cluster_user_edit_linked)+

section \<open>The block is allocated once\<close>

lemma ip_blocks_url_eq: "ip_blocks_url E = BMCEndpointURL E @ ''/ips/v1/ip-blocks''"
  by (simp add: ip_blocks_url_def fmt_extras_def)

lemma block_create_http: "BMCEndpointURL E = base \<Longrightarrow> block_create base (allocate_http E cc)"
  by (simp add: block_create_def allocate_http_def ip_blocks_url_eq)

lemma join_nonempty: "xs \<noteq> [] \<Longrightarrow> hd xs \<noteq> [] \<Longrightarrow> join sep xs \<noteq> []"
  by (cases xs; cases "tl xs") auto

lemma IP_String_nonempty: "length a = 16 \<Longrightarrow> IP_String a \<noteq> []"
proof (cases "is_v4_mapped a")
  case True
  then obtain w x y z where "a = v4_prefix @ [w, x, y, z]" using v4_mapped_cases by blast
  then show ?thesis by (simp add: IP_String_v4 octets_str_def)
next
  case False
  moreover assume "length a = 16"
  then obtain b c t where "a = b # c # t" by (auto simp: numeral_eq_Suc length_Suc_conv)
  ultimately show ?thesis
    using join_nonempty [of "map hex16 (groups16 a)" "'':''"]
    by (simp add: IP_String_def v6_str_def hex16_def Let_def split: prod.split)
qed

lemma dispatch_cluster_map:
  assumes "om_Annotations (cc_meta cc) \<noteq> None"
  shows "om_Annotations (cc_meta (outcome_state (cluster_dispatch E cc))) \<noteq> None"
proof -
  have alloc: "om_Annotations (cc_meta (outcome_state (cluster_allocated ips cc))) \<noteq> None"
    if m: "om_Annotations (cc_meta cc) \<noteq> None" for ips and cc :: ClusterContext
  proof (cases "ParseIP (TrimSuffix (cstat_CIDR ips) ''/31'')")
    case None
    with cluster_allocated_bad_address [OF m None] show ?thesis
      by (auto dest: ip_allocation.put_has_map)
  next
    case (Some a)
    with cluster_allocated_ok [OF m Some] show ?thesis
      by (auto simp: cc_SetReady_def dest: cluster_ip.put_has_map)
  qed
  have resp: "om_Annotations (cc_meta (outcome_state (cluster_create_response E c body cc))) \<noteq> None"
    if "om_Annotations (cc_meta cc) \<noteq> None" for c body and cc :: ClusterContext
    using that alloc by (auto simp: cluster_create_response_def cluster_create_accepted_def cluster_frame
        cc_Event_def cc_Eventf_def split: sum.split)
  have create: "om_Annotations (cc_meta (outcome_state (cluster_reconcileCreate E cc))) \<noteq> None"
    if "om_Annotations (cc_meta cc) \<noteq> None" for cc :: ClusterContext
    using that resp [of "clog_effects es cc" for es]
    by (auto simp: cluster_reconcileCreate_def Let_def cc_Event_def split: prod.split http_outcome.split)
  have "om_Annotations (cc_meta (outcome_state (cluster_reconcileDelete E cc))) \<noteq> None"
    using assms by (simp add: cluster_reconcileDelete_def Let_def split: prod.split http_outcome.split)
  moreover have "om_Annotations (cc_meta (outcome_state (cluster_reconcileLive E cc))) \<noteq> None"
    using assms create [of "if cc_HasFini E cc then cc else cc_AddFini E cc"]
      cluster_sync_frame(1) [of E "if cc_HasFini E cc then cc else cc_AddFini E cc"]
    by (auto simp: cluster_reconcileLive_def Let_def split: prod.split)
  ultimately show ?thesis by (simp add: cluster_dispatch_def)
qed

text \<open>A cluster with an address keeps it, and allocates nothing.\<close>

lemma dispatch_cluster_created:
  assumes "cc_GetIP cc \<noteq> []" and "BMCEndpointURL E = base"
  shows "cc_GetIP (outcome_state (cluster_dispatch E cc)) = cc_GetIP cc"
    and "filter (block_create base) (requests (request_log E (cluster_request E cc))) = []"
proof -
  have "cc_GetIP (outcome_state (cluster_reconcileDelete E cc)) = cc_GetIP cc"
    by (simp add: cluster_reconcileDelete_def cc_GetIP_def annotation_def Let_def split: prod.split http_outcome.split)
  moreover have "cc_GetIP (outcome_state (cluster_reconcileLive E cc)) = cc_GetIP cc"
    using assms(1) cluster_sync_frame(1) [of E "if cc_HasFini E cc then cc else cc_AddFini E cc"]
    by (auto simp: cluster_reconcileLive_def Let_def cc_GetIP_def annotation_def split: prod.split)
  ultimately show "cc_GetIP (outcome_state (cluster_dispatch E cc)) = cc_GetIP cc"
    by (simp add: cluster_dispatch_def)
  show "filter (block_create base) (requests (request_log E (cluster_request E cc))) = []"
    using assms by (auto simp: cluster_request_def request_log_def http_send_def block_create_def requests_def
        split: option.split)
qed

text \<open>An accepted allocation leaves an address, if the answer is readable.\<close>

lemma dispatch_cluster_creates:
  assumes "cc_GetIP cc = []" and "om_Annotations (cc_meta cc) \<noteq> None" and "reliable_blocks base E"
    and "r \<in> set (requests (request_log E (cluster_request E cc)))" and "block_create base r" and "accepted (BMC E r)"
  shows "cc_GetIP (outcome_state (cluster_dispatch E cc)) \<noteq> []"
proof -
  let ?cc0 = "if cc_HasFini E cc then cc else cc_AddFini E cc"
  have r: "cluster_request E cc = Some r" and u: "URLError E (hr_URL r) = None"
    using assms(4) by (auto simp: request_log_def http_send_def requests_def split: option.splits)
  have live: "\<not> cluster_IsMarkedDeleted (Some (cc_BMCCluster cc))" and a: "r = allocate_http E cc"
    using r assms(1,5) by (auto simp: cluster_request_def block_create_def split: if_splits)
  from assms(3,5,6) obtain c body ips x where b: "BMC E r = Response c body"
      "unmarshal_cluster_status body = Inr ips" "ParseIP (TrimSuffix (cstat_CIDR ips) ''/31'') = Some x"
    unfolding reliable_blocks_def by blast
  have ip: "IP_String (next_address x) \<noteq> []"
    by (rule IP_String_nonempty) (simp add: next_address_def ParseIP_length [OF b(3)])
  have "cluster_create_response E c body d = cluster_allocated ips d" for d
    using b(1,2) assms(6) by (auto simp: cluster_create_response_def http_ok_def cluster_create_accepted_def)
  then have "cluster_reconcileCreate E ?cc0 = cluster_allocated ips (clog_effects [Http r] ?cc0)"
    using a b(1) u by (simp add: cluster_reconcileCreate_def http_send_def Let_def)
  moreover have "om_Annotations (cc_meta (clog_effects [Http r] ?cc0)) \<noteq> None" using assms(2) by simp
  from cluster_allocated_ok [OF this b(3)]
  have "cc_GetIP (outcome_state (cluster_allocated ips (clog_effects [Http r] ?cc0))) = IP_String (next_address x)"
    using cc_SetIP_simps(4) by (auto simp: cc_SetReady_def cc_GetIP_def)
  ultimately show ?thesis
    using ip live assms(1) by (simp add: cluster_dispatch_def cluster_reconcileLive_def Let_def)
qed

lemma cluster_ident_cc: "cluster_ident (cc_BMCCluster cc) = cc_GetIP cc"
  by (simp add: cluster_ident_def cc_GetIP_def)

lemma reliable_GetBMCCluster [simp]: "reliable_blocks base (E\<lparr>GetBMCCluster := g\<rparr>) = reliable_blocks base E"
  by (simp add: reliable_blocks_def)

lemma cluster_run_storable: "cluster_storable x \<Longrightarrow> cluster_run E x = (y, rs) \<Longrightarrow> cluster_storable y"
  by (cases rule: cluster_run_cases [of E x])
     (use dispatch_cluster_map [of "cluster_context x _"] in \<open>auto simp: cluster_storable_def\<close>)

lemma cluster_run_created:
  assumes "cluster_ident x \<noteq> []" and "reliable_blocks base E" and "cluster_run E x = (y, rs)"
  shows "cluster_ident y = cluster_ident x \<and> filter (block_create base) rs = []"
proof (cases rule: cluster_run_cases [of E x])
  case idle
  with assms(3) show ?thesis by simp
next
  case (run cl E')
  have "BMCEndpointURL E' = base" using assms(2) run(1) by (simp add: reliable_blocks_def)
  then show ?thesis
    using dispatch_cluster_created [of "cluster_context x cl" E' base] assms(1,3) run(2)
    by (simp add: cluster_ident_cc [symmetric])
qed

lemma length_requests_log: "length (filter P (requests (request_log E r))) \<le> Suc 0"
  by (auto simp: request_log_def http_send_def split: option.split)

lemma cluster_run_creates:
  assumes "cluster_ident x = []" and "cluster_storable x" and "reliable_blocks base E" and "cluster_run E x = (y, rs)"
  shows "length (filter (block_create base) rs) \<le> 1
    \<and> ((\<exists>r \<in> set rs. block_create base r \<and> accepted (BMC E r)) \<longrightarrow> cluster_ident y \<noteq> [])"
proof (cases rule: cluster_run_cases [of E x])
  case idle
  with assms(4) show ?thesis by simp
next
  case (run cl E')
  have "reliable_blocks base E'" "BMC E' = BMC E" using assms(3) run(1) by simp_all
  then show ?thesis
    using dispatch_cluster_creates [of "cluster_context x cl" base E'] assms run(2)
    by (auto simp: length_requests_log cluster_ident_cc [symmetric] cluster_storable_def)
qed

lemma cluster_edit_ident: "cluster_edit x y \<Longrightarrow> cluster_ident y = cluster_ident x"
  by (simp add: cluster_edit_def cluster_ident_def annotation_def)

lemma cluster_edit_storable: "cluster_storable x \<Longrightarrow> cluster_edit x y \<Longrightarrow> cluster_storable y"
  by (simp add: cluster_edit_def cluster_storable_def)

interpretation block_life: creator cluster_run "reliable_blocks base" cluster_edit cluster_storable cluster_ident
    "block_create base"
  for base
  by unfold_locales
     (blast intro: cluster_run_storable cluster_edit_storable cluster_edit_ident
       dest: cluster_run_created cluster_run_creates)+

text \<open>
  C2. One address block per cluster: through any number of reconciliations, edits that leave the
  annotations alone, deletion and removal, at most one allocation is accepted, provided that the object
  was born with an annotation map, no patch is lost, and every accepted allocation is answered with a
  readable block of the form address/31.
\<close>

theorem one_block_per_cluster:
  assumes "life cluster_run (reliable_blocks base) cluster_edit cluster_gone False cluster_storable w"
  shows "accepted_count (block_create base) (w_log w) \<le> 1"
  using block_life.created_once [OF assms] by blast

section \<open>Examples of lives\<close>

text \<open>A service that accepts every allocation, and answers with a given block.\<close>

definition block_env :: "string \<Rightarrow> env" where
  "block_env n = cluster_env example_bmccluster (\<lambda>_. Response 201 (block_body ''b1'' n ''unassigned''))"

lemma block_env_facts:
  "GetOwnerCluster (block_env n) om = Inr (Some example_cluster)" "BMCEndpointURL (block_env n) = ''https://api''"
  "URLError (block_env n) u = None" "BMC (block_env n) r = Response 201 (block_body ''b1'' n ''unassigned'')"
  "\<not> IsPaused (block_env n) cl bc"
  by (simp_all add: block_env_def cluster_env_def example_env_def)

definition block_context :: "BMCCluster \<Rightarrow> ClusterContext" where
  "block_context bc = (let cc = cluster_context bc example_cluster in
     if cc_HasFini (block_env []) cc then cc else cc_AddFini (block_env []) cc)"

text \<open>A run in that service of a live cluster without an address.\<close>

lemma block_run:
  assumes "om_DeletionTimestamp (bc_Meta bc) = None" and "cluster_ident bc = []" and "utf8_ok n"
  shows "\<exists>q es. cluster_run (block_env n) bc = (cc_BMCCluster (outcome_state
      (cluster_allocated (block_status ''b1'' n ''unassigned'') (clog_effects es (block_context bc)))),
     [allocate_http (block_env n) q])"
proof -
  let ?E = "block_env n\<lparr>GetBMCCluster := \<lambda>_. Inr bc\<rparr>"
  let ?cc = "cluster_context bc example_cluster"
  let ?req = "\<lparr>nn_Namespace = om_Namespace (bc_Meta bc), nn_Name = om_Name (bc_Meta bc)\<rparr>"
  have i: "cc_GetIP ?cc = []" using assms(2) by (simp add: cluster_ident_def cc_GetIP_def)
  have d: "\<not> cluster_IsMarkedDeleted (Some bc)" using assms(1) by (simp add: cluster_IsMarkedDeleted_iff)
  have u: "unmarshal_cluster_status (block_body ''b1'' n ''unassigned'') = Inr (block_status ''b1'' n ''unassigned'')"
    by (rule unmarshal_block_body) (use assms(3) in \<open>simp_all add: utf8_ok_ascii\<close>)
  have w: "(if cc_HasFini ?E ?cc then ?cc else cc_AddFini ?E ?cc) = block_context bc"
    by (simp add: block_context_def Let_def cc_HasFini_def cc_AddFini_def block_env_def cluster_env_def example_env_def)
  have al: "allocate_http ?E d = allocate_http (block_env n) d" for d
    by (simp add: allocate_http_def ip_blocks_url_eq)
  have wi: "cc_GetIP (block_context bc) = []" "allocate_http E (block_context bc) = allocate_http E ?cc" for E
    using i by (simp_all add: block_context_def Let_def)
  have "cluster_dispatch ?E ?cc = cluster_reconcileCreate ?E (block_context bc)"
    using d wi(1) by (simp add: cluster_dispatch_def cluster_reconcileLive_def Let_def w)
  also have "\<dots> = cluster_allocated (block_status ''b1'' n ''unassigned'')
      (clog_effects [Http (allocate_http (block_env n) ?cc)] (block_context bc))"
    by (simp add: cluster_reconcileCreate_def http_send_def block_env_facts Let_def al wi(2)
        cluster_create_response_def http_ok_def cluster_create_accepted_def u)
  finally have s: "cluster_dispatch ?E ?cc = cluster_allocated (block_status ''b1'' n ''unassigned'')
      (clog_effects [Http (allocate_http (block_env n) ?cc)] (block_context bc))" .
  have "cluster_Reconcile ?E ?req = cluster_finish (cluster_dispatch ?E ?cc)"
    by (rule cluster_Reconcile_run) (simp_all add: block_env_facts)
  moreover have "requests (cc_log (outcome_state (cluster_dispatch ?E ?cc))) = [allocate_http (block_env n) ?cc]"
    using cluster_requests_dispatch [of ?cc ?E] d i
    by (simp add: cluster_request_def request_log_def http_send_def block_env_facts al)
  ultimately show ?thesis
    unfolding s by (auto simp: cluster_run_def Let_def cluster_finish_state patched_cluster_def requests_def)
qed

lemma block_context_simps:
  "om_Annotations (cc_meta (block_context bc)) = om_Annotations (bc_Meta bc)"
  "om_DeletionTimestamp (cc_meta (block_context bc)) = om_DeletionTimestamp (bc_Meta bc)"
  "cc_GetIP (block_context bc) = cluster_ident bc"
  by (simp_all add: block_context_def Let_def cc_AddFini_def cc_GetIP_def cluster_ident_def annotation_def)

lemma block_exchange:
  "accepted_count (block_create ''https://api'') (exchanges (block_env n) [allocate_http (block_env n) q]) = 1"
  by (simp add: accepted_count_def exchanges_def block_env_facts http_ok_def block_create_http)

text \<open>
  A service whose blocks the controller cannot use: every allocation is accepted and answered with a
  readable block, but no address followed by /31.
\<close>

definition unusable_blocks :: "string \<Rightarrow> env \<Rightarrow> bool" where
  "unusable_blocks base E \<longleftrightarrow> BMCEndpointURL E = base \<and> (\<forall>u. URLError E u = None)
     \<and> (\<forall>r. block_create base r \<longrightarrow> (\<exists>c body ips. BMC E r = Response c body \<and> http_ok c
        \<and> unmarshal_cluster_status body = Inr ips \<and> ParseIP (TrimSuffix (cstat_CIDR ips) ''/31'') = None))"

lemma unusable_GetBMCCluster [simp]: "unusable_blocks base (E\<lparr>GetBMCCluster := g\<rparr>) = unusable_blocks base E"
  by (simp add: unusable_blocks_def)

lemma unusable_create:
  assumes "unusable_blocks base E" and "om_Annotations (cc_meta cc) \<noteq> None"
  shows "\<exists>ips cc'. cluster_reconcileCreate E cc = Panics (IndexOutOfRange 15 0) cc'
    \<and> cc_SetIPAllocationID (cstat_ID ips) (allocation_noted ips (clog_effects [Http (allocate_http E cc)] cc)) = Some cc'"
proof -
  let ?r = "allocate_http E cc" and ?cc1 = "clog_effects [Http (allocate_http E cc)] cc"
  obtain c body ips where b: "BMC E ?r = Response c body" "http_ok c" "unmarshal_cluster_status body = Inr ips"
      "ParseIP (TrimSuffix (cstat_CIDR ips) ''/31'') = None"
    using assms(1) block_create_http [of E base cc] unfolding unusable_blocks_def by blast
  have "cluster_create_response E c body d = cluster_allocated ips d" for d
    using b(2,3) by (auto simp: cluster_create_response_def http_ok_def cluster_create_accepted_def)
  then have "cluster_reconcileCreate E cc = cluster_allocated ips ?cc1"
    using b(1) assms(1) by (simp add: cluster_reconcileCreate_def http_send_def unusable_blocks_def Let_def)
  moreover have "om_Annotations (cc_meta ?cc1) \<noteq> None" using assms(2) by simp
  ultimately show ?thesis using cluster_allocated_bad_address [OF _ b(4), of ?cc1] by metis
qed

text \<open>What such a run needs of the object, and leaves to the next.\<close>

definition blockless :: "BMCCluster \<Rightarrow> bool" where
  "blockless bc \<longleftrightarrow> om_Annotations (bc_Meta bc) \<noteq> None \<and> om_DeletionTimestamp (bc_Meta bc) = None \<and> cluster_ident bc = []"

lemma unusable_run:
  assumes s: "unusable_blocks base E" and o: "\<And>om. GetOwnerCluster E om = Inr (Some cl)" "\<And>b. \<not> IsPaused E cl b"
    and x: "blockless bc"
  shows "(\<exists>es. cluster_Reconcile (E\<lparr>GetBMCCluster := \<lambda>_. Inr bc\<rparr>) \<lparr>nn_Namespace = om_Namespace (bc_Meta bc), nn_Name = om_Name (bc_Meta bc)\<rparr> = Panics (IndexOutOfRange 15 0) es)
    \<and> (\<exists>q. snd (cluster_run E bc) = [q] \<and> block_create base q) \<and> blockless (fst (cluster_run E bc))"
proof -
  let ?E = "E\<lparr>GetBMCCluster := \<lambda>_. Inr bc\<rparr>" and ?cc = "cluster_context bc cl"
  let ?w = "if cc_HasFini ?E ?cc then ?cc else cc_AddFini ?E ?cc"
  have s': "unusable_blocks base ?E" and w: "om_Annotations (cc_meta ?w) \<noteq> None" and i: "cc_GetIP ?cc = []"
    using s x by (simp_all add: blockless_def cluster_ident_def cc_GetIP_def)
  obtain ips cc' where c: "cluster_reconcileCreate ?E ?w = Panics (IndexOutOfRange 15 0) cc'"
      "cc_SetIPAllocationID (cstat_ID ips) (allocation_noted ips (clog_effects [Http (allocate_http ?E ?w)] ?w)) = Some cc'"
    using unusable_create [OF s' w] by blast
  have d: "cluster_dispatch ?E ?cc = Panics (IndexOutOfRange 15 0) cc'"
    using x i c(1) by (simp add: cluster_dispatch_def cluster_reconcileLive_def Let_def blockless_def cluster_IsMarkedDeleted_iff)
  then have r: "cluster_Reconcile ?E \<lparr>nn_Namespace = om_Namespace (bc_Meta bc), nn_Name = om_Name (bc_Meta bc)\<rparr> = cluster_finish (Panics (IndexOutOfRange 15 0) cc')"
    using cluster_Reconcile_run [of ?E _ bc cl] o by simp
  have "requests (cc_log cc') = [allocate_http ?E ?cc]"
    using cluster_requests_dispatch [of ?cc ?E] d x i s
    by (simp add: cluster_request_def request_log_def http_send_def blockless_def cluster_IsMarkedDeleted_iff unusable_blocks_def)
  then have run: "cluster_run E bc = (cc_BMCCluster cc', [allocate_http ?E ?cc])"
    using r by (simp add: cluster_run_def Let_def patched_cluster_def requests_def)
  have "om_Annotations (bc_Meta (cc_BMCCluster cc')) \<noteq> None" by (rule ip_allocation.put_has_map [OF c(2)])
  moreover have "om_DeletionTimestamp (cc_meta ?w) = None" using x by (simp add: blockless_def cc_AddFini_def)
  then have "om_DeletionTimestamp (bc_Meta (cc_BMCCluster cc')) = None"
    using c(2) by (auto simp: cc_SetIPAllocationID_def annotate_Some_iff split del: if_split)
  moreover have "cluster_ident (cc_BMCCluster cc') = []"
    using cc_SetIPAllocationID_simps(5) [OF c(2)] i by (simp add: cluster_ident_cc cc_GetIP_def cc_AddFini_def annotation_def)
  ultimately show ?thesis
    using r run s block_create_http [of ?E base ?cc] by (auto simp: blockless_def unusable_blocks_def)
qed

text \<open>
  C32. Blocks without bound: against a service that answers allocations with blocks of any other form than
  an address followed by /31, the controller allocates a new block in every reconciliation, however many
  there are.  Each is accepted, the address cannot be computed, the reconciliation panics at an index out
  of range, and the object it leaves has no address, so that the next one allocates again.  The cluster
  has an annotation map, is neither deleted nor paused, and its owner is found.
\<close>

theorem blocks_without_bound:
  assumes "unusable_blocks base E" and "\<And>om. GetOwnerCluster E om = Inr (Some cl)" and "\<And>b. \<not> IsPaused E cl b"
    and "om_Annotations (bc_Meta bc) \<noteq> None" and "om_DeletionTimestamp (bc_Meta bc) = None" and "cluster_ident bc = []"
    and "x = ((\<lambda>b. fst (cluster_run E b)) ^^ k) bc"
  shows "cluster_ident x = []
    \<and> (\<exists>q. snd (cluster_run E x) = [q] \<and> block_create base q \<and> accepted (BMC E q))
    \<and> (\<exists>es. cluster_Reconcile (E\<lparr>GetBMCCluster := \<lambda>_. Inr x\<rparr>)
        \<lparr>nn_Namespace = om_Namespace (bc_Meta x), nn_Name = om_Name (bc_Meta x)\<rparr> = Panics (IndexOutOfRange 15 0) es)"
proof -
  have "blockless (((\<lambda>b. fst (cluster_run E b)) ^^ k) bc)"
    using assms(4-6) by (induction k) (simp_all add: blockless_def unusable_run [OF assms(1-3), unfolded blockless_def])
  moreover have "accepted (BMC E q)" if "block_create base q" for q
    using assms(1) that by (fastforce simp: unusable_blocks_def)
  ultimately show ?thesis
    using unusable_run [OF assms(1-3), of x] assms(7) by (auto simp: blockless_def)
qed

theorem blocks_without_bound_witness:
  "\<exists>x q. x = ((\<lambda>b. fst (cluster_run (block_env ''10.1.2.0/30'') b)) ^^ 3) example_bmccluster \<and> cluster_ident x = []
    \<and> snd (cluster_run (block_env ''10.1.2.0/30'') x) = [q] \<and> block_create ''https://api'' q"
proof -
  let ?n = "''10.1.2.0/30''"
  have "ParseIP (TrimSuffix ?n ''/31'') = None"
    by (simp add: TrimSuffix_def HasSuffix_def ParseIP_def is_digit_def digit_val_def)
  moreover have "unmarshal_cluster_status (block_body ''b1'' ?n ''unassigned'') = Inr (block_status ''b1'' ?n ''unassigned'')"
    by (rule unmarshal_block_body) (simp_all add: utf8_ok_ascii)
  ultimately have "unusable_blocks ''https://api'' (block_env ?n)"
    by (simp add: unusable_blocks_def block_env_facts http_ok_def block_status_def)
  moreover have "om_Annotations (bc_Meta example_bmccluster) \<noteq> None" "om_DeletionTimestamp (bc_Meta example_bmccluster) = None"
    "cluster_ident example_bmccluster = []"
    by (simp_all add: example_bmccluster_def example_meta_def cluster_ident_def annotation_def)
  ultimately show ?thesis
    using blocks_without_bound [OF _ block_env_facts(1,5) _ _ _ refl, of "''https://api''" ?n example_bmccluster 3] by blast
qed

section \<open>Links for life\<close>

text \<open>
  C22. Through its whole life, with lost patches, panics and arbitrary services, a cluster that was born
  linked is ready and has its address as control plane endpoint, on port 6443, as soon as it has an
  address.
\<close>

theorem cluster_linked_for_life:
  assumes "life cluster_run (\<lambda>_. True) cluster_user_edit cluster_gone lossy cluster_linked w" and "w_obj w = Some x"
    and "cluster_ident x \<noteq> []"
  shows "cspec_ControlPlaneEndpoint (bc_Spec x) = \<lparr>ep_Host = cluster_ident x, ep_Port = 6443\<rparr> \<and> cstat_Ready (bc_Status x)"
  using cluster_link.life_inv [OF assms(1,2)] assms(3)
  by (simp add: cluster_linked_def cluster_ident_def Let_def)

text \<open>A life in which the block 10.1.2.4/31 has been allocated.\<close>

lemma allocated_life:
  "\<exists>w x q. life cluster_run ok edit cluster_gone lossy init w
     \<and> w_obj w = Some x \<and> cluster_ident x = ''10.1.2.5'' \<and> w_log w = exchanges (block_env ''10.1.2.4/31'') [allocate_http (block_env ''10.1.2.4/31'') q]"
  if "init example_bmccluster" and "ok (block_env ''10.1.2.4/31'')" for ok init edit lossy
proof -
  let ?n = "''10.1.2.4/31''"
  let ?ips = "block_status ''b1'' ?n ''unassigned''"
  have b: "om_DeletionTimestamp (bc_Meta example_bmccluster) = None" "cluster_ident example_bmccluster = []"
    "om_Annotations (bc_Meta example_bmccluster) \<noteq> None"
    by (simp_all add: example_bmccluster_def example_meta_def cluster_ident_def annotation_def)
  obtain q es where r: "cluster_run (block_env ?n) example_bmccluster = (cc_BMCCluster (outcome_state
      (cluster_allocated ?ips (clog_effects es (block_context example_bmccluster)))), [allocate_http (block_env ?n) q])"
    using block_run [OF b(1,2), of ?n] by (auto simp: utf8_ok_ascii)
  have o: "octets_str [10, 1, 2, 4] @ ''/31'' = ?n" "octets_str [10, 1, 2, 5] = ''10.1.2.5''" by code_simp+
  have "ParseIP (TrimSuffix (cstat_CIDR ?ips) ''/31'') = Some (v4_prefix @ [10, 1, 2, 4])"
    unfolding block_status_def using ParseIP_octets [of 10 1 2 4] TrimSuffix_append [of "octets_str [10, 1, 2, 4]" "''/31''"]
    by (simp add: o(1))
  from cluster_allocated_ok [OF _ this, of "clog_effects es (block_context example_bmccluster)"] b(3)
  have "cluster_ident (cc_BMCCluster (outcome_state (cluster_allocated ?ips
      (clog_effects es (block_context example_bmccluster))))) = ''10.1.2.5''"
    using cc_SetIP_simps(4)
    by (auto simp: block_context_simps cluster_ident_cc cc_SetReady_def cc_GetIP_def next_address_v4 IP_String_v4 o(2))
  then show ?thesis
    using life_first [where init = init and ok = ok and run = cluster_run, OF that r] by fastforce
qed

theorem cluster_linked_for_life_witness:
  "\<exists>x. cluster_ident x = ''10.1.2.5'' \<and> cstat_Ready (bc_Status x)
    \<and> cspec_ControlPlaneEndpoint (bc_Spec x) = \<lparr>ep_Host = ''10.1.2.5'', ep_Port = 6443\<rparr>"
proof -
  have "cluster_linked example_bmccluster"
    by (simp add: cluster_linked_def example_bmccluster_def example_meta_def annotation_def)
  then obtain w x where l: "life cluster_run (\<lambda>_. True) cluster_user_edit cluster_gone True cluster_linked w"
    "w_obj w = Some x" and i: "cluster_ident x = ''10.1.2.5''"
    using allocated_life [of cluster_linked "\<lambda>_. True" cluster_user_edit True] by blast
  show ?thesis
    using cluster_linked_for_life [OF l] i by (intro exI [of _ x]) simp
qed

theorem one_block_per_cluster_witness:
  "\<exists>w. accepted_count (block_create ''https://api'') (w_log w) = 1 \<and> accepted_count (block_create ''https://api'') (w_log w) \<le> 1
    \<and> life cluster_run (reliable_blocks ''https://api'') cluster_edit cluster_gone False cluster_storable w"
proof -
  let ?E = "block_env ''10.1.2.4/31''"
  have u: "unmarshal_cluster_status (block_body ''b1'' ''10.1.2.4/31'' ''unassigned'')
      = Inr (block_status ''b1'' ''10.1.2.4/31'' ''unassigned'')"
    by (rule unmarshal_block_body) (simp_all add: utf8_ok_ascii)
  have "octets_str [10, 1, 2, 4] @ ''/31'' = ''10.1.2.4/31''" by code_simp
  then have p: "ParseIP (TrimSuffix ''10.1.2.4/31'' ''/31'') \<noteq> None"
    using ParseIP_octets [of 10 1 2 4] TrimSuffix_append [of "octets_str [10, 1, 2, 4]" "''/31''"] by simp
  have "reliable_blocks ''https://api'' ?E"
    using p by (simp add: reliable_blocks_def block_env_facts u block_status_def)
  moreover have "cluster_storable example_bmccluster"
    by (simp add: cluster_storable_def example_bmccluster_def example_meta_def)
  ultimately obtain w q where "life cluster_run (reliable_blocks ''https://api'') cluster_edit cluster_gone False cluster_storable w"
    "w_log w = exchanges ?E [allocate_http ?E q]"
    using allocated_life [of cluster_storable "reliable_blocks ''https://api''"] by blast
  then show ?thesis
    using one_block_per_cluster [of "''https://api''" w] block_exchange [of "''10.1.2.4/31''" q]
    by (intro exI [of _ w]) simp
qed

end
