(* ===== verification/Progress.thy ===== *)
theory Progress
  imports MachineProps ClusterSystem
begin

text \<open>
  When a reconciliation asks for nothing more, neither a requeue nor, with an error, a retry: for
  machines only when the status says that something failed or the machine waits, for clusters also
  after a temporary failure of the service.
\<close>

abbreviation rests :: "verdict" where
  "rests \<equiv> (noRequeue, None)"

section \<open>Machines\<close>

definition failed_status :: "string \<Rightarrow> bool" where
  "failed_status s \<longleftrightarrow> s = StatusIrreconcilable \<or> s = StatusOrphaned \<or> s = StatusError"

lemma create_response_rests:
  "create_response E c body mc = Returns rests mc' \<Longrightarrow> c \<in> {400, 401, 403} \<and> mc_GetBMCStatus mc' = StatusIrreconcilable"
  by (auto simp: create_response_def create_accepted_def go_defs http_ok_def split: if_splits sum.splits outcome.splits)

lemma post_server_rests:
  "post_server E q mc = Returns rests mc' \<Longrightarrow> mc_GetBMCStatus mc' = StatusIrreconcilable"
  by (auto simp: post_server_def Let_def dest: create_response_rests split: prod.splits http_outcome.splits)

lemma poll_status_rests:
  assumes "poll_status E ss mc = Returns rests mc'"
  shows "mstat_BMCStatus ss = StatusError \<and> failed_status (mc_GetBMCStatus mc')"
proof -
  have e: "mstat_BMCStatus ss = StatusError"
    using poll_status_verdict [OF assms] by (auto split: if_splits)
  then have "mc' = status_delta E ss mc"
    using assms by (auto simp: poll_status_def Let_def split: if_splits)
  with e show ?thesis
    by (simp add: status_delta_def failed_status_def go_defs Let_def merge_status_def)
qed

lemma poll_response_rests:
  assumes "poll_response E c body mc = Returns rests mc'"
  shows "failed_status (mc_GetBMCStatus mc')"
proof -
  consider "c = 403" "mc' = poll_orphaned c mc" | "poll_accepted E body mc = Returns rests mc'"
    using assms by (auto simp: poll_response_def split: if_splits)
  then show ?thesis
  proof cases
    case 1
    then show ?thesis by (simp add: failed_status_def poll_orphaned_def mc_GetBMCStatus_def mc_IsStatusEqual_def mc_SetBMCStatus_def)
  next
    case 2
    then show ?thesis
      using poll_status_rests by (auto simp: poll_accepted_def split: sum.splits)
  qed
qed

lemma sync_rests:
  "machine_reconcileSynchronize E mc = Returns rests mc' \<Longrightarrow> failed_status (mc_GetBMCStatus mc')"
  by (auto simp: machine_reconcileSynchronize_def Let_def dest: poll_response_rests split: prod.splits http_outcome.splits)

lemma live_rests:
  assumes "machine_reconcileLive E mc = Returns rests mc'" and "live_request E mc \<noteq> None"
  shows "failed_status (mc_GetBMCStatus mc')"
proof -
  let ?w = "with_finalizer E mc"
  have g: "mc_IsInfrastructureReady mc = Some True" "mc_IsDataSecretReady mc"
    using assms(2) by (auto simp: live_request_def split: if_splits)
  show ?thesis
  proof (cases "mc_GetMachineID mc = []")
    case True
    with assms(2) g have p: "create_plan E ?w \<noteq> None"
      by (simp add: live_request_def with_finalizer_def)
    have "machine_reconcileCreate E ?w = Returns rests mc'"
      using assms(1) g True by (simp add: machine_reconcileLive_unfold)
    moreover obtain q where "machine_reconcileCreate E ?w = post_server E q ?w"
      using p machine_reconcileCreate_planned by (auto simp: create_plan_def split: option.splits sum.splits)
    ultimately show ?thesis
      using post_server_rests [of E q ?w mc'] by (simp add: failed_status_def)
  next
    case False
    then show ?thesis
      using sync_rests [of E ?w mc'] assms(1) g by (simp add: machine_reconcileLive_unfold)
  qed
qed

text \<open>
  A machine is never forgotten: when a live reconciliation had a request to make and asks for
  neither a requeue nor a retry, then the status of the machine says irreconcilable, orphaned or
  error.  Every other outcome, a lost connection, an unreadable answer, a temporary failure, exhausted
  inventory, a server still being created, brings the machine back.
\<close>

theorem machine_not_forgotten:
  assumes "machine_reconcileLive E mc = Returns v mc'" and "live_request E mc \<noteq> None"
    and "mc_GetBMCStatus mc' \<notin> {StatusIrreconcilable, StatusOrphaned, StatusError}"
  shows "fst v \<noteq> noRequeue \<or> snd v \<noteq> None"
proof (rule ccontr)
  assume "\<not> (fst v \<noteq> noRequeue \<or> snd v \<noteq> None)"
  then have "v = rests" by (cases v) simp
  then show False using live_rests [of E mc mc'] assms by (simp add: failed_status_def)
qed

theorem machine_not_forgotten_witness:
  "\<exists>v mc'. machine_reconcileLive (example_env (\<lambda>_. Response 406 [])) example_mc = Returns v mc'
    \<and> (fst v \<noteq> noRequeue \<or> snd v \<noteq> None)"
proof -
  let ?E = "example_env (\<lambda>_. Response 406 [])"
  let ?w = "with_finalizer ?E example_mc"
  have g: "mc_IsInfrastructureReady example_mc = Some True" "mc_IsDataSecretReady example_mc" "mc_GetMachineID example_mc = []"
    by (simp_all add: mc_IsInfrastructureReady_def mc_IsDataSecretReady_def mc_GetMachineID_def annotation_def
        example_mc_def example_cluster_def example_owner_def example_machine_def example_meta_def)
  have b: "mc_GetDataSecretValue ?E mc = Some (Inr ''data'')" if "mc_Machine mc = example_owner" for mc
    using that by (simp add: mc_GetDataSecretValue_def example_owner_def example_env_def Let_def)
  have q: "planned_request ?E mc x = Some (create_request mc x)" for mc x
    by (simp add: planned_request_def mc_IsControlPlaneMachine_def example_env_def)
  have o: "mc_Machine ?w = example_owner" "mc_Machine example_mc = example_owner"
    by (simp_all add: with_finalizer_def example_mc_def)
  have "machine_reconcileLive ?E example_mc = post_server ?E (create_request ?w ''data'') ?w"
    using g machine_reconcileCreate_planned [OF b [OF o(1)] q] by (simp add: machine_reconcileLive_unfold)
  then obtain v mc' where r: "machine_reconcileLive ?E example_mc = Returns v mc'" "mc_status mc' = mc_status example_mc"
    by (simp add: post_server_def http_send_def example_env_def create_response_def mc_Eventf_def Let_def)
  moreover have "live_request ?E example_mc \<noteq> None"
    using g b [OF o(2)] q by (simp add: live_request_def create_plan_def)
  moreover have "mc_GetBMCStatus mc' \<notin> {StatusIrreconcilable, StatusOrphaned, StatusError}"
    by (simp add: mc_GetBMCStatus_def r(2) example_mc_def example_machine_def zero_machine_status_def status_defs)
  ultimately show ?thesis using machine_not_forgotten by blast
qed

section \<open>Clusters\<close>

lemma cluster_create_response_rests:
  assumes "cluster_create_response E c body cc = Returns rests cc'"
  shows "c = 500 \<and> cc_BMCCluster cc' = cc_BMCCluster cc \<or> cc_GetBMCStatus cc' = StatusIrreconcilable \<or> http_ok c"
  using assms by (auto simp: cluster_create_response_def go_defs split: if_splits)

lemma cluster_poll_response_rests:
  assumes "cluster_poll_response E c body cc = (rests, cc')"
  shows "cc_GetBMCStatus cc' = StatusOrphaned"
  using assms
  by (auto simp: cluster_poll_response_def cluster_poll_accepted_def cluster_denied_def cc_GetBMCStatus_def cc_IsStatusEqual_def
      cc_SetBMCStatus_def split: if_splits sum.splits)

lemma cluster_sync_rests:
  assumes "cluster_reconcileSynchronize E cc = (rests, cc')"
  shows "cc_GetBMCStatus cc' = StatusOrphaned"
  using assms by (auto simp: cluster_reconcileSynchronize_def Let_def dest: cluster_poll_response_rests
      split: prod.splits http_outcome.splits)

definition cc_with_finalizer :: "env \<Rightarrow> ClusterContext \<Rightarrow> ClusterContext" where
  "cc_with_finalizer E cc = (if cc_HasFini E cc then cc else cc_AddFini E cc)"

lemma cluster_reconcileLive_unfold:
  "cluster_reconcileLive E cc = (if cc_GetIP cc = [] then cluster_reconcileCreate E (cc_with_finalizer E cc)
     else case cluster_reconcileSynchronize E (cc_with_finalizer E cc) of (v, cc1) \<Rightarrow> Returns v cc1)"
  by (simp add: cluster_reconcileLive_def cc_with_finalizer_def Let_def)

text \<open>An allocation that stores its address makes the cluster ready.\<close>

lemma cluster_accepted_rests:
  assumes "cluster_create_accepted E body cc = Returns rests cc'"
  shows "cc_IsReady cc' \<and> cc_GetIP cc' \<noteq> []"
proof -
  obtain ips where r: "cluster_allocated ips cc = Returns rests cc'"
    using assms by (auto simp: cluster_create_accepted_def split: sum.splits)
  have m: "om_Annotations (cc_meta cc) \<noteq> None" using r cluster_allocated_no_map by fastforce
  moreover obtain a where a: "ParseIP (TrimSuffix (cstat_CIDR ips) ''/31'') = Some a"
    using r cluster_allocated_bad_address [OF m] by fastforce
  ultimately obtain cc1 cc2 where "cc_SetIP (IP_String (next_address a)) cc1 = Some cc2"
    and "cc' = cc_SetReady (cc_SetControlPlaneEndpoint (IP_String (next_address a)) 6443 cc2)"
    using cluster_allocated_ok [of cc ips a] r by auto
  moreover have "IP_String (next_address a) \<noteq> []"
    by (rule IP_String_nonempty) (simp add: next_address_def ParseIP_length [OF a])
  ultimately show ?thesis
    using cc_SetIP_simps(4) by (auto simp: cc_SetReady_def cc_IsReady_def cc_GetIP_def)
qed

lemma cluster_create_rests:
  assumes "cluster_reconcileCreate E cc = Returns rests cc'"
  shows "cc_IsReady cc' \<and> cc_GetIP cc' \<noteq> [] \<or> cc_GetBMCStatus cc' = StatusIrreconcilable
    \<or> (\<exists>body. BMC E (allocate_http E cc) = Response 500 body) \<and> cc_BMCCluster cc' = cc_BMCCluster cc"
proof -
  obtain c body es where r: "URLError E (hr_URL (allocate_http E cc)) = None" "BMC E (allocate_http E cc) = Response c body"
    "cluster_create_response E c body (clog_effects es cc) = Returns rests cc'"
    using assms by (auto simp: cluster_reconcileCreate_def http_send_def Let_def split: option.splits http_outcome.splits)
  show ?thesis
  proof (cases "http_ok c")
    case True
    then have "cluster_create_accepted E body (clog_effects es cc) = Returns rests cc'"
      using r(3) by (auto simp: cluster_create_response_def http_ok_def)
    then show ?thesis using cluster_accepted_rests by blast
  next
    case False
    then show ?thesis
      using cluster_create_response_rests [OF r(3)] r(2) by auto
  qed
qed

text \<open>
  A cluster is forgotten exactly by a temporary failure of its allocation: when a live reconciliation
  asks for nothing more and has changed neither status nor readiness, the allocation was answered
  with 500; and then nothing but the finalizer is stored, so that a cluster which has it already is
  brought back by no event of its own, only by another object's or by the next resynchronisation.
\<close>

theorem cluster_forgotten_iff:
  assumes "\<not> cc_IsReady cc" and "cc_GetBMCStatus cc \<notin> {StatusIrreconcilable, StatusOrphaned}"
  shows "(\<exists>cc'. cluster_reconcileLive E cc = Returns rests cc' \<and> cc_status cc' = cc_status cc)
    \<longleftrightarrow> cc_GetIP cc = [] \<and> URLError E (ip_blocks_url E) = None \<and> (\<exists>body. BMC E (allocate_http E cc) = Response 500 body)"
    (is "?stop \<longleftrightarrow> ?failed")
proof
  assume ?stop
  then obtain cc' where r: "cluster_reconcileLive E cc = Returns rests cc'" "cc_status cc' = cc_status cc" by blast
  then have n: "\<not> cc_IsReady cc'" "cc_GetBMCStatus cc' \<notin> {StatusIrreconcilable, StatusOrphaned}"
    using assms by (simp_all add: cc_IsReady_def cc_GetBMCStatus_def)
  have i: "cc_GetIP cc = []"
  proof (rule ccontr)
    assume "cc_GetIP cc \<noteq> []"
    then have "cluster_reconcileSynchronize E (cc_with_finalizer E cc) = (rests, cc')"
      using r(1) by (auto simp: cluster_reconcileLive_unfold split: prod.splits)
    with n cluster_sync_rests show False by blast
  qed
  moreover have al: "allocate_http E (cc_with_finalizer E cc) = allocate_http E cc" by (simp add: cc_with_finalizer_def)
  moreover have c: "cluster_reconcileCreate E (cc_with_finalizer E cc) = Returns rests cc'"
    using r(1) i by (simp add: cluster_reconcileLive_unfold)
  moreover have "URLError E (ip_blocks_url E) = None"
    using c by (auto simp: cluster_reconcileCreate_def al http_send_def allocate_http_def http_Post_def Let_def split: option.splits)
  ultimately show ?failed
    using cluster_create_rests [OF c] n by simp
next
  assume f: ?failed
  then obtain body where b: "BMC E (allocate_http E cc) = Response 500 body" by blast
  have w: "allocate_http E (cc_with_finalizer E cc) = allocate_http E cc" "cc_status (cc_with_finalizer E cc) = cc_status cc"
    by (simp_all add: cc_with_finalizer_def)
  have u: "URLError E (hr_URL (allocate_http E cc)) = None"
    using f by (simp add: allocate_http_def http_Post_def)
  have "cluster_reconcileCreate E (cc_with_finalizer E cc)
      = cluster_create_response E 500 body (clog_effects [Http (allocate_http E cc)] (cc_with_finalizer E cc))"
    by (simp add: cluster_reconcileCreate_def w http_send_def u b Let_def)
  then show ?stop
    using f w(2) by (simp add: cluster_reconcileLive_unfold cluster_create_response_def cc_Eventf_def)
qed

theorem cluster_forgotten_iff_witness:
  "\<exists>cc'. cluster_reconcileLive (example_env (\<lambda>_. Response 500 [])) example_cc = Returns rests cc'
    \<and> cc_status cc' = cc_status example_cc"
proof -
  have "\<not> cc_IsReady example_cc" "cc_GetBMCStatus example_cc \<notin> {StatusIrreconcilable, StatusOrphaned}"
    by (simp_all add: cc_IsReady_def cc_GetBMCStatus_def example_cc_def example_bmccluster_def zero_cluster_status_def status_defs)
  from cluster_forgotten_iff [OF this, of "example_env (\<lambda>_. Response 500 [])"] show ?thesis
    by (simp add: example_env_def cc_GetIP_def annotation_def example_cc_def example_bmccluster_def example_meta_def)
qed

end
