(* ===== verification/MachineSystem.thy ===== *)
theory MachineSystem
  imports Life MachineProps
begin

text \<open>
  The life of a BMCMachine under its reconciler: the invariants that hold through any number of
  reconciliations, the conditions under which one server at most is created, and what happens
  without them.
\<close>

section \<open>One reconciliation as a run\<close>

definition patched_machine :: "BMCMachine \<Rightarrow> effect list \<Rightarrow> BMCMachine" where
  "patched_machine bm es = foldl (\<lambda>b e. case e of PatchMachine p \<Rightarrow> p | _ \<Rightarrow> b) bm es"

definition machine_run :: "env \<Rightarrow> BMCMachine \<Rightarrow> BMCMachine \<times> http_request list" where
  "machine_run E bm =
     (let req = \<lparr>nn_Namespace = om_Namespace (bm_Meta bm), nn_Name = om_Name (bm_Meta bm)\<rparr>;
          es = outcome_state (machine_Reconcile (E\<lparr>GetBMCMachine := \<lambda>_. Inr bm\<rparr>) req)
      in (patched_machine bm es, requests es))"

definition server_create :: "string \<Rightarrow> http_request \<Rightarrow> bool" where
  "server_create base r \<longleftrightarrow> hr_Method r = POST \<and> hr_URL r = base @ ''/bmc/v1/servers''"

text \<open>
  Reliable service: every accepted create is answered with a readable server that has an id.
\<close>

definition reliable_servers :: "string \<Rightarrow> env \<Rightarrow> bool" where
  "reliable_servers base E \<longleftrightarrow> BMCEndpointURL E = base \<and>
     (\<forall>r. server_create base r \<and> accepted (BMC E r) \<longrightarrow> (\<exists>c body ss. BMC E r = Response c body
        \<and> unmarshal_machine_status (Decoders E) body = Inr ss \<and> mstat_BMCServerID ss \<noteq> []))"

text \<open>What others may do to the object: anything but touch its annotations.\<close>

definition machine_edit :: "BMCMachine \<Rightarrow> BMCMachine \<Rightarrow> bool" where
  "machine_edit x y \<longleftrightarrow> om_Annotations (bm_Meta y) = om_Annotations (bm_Meta x)"

definition machine_gone :: "BMCMachine \<Rightarrow> bool" where
  "machine_gone bm \<longleftrightarrow> om_DeletionTimestamp (bm_Meta bm) \<noteq> None \<and> om_Finalizers (bm_Meta bm) = []"

definition machine_storable :: "BMCMachine \<Rightarrow> bool" where
  "machine_storable bm \<longleftrightarrow> om_Annotations (bm_Meta bm) \<noteq> None"

definition machine_ident :: "BMCMachine \<Rightarrow> string" where
  "machine_ident bm = annotation (bm_Meta bm) ANNOTATION_NAME_BMC_SERVER_ID"

section \<open>Runs in terms of the reconciler\<close>

lemma patched_machine_finish:
  assumes "\<forall>e \<in> set es. is_http e \<or> is_note e"
  shows "patched_machine bm (es @ [PatchMachine p]) = p"
  by (simp add: patched_machine_def)

lemma requests_dispatch:
  "mc_log mc = [] \<Longrightarrow> requests (mc_log (outcome_state (machine_dispatch E mc))) = requests (sent E (machine_request E mc))"
  using requests_filter [of "mc_log (outcome_state (machine_dispatch E mc))"] machine_log_shape(1) [of mc E] by simp

text \<open>A run either does nothing or is a dispatch, patched.\<close>

lemma machine_run_cases:
  obtains (idle) "machine_run E bm = (bm, [])"
  | (run) m E' where "E' = E\<lparr>GetBMCMachine := \<lambda>_. Inr bm\<rparr>"
      "machine_run E bm = (mc_BMCMachine (outcome_state (machine_dispatch E' (machine_context bm m))),
         requests (sent E' (machine_request E' (machine_context bm m))))"
proof -
  let ?E = "E\<lparr>GetBMCMachine := \<lambda>_. Inr bm\<rparr>"
  let ?req = "\<lparr>nn_Namespace = om_Namespace (bm_Meta bm), nn_Name = om_Name (bm_Meta bm)\<rparr>"
  consider v where "machine_Reconcile ?E ?req = Returns v []"
    | m where "machine_Reconcile ?E ?req = machine_finish (machine_dispatch ?E (machine_context bm m))"
    using machine_Reconcile_cases [of ?E ?req] by auto
  then show thesis
  proof cases
    case 1
    then show thesis by (intro idle) (simp add: machine_run_def Let_def patched_machine_def)
  next
    case 2
    then show thesis
      using requests_dispatch [of "machine_context bm _" ?E]
      by (intro run [OF refl]) (simp add: machine_run_def Let_def machine_finish_state patched_machine_def requests_def)
  qed
qed

section \<open>The identifiers fit together for life\<close>

lemma machine_run_linked: "machine_linked x \<Longrightarrow> machine_run E x = (y, rs) \<Longrightarrow> machine_linked y"
  by (cases rule: machine_run_cases [of E x]) (use mc_linked_dispatch [of "machine_context x _"] in auto)

definition machine_user_edit :: "BMCMachine \<Rightarrow> BMCMachine \<Rightarrow> bool" where
  "machine_user_edit x y \<longleftrightarrow> machine_edit x y \<and> mspec_ProviderID (bm_Spec y) = mspec_ProviderID (bm_Spec x)"

lemma user_edit_linked: "machine_linked x \<Longrightarrow> machine_user_edit x y \<Longrightarrow> machine_linked y"
  by (simp add: machine_user_edit_def machine_edit_def machine_linked_def annotation_def)

interpretation machine_link: object_invariant machine_run "\<lambda>_. True" machine_user_edit machine_linked
  by unfold_locales (blast intro: machine_run_linked user_edit_linked)+

section \<open>The server is created once\<close>

lemma servers_url_eq: "servers_url E = BMCEndpointURL E @ ''/bmc/v1/servers''"
  by (simp add: servers_url_def fmt_extras_def)

lemma server_create_http: "BMCEndpointURL E = base \<Longrightarrow> server_create base (create_http E q)"
  by (simp add: server_create_def create_http_def servers_url_eq)

lemma not_server_create:
  "\<not> server_create base (http_Get u)"
  "BMCEndpointURL E = base \<Longrightarrow> \<not> server_create base (deprovision_request E i)"
  by (auto simp: server_create_def deprovision_request_def fmt_extras_def)

text \<open>What a run does to the annotation map.\<close>

lemma create_response_map:
  "om_Annotations (mc_meta mc) \<noteq> None \<Longrightarrow> om_Annotations (mc_meta (outcome_state (create_response E c body mc))) \<noteq> None"
  by (auto simp: create_response_def create_accepted_def mc_SetMachineID_cases machine_frame mc_Event_def
      mc_Eventf_def mc_SetStatus_def split: sum.split option.split)

lemma post_server_map:
  "om_Annotations (mc_meta mc) \<noteq> None \<Longrightarrow> om_Annotations (mc_meta (outcome_state (post_server E r mc))) \<noteq> None"
  using create_response_map [of "log_effects es mc" for es]
  by (auto simp: post_server_def Let_def mc_Event_def split: prod.split http_outcome.split)

lemma live_map:
  assumes "om_Annotations (mc_meta mc) \<noteq> None"
  shows "om_Annotations (mc_meta (outcome_state (machine_reconcileLive E mc))) \<noteq> None"
proof -
  have "om_Annotations (mc_meta (outcome_state (machine_reconcileCreate E (with_finalizer E mc)))) \<noteq> None"
    using machine_reconcileCreate_cases [of E "with_finalizer E mc"] post_server_map [of "with_finalizer E mc" E] assms
    by auto
  then show ?thesis
    using assms by (auto simp: machine_reconcileLive_unfold sync_frame split: option.split)
qed

lemma dispatch_map:
  assumes "om_Annotations (mc_meta mc) \<noteq> None"
  shows "om_Annotations (mc_meta (outcome_state (machine_dispatch E mc))) \<noteq> None"
proof (cases rule: machine_dispatch_cases [of mc E])
  case (live mc1)
  with assms live_map [of mc1 E] live_context_frame [of E mc mc1] show ?thesis by simp
qed (use assms in \<open>simp_all add: delete_frame\<close>)

text \<open>An object with an identifier keeps it, and sends no create.\<close>

lemma dispatch_created:
  assumes "mc_GetMachineID mc \<noteq> []" and "mc_log mc = []"
  shows "mc_GetMachineID (outcome_state (machine_dispatch E mc)) = mc_GetMachineID mc"
    and "BMCEndpointURL E = base \<Longrightarrow> filter (server_create base) (requests (sent E (machine_request E mc))) = []"
proof -
  show "mc_GetMachineID (outcome_state (machine_dispatch E mc)) = mc_GetMachineID mc"
  proof (cases rule: machine_dispatch_cases [of mc E])
    case delete
    then show ?thesis by (simp add: mc_GetMachineID_def annotation_def delete_frame)
  next
    case (live mc1)
    then have "mc_GetMachineID mc1 = mc_GetMachineID mc"
      using live_context_frame [of E mc mc1] by (simp add: mc_GetMachineID_def)
    moreover have "mc_GetMachineID (outcome_state (machine_reconcileSynchronize E d)) = mc_GetMachineID d" for d
      by (simp add: mc_GetMachineID_def sync_frame)
    ultimately show ?thesis
      using live assms(1) by (simp add: machine_reconcileLive_unfold split: option.split)
  qed simp
  assume "BMCEndpointURL E = base"
  moreover have "machine_request E mc = Some r \<Longrightarrow> \<not> server_create base r" for r
  proof (cases "machine_IsMarkedDeleted (Some (mc_BMCMachine mc))")
    case True
    moreover assume "machine_request E mc = Some r"
    ultimately show ?thesis
      using \<open>BMCEndpointURL E = base\<close>
      by (auto simp: machine_request_def delete_request_def not_server_create split: if_splits)
  next
    case False
    moreover assume "machine_request E mc = Some r"
    ultimately obtain mc1 where l: "live_context E mc = Some mc1" "live_request E mc1 = Some r"
      by (auto simp: machine_request_def bind_eq_Some_conv)
    then have "mc_GetMachineID mc1 = mc_GetMachineID mc"
      using live_context_frame [OF l(1)] by (simp add: mc_GetMachineID_def)
    with l(2) assms(1) show ?thesis
      by (auto simp: live_request_def not_server_create split: if_splits)
  qed
  ultimately show "filter (server_create base) (requests (sent E (machine_request E mc))) = []"
    by (cases "machine_request E mc") (auto simp: sent_def http_send_def requests_def split: option.split)
qed

text \<open>An accepted create leaves the identifier, if the answer is readable.\<close>

lemma post_server_stores:
  assumes "om_Annotations (mc_meta mc) \<noteq> None" and "URLError E (servers_url E) = None"
    and "BMC E (create_http E q) = Response c body" and "http_ok c"
    and "unmarshal_machine_status (Decoders E) body = Inr ss"
  shows "mc_GetMachineID (outcome_state (post_server E q mc)) = mstat_BMCServerID ss"
proof -
  have "mc_GetMachineID (outcome_state (create_response E c body (log_effects es mc))) = mstat_BMCServerID ss" for es
    using assms(1,4,5) by (auto simp: create_response_def http_ok_def create_accepted_def mc_SetMachineID_cases
        mc_GetMachineID_def annotation_def go_defs)
  then show ?thesis
    using assms(2,3) by (simp add: post_server_def http_send_def create_http_def Let_def)
qed

lemma dispatch_creates:
  assumes "mc_GetMachineID mc = []" and "om_Annotations (mc_meta mc) \<noteq> None" and "reliable_servers base E"
    and "r \<in> set (requests (sent E (machine_request E mc)))" and "server_create base r" and "accepted (BMC E r)"
  shows "mc_GetMachineID (outcome_state (machine_dispatch E mc)) \<noteq> []"
proof -
  have r: "machine_request E mc = Some r" and u: "URLError E (hr_URL r) = None"
    using assms(4) by (auto simp: sent_def http_send_def requests_def split: option.splits)
  have "\<not> machine_IsMarkedDeleted (Some (mc_BMCMachine mc))"
    using r assms(1) by (auto simp: machine_request_def delete_request_def split: if_splits)
  with r obtain mc1 where l: "live_context E mc = Some mc1" "live_request E mc1 = Some r"
    by (auto simp: machine_request_def bind_eq_Some_conv)
  note f = live_context_frame [OF l(1)]
  have i: "mc_GetMachineID mc1 = []" using f assms(1) by (simp add: mc_GetMachineID_def)
  with l(2) obtain b q where b: "mc_GetDataSecretValue E (with_finalizer E mc1) = Some (Inr b)"
      "planned_request E (with_finalizer E mc1) b = Some q" "r = create_http E q"
    and g: "mc_IsInfrastructureReady mc1 = Some True" "mc_IsDataSecretReady mc1"
    by (auto simp: live_request_def create_plan_def with_finalizer_def split: if_splits option.splits sum.splits)
  from assms(3,5,6) obtain c body ss where a: "BMC E r = Response c body"
      "unmarshal_machine_status (Decoders E) body = Inr ss" "mstat_BMCServerID ss \<noteq> []"
    unfolding reliable_servers_def by blast
  have "machine_dispatch E mc = machine_reconcileLive E mc1"
    using machine_dispatch_cases [of mc E] l(1) \<open>\<not> machine_IsMarkedDeleted _\<close> by auto
  also have "\<dots> = post_server E q (with_finalizer E mc1)"
    using g i machine_reconcileCreate_planned [OF b(1,2)] by (simp add: machine_reconcileLive_unfold)
  finally show ?thesis
    using post_server_stores [of "with_finalizer E mc1" E q c body ss] a b(3) u f assms(2,6)
    by (simp add: create_http_def)
qed

lemma reliable_GetBMCMachine [simp]: "reliable_servers base (E\<lparr>GetBMCMachine := g\<rparr>) = reliable_servers base E"
  by (simp add: reliable_servers_def)

lemma machine_ident_mc: "machine_ident (mc_BMCMachine mc) = mc_GetMachineID mc"
  by (simp add: machine_ident_def mc_GetMachineID_def)

lemma machine_run_storable: "machine_storable x \<Longrightarrow> machine_run E x = (y, rs) \<Longrightarrow> machine_storable y"
  by (cases rule: machine_run_cases [of E x])
     (use dispatch_map [of "machine_context x _"] in \<open>auto simp: machine_storable_def\<close>)

lemma machine_run_created:
  assumes "machine_ident x \<noteq> []" and "reliable_servers base E" and "machine_run E x = (y, rs)"
  shows "machine_ident y = machine_ident x \<and> filter (server_create base) rs = []"
proof (cases rule: machine_run_cases [of E x])
  case idle
  with assms(3) show ?thesis by simp
next
  case (run m E')
  have "BMCEndpointURL E' = base" using assms(2) run(1) by (simp add: reliable_servers_def)
  then show ?thesis
    using dispatch_created [of "machine_context x m" E'] assms(1,3) run(2)
    by (simp add: machine_ident_mc [symmetric])
qed

lemma length_requests_sent: "length (filter P (requests (sent E r))) \<le> Suc 0"
  by (auto simp: sent_def http_send_def split: option.split)

lemma machine_run_creates:
  assumes "machine_ident x = []" and "machine_storable x" and "reliable_servers base E" and "machine_run E x = (y, rs)"
  shows "length (filter (server_create base) rs) \<le> 1
    \<and> ((\<exists>r \<in> set rs. server_create base r \<and> accepted (BMC E r)) \<longrightarrow> machine_ident y \<noteq> [])"
proof (cases rule: machine_run_cases [of E x])
  case idle
  with assms(4) show ?thesis by simp
next
  case (run m E')
  have "reliable_servers base E'" "BMC E' = BMC E" using assms(3) run(1) by simp_all
  then show ?thesis
    using dispatch_creates [of "machine_context x m" base E'] assms run(2)
    by (auto simp: length_requests_sent machine_ident_mc [symmetric] machine_storable_def)
qed

lemma machine_edit_ident: "machine_edit x y \<Longrightarrow> machine_ident y = machine_ident x"
  by (simp add: machine_edit_def machine_ident_def annotation_def)

lemma machine_edit_storable: "machine_storable x \<Longrightarrow> machine_edit x y \<Longrightarrow> machine_storable y"
  by (simp add: machine_edit_def machine_storable_def)

interpretation server_life: creator machine_run "reliable_servers base" machine_edit machine_storable machine_ident
    "server_create base"
  for base
  by unfold_locales
     (blast intro: machine_run_storable machine_edit_storable machine_edit_ident
       dest: machine_run_created machine_run_creates)+

section \<open>Examples of lives\<close>

lemma machine_run_dispatch:
  assumes "GetOwnerMachine E (bm_Meta bm) = Inr (Some m)" and "E' = E\<lparr>GetBMCMachine := \<lambda>_. Inr bm\<rparr>"
  shows "machine_run E bm = (mc_BMCMachine (outcome_state (machine_dispatch E' (machine_context bm m))),
    requests (sent E' (machine_request E' (machine_context bm m))))"
proof -
  let ?req = "\<lparr>nn_Namespace = om_Namespace (bm_Meta bm), nn_Name = om_Name (bm_Meta bm)\<rparr>"
  have "machine_Reconcile E' ?req = machine_finish (machine_dispatch E' (machine_context bm m))"
    by (rule machine_Reconcile_run) (use assms in simp_all)
  then show ?thesis
    using requests_dispatch [of "machine_context bm m" E'] assms(2)
    by (simp add: machine_run_def Let_def machine_finish_state patched_machine_def requests_def)
qed

text \<open>The service that accepts every request, with a server that is being created.\<close>

definition creating_env :: env where
  "creating_env = machine_env example_machine (\<lambda>_. Response 201 (server_body ''s1'' ''creating''))"

definition creating_context :: "BMCMachine \<Rightarrow> MachineContext" where
  "creating_context bm = with_finalizer creating_env (machine_context bm example_owner
     \<lparr>mc_Cluster := Some example_cluster, mc_BMCCluster := Some example_bmccluster\<rparr>)"

lemma unmarshal_creating: "unmarshal_machine_status fd (server_body ''s1'' ''creating'') = Inr (server_status ''s1'' ''creating'')"
  by (rule unmarshal_server_body) (simp_all add: utf8_ok_ascii)

lemma creating_env_reliable: "reliable_servers ''https://api'' creating_env"
  by (auto simp: reliable_servers_def creating_env_def machine_env_def example_env_def unmarshal_creating server_status_def)

lemma creating_facts:
  "GetOwnerMachine creating_env om = Inr (Some example_owner)" "BMCEndpointURL creating_env = ''https://api''"
  "URLError creating_env u = None" "BMC creating_env r = Response 201 (server_body ''s1'' ''creating'')"
  by (simp_all add: creating_env_def machine_env_def example_env_def)

text \<open>
  A run in that service of a live machine without a server id: the create request goes out, and the
  stored object is what the accepted answer makes of it.
\<close>

lemma creating_run:
  assumes "om_DeletionTimestamp (bm_Meta bm) = None" and "machine_ident bm = []"
  shows "\<exists>q. machine_run creating_env bm =
    (mc_BMCMachine (outcome_state (create_accepted creating_env (server_body ''s1'' ''creating'') (creating_context bm))),
     [create_http creating_env q])"
proof -
  let ?E' = "creating_env\<lparr>GetBMCMachine := \<lambda>_. Inr bm\<rparr>"
  let ?mc1 = "machine_context bm example_owner\<lparr>mc_Cluster := Some example_cluster, mc_BMCCluster := Some example_bmccluster\<rparr>"
  let ?q = "create_request (creating_context bm) ''data''"
  have w: "with_finalizer ?E' ?mc1 = creating_context bm"
    by (simp add: creating_context_def with_finalizer_def mc_HasFini_def mc_AddFini_def)
  have d: "\<not> machine_IsMarkedDeleted (Some bm)" using assms(1) by (simp add: machine_IsMarkedDeleted_iff)
  have l: "live_context ?E' (machine_context bm example_owner) = Some ?mc1"
    using d by (simp add: live_context_def creating_env_def machine_env_def example_cluster_def example_env_def)
  have i: "mc_GetMachineID ?mc1 = []" using assms(2) by (simp add: machine_ident_def mc_GetMachineID_def)
  have sec: "mc_GetDataSecretValue ?E' mc = Some (Inr ''data'')" if "mc_Machine mc = example_owner" for mc
    using that by (simp add: mc_GetDataSecretValue_def example_owner_def creating_env_def machine_env_def example_env_def Let_def)
  have plan: "planned_request ?E' mc b = Some (create_request mc b)" for mc b
    by (simp add: planned_request_def mc_IsControlPlaneMachine_def creating_env_def machine_env_def example_env_def)
  have own: "mc_Machine (creating_context bm) = example_owner"
    by (simp add: creating_context_def with_finalizer_def)
  have ready: "mc_IsInfrastructureReady ?mc1 = Some True" "mc_IsDataSecretReady ?mc1"
    by (simp_all add: mc_IsInfrastructureReady_def mc_IsDataSecretReady_def example_cluster_def example_owner_def)
  have req: "create_request ?mc1 ''data'' = ?q"
    by (simp add: create_request_def creating_context_def with_finalizer_def mc_GetHostname_def)
  have "live_request ?E' ?mc1 = Some (create_http ?E' ?q)"
    using i ready by (simp add: live_request_def create_plan_def sec plan req)
  then have r: "machine_request ?E' (machine_context bm example_owner) = Some (create_http ?E' ?q)"
    using d l by (simp add: machine_request_def)
  have "machine_dispatch ?E' (machine_context bm example_owner) = machine_reconcileLive ?E' ?mc1"
    using machine_dispatch_cases [of "machine_context bm example_owner" ?E'] l d by auto
  also have "\<dots> = post_server ?E' ?q (creating_context bm)"
    using i ready machine_reconcileCreate_planned [OF sec [OF own] plan]
    by (simp add: machine_reconcileLive_unfold flip: w)
  also have "\<dots> = create_accepted ?E' (server_body ''s1'' ''creating'')
      (log_effects [Http (create_http ?E' ?q)] (creating_context bm))"
    by (simp add: post_server_def http_send_def create_http_def creating_facts create_response_def http_ok_def Let_def)
  finally have s: "mc_BMCMachine (outcome_state (machine_dispatch ?E' (machine_context bm example_owner)))
      = mc_BMCMachine (outcome_state (create_accepted creating_env (server_body ''s1'' ''creating'') (creating_context bm)))"
    by (simp add: create_accepted_def unmarshal_creating mc_SetMachineID_cases go_defs split: option.split)
  have "create_http ?E' ?q = create_http creating_env ?q"
    by (simp add: create_http_def servers_url_eq)
  then show ?thesis
    using machine_run_dispatch [OF creating_facts(1) refl, of bm] s r
    by (auto simp: sent_def http_send_def creating_facts)
qed

text \<open>What the accepted answer makes of an object, without and with an annotation map.\<close>

definition creating_result :: "BMCMachine \<Rightarrow> BMCMachine" where
  "creating_result bm = mc_BMCMachine (outcome_state
     (create_accepted creating_env (server_body ''s1'' ''creating'') (creating_context bm)))"

lemma creating_context_simps:
  "om_Annotations (mc_meta (creating_context bm)) = om_Annotations (bm_Meta bm)"
  "om_DeletionTimestamp (mc_meta (creating_context bm)) = om_DeletionTimestamp (bm_Meta bm)"
  by (simp_all add: creating_context_def with_finalizer_def mc_AddFini_def)

lemma creating_result_no_map:
  assumes "om_Annotations (bm_Meta bm) = None"
  shows "om_Annotations (bm_Meta (creating_result bm)) = None"
    and "om_DeletionTimestamp (bm_Meta (creating_result bm)) = om_DeletionTimestamp (bm_Meta bm)"
  using assms by (simp_all add: creating_result_def create_accepted_def unmarshal_creating mc_SetMachineID_cases
      creating_context_simps go_defs split: option.split)

lemma creating_result_map:
  assumes "om_Annotations (bm_Meta bm) = Some a"
  shows "machine_ident (creating_result bm) = ''s1''"
    and "om_DeletionTimestamp (bm_Meta (creating_result bm)) = om_DeletionTimestamp (bm_Meta bm)"
    and "bm_Status (creating_result bm) = server_status ''s1'' ''creating''"
  using assms by (simp_all add: creating_result_def create_accepted_def unmarshal_creating mc_SetMachineID_cases
      creating_context_simps machine_ident_def annotation_def server_status_def go_defs)

lemma creating_exchange:
  "accepted_count (server_create ''https://api'') (exchanges creating_env [create_http creating_env q]) = 1"
  by (simp add: accepted_count_def exchanges_def creating_facts http_ok_def server_create_http)

section \<open>One server, or many\<close>

text \<open>
  C1. One server per machine: through any number of reconciliations, edits that leave the
  annotations alone, deletion and removal, at most one create request is accepted, provided that the
  object was born with an annotation map, no patch is lost, and every accepted create is answered with
  a readable server that has an id.
\<close>

theorem one_server_per_machine:
  assumes "life machine_run (reliable_servers base) machine_edit machine_gone False machine_storable w"
  shows "accepted_count (server_create base) (w_log w) \<le> 1"
  using server_life.created_once [OF assms] by blast

theorem one_server_per_machine_witness:
  "\<exists>w. accepted_count (server_create ''https://api'') (w_log w) = 1 \<and> accepted_count (server_create ''https://api'') (w_log w) \<le> 1
    \<and> life machine_run (reliable_servers ''https://api'') machine_edit machine_gone False machine_storable w"
proof -
  have live: "om_DeletionTimestamp (bm_Meta example_machine) = None" "machine_ident example_machine = []"
    "machine_storable example_machine"
    by (simp_all add: example_machine_def example_meta_def machine_ident_def annotation_def machine_storable_def)
  obtain q where r: "machine_run creating_env example_machine = (creating_result example_machine, [create_http creating_env q])"
    using creating_run [OF live(1,2)] by (auto simp: creating_result_def)
  let ?w = "\<lparr>w_obj = Some (creating_result example_machine), w_log = exchanges creating_env [create_http creating_env q]\<rparr>"
  have l: "life machine_run (reliable_servers ''https://api'') machine_edit machine_gone False machine_storable ?w"
    by (rule life_first [where x = example_machine]) (use live(3) creating_env_reliable r in simp_all)
  show ?thesis
    using one_server_per_machine [OF l] l creating_exchange [of q] by (intro exI [of _ ?w]) simp
qed

text \<open>
  C12. Servers without bound: a machine whose object was born without an annotation map gets a new
  server in every reconciliation, although the service is reliable and no patch is lost.  The create is
  accepted, storing its id panics, and the next reconciliation finds no id: after n reconciliations
  there are n servers, of which the object knows none.
\<close>

theorem servers_without_bound:
  assumes "om_Annotations (bm_Meta bm) = None" and "om_DeletionTimestamp (bm_Meta bm) = None"
  shows "\<exists>w x. life machine_run (reliable_servers ''https://api'') machine_edit machine_gone False (\<lambda>x. x = bm) w
    \<and> accepted_count (server_create ''https://api'') (w_log w) = n \<and> w_obj w = Some x \<and> machine_ident x = []"
proof -
  have none: "machine_ident x = []" if "om_Annotations (bm_Meta x) = None" for x
    using that by (simp add: machine_ident_def annotation_def)
  have "\<exists>w x. life machine_run (reliable_servers ''https://api'') machine_edit machine_gone False (\<lambda>x. x = bm) w
    \<and> accepted_count (server_create ''https://api'') (w_log w) = n \<and> w_obj w = Some x
    \<and> om_Annotations (bm_Meta x) = None \<and> om_DeletionTimestamp (bm_Meta x) = None"
  proof (induction n)
    case 0
    show ?case
      using assms by (intro exI [of _ "\<lparr>w_obj = Some bm, w_log = []\<rparr>"] exI [of _ bm]) (simp add: life.born)
  next
    case (Suc n)
    then obtain w x where w: "life machine_run (reliable_servers ''https://api'') machine_edit machine_gone False (\<lambda>x. x = bm) w"
      "accepted_count (server_create ''https://api'') (w_log w) = n" "w_obj w = Some x"
      and x: "om_Annotations (bm_Meta x) = None" "om_DeletionTimestamp (bm_Meta x) = None" by blast
    obtain q where r: "machine_run creating_env x = (creating_result x, [create_http creating_env q])"
      using creating_run [OF x(2) none [OF x(1)]] by (auto simp: creating_result_def)
    let ?w = "\<lparr>w_obj = Some (creating_result x), w_log = w_log w @ exchanges creating_env [create_http creating_env q]\<rparr>"
    from life_reconciled [OF w(1), OF w(3) creating_env_reliable r]
    show ?case
      using w(2) creating_exchange [of q] creating_result_no_map [OF x(1)] x(2)
      by (intro exI [of _ ?w] exI [of _ "creating_result x"]) simp
  qed
  then show ?thesis using none by blast
qed

theorem servers_without_bound_witness:
  "\<exists>w. life machine_run (reliable_servers ''https://api'') machine_edit machine_gone False
      (\<lambda>x. x = example_machine\<lparr>bm_Meta := example_meta\<lparr>om_Annotations := None\<rparr>\<rparr>) w
    \<and> accepted_count (server_create ''https://api'') (w_log w) = 3"
  using servers_without_bound [of "example_machine\<lparr>bm_Meta := example_meta\<lparr>om_Annotations := None\<rparr>\<rparr>" 3]
  by (auto simp: example_meta_def)

text \<open>
  A lost patch costs a server each time, with an annotation map too: the id of an accepted create
  is only in the patch, whose failure the controller logs and forgets.
\<close>

theorem lost_patches_lose_servers:
  "\<exists>w. life machine_run (reliable_servers ''https://api'') machine_edit machine_gone True machine_storable w
    \<and> accepted_count (server_create ''https://api'') (w_log w) = n"
proof -
  have live: "om_DeletionTimestamp (bm_Meta example_machine) = None" "machine_ident example_machine = []"
    "machine_storable example_machine"
    by (simp_all add: example_machine_def example_meta_def machine_ident_def annotation_def machine_storable_def)
  obtain y q where r: "machine_run creating_env example_machine = (y, [create_http creating_env q])"
    using creating_run [OF live(1,2)] by blast
  have "\<exists>w. life machine_run (reliable_servers ''https://api'') machine_edit machine_gone True machine_storable w
    \<and> accepted_count (server_create ''https://api'') (w_log w) = n \<and> w_obj w = Some example_machine"
  proof (induction n)
    case 0
    show ?case by (intro exI [of _ "\<lparr>w_obj = Some example_machine, w_log = []\<rparr>"]) (simp add: life.born live(3))
  next
    case (Suc n)
    then obtain w where w: "life machine_run (reliable_servers ''https://api'') machine_edit machine_gone True machine_storable w"
      "accepted_count (server_create ''https://api'') (w_log w) = n" "w_obj w = Some example_machine" by blast
    let ?w = "\<lparr>w_obj = Some example_machine, w_log = w_log w @ exchanges creating_env [create_http creating_env q]\<rparr>"
    from life_lost_patch [OF w(1), OF w(3) creating_env_reliable r]
    show ?case using w(2) creating_exchange [of q] by (intro exI [of _ ?w]) simp
  qed
  then show ?thesis by blast
qed

section \<open>Links for life\<close>

text \<open>
  C21. Through its whole life, with lost patches and arbitrary services, a machine that was born linked
  has the provider id of its server id.
\<close>

theorem machine_linked_for_life:
  assumes "life machine_run (\<lambda>_. True) machine_user_edit machine_gone lossy machine_linked w" and "w_obj w = Some x"
    and "machine_ident x \<noteq> []"
  shows "mspec_ProviderID (bm_Spec x) = Some (''bmc://servers/'' @ machine_ident x)"
  using machine_link.life_inv [OF assms(1,2)] assms(3)
  by (simp add: machine_linked_def machine_ident_def provider_id_eq Let_def)

theorem machine_linked_for_life_witness:
  "mspec_ProviderID (bm_Spec (creating_result example_machine)) = Some ''bmc://servers/s1''"
proof -
  have live: "om_DeletionTimestamp (bm_Meta example_machine) = None" "machine_ident example_machine = []"
    "machine_linked example_machine" "om_Annotations (bm_Meta example_machine) = Some Map.empty"
    by (simp_all add: example_machine_def example_meta_def machine_ident_def annotation_def machine_linked_def)
  obtain q where r: "machine_run creating_env example_machine = (creating_result example_machine, [create_http creating_env q])"
    using creating_run [OF live(1,2)] by (auto simp: creating_result_def)
  have l: "life machine_run (\<lambda>_. True) machine_user_edit machine_gone False machine_linked
      \<lparr>w_obj = Some (creating_result example_machine), w_log = exchanges creating_env [create_http creating_env q]\<rparr>"
    by (rule life_first [where x = example_machine]) (use live(3) r in simp_all)
  show ?thesis
    using machine_linked_for_life [OF l, of "creating_result example_machine"] creating_result_map(1) [OF live(4)] by simp
qed

section \<open>The end of a life\<close>

text \<open>A run of a machine that is being deleted.\<close>

lemma deleting_run:
  assumes "GetOwnerMachine E (bm_Meta bm) = Inr (Some m)" and "om_DeletionTimestamp (bm_Meta bm) \<noteq> None"
  shows "machine_run E bm =
    (mc_BMCMachine (outcome_state (machine_reconcileDelete (E\<lparr>GetBMCMachine := \<lambda>_. Inr bm\<rparr>) (machine_context bm m))),
     requests (sent (E\<lparr>GetBMCMachine := \<lambda>_. Inr bm\<rparr>) (delete_request (E\<lparr>GetBMCMachine := \<lambda>_. Inr bm\<rparr>) (machine_context bm m))))"
  using machine_run_dispatch [OF assms(1) refl] assms(2)
  by (simp add: machine_dispatch_def machine_request_def machine_IsMarkedDeleted_iff)

text \<open>Without an owner that is read, nothing happens.\<close>

lemma machine_run_unowned:
  "\<nexists>m. GetOwnerMachine E (bm_Meta bm) = Inr (Some m) \<Longrightarrow> machine_run E bm = (bm, [])"
  by (cases "GetOwnerMachine E (bm_Meta bm)")
     (auto simp: machine_run_def machine_Reconcile_def Let_def patched_machine_def split: option.split)

text \<open>
  C31. The deletion of a machine whose owner is found completes in one reconciliation: whatever the other
  services answer, the object of a deleted machine that has no other finalizer can be removed by the API
  server afterwards, provided that the helpers for finalizers add and remove what they are given.  As long
  as the machine has no owner, or its owner is not read, a reconciliation leaves the object as it is, and
  the deletion hangs.
\<close>

theorem machine_delete_completes:
  assumes "finalizer_laws E" and "om_DeletionTimestamp (bm_Meta bm) \<noteq> None"
    and "set (om_Finalizers (bm_Meta bm)) \<subseteq> {MachineFinalizer}"
  shows "if \<exists>m. GetOwnerMachine E (bm_Meta bm) = Inr (Some m) then machine_gone (fst (machine_run E bm))
    else machine_run E bm = (bm, [])"
proof (cases "\<exists>m. GetOwnerMachine E (bm_Meta bm) = Inr (Some m)")
  case True
  then obtain m where m: "GetOwnerMachine E (bm_Meta bm) = Inr (Some m)" by blast
  have "set (RemoveFinalizer E (om_Finalizers (bm_Meta bm)) MachineFinalizer) = {}"
    using finalizer_lawsD(2) [OF assms(1)] assms(3) by auto
  then show ?thesis
    using True assms(2) by (simp add: deleting_run [OF m assms(2)] machine_gone_def delete_frame mc_RemoveFini_def)
next
  case False
  then show ?thesis by (simp add: machine_run_unowned)
qed

theorem machine_delete_completes_witness:
  "machine_gone (fst (machine_run (machine_env example_machine (\<lambda>_. DoError (LibErr ''down''))) example_deleting))"
proof -
  let ?E = "machine_env example_machine (\<lambda>_. DoError (LibErr ''down''))"
  have "finalizer_laws ?E"
    using finalizer_laws_example [of "\<lambda>_. DoError (LibErr ''down'')"] by (simp add: finalizer_laws_def machine_env_def)
  moreover have "om_DeletionTimestamp (bm_Meta example_deleting) \<noteq> None"
    "set (om_Finalizers (bm_Meta example_deleting)) \<subseteq> {MachineFinalizer}"
    by (simp_all add: example_deleting_def example_created_def example_mc_def example_machine_def example_meta_def
        mc_SetStatus_def)
  ultimately show ?thesis
    using machine_delete_completes [of ?E example_deleting] machine_env_finds(2) by (auto split: if_splits)
qed

text \<open>
  C23. Deletion can leak the server: when the deprovision request of a deleted machine is answered with 500,
  the reconciliation asks to be called again in two minutes, as the comment in the source means it to back
  off and retry, but the object it stores has no finalizer left, so that the API server removes it; and
  the reconciliation of an object that is not found sends nothing and asks for nothing.
\<close>

theorem deletion_leaks_server:
  assumes "finalizer_laws E" and "GetBMCMachine E key = Inr bm" and "GetOwnerMachine E (bm_Meta bm) = Inr (Some m)"
    and "om_DeletionTimestamp (bm_Meta bm) \<noteq> None" and "set (om_Finalizers (bm_Meta bm)) \<subseteq> {MachineFinalizer}"
    and "mstat_BMCStatus (bm_Status bm) \<noteq> StatusOrphaned" and "machine_ident bm \<noteq> []"
    and "d = deprovision_request E (machine_ident bm)" and "URLError E (hr_URL d) = None" and "BMC E d = Response 500 body"
  shows "(\<exists>es. machine_Reconcile E key = Returns (requeueAfter2Min, None) es \<and> requests es = [d]
      \<and> machine_gone (patched_machine bm es))
    \<and> (\<forall>F e. GetBMCMachine F key = Inl e \<and> IgnoreNotFound F e = None \<longrightarrow> machine_Reconcile F key = Returns (noRequeue, None) [])"
proof -
  let ?mc = "machine_context bm m" and ?mc1 = "log_effects [Http d] (mc_RemoveFini E (machine_context bm m))"
  have i: "mc_GetMachineID (mc_RemoveFini E ?mc) = machine_ident bm" "mc_GetBMCStatus (mc_RemoveFini E ?mc) = mstat_BMCStatus (bm_Status bm)"
    by (simp_all add: machine_ident_mc [symmetric] mc_RemoveFini_def mc_GetBMCStatus_def mc_GetMachineID_def machine_ident_def annotation_def)
  have "machine_reconcileDelete E ?mc = Returns (requeueAfter2Min, None) ?mc1"
    using assms(6-10) i by (simp add: machine_reconcileDelete_def Let_def http_send_def mc_IsStatusEqual_def mc_GetBMCStatus_def
        delete_response_def)
  then have r: "machine_Reconcile E key
      = Returns (requeueAfter2Min, None) (mc_log ?mc1 @ [PatchMachine (mc_BMCMachine ?mc1)])"
    using machine_Reconcile_run [OF assms(2,3)] assms(4)
    by (simp add: machine_dispatch_def machine_IsMarkedDeleted_iff)
  have "set (RemoveFinalizer E (om_Finalizers (bm_Meta bm)) MachineFinalizer) = {}"
    using finalizer_lawsD(2) [OF assms(1)] assms(5) by auto
  then have "machine_gone (mc_BMCMachine ?mc1)"
    using assms(4) by (simp add: machine_gone_def mc_RemoveFini_def)
  moreover have "requests (mc_log ?mc1 @ [PatchMachine (mc_BMCMachine ?mc1)]) = [d]"
    "patched_machine bm (mc_log ?mc1 @ [PatchMachine (mc_BMCMachine ?mc1)]) = mc_BMCMachine ?mc1"
    by (simp_all add: requests_def patched_machine_def mc_RemoveFini_def)
  moreover have "\<forall>F e. GetBMCMachine F key = Inl e \<and> IgnoreNotFound F e = None
      \<longrightarrow> machine_Reconcile F key = Returns (noRequeue, None) []"
    by (simp add: machine_Reconcile_def)
  ultimately show ?thesis
    using r by metis
qed

theorem deletion_leaks_server_witness:
  "\<exists>es. machine_Reconcile (machine_env example_deleting (\<lambda>_. Response 500 []))
      \<lparr>nn_Namespace = ''ns'', nn_Name = ''m''\<rparr> = Returns (requeueAfter2Min, None) es
    \<and> machine_gone (patched_machine example_deleting es)"
proof -
  let ?E = "machine_env example_deleting (\<lambda>_. Response 500 [])"
  have "finalizer_laws ?E"
    using finalizer_laws_example [of "\<lambda>_. Response 500 []"] by (simp add: finalizer_laws_def machine_env_def)
  moreover have "GetBMCMachine ?E k = Inr example_deleting" "URLError ?E u = None" "BMC ?E q = Response 500 []" for k u q
    by (simp_all add: machine_env_def example_env_def)
  moreover have "om_DeletionTimestamp (bm_Meta example_deleting) \<noteq> None"
    "set (om_Finalizers (bm_Meta example_deleting)) \<subseteq> {MachineFinalizer}"
    "mstat_BMCStatus (bm_Status example_deleting) \<noteq> StatusOrphaned" "machine_ident example_deleting \<noteq> []"
    by (simp_all add: example_deleting_def example_created_def example_mc_def example_machine_def example_meta_def mc_SetStatus_def
        machine_ident_def annotation_def zero_machine_status_def server_status_def status_defs)
  ultimately show ?thesis
    using deletion_leaks_server [OF _ _ machine_env_finds(2) _ _ _ _ refl, of example_deleting] by blast
qed

end
