(* ===== verification/Creation.thy ===== *)
theory Creation
  imports Life
begin

text \<open>
  The abstract specification of a controller that owns one external resource, and the refinement: the
  life of an object whose controller is a creator, and never makes up an identifier, is a run of the
  specification.
\<close>

section \<open>The specification\<close>

text \<open>
  An owner that is alive or not, the identifier of the resource it knows, and the number of resources
  that were ever created for it.
\<close>

record resource =
  rs_alive :: bool
  rs_known :: "string option"
  rs_count :: nat

inductive resource_step :: "resource \<Rightarrow> resource \<Rightarrow> bool" where
  create: "rs_alive s \<Longrightarrow> rs_known s = None \<Longrightarrow> i \<noteq> []
    \<Longrightarrow> resource_step s (s\<lparr>rs_known := Some i, rs_count := Suc (rs_count s)\<rparr>)"
| stutter: "resource_step s s"
| remove: "rs_alive s \<Longrightarrow> resource_step s (s\<lparr>rs_alive := False, rs_known := None\<rparr>)"

inductive resource_run :: "resource \<Rightarrow> bool" where
  start: "resource_run \<lparr>rs_alive = True, rs_known = None, rs_count = 0\<rparr>"
| move: "resource_run s \<Longrightarrow> resource_step s t \<Longrightarrow> resource_run t"

text \<open>What the specification promises: the owner knows the one resource there is.\<close>

definition resource_owned :: "resource \<Rightarrow> bool" where
  "resource_owned s \<longleftrightarrow> rs_count s \<le> 1 \<and> (rs_alive s \<longrightarrow> rs_count s = (if rs_known s = None then 0 else 1))
     \<and> (\<not> rs_alive s \<longrightarrow> rs_known s = None)"

lemma resource_step_owned: "resource_step s t \<Longrightarrow> resource_owned s \<Longrightarrow> resource_owned t"
  by (induction rule: resource_step.induct) (auto simp: resource_owned_def)

lemma resource_run_owned: "resource_run s \<Longrightarrow> resource_owned s"
proof (induction rule: resource_run.induct)
  case start
  then show ?case by (simp add: resource_owned_def)
qed (rule resource_step_owned)

section \<open>The abstraction\<close>

definition known :: "('o \<Rightarrow> string) \<Rightarrow> 'o \<Rightarrow> string option" where
  "known ident x = (if ident x = [] then None else Some (ident x))"

definition resource_of :: "('o \<Rightarrow> string) \<Rightarrow> (http_request \<Rightarrow> bool) \<Rightarrow> 'o world \<Rightarrow> resource" where
  "resource_of ident is_create w = \<lparr>rs_alive = w_obj w \<noteq> None, rs_known = Option.bind (w_obj w) (known ident),
     rs_count = accepted_count is_create (w_log w)\<rparr>"

text \<open>A creator whose identifier only ever comes from an accepted create.\<close>

locale honest_creator = creator run ok edit storable ident is_create
  for run :: "'o run" and ok and edit and storable and ident and is_create +
  assumes run_honest: "ident x = [] \<Longrightarrow> ok E \<Longrightarrow> run E x = (y, rs) \<Longrightarrow> ident y \<noteq> []
    \<Longrightarrow> \<exists>r \<in> set rs. is_create r \<and> accepted (BMC E r)"
begin

lemma reconcile_exact:
  assumes "storable x" and "ok E" and "run E x = (y, rs)"
  shows "(known ident y = known ident x \<and> accepted_count is_create (exchanges E rs) = 0)
    \<or> (ident x = [] \<and> ident y \<noteq> [] \<and> accepted_count is_create (exchanges E rs) = 1)"
proof (cases "ident x = []")
  case True
  have "\<exists>r \<in> set rs. is_create r \<and> accepted (BMC E r) \<Longrightarrow> accepted_count is_create (exchanges E rs) \<noteq> 0"
    by (auto simp: accepted_count_def exchanges_def filter_empty_conv)
  then show ?thesis
    using True reconcile_counts [OF assms] run_honest [OF True assms(2,3)]
    by (cases "ident y = []") (auto simp: known_def)
next
  case False
  then show ?thesis
    using run_created [OF False assms(2,3)] accepted_count_none [of is_create rs E] by (simp add: known_def)
qed

lemma step_refines:
  assumes "life_step run ok edit gone False w w'" and "\<forall>x. w_obj w = Some x \<longrightarrow> storable x"
  shows "resource_step (resource_of ident is_create w) (resource_of ident is_create w')"
  using assms(1)
proof (cases rule: life_step.cases)
  case (reconcile x E y rs)
  let ?s = "resource_of ident is_create w" and ?t = "resource_of ident is_create w'"
  consider "?t = ?s" | "rs_alive ?s" "rs_known ?s = None" "ident y \<noteq> []"
      "?t = ?s\<lparr>rs_known := Some (ident y), rs_count := Suc (rs_count ?s)\<rparr>"
    using reconcile_exact [of x E y rs] reconcile assms(2) by (auto simp: resource_of_def known_def)
  then show ?thesis
    by cases (auto intro: resource_step.intros simp del: resource.simps)
next
  case (edited x y)
  then have "resource_of ident is_create w' = resource_of ident is_create w"
    using edit_ident [of x y] by (simp add: resource_of_def known_def)
  then show ?thesis by (simp add: resource_step.stutter)
next
  case (collected x)
  then have "resource_of ident is_create w'
      = (resource_of ident is_create w)\<lparr>rs_alive := False, rs_known := None\<rparr>" "rs_alive (resource_of ident is_create w)"
    by (simp_all add: resource_of_def)
  then show ?thesis by (simp add: resource_step.remove)
qed simp

lemma life_refines:
  assumes "life run ok edit gone False (\<lambda>x. storable x \<and> ident x = []) w"
  shows "resource_run (resource_of ident is_create w) \<and> (\<forall>x. w_obj w = Some x \<longrightarrow> storable x)"
  using assms
proof (induction rule: life.induct)
  case (born x)
  then show ?case by (simp add: resource_of_def known_def resource_run.start)
next
  case (later w w')
  from later.hyps(2) have "\<forall>x. w_obj w' = Some x \<longrightarrow> storable x"
  proof (cases rule: life_step.cases)
    case (reconcile x E y rs)
    then show ?thesis using later.IH run_inv [of x E y rs] by simp
  next
    case (edited x y)
    then show ?thesis using later.IH edit_inv [of x y] by simp
  qed simp_all
  moreover have "resource_step (resource_of ident is_create w) (resource_of ident is_create w')"
    using step_refines [OF later.hyps(2)] later.IH by simp
  ultimately show ?case
    using later.IH by (auto intro: resource_run.move)
qed

text \<open>What a life inherits from the specification.\<close>

lemma life_owned:
  assumes "life run ok edit gone False (\<lambda>x. storable x \<and> ident x = []) w" and "w_obj w = Some x"
  shows "accepted_count is_create (w_log w) = (if ident x = [] then 0 else 1)"
  using resource_run_owned [of "resource_of ident is_create w"] life_refines [OF assms(1)] assms(2)
  by (simp add: resource_owned_def resource_of_def known_def split: if_splits)

end

end
