(* ===== verification/Refinement.thy ===== *)
theory Refinement
  imports MachineSystem ClusterSystem Creation
begin

text \<open>
  Both reconcilers refine the specification of an owner of one resource: an identifier appears only
  together with an accepted create.
\<close>

section \<open>Machines\<close>

lemma create_response_refused:
  "\<not> http_ok c \<Longrightarrow> mc_meta (outcome_state (create_response E c body mc)) = mc_meta mc"
  by (simp add: create_response_def machine_frame go_defs)

text \<open>The server id in the answer to an accepted create.\<close>

definition server_issued :: "string \<Rightarrow> env \<Rightarrow> http_request \<Rightarrow> string option" where
  "server_issued base E r = (if \<not> server_create base r then None
     else case BMC E r of
       Response c body \<Rightarrow> (case unmarshal_machine_status (Decoders E) body of
           Inr ss \<Rightarrow> if http_ok c then Some (mstat_BMCServerID ss) else None
         | Inl e \<Rightarrow> None)
     | ReadError c e \<Rightarrow> None | DoError e \<Rightarrow> None)"

lemma server_issued_accepted: "server_issued base E r = Some i \<Longrightarrow> server_create base r \<and> accepted (BMC E r)"
  by (simp add: server_issued_def split: if_splits http_outcome.splits sum.splits)

lemma create_response_issued:
  assumes "mc_GetMachineID mc = []" and "mc_GetMachineID (outcome_state (create_response E c body mc)) \<noteq> []"
  shows "http_ok c \<and> (\<exists>ss. unmarshal_machine_status (Decoders E) body = Inr ss
    \<and> mc_GetMachineID (outcome_state (create_response E c body mc)) = mstat_BMCServerID ss)"
proof -
  have ok: "http_ok c"
    using assms by (intro ccontr [of "http_ok c"]) (simp add: create_response_refused mc_GetMachineID_def)
  then have r: "create_response E c body mc = create_accepted E body mc"
    by (auto simp: create_response_def http_ok_def)
  show ?thesis
    using ok assms unfolding r
    by (auto simp: create_accepted_def mc_SetMachineID_cases mc_GetMachineID_def annotation_def go_defs
        split: sum.splits option.splits)
qed

lemma post_server_issued:
  assumes "mc_GetMachineID mc = []" and "mc_GetMachineID (outcome_state (post_server E q mc)) \<noteq> []"
    and "BMCEndpointURL E = base"
  shows "URLError E (servers_url E) = None"
    and "server_issued base E (create_http E q) = Some (mc_GetMachineID (outcome_state (post_server E q mc)))"
proof -
  have l: "mc_GetMachineID (log_effects es mc) = []" "mc_GetMachineID (mc_Event t r x (log_effects es mc)) = []" for es t r x
    using assms(1) by (simp_all add: mc_GetMachineID_def mc_Event_def)
  show u: "URLError E (servers_url E) = None"
    using assms(2) l by (auto simp: post_server_def http_send_def http_Post_def Let_def split: option.splits)
  obtain c body where c: "BMC E (create_http E q) = Response c body"
    using assms(2) u l by (cases "BMC E (create_http E q)")
      (auto simp: post_server_def http_send_def create_http_def http_Post_def Let_def)
  then have p: "post_server E q mc = create_response E c body (log_effects [Http (create_http E q)] mc)"
    using u by (simp add: post_server_def http_send_def create_http_def http_Post_def Let_def)
  show "server_issued base E (create_http E q) = Some (mc_GetMachineID (outcome_state (post_server E q mc)))"
    using create_response_issued [OF l(1) assms(2) [unfolded p]] server_create_http [OF assms(3)] c
    by (auto simp: server_issued_def p)
qed

lemma dispatch_issued:
  assumes "mc_GetMachineID mc = []" and "mc_GetMachineID (outcome_state (machine_dispatch E mc)) \<noteq> []"
    and "BMCEndpointURL E = base"
  shows "\<exists>r \<in> set (requests (sent E (machine_request E mc))).
    server_issued base E r = Some (mc_GetMachineID (outcome_state (machine_dispatch E mc)))"
proof (cases rule: machine_dispatch_cases [of mc E])
  case delete
  with assms show ?thesis by (simp add: mc_GetMachineID_def annotation_def delete_frame)
next
  case (live mc1)
  let ?w = "with_finalizer E mc1"
  have i: "mc_GetMachineID mc1 = []"
    using live_context_frame [OF live(2)] assms(1) by (simp add: mc_GetMachineID_def)
  then have "mc_GetMachineID (outcome_state (machine_reconcileCreate E ?w)) \<noteq> []"
    and g: "mc_IsInfrastructureReady mc1 = Some True" "mc_IsDataSecretReady mc1"
    using assms(2) live(3) by (auto simp: machine_reconcileLive_unfold split: option.splits if_splits)
  then obtain b q where b: "mc_GetDataSecretValue E ?w = Some (Inr b)" "planned_request E ?w b = Some q"
      "machine_reconcileCreate E ?w = post_server E q ?w" and n: "mc_GetMachineID (outcome_state (post_server E q ?w)) \<noteq> []"
    using machine_reconcileCreate_cases [of E ?w] i by auto
  have "create_plan E mc1 = create_plan E ?w" by (simp add: with_finalizer_def)
  then have "machine_request E mc = Some (create_http E q)"
    using live(1,2) g i b(1,2) by (simp add: machine_request_def live_request_def create_plan_def)
  moreover have "machine_dispatch E mc = post_server E q ?w"
    using live(3) g i b(3) by (simp add: machine_reconcileLive_unfold)
  ultimately show ?thesis
    using post_server_issued [of ?w E q base] n i assms(3)
    by (simp add: sent_def http_send_def create_http_def http_Post_def)
next
  case nothing
  with assms show ?thesis by simp
qed

lemma server_issued_find [simp]: "server_issued base (E\<lparr>GetBMCMachine := g\<rparr>) = server_issued base E"
  by (simp add: server_issued_def fun_eq_iff split: http_outcome.split)

lemma machine_run_issued:
  assumes "machine_ident x = []" and "BMCEndpointURL E = base" and "machine_run E x = (y, rs)" and "machine_ident y \<noteq> []"
  shows "\<exists>r \<in> set rs. server_issued base E r = Some (machine_ident y)"
proof (cases rule: machine_run_cases [of E x])
  case idle
  with assms show ?thesis by simp
next
  case (run m E')
  then show ?thesis
    using dispatch_issued [of "machine_context x m" E' base] assms
    by (auto simp: machine_ident_mc [symmetric])
qed

lemma machine_run_honest:
  assumes "machine_ident x = []" and "BMCEndpointURL E = base" and "machine_run E x = (y, rs)" and "machine_ident y \<noteq> []"
  shows "\<exists>r \<in> set rs. server_create base r \<and> accepted (BMC E r)"
  using machine_run_issued [OF assms] server_issued_accepted by blast

interpretation server_spec: honest_creator machine_run "reliable_servers base" machine_edit machine_storable machine_ident
    "server_create base"
  for base
  by unfold_locales (rule machine_run_honest, simp_all add: reliable_servers_def)

section \<open>Clusters\<close>

lemma cluster_create_response_refused:
  "\<not> http_ok c \<Longrightarrow> cc_meta (outcome_state (cluster_create_response E c body cc)) = cc_meta cc"
  by (simp add: cluster_create_response_def cluster_frame go_defs)

lemma cluster_create_response_ident:
  "cc_GetIP cc = [] \<Longrightarrow> cc_GetIP (outcome_state (cluster_create_response E c body cc)) \<noteq> [] \<Longrightarrow> http_ok c"
  by (rule ccontr) (simp add: cluster_create_response_refused cc_GetIP_def)

lemma dispatch_cluster_honest:
  assumes "cc_GetIP cc = []" and "cc_GetIP (outcome_state (cluster_dispatch E cc)) \<noteq> []" and "BMCEndpointURL E = base"
  shows "\<exists>r \<in> set (requests (request_log E (cluster_request E cc))). block_create base r \<and> accepted (BMC E r)"
proof -
  let ?cc0 = "if cc_HasFini E cc then cc else cc_AddFini E cc" and ?q = "allocate_http E cc"
  have "cc_GetIP (outcome_state (cluster_reconcileDelete E cc)) = cc_GetIP cc"
    by (simp add: cluster_reconcileDelete_def cc_GetIP_def annotation_def Let_def split: prod.split http_outcome.split)
  then have live: "\<not> cluster_IsMarkedDeleted (Some (cc_BMCCluster cc))"
    and c: "cc_GetIP (outcome_state (cluster_reconcileCreate E ?cc0)) \<noteq> []"
    using assms(1,2) by (auto simp: cluster_dispatch_def cluster_reconcileLive_def Let_def split: if_splits)
  have a: "allocate_http E ?cc0 = ?q" by simp
  have l: "cc_GetIP (clog_effects es ?cc0) = []" "cc_GetIP (cc_Event t r x (clog_effects es ?cc0)) = []" for es t r x
    using assms(1) by (simp_all add: cc_GetIP_def cc_Event_def annotation_def cc_AddFini_def)
  have u: "URLError E (hr_URL ?q) = None"
    using c l by (auto simp: cluster_reconcileCreate_def a http_send_def Let_def split: option.splits)
  have "accepted (BMC E ?q)"
  proof (cases "BMC E ?q")
    case (Response st body)
    with c u have "cc_GetIP (outcome_state (cluster_create_response E st body (clog_effects [Http ?q] ?cc0))) \<noteq> []"
      by (simp add: cluster_reconcileCreate_def a http_send_def Let_def)
    from cluster_create_response_ident [OF l(1) this] Response show ?thesis by simp
  qed (use c u l in \<open>auto simp: cluster_reconcileCreate_def a http_send_def Let_def\<close>)
  then show ?thesis
    using live assms(1) u block_create_http [OF assms(3)]
    by (simp add: cluster_request_def request_log_def http_send_def)
qed

lemma cluster_run_honest:
  assumes "cluster_ident x = []" and "reliable_blocks base E" and "cluster_run E x = (y, rs)" and "cluster_ident y \<noteq> []"
  shows "\<exists>r \<in> set rs. block_create base r \<and> accepted (BMC E r)"
proof (cases rule: cluster_run_cases [of E x])
  case idle
  with assms show ?thesis by simp
next
  case (run cl E')
  have "BMCEndpointURL E' = base" "BMC E' = BMC E" using assms(2) run(1) by (simp_all add: reliable_blocks_def)
  then show ?thesis
    using dispatch_cluster_honest [of "cluster_context x cl" E' base] assms(1,3,4) run(2)
    by (auto simp: cluster_ident_cc [symmetric])
qed

interpretation block_spec: honest_creator cluster_run "reliable_blocks base" cluster_edit cluster_storable cluster_ident
    "block_create base"
  for base
  by unfold_locales (rule cluster_run_honest)

section \<open>The refinement\<close>

text \<open>
  C4. A machine refines the owner of one server: every life of a machine with an annotation map, under a
  service that answers every accepted create with a readable server, and without lost patches, is a run
  of the specification, step by step.  Under these conditions a live machine knows its server exactly when
  one has been created for it, and a reconciliation that creates one is the only step that gives it an
  identifier.
\<close>

theorem machine_life_refines:
  assumes "life machine_run (reliable_servers base) machine_edit machine_gone False
      (\<lambda>x. machine_storable x \<and> machine_ident x = []) w"
  shows "resource_run (resource_of machine_ident (server_create base) w)
    \<and> (\<forall>w'. life_step machine_run (reliable_servers base) machine_edit machine_gone False w w' \<longrightarrow>
        resource_step (resource_of machine_ident (server_create base) w) (resource_of machine_ident (server_create base) w'))
    \<and> (\<forall>x. w_obj w = Some x \<longrightarrow> accepted_count (server_create base) (w_log w) = (if machine_ident x = [] then 0 else 1))"
  using server_spec.life_refines [OF assms] server_spec.step_refines server_spec.life_owned [OF assms] by blast

text \<open>
  C16. A cluster refines the owner of one address block: every life of a cluster with an annotation map,
  under a service that answers with readable blocks of the form address/31 and without lost patches,
  is a run of the same specification, step by step.  Under these conditions a live cluster has an address
  exactly when a block has been allocated for it.
\<close>

theorem cluster_life_refines:
  assumes "life cluster_run (reliable_blocks base) cluster_edit cluster_gone False
      (\<lambda>x. cluster_storable x \<and> cluster_ident x = []) w"
  shows "resource_run (resource_of cluster_ident (block_create base) w)
    \<and> (\<forall>w'. life_step cluster_run (reliable_blocks base) cluster_edit cluster_gone False w w' \<longrightarrow>
        resource_step (resource_of cluster_ident (block_create base) w) (resource_of cluster_ident (block_create base) w'))
    \<and> (\<forall>x. w_obj w = Some x \<longrightarrow> accepted_count (block_create base) (w_log w) = (if cluster_ident x = [] then 0 else 1))"
  using block_spec.life_refines [OF assms] block_spec.step_refines block_spec.life_owned [OF assms] by blast

theorem machine_life_refines_witness:
  "\<exists>w. resource_run (resource_of machine_ident (server_create ''https://api'') w)
    \<and> resource_of machine_ident (server_create ''https://api'') w = \<lparr>rs_alive = True, rs_known = Some ''s1'', rs_count = 1\<rparr>"
proof -
  have live: "om_DeletionTimestamp (bm_Meta example_machine) = None" "machine_ident example_machine = []"
    "machine_storable example_machine" "om_Annotations (bm_Meta example_machine) = Some Map.empty"
    by (simp_all add: example_machine_def example_meta_def machine_ident_def annotation_def machine_storable_def)
  obtain q where r: "machine_run creating_env example_machine = (creating_result example_machine, [create_http creating_env q])"
    using creating_run [OF live(1,2)] by (auto simp: creating_result_def)
  let ?w = "\<lparr>w_obj = Some (creating_result example_machine), w_log = exchanges creating_env [create_http creating_env q]\<rparr>"
  have l: "life machine_run (reliable_servers ''https://api'') machine_edit machine_gone False
      (\<lambda>x. machine_storable x \<and> machine_ident x = []) ?w"
    by (rule life_first [where x = example_machine]) (use live(2,3) creating_env_reliable r in simp_all)
  show ?thesis
    using machine_life_refines [OF l] creating_exchange [of q] creating_result_map(1) [OF live(4)]
    by (intro exI [of _ ?w]) (simp add: resource_of_def known_def)
qed

text \<open>The service of the example blocks is reliable.\<close>

lemma block_env_reliable: "reliable_blocks ''https://api'' (block_env ''10.1.2.4/31'')"
proof -
  have u: "unmarshal_cluster_status (block_body ''b1'' ''10.1.2.4/31'' ''unassigned'')
      = Inr (block_status ''b1'' ''10.1.2.4/31'' ''unassigned'')"
    by (rule unmarshal_block_body) (simp_all add: utf8_ok_ascii)
  have "octets_str [10, 1, 2, 4] @ ''/31'' = ''10.1.2.4/31''" by code_simp
  then have "ParseIP (TrimSuffix ''10.1.2.4/31'' ''/31'') \<noteq> None"
    using ParseIP_octets [of 10 1 2 4] TrimSuffix_append [of "octets_str [10, 1, 2, 4]" "''/31''"] by simp
  then show ?thesis
    by (simp add: reliable_blocks_def block_env_facts u block_status_def)
qed

theorem cluster_life_refines_witness:
  "\<exists>w. resource_run (resource_of cluster_ident (block_create ''https://api'') w)
    \<and> resource_of cluster_ident (block_create ''https://api'') w = \<lparr>rs_alive = True, rs_known = Some ''10.1.2.5'', rs_count = 1\<rparr>"
proof -
  let ?init = "\<lambda>x. cluster_storable x \<and> cluster_ident x = []"
  have "?init example_bmccluster"
    by (simp add: cluster_storable_def cluster_ident_def annotation_def example_bmccluster_def example_meta_def)
  then obtain w x q where l: "life cluster_run (reliable_blocks ''https://api'') cluster_edit cluster_gone False ?init w"
    and w: "w_obj w = Some x" "cluster_ident x = ''10.1.2.5''"
      "w_log w = exchanges (block_env ''10.1.2.4/31'') [allocate_http (block_env ''10.1.2.4/31'') q]"
    using allocated_life [of ?init "reliable_blocks ''https://api''"] block_env_reliable by blast
  show ?thesis
    using cluster_life_refines [OF l] w block_exchange [of "''10.1.2.4/31''" q]
    by (intro exI [of _ w]) (simp add: resource_of_def known_def)
qed

end
