(* ===== verification/Provisioning.thy ===== *)
theory Provisioning
  imports Refinement
begin

text \<open>
  The course of a machine's life as stages: absent, created, serving.  A reconciliation never moves a
  machine back, and a machine whose create was accepted serves after the first poll that reports its
  server as powered on, whatever happened in between.
\<close>

section \<open>Stages\<close>

datatype stage = Absent | Created | Serving

fun stage_number :: "stage \<Rightarrow> nat" where
  "stage_number Absent = 0"
| "stage_number Created = 1"
| "stage_number Serving = 2"

lemma stage_number_inject: "stage_number s = stage_number t \<longleftrightarrow> s = t"
  by (cases s; cases t) simp_all

instantiation stage :: linorder
begin

definition less_eq_stage :: "stage \<Rightarrow> stage \<Rightarrow> bool" where
  "less_eq_stage s t \<longleftrightarrow> stage_number s \<le> stage_number t"

definition less_stage :: "stage \<Rightarrow> stage \<Rightarrow> bool" where
  "less_stage s t \<longleftrightarrow> stage_number s < stage_number t"

instance
  by standard (auto simp: less_eq_stage_def less_stage_def stage_number_inject)

end

lemma stage_le [simp]:
  "Absent \<le> s" "s \<le> Serving" "Created \<le> s \<longleftrightarrow> s \<noteq> Absent" "Serving \<le> s \<longleftrightarrow> s = Serving"
  by (cases s; simp add: less_eq_stage_def)+

definition machine_stage :: "BMCMachine \<Rightarrow> stage" where
  "machine_stage bm = (if machine_ident bm = [] then Absent
     else if mstat_Ready (bm_Status bm) then Serving else Created)"

section \<open>What a run keeps\<close>

lemma sync_ready: "mc_IsReady mc \<Longrightarrow> mc_IsReady (outcome_state (machine_reconcileSynchronize E mc))"
  by (auto simp: machine_reconcileSynchronize_def mc_IsReady_def Let_def poll_response_def poll_accepted_def
      machine_frame mc_Eventf_def poll_status_ready split: prod.split http_outcome.split sum.split)

lemma delete_ready: "mc_IsReady (outcome_state (machine_reconcileDelete E mc)) = mc_IsReady mc"
  by (simp add: machine_reconcileDelete_def delete_response_def mc_IsReady_def mc_SetBMCStatus_def mc_Eventf_def mc_Event_def
      Let_def split: prod.split http_outcome.split)

lemma dispatch_ready:
  assumes "mc_GetMachineID mc \<noteq> []" and "mc_IsReady mc"
  shows "mc_IsReady (outcome_state (machine_dispatch E mc))"
proof (cases rule: machine_dispatch_cases [of mc E])
  case delete
  with assms(2) show ?thesis by (simp add: delete_ready)
next
  case (live mc1)
  then have "mc_GetMachineID mc1 \<noteq> []" "mc_IsReady mc1"
    using assms live_context_frame [OF live(2)] by (simp_all add: mc_GetMachineID_def mc_IsReady_def)
  then show ?thesis
    using live(3) sync_ready [of "with_finalizer E mc1" E]
    by (auto simp: machine_reconcileLive_unfold mc_IsReady_def split: option.split)
qed (use assms in simp)

lemma machine_run_keeps:
  assumes "machine_run E x = (y, rs)" and "machine_ident x \<noteq> []"
  shows "machine_ident y = machine_ident x" and "mstat_Ready (bm_Status x) \<Longrightarrow> mstat_Ready (bm_Status y)"
proof -
  have *: "machine_ident y = machine_ident x \<and> (mstat_Ready (bm_Status x) \<longrightarrow> mstat_Ready (bm_Status y))"
  proof (cases rule: machine_run_cases [of E x])
    case idle
    with assms(1) show ?thesis by simp
  next
    case (run m E')
    then show ?thesis
      using dispatch_created(1) [of "machine_context x m" E'] dispatch_ready [of "machine_context x m" E'] assms
      by (auto simp: machine_ident_mc [symmetric] mc_IsReady_def)
  qed
  then show "machine_ident y = machine_ident x" by blast
  show "mstat_Ready (bm_Status x) \<Longrightarrow> mstat_Ready (bm_Status y)" using * by blast
qed

text \<open>No reconciliation touches namespace, name or deletion timestamp.\<close>

definition fixed_meta :: "ObjectMeta \<Rightarrow> string \<times> string \<times> int option" where
  "fixed_meta om = (om_Namespace om, om_Name om, om_DeletionTimestamp om)"

lemma create_fixed: "fixed_meta (mc_meta (outcome_state (machine_reconcileCreate E mc))) = fixed_meta (mc_meta mc)"
proof -
  have "fixed_meta (mc_meta (outcome_state (create_response E c body d))) = fixed_meta (mc_meta d)" for c body d
    by (simp add: fixed_meta_def create_response_def create_accepted_def mc_SetMachineID_cases machine_frame mc_Event_def
        mc_Eventf_def mc_SetStatus_def split: sum.split option.split)
  then have "fixed_meta (mc_meta (outcome_state (post_server E q mc))) = fixed_meta (mc_meta mc)" for q
    by (simp add: post_server_def Let_def mc_Event_def split: prod.split http_outcome.split)
  then show ?thesis using machine_reconcileCreate_cases [of E mc] by auto
qed

lemma dispatch_fixed: "fixed_meta (mc_meta (outcome_state (machine_dispatch E mc))) = fixed_meta (mc_meta mc)"
proof (cases rule: machine_dispatch_cases [of mc E])
  case delete
  then show ?thesis by (simp add: delete_frame mc_RemoveFini_def fixed_meta_def)
next
  case (live mc1)
  have w: "fixed_meta (mc_meta (with_finalizer E mc1)) = fixed_meta (mc_meta mc)"
    using live_context_frame [OF live(2)] by (simp add: with_finalizer_def mc_AddFini_def fixed_meta_def)
  then show ?thesis
    using live(3) by (simp add: machine_reconcileLive_unfold create_fixed sync_frame split: option.split)
qed simp

lemma machine_run_fixed: "machine_run E x = (y, rs) \<Longrightarrow> fixed_meta (bm_Meta y) = fixed_meta (bm_Meta x)"
  by (cases rule: machine_run_cases [of E x]) (use dispatch_fixed [of _ "machine_context x _"] in auto)

lemma machine_run_timestamp:
  "machine_run E x = (y, rs) \<Longrightarrow> om_DeletionTimestamp (bm_Meta y) = om_DeletionTimestamp (bm_Meta x)"
  using machine_run_fixed [of E x y rs] by (simp add: fixed_meta_def)

text \<open>Any number of reconciliations, one after the other.\<close>

definition machine_runs :: "env list \<Rightarrow> BMCMachine \<Rightarrow> BMCMachine" where
  "machine_runs Es bm = foldl (\<lambda>b E. fst (machine_run E b)) bm Es"

lemma machine_runs_keep:
  assumes "machine_ident x \<noteq> []"
  shows "machine_ident (machine_runs Es x) = machine_ident x
    \<and> om_DeletionTimestamp (bm_Meta (machine_runs Es x)) = om_DeletionTimestamp (bm_Meta x)
    \<and> (machine_linked x \<longrightarrow> machine_linked (machine_runs Es x))
    \<and> machine_stage x \<le> machine_stage (machine_runs Es x)"
  using assms
proof (induction Es arbitrary: x)
  case (Cons E Es)
  obtain y rs where r: "machine_run E x = (y, rs)" by fastforce
  note k = machine_run_keeps [OF r Cons.prems] machine_run_timestamp [OF r] machine_run_linked [OF _ r]
  have "machine_stage x \<le> machine_stage y"
    using k(1,2) Cons.prems by (auto simp: machine_stage_def)
  then show ?case
    using Cons.IH [of y] k Cons.prems r by (auto simp: machine_runs_def)
qed (simp add: machine_runs_def)

section \<open>Stages only advance\<close>

lemma sync_gains_ready:
  assumes "\<not> mc_IsReady mc" and "mc_IsReady (outcome_state (machine_reconcileSynchronize E mc))"
  shows "URLError E (server_url E (mc_GetMachineID mc)) = None
    \<and> accepted (BMC E (http_Get (server_url E (mc_GetMachineID mc))))"
  using assms
  by (auto simp: machine_reconcileSynchronize_def http_send_def http_Get_def Let_def mc_IsReady_def machine_frame
      poll_response_def mc_Eventf_def split: option.splits http_outcome.splits if_splits)

lemma dispatch_gains_ready:
  assumes "mc_GetMachineID mc \<noteq> []" and "\<not> mc_IsReady mc" and "mc_IsReady (outcome_state (machine_dispatch E mc))"
  shows "requests (sent E (machine_request E mc)) = [http_Get (server_url E (mc_GetMachineID mc))]
    \<and> accepted (BMC E (http_Get (server_url E (mc_GetMachineID mc))))"
proof (cases rule: machine_dispatch_cases [of mc E])
  case delete
  with assms(2,3) show ?thesis by (simp add: delete_ready)
next
  case (live mc1)
  let ?w = "with_finalizer E mc1"
  have i: "mc_GetMachineID mc1 = mc_GetMachineID mc" "\<not> mc_IsReady mc1"
    using live_context_frame [OF live(2)] assms(2) by (simp_all add: mc_GetMachineID_def mc_IsReady_def)
  then have g: "mc_IsInfrastructureReady mc1 = Some True" "mc_IsDataSecretReady mc1"
    and s: "mc_IsReady (outcome_state (machine_reconcileSynchronize E ?w))"
    using assms(1,3) live(3) by (auto simp: machine_reconcileLive_unfold mc_IsReady_def split: option.splits if_splits)
  have "URLError E (server_url E (mc_GetMachineID mc)) = None
      \<and> accepted (BMC E (http_Get (server_url E (mc_GetMachineID mc))))"
    using sync_gains_ready [OF _ s] i by (simp add: mc_IsReady_def)
  then show ?thesis
    using live(1,2) g i(1) assms(1)
    by (simp add: machine_request_def live_request_def sent_def http_send_def http_Get_def)
next
  case nothing
  with assms show ?thesis by simp
qed

text \<open>
  C17. The stages of a machine, absent, created, serving, are only left upwards by reconciliations, in
  whatever environment; and a reconciliation that advances a machine made exactly one request, which was
  accepted: the create of a server for an absent machine, the poll of its own server for a created one.
\<close>

theorem stages_only_advance:
  assumes "machine_run E x = (y, rs)"
  shows "machine_stage x \<le> machine_stage y
    \<and> (machine_stage x < machine_stage y \<longrightarrow> (\<exists>r. rs = [r] \<and> accepted (BMC E r)
        \<and> (machine_stage x = Absent \<longrightarrow> server_create (BMCEndpointURL E) r)
        \<and> (machine_stage x = Created \<longrightarrow> r = http_Get (server_url E (machine_ident x)))))"
proof (cases "machine_ident x = []")
  case True
  then have a: "machine_stage x = Absent" by (simp add: machine_stage_def)
  show ?thesis
  proof (cases rule: machine_run_cases [of E x])
    case idle
    with assms show ?thesis by simp
  next
    case (run m E')
    have "\<exists>r \<in> set rs. server_create (BMCEndpointURL E) r \<and> accepted (BMC E r)" if "machine_ident y \<noteq> []"
      by (rule machine_run_honest [OF True refl assms that])
    moreover have "length rs \<le> 1"
      using length_requests_sent [of "\<lambda>_. True" E' "machine_request E' (machine_context x m)"] assms run(2) by simp
    ultimately show ?thesis
      using a by (cases rs; cases "machine_ident y = []") (auto simp: machine_stage_def)
  qed
next
  case False
  note k = machine_run_keeps [OF assms False]
  have up: "machine_stage x \<le> machine_stage y"
    using k False by (auto simp: machine_stage_def)
  show ?thesis
  proof (cases rule: machine_run_cases [of E x])
    case idle
    with assms show ?thesis by simp
  next
    case (run m E')
    have E': "server_url E' = server_url E" "BMC E' = BMC E" using run(1) by (simp_all add: server_url_def fun_eq_iff)
    have "rs = [http_Get (server_url E (machine_ident x))] \<and> accepted (BMC E (http_Get (server_url E (machine_ident x))))"
      if "\<not> mstat_Ready (bm_Status x)" "mstat_Ready (bm_Status y)"
      using dispatch_gains_ready [of "machine_context x m" E'] that False assms run(2) E'
      by (auto simp: machine_ident_mc [symmetric] mc_IsReady_def)
    with up k(1) False show ?thesis
      by (auto simp: machine_stage_def less_stage_def)
  qed
qed

section \<open>Provisioning\<close>

text \<open>
  What a live reconciliation finds when the machine is due: the owner, its cluster with the
  infrastructure ready, and the name of the bootstrap secret.
\<close>

definition serves :: "env \<Rightarrow> BMCMachine \<Rightarrow> Machine \<Rightarrow> Cluster \<Rightarrow> BMCCluster \<Rightarrow> bool" where
  "serves E bm m cl bc \<longleftrightarrow> GetOwnerMachine E (bm_Meta bm) = Inr (Some m) \<and> GetClusterFromMetadata E m = Inr cl
     \<and> (\<exists>n. cl_InfrastructureRef cl = Some n
          \<and> GetBMCCluster E \<lparr>nn_Namespace = om_Namespace (bm_Meta bm), nn_Name = n\<rparr> = Inr bc)
     \<and> \<not> IsPaused E cl bc \<and> cl_InfrastructureReady cl \<and> mach_DataSecretName m \<noteq> None \<and> (\<forall>u. URLError E u = None)"

text \<open>What a create needs in addition: the bootstrap data, and a block for a control plane machine without VIP.\<close>

definition bootstrapped :: "env \<Rightarrow> BMCMachine \<Rightarrow> Machine \<Rightarrow> BMCCluster \<Rightarrow> bool" where
  "bootstrapped E bm m bc \<longleftrightarrow> (\<exists>s d. mach_DataSecretName m = Some s
       \<and> GetSecret E \<lparr>nn_Namespace = om_Namespace (bm_Meta bm), nn_Name = s\<rparr> = Inr d \<and> d ''value'' \<noteq> None)
     \<and> (util_IsControlPlaneMachine E m \<and> cspec_VIPManager (bc_Spec bc) = NONE
        \<longrightarrow> annotation (bc_Meta bc) ANNOTATION_NAME_BMC_CLUSTER_IP_ALLOCATION_ID \<noteq> [])"

definition due_context :: "BMCMachine \<Rightarrow> Machine \<Rightarrow> Cluster \<Rightarrow> BMCCluster \<Rightarrow> MachineContext" where
  "due_context bm m cl bc = (machine_context bm m)\<lparr>mc_Cluster := Some cl, mc_BMCCluster := Some bc\<rparr>"

lemma due_context_simps [simp]:
  "mc_BMCMachine (due_context bm m cl bc) = bm" "mc_Machine (due_context bm m cl bc) = m"
  "mc_Cluster (due_context bm m cl bc) = Some cl" "mc_BMCCluster (due_context bm m cl bc) = Some bc"
  by (simp_all add: due_context_def)

lemma serves_run:
  assumes "serves E bm m cl bc" and "om_DeletionTimestamp (bm_Meta bm) = None" and "E' = E\<lparr>GetBMCMachine := \<lambda>_. Inr bm\<rparr>"
  shows "fst (machine_run E bm) = mc_BMCMachine (outcome_state
    (if mc_GetMachineID (due_context bm m cl bc) = []
     then machine_reconcileCreate E' (with_finalizer E' (due_context bm m cl bc))
     else machine_reconcileSynchronize E' (with_finalizer E' (due_context bm m cl bc))))"
proof -
  have s: "GetOwnerMachine E (bm_Meta bm) = Inr (Some m)" "GetClusterFromMetadata E' m = Inr cl" "\<not> IsPaused E' cl bc"
    and n: "\<exists>n. cl_InfrastructureRef cl = Some n
      \<and> GetBMCCluster E' \<lparr>nn_Namespace = om_Namespace (bm_Meta bm), nn_Name = n\<rparr> = Inr bc"
    and g: "mc_IsInfrastructureReady (due_context bm m cl bc) = Some True" "mc_IsDataSecretReady (due_context bm m cl bc)"
    using assms(1) by (auto simp: serves_def assms(3) mc_IsInfrastructureReady_def mc_IsDataSecretReady_def)
  have "machine_dispatch E' (machine_context bm m) = machine_reconcileLive E' (due_context bm m cl bc)"
    using s(2,3) n assms(2) by (auto simp: machine_dispatch_def machine_IsMarkedDeleted_iff due_context_def)
  then show ?thesis
    using machine_run_dispatch [OF s(1) assms(3)] g by (simp add: machine_reconcileLive_unfold)
qed

lemma bootstrapped_plan:
  assumes "bootstrapped E bm m bc"
  shows "\<exists>b q. mc_GetDataSecretValue E (due_context bm m cl bc) = Some (Inr b)
    \<and> planned_request E (due_context bm m cl bc) b = Some q"
  using assms
  by (auto simp: bootstrapped_def mc_GetDataSecretValue_def planned_request_def mc_IsControlPlaneMachine_def Let_def)

text \<open>The first reconciliation creates the server.\<close>

lemma first_run_creates:
  assumes "serves E bm m cl bc" and "bootstrapped E bm m bc" and "om_DeletionTimestamp (bm_Meta bm) = None"
    and "machine_storable bm" and "machine_ident bm = []"
    and "\<And>r. server_create (BMCEndpointURL E) r \<Longrightarrow> BMC E r = Response c body" and "http_ok c"
    and "unmarshal_machine_status (Decoders E) body = Inr ss"
  shows "machine_ident (fst (machine_run E bm)) = mstat_BMCServerID ss"
proof -
  let ?E = "E\<lparr>GetBMCMachine := \<lambda>_. Inr bm\<rparr>" and ?d = "due_context bm m cl bc"
  have b: "bootstrapped ?E bm m bc" using assms(2) by (simp add: bootstrapped_def)
  obtain b q where "mc_GetDataSecretValue ?E ?d = Some (Inr b)" "planned_request ?E ?d b = Some q"
    using bootstrapped_plan [OF b] by blast
  then have "machine_reconcileCreate ?E (with_finalizer ?E ?d) = post_server ?E q (with_finalizer ?E ?d)"
    by (intro machine_reconcileCreate_planned [of _ _ b]) (simp_all add: with_finalizer_def)
  moreover have "mc_GetMachineID (outcome_state (post_server ?E q (with_finalizer ?E ?d))) = mstat_BMCServerID ss"
    using assms(1,4,6-8) server_create_http [of ?E "BMCEndpointURL E" q]
    by (intro post_server_stores [where c = c and body = body]) (simp_all add: serves_def machine_storable_def)
  moreover have "mc_GetMachineID ?d = []"
    using assms(5) by (simp add: machine_ident_def mc_GetMachineID_def)
  ultimately show ?thesis
    using serves_run [OF assms(1,3) refl] by (simp add: machine_ident_mc)
qed

text \<open>A poll that finds the server powered on makes the machine serve.\<close>

lemma powered_on_serves:
  assumes "serves E bm m cl bc" and "om_DeletionTimestamp (bm_Meta bm) = None"
    and "machine_ident bm \<noteq> []" and "machine_linked bm"
    and "BMC E (http_Get (server_url E (machine_ident bm))) = Response c body" and "http_ok c"
    and "unmarshal_machine_status (Decoders E) body = Inr ss" and "mstat_BMCStatus ss = StatusPoweredOn"
  shows "machine_stage (fst (machine_run E bm)) = Serving"
    and "mstat_BMCStatus (bm_Status (fst (machine_run E bm))) = StatusPoweredOn"
    and "mstat_Ready (bm_Status bm) \<and> mstat_BMCStatus (bm_Status bm) = StatusPoweredOn
      \<or> mstat_Addresses (bm_Status (fst (machine_run E bm))) = external_addresses E (mstat_PublicIPAddresses ss)"
proof -
  let ?E = "E\<lparr>GetBMCMachine := \<lambda>_. Inr bm\<rparr>" and ?d = "due_context bm m cl bc"
  let ?g = "http_Get (server_url E (machine_ident bm))"
  let ?w = "log_effects [Http ?g] (with_finalizer ?E ?d)"
  have i: "mc_GetMachineID ?d = machine_ident bm" by (simp add: machine_ident_mc [symmetric])
  have u: "server_url ?E = server_url E" by (simp add: server_url_def fun_eq_iff)
  have st: "mc_status (with_finalizer ?E ?d) = bm_Status bm" by simp
  have p: "mspec_ProviderID (mc_spec ?w) \<noteq> None" "mc_Cluster ?w \<noteq> None"
    using assms(3,4) by (auto simp: machine_linked_def machine_ident_def Let_def)
  have "c \<noteq> 400" "c \<noteq> 401" "c \<noteq> 403" "c \<noteq> 500"
    using assms(6) by (auto simp: http_ok_def)
  then have "machine_reconcileSynchronize ?E (with_finalizer ?E ?d) = poll_status ?E ss ?w"
    using assms(1,5-7) by (simp add: machine_reconcileSynchronize_def i u http_send_def http_Get_def serves_def
        poll_response_def poll_accepted_def Let_def)
  moreover obtain mc' where "poll_status ?E ss ?w = Returns (requeueAfter2Min, None) mc'" "mc_IsReady mc'"
    "mc_GetBMCStatus mc' = StatusPoweredOn"
    "mc_IsReady ?w \<and> mc_GetBMCStatus ?w = StatusPoweredOn
      \<or> mstat_Addresses (mc_status mc') = external_addresses ?E (mstat_PublicIPAddresses ss)"
    using powered_on_status [OF assms(8) p] by blast
  ultimately have r: "mc_IsReady mc'" "mc_GetBMCStatus mc' = StatusPoweredOn" "fst (machine_run E bm) = mc_BMCMachine mc'"
    "mstat_Ready (bm_Status bm) \<and> mstat_BMCStatus (bm_Status bm) = StatusPoweredOn
      \<or> mstat_Addresses (mc_status mc') = external_addresses E (mstat_PublicIPAddresses ss)"
    using serves_run [OF assms(1,2) refl] i assms(3) st
    by (simp_all add: mc_IsReady_def mc_GetBMCStatus_def external_addresses_def)
  obtain y rs where y: "machine_run E bm = (y, rs)" by fastforce
  show "machine_stage (fst (machine_run E bm)) = Serving"
    using machine_run_keeps(1) [OF y assms(3)] assms(3) r(1,3) y by (simp add: machine_stage_def mc_IsReady_def)
  show "mstat_BMCStatus (bm_Status (fst (machine_run E bm))) = StatusPoweredOn"
    "mstat_Ready (bm_Status bm) \<and> mstat_BMCStatus (bm_Status bm) = StatusPoweredOn
      \<or> mstat_Addresses (bm_Status (fst (machine_run E bm))) = external_addresses E (mstat_PublicIPAddresses ss)"
    using r by (simp_all add: mc_GetBMCStatus_def)
qed

text \<open>
  C5. Provisioning completes: once a reconciliation of a due machine has had its create accepted with a
  readable server, the first reconciliation that finds this server powered on makes the machine serve,
  with the server's id, the provider id made of it and its public addresses, whatever the
  reconciliations in between met, failing services, pauses and panics included.
\<close>

theorem provisioning_completes:
  assumes "serves E bm m cl bc" and "bootstrapped E bm m bc" and "om_DeletionTimestamp (bm_Meta bm) = None"
    and "machine_storable bm" and "machine_ident bm = []"
    and "\<And>r. server_create (BMCEndpointURL E) r \<Longrightarrow> BMC E r = Response c body" and "http_ok c"
    and "unmarshal_machine_status (Decoders E) body = Inr ss" and "mstat_BMCServerID ss = i" and "i \<noteq> []"
    and "serves E' (machine_runs (E # Es) bm) m' cl' bc'"
    and "BMC E' (http_Get (server_url E' i)) = Response c' body'" and "http_ok c'"
    and "unmarshal_machine_status (Decoders E') body' = Inr ss'" and "mstat_BMCStatus ss' = StatusPoweredOn"
  shows "\<exists>x z. x = machine_runs (E # Es) bm \<and> z = machine_runs (E # Es @ [E']) bm \<and> machine_stage z = Serving
    \<and> machine_ident z = i \<and> mspec_ProviderID (bm_Spec z) = Some (''bmc://servers/'' @ i)
    \<and> mstat_BMCStatus (bm_Status z) = StatusPoweredOn
    \<and> (mstat_Ready (bm_Status x) \<and> mstat_BMCStatus (bm_Status x) = StatusPoweredOn
       \<or> mstat_Addresses (bm_Status z) = external_addresses E' (mstat_PublicIPAddresses ss'))"
proof -
  obtain y rs where y: "machine_run E bm = (y, rs)" by fastforce
  let ?x = "machine_runs (E # Es) bm" and ?z = "machine_runs (E # Es @ [E']) bm"
  have x: "?x = machine_runs Es y" and z: "?z = fst (machine_run E' ?x)"
    by (simp_all add: machine_runs_def y)
  have 1: "machine_ident y = i" "om_DeletionTimestamp (bm_Meta y) = None" "machine_linked y"
    using first_run_creates [OF assms(1-8)] machine_run_timestamp [OF y] machine_run_linked [OF _ y] y assms(3,5,9)
    by (simp_all add: machine_linked_def machine_ident_def Let_def)
  then have 2: "machine_ident ?x = i" "om_DeletionTimestamp (bm_Meta ?x) = None" "machine_linked ?x"
    using machine_runs_keep [of y Es] assms(10) x by simp_all
  have n: "machine_ident ?x \<noteq> []" and g: "BMC E' (http_Get (server_url E' (machine_ident ?x))) = Response c' body'"
    using 2(1) assms(10,12) by simp_all
  note on = powered_on_serves [OF assms(11) 2(2) n 2(3) g assms(13-15)]
  obtain w ws where w: "machine_run E' ?x = (w, ws)" by fastforce
  have 3: "machine_ident ?z = i" "machine_linked ?z"
    using machine_run_keeps(1) [OF w n] machine_run_linked [OF 2(3) w] 2(1) w z by simp_all
  then have "mspec_ProviderID (bm_Spec ?z) = Some (''bmc://servers/'' @ i)"
    using assms(10) by (simp add: machine_linked_def machine_ident_def provider_id_eq Let_def)
  then show ?thesis using on 3(1) by (simp add: z)
qed

definition powered_env :: env where
  "powered_env = machine_env example_machine (\<lambda>_. Response 200 (server_body ''s1'' ''powered-on''))"

definition failing_env :: env where
  "failing_env = machine_env example_machine (\<lambda>_. Response 500 [])"

lemma machine_env_serves: "serves (machine_env bm' bmc) bm example_owner example_cluster example_bmccluster"
  by (simp add: serves_def machine_env_def example_env_def example_cluster_def example_owner_def)

text \<open>Created, then a poll that fails with a server error, then powered on.\<close>

theorem provisioning_completes_witness:
  "machine_stage (machine_runs [creating_env, failing_env, powered_env] example_machine) = Serving
   \<and> mspec_ProviderID (bm_Spec (machine_runs [creating_env, failing_env, powered_env] example_machine)) = Some ''bmc://servers/s1''"
proof -
  have "serves creating_env example_machine example_owner example_cluster example_bmccluster"
    "serves powered_env (machine_runs [creating_env, failing_env] example_machine) example_owner example_cluster example_bmccluster"
    by (simp_all add: creating_env_def powered_env_def machine_env_serves)
  moreover have "bootstrapped creating_env example_machine example_owner example_bmccluster"
    by (simp add: bootstrapped_def creating_env_def machine_env_def example_env_def example_owner_def)
  moreover have "om_DeletionTimestamp (bm_Meta example_machine) = None" "machine_ident example_machine = []"
    "machine_storable example_machine"
    by (simp_all add: example_machine_def example_meta_def machine_ident_def annotation_def machine_storable_def)
  moreover have "unmarshal_machine_status (Decoders powered_env) (server_body ''s1'' ''powered-on'') = Inr (server_status ''s1'' ''powered-on'')"
    by (rule unmarshal_server_body) (simp_all add: utf8_ok_ascii)
  ultimately show ?thesis
    using provisioning_completes [of creating_env example_machine example_owner example_cluster example_bmccluster 201
        "server_body ''s1'' ''creating''" "server_status ''s1'' ''creating''" "''s1''" powered_env "[failing_env]"
        example_owner example_cluster example_bmccluster 200 "server_body ''s1'' ''powered-on''" "server_status ''s1'' ''powered-on''"]
    by (auto simp: creating_facts unmarshal_creating server_status_def http_ok_def StatusPoweredOn_def
        powered_env_def machine_env_def example_env_def)
qed

theorem stages_only_advance_witness:
  "machine_stage example_machine < machine_stage (fst (machine_run creating_env example_machine))
   \<and> (\<exists>r. snd (machine_run creating_env example_machine) = [r] \<and> server_create ''https://api'' r)"
proof -
  have live: "om_DeletionTimestamp (bm_Meta example_machine) = None" "machine_ident example_machine = []"
    "om_Annotations (bm_Meta example_machine) = Some Map.empty"
    by (simp_all add: example_machine_def example_meta_def machine_ident_def annotation_def)
  obtain q where r: "machine_run creating_env example_machine = (creating_result example_machine, [create_http creating_env q])"
    using creating_run [OF live(1,2)] by (auto simp: creating_result_def)
  have "machine_stage example_machine = Absent" "machine_stage (creating_result example_machine) \<noteq> Absent"
    using live(2) creating_result_map(1) [OF live(3)] by (simp_all add: machine_stage_def)
  then show ?thesis
    using stages_only_advance [OF r] r by (auto simp: creating_facts less_le)
qed

end
