(* ===== verification/Runtime.thy ===== *)
theory Runtime
  imports Watches Progress Provisioning
begin

text \<open>
  A machine in the running manager: the reconciler, the work queue and the watches together.  A
  reconciliation takes the key of the machine from the queue and puts it back, at once or after a delay,
  as its verdict and the event of its own patch say; changes of the objects the machine depends on enqueue
  it when the registered watches deliver their event.  The invariant is that a machine which is not in the
  queue waits for something.
\<close>

section \<open>The machine and what it depends on\<close>

text \<open>The fifth field remembers that the last reconciliation could not read the BMCCluster.\<close>

record surroundings =
  su_machine :: BMCMachine
  su_owner :: "Machine option"
  su_cluster :: Cluster
  su_bmc :: "BMCCluster option"
  su_unread :: bool
  su_queued :: bool

definition su_key :: "surroundings \<Rightarrow> nsname" where
  "su_key s = watched_key (WatchedMachine (su_machine s))"

text \<open>
  What the lookups of a reconciliation give: the current objects, or an error, which for the owner and the
  cluster is returned, but for the BMCCluster is not.  The cluster is paused by its specification, or when
  the BMCCluster has the annotation that the event filter tests.
\<close>

definition finds :: "manager \<Rightarrow> env \<Rightarrow> surroundings \<Rightarrow> bool" where
  "finds M E s \<longleftrightarrow> finalizer_laws E
     \<and> ((\<exists>e. GetOwnerMachine E (bm_Meta (su_machine s)) = Inl e) \<or> GetOwnerMachine E (bm_Meta (su_machine s)) = Inr (su_owner s))
     \<and> (\<forall>m. (\<exists>e. GetClusterFromMetadata E m = Inl e) \<or> GetClusterFromMetadata E m = Inr (su_cluster s))
     \<and> (\<forall>n. case su_bmc s of
          Some bc \<Rightarrow> ((\<exists>e. GetBMCCluster E n = Inl e) \<or> GetBMCCluster E n = Inr bc)
            \<and> (IsPaused E (su_cluster s) bc \<longleftrightarrow> cl_Paused (su_cluster s) \<or> \<not> ResourceNotPaused M (WatchedCluster bc))
        | None \<Rightarrow> (\<exists>e. GetBMCCluster E n = Inl e))"

text \<open>The BMCCluster exists, and the read of it fails, by the name that the Cluster refers to.\<close>

definition misses :: "env \<Rightarrow> surroundings \<Rightarrow> bool" where
  "misses E s \<longleftrightarrow> su_bmc s \<noteq> None \<and> (\<exists>n e. cl_InfrastructureRef (su_cluster s) = Some n
     \<and> GetBMCCluster E \<lparr>nn_Namespace = om_Namespace (bm_Meta (su_machine s)), nn_Name = n\<rparr> = Inl e)"

text \<open>
  What controller-runtime documents of a verdict: with an error, a panic (which it recovers from) or a
  delay the key is put back.
\<close>

definition asks_again :: "(verdict, 's) outcome \<Rightarrow> bool" where
  "asks_again out \<longleftrightarrow> (case out of Returns v es \<Rightarrow> fst v \<noteq> noRequeue \<or> snd v \<noteq> None | Panics p es \<Rightarrow> True)"

text \<open>
  The predicate of the watch of Clusters on an update, as Cluster API documents it: the cluster has been
  resumed, or its infrastructure has become ready.
\<close>

definition resumed_or_ready :: "Cluster \<Rightarrow> watched \<Rightarrow> bool" where
  "resumed_or_ready old ob \<longleftrightarrow> (case ob of
     WatchedOwnerCluster cl \<Rightarrow> (cl_Paused old \<and> \<not> cl_Paused cl) \<or> (\<not> cl_InfrastructureReady old \<and> cl_InfrastructureReady cl)
   | _ \<Rightarrow> False)"

text \<open>Whether the event of an object enqueues the machine, with the cluster as it was before.\<close>

definition delivered :: "(controller \<Rightarrow> watched \<Rightarrow> nsname set) \<Rightarrow> manager \<Rightarrow> env \<Rightarrow> Cluster \<Rightarrow> nsname \<Rightarrow> watched \<Rightarrow> bool" where
  "delivered deliver M E old key ob \<longleftrightarrow>
     (\<exists>c. machine_SetupWithManager E (M\<lparr>ClusterUnpausedAndInfrastructureReady := resumed_or_ready old\<rparr>) = Inr c \<and> key \<in> deliver c ob)"

text \<open>The objects belong together, and the manager was built.\<close>

definition mapped :: "manager \<Rightarrow> env \<Rightarrow> Cluster \<Rightarrow> surroundings \<Rightarrow> bool" where
  "mapped M E old s \<longleftrightarrow> (\<exists>c. machine_SetupWithManager E (M\<lparr>ClusterUnpausedAndInfrastructureReady := resumed_or_ready old\<rparr>) = Inr c)
     \<and> (\<forall>m bc. su_owner s = Some m \<and> su_bmc s = Some bc \<longrightarrow> wired E M (su_key s) m (su_cluster s) bc)"

section \<open>Steps\<close>

text \<open>
  A reconciliation in any environment that finds the objects; a change of any of the objects, with its
  event; and the periodic resynchronisation, which enqueues the machine.  The flag allows events of
  Clusters that carry the annotation.
\<close>

inductive runtime_step :: "(controller \<Rightarrow> watched \<Rightarrow> nsname set) \<Rightarrow> manager \<Rightarrow> bool \<Rightarrow> surroundings \<Rightarrow> surroundings \<Rightarrow> bool"
  for deliver M annotated where
  reconciled: "su_queued s \<Longrightarrow> finds M E s \<Longrightarrow> mapped M E (su_cluster s) s
    \<Longrightarrow> out = machine_Reconcile (E\<lparr>GetBMCMachine := \<lambda>_. Inr (su_machine s)\<rparr>) (su_key s)
    \<Longrightarrow> bm = patched_machine (su_machine s) (outcome_state out)
    \<Longrightarrow> runtime_step deliver M annotated s (s\<lparr>su_machine := bm, su_unread := misses E s, su_queued := asks_again out
          \<or> (bm \<noteq> su_machine s \<and> delivered deliver M E (su_cluster s) (su_key s) (WatchedMachine bm))\<rparr>)"
| machine_edited: "t = s\<lparr>su_machine := bm, su_owner := m\<rparr> \<Longrightarrow> su_key t = su_key s \<Longrightarrow> mapped M E (su_cluster s) t
    \<Longrightarrow> runtime_step deliver M annotated s
          (t\<lparr>su_queued := su_queued s \<or> delivered deliver M E (su_cluster s) (su_key s) (WatchedMachine bm)\<rparr>)"
| owner_changed: "t = s\<lparr>su_owner := Some m\<rparr> \<Longrightarrow> su_owner s \<noteq> None \<Longrightarrow> mapped M E (su_cluster s) t
    \<Longrightarrow> runtime_step deliver M annotated s
          (t\<lparr>su_queued := su_queued s \<or> delivered deliver M E (su_cluster s) (su_key s) (WatchedOwner m)\<rparr>)"
| cluster_changed: "t = s\<lparr>su_cluster := cl\<rparr> \<Longrightarrow> mapped M E (su_cluster s) t \<Longrightarrow> annotated \<or> ResourceNotPaused M (WatchedOwnerCluster cl)
    \<Longrightarrow> runtime_step deliver M annotated s
          (t\<lparr>su_queued := su_queued s \<or> delivered deliver M E (su_cluster s) (su_key s) (WatchedOwnerCluster cl)\<rparr>)"
| bmc_changed: "t = s\<lparr>su_bmc := Some bc\<rparr> \<Longrightarrow> mapped M E (su_cluster s) t
    \<Longrightarrow> runtime_step deliver M annotated s
          (t\<lparr>su_queued := su_queued s \<or> delivered deliver M E (su_cluster s) (su_key s) (WatchedCluster bc)\<rparr>)"
| bmc_removed: "runtime_step deliver M annotated s (s\<lparr>su_bmc := None\<rparr>)"
| resynchronised: "runtime_step deliver M annotated s (s\<lparr>su_queued := True\<rparr>)"

inductive runtime :: "(controller \<Rightarrow> watched \<Rightarrow> nsname set) \<Rightarrow> manager \<Rightarrow> bool \<Rightarrow> surroundings \<Rightarrow> bool"
  for deliver M annotated where
  listed: "su_queued s \<Longrightarrow> runtime deliver M annotated s"
| later: "runtime deliver M annotated s \<Longrightarrow> runtime_step deliver M annotated s t \<Longrightarrow> runtime deliver M annotated t"

section \<open>What a machine waits for\<close>

text \<open>
  Nothing is to be done for the machine: it has no owner yet or carries the annotation for paused objects;
  or it is being deleted and has been released; or it lives, and its cluster is missing, one of the objects
  it depends on is paused, the cluster's infrastructure, the bootstrap secret or the block is missing, its
  status says that it failed, or its last reconciliation could not read the BMCCluster.
\<close>

definition waits :: "manager \<Rightarrow> surroundings \<Rightarrow> bool" where
  "waits M s \<longleftrightarrow> su_owner s = None \<or> \<not> ResourceNotPaused M (WatchedMachine (su_machine s))
     \<or> (if om_DeletionTimestamp (bm_Meta (su_machine s)) \<noteq> None
         then MachineFinalizer \<notin> set (om_Finalizers (bm_Meta (su_machine s)))
         else su_bmc s = None
           \<or> (\<exists>m. su_owner s = Some m \<and> (\<not> ResourceNotPaused M (WatchedOwner m) \<or> mach_DataSecretName m = None))
           \<or> cl_Paused (su_cluster s) \<or> \<not> cl_InfrastructureReady (su_cluster s)
           \<or> (\<exists>bc. su_bmc s = Some bc \<and> (\<not> ResourceNotPaused M (WatchedCluster bc)
                \<or> cspec_VIPManager (bc_Spec bc) = NONE \<and> annotation (bc_Meta bc) ANNOTATION_NAME_BMC_CLUSTER_IP_ALLOCATION_ID = []))
           \<or> failed_status (mstat_BMCStatus (bm_Status (su_machine s))) \<or> su_unread s)"

text \<open>A reconciliation that does not ask to be called again leaves the machine waiting.\<close>

lemma dispatch_rests:
  assumes "machine_dispatch E (machine_context bm m) = Returns rests mc'" and "om_DeletionTimestamp (bm_Meta bm) = None"
  shows "(\<exists>cl n e. GetClusterFromMetadata E m = Inr cl \<and> cl_InfrastructureRef cl = Some n
      \<and> GetBMCCluster E \<lparr>nn_Namespace = om_Namespace (bm_Meta bm), nn_Name = n\<rparr> = Inl e) \<or> (\<exists>cl bc. GetClusterFromMetadata E m = Inr cl \<and> (\<exists>n. GetBMCCluster E n = Inr bc)
    \<and> (IsPaused E cl bc \<or> \<not> cl_InfrastructureReady cl \<or> mach_DataSecretName m = None
       \<or> (cspec_VIPManager (bc_Spec bc) = NONE \<and> annotation (bc_Meta bc) ANNOTATION_NAME_BMC_CLUSTER_IP_ALLOCATION_ID = [])
       \<or> failed_status (mc_GetBMCStatus mc')))"
proof -
  let ?mc = "machine_context bm m"
  have "\<not> machine_IsMarkedDeleted (Some (mc_BMCMachine ?mc))"
    using assms(2) by (simp add: machine_IsMarkedDeleted_iff)
  then obtain cl n where cl: "GetClusterFromMetadata E m = Inr cl" "cl_InfrastructureRef cl = Some n"
    using assms(1) by (auto simp: machine_dispatch_def split: sum.splits option.splits)
  let ?k = "\<lparr>nn_Namespace = om_Namespace (bm_Meta bm), nn_Name = n\<rparr>"
  show ?thesis
  proof (cases "GetBMCCluster E ?k")
    case (Inr bc)
    show ?thesis
    proof (cases "IsPaused E cl bc")
      case False
      let ?mc1 = "?mc\<lparr>mc_Cluster := Some cl, mc_BMCCluster := Some bc\<rparr>"
      have l: "machine_reconcileLive E ?mc1 = Returns rests mc'"
        using assms(1) cl Inr False \<open>\<not> machine_IsMarkedDeleted _\<close> by (simp add: machine_dispatch_def)
      have "\<not> cl_InfrastructureReady cl \<or> mach_DataSecretName m = None
          \<or> (cspec_VIPManager (bc_Spec bc) = NONE \<and> annotation (bc_Meta bc) ANNOTATION_NAME_BMC_CLUSTER_IP_ALLOCATION_ID = [])
          \<or> failed_status (mc_GetBMCStatus mc')"
        using silent_stop [OF l, of cl bc] live_rests [OF l] by (cases "live_request E ?mc1") auto
      with cl(1) Inr show ?thesis by blast
    qed (use cl(1) Inr in blast)
  qed (use cl in blast)
qed

lemma reconciled_waits:
  assumes "finds M E s" and "out = machine_Reconcile (E\<lparr>GetBMCMachine := \<lambda>_. Inr (su_machine s)\<rparr>) k"
    and "\<not> asks_again out" and "bm = patched_machine (su_machine s) (outcome_state out)"
  shows "waits M (s\<lparr>su_machine := bm, su_unread := misses E s, su_queued := q\<rparr>)"
proof -
  let ?E = "E\<lparr>GetBMCMachine := \<lambda>_. Inr (su_machine s)\<rparr>"
  consider "su_owner s = None" | m where "su_owner s = Some m" "GetOwnerMachine E (bm_Meta (su_machine s)) = Inr (Some m)"
    using assms(1,3) unfolding assms(2) by (cases "su_owner s") (auto simp: finds_def machine_Reconcile_def asks_again_def)
  then show ?thesis
  proof cases
    case 1
    then show ?thesis by (simp add: waits_def)
  next
    case (2 m)
    let ?mc = "machine_context (su_machine s) m"
    have run: "out = machine_finish (machine_dispatch ?E ?mc)"
      using 2(2) unfolding assms(2) by (intro machine_Reconcile_run) simp_all
    obtain mc' where d: "machine_dispatch ?E ?mc = Returns rests mc'"
      using assms(3) by (cases "machine_dispatch ?E ?mc") (auto simp: run asks_again_def prod_eq_iff)
    have bm: "bm = mc_BMCMachine mc'"
      using assms(4) d by (simp add: run patched_machine_def)
    have t: "om_DeletionTimestamp (bm_Meta bm) = om_DeletionTimestamp (bm_Meta (su_machine s))"
      using dispatch_fixed [of ?E ?mc] d by (simp add: bm fixed_meta_def)
    show ?thesis
    proof (cases "om_DeletionTimestamp (bm_Meta (su_machine s)) = None")
      case True
      have c: "cl = su_cluster s" if "GetClusterFromMetadata E m = Inr cl" for cl
        using assms(1) that unfolding finds_def by (metis Inr_inject Inr_not_Inl)
      show ?thesis
      proof (cases "su_bmc s")
        case (Some bc)
        have b: "b' = bc" if "GetBMCCluster E n = Inr b'" for n b'
          using assms(1) Some that by (auto simp: finds_def) (metis Inl_Inr_False Inr_inject)+
        have "IsPaused E (su_cluster s) bc \<longleftrightarrow> cl_Paused (su_cluster s) \<or> \<not> ResourceNotPaused M (WatchedCluster bc)"
          using assms(1) Some by (simp add: finds_def)
        with dispatch_rests [OF d True] show ?thesis
          using 2(1) Some b c t True by (auto simp: waits_def bm mc_GetBMCStatus_def misses_def)
      qed (use t True in \<open>simp add: waits_def\<close>)
    next
      case False
      then have "mc_meta mc' = mc_meta (mc_RemoveFini ?E ?mc)"
        using d delete_frame(1) [of ?E ?mc] by (simp add: machine_dispatch_def machine_IsMarkedDeleted_iff)
      then have "MachineFinalizer \<notin> set (om_Finalizers (bm_Meta bm))"
        using assms(1) by (simp add: bm finds_def finalizer_laws_def mc_RemoveFini_def)
      then show ?thesis using t False by (simp add: waits_def)
    qed
  qed
qed

section \<open>What the events deliver\<close>

lemma delivered_iff:
  assumes "delivery_law deliver" and "mapped M E old t" and "ResourceNotPaused M ob"
  shows "delivered deliver M E old key ob \<longleftrightarrow> (case ob of
      WatchedMachine bm \<Rightarrow> key = watched_key ob
    | WatchedOwner m \<Rightarrow> key \<in> set (MachineToInfrastructureMapFunc M (GroupVersion, ''BMCMachine'') ob)
    | WatchedCluster bc \<Rightarrow> key \<in> set (BMCClusterToBMCMachines E ob)
    | WatchedOwnerCluster cl \<Rightarrow> resumed_or_ready old ob
        \<and> key \<in> set (projr (ClusterToTypedObjectsMapper M (v1beta1 ''BMCMachineList'')) ob))"
proof -
  let ?M = "M\<lparr>ClusterUnpausedAndInfrastructureReady := resumed_or_ready old\<rparr>"
  obtain c where c: "machine_SetupWithManager E ?M = Inr c"
    using assms(2) by (auto simp: mapped_def)
  then show ?thesis
    using machine_deliveries [OF c assms(1), of ob] assms(3)
    by (cases ob) (auto simp: delivered_def)
qed

lemma wired_delivered:
  assumes "delivery_law deliver" and "mapped M E old t" and "su_owner t = Some m" and "su_bmc t = Some bc"
  shows "ResourceNotPaused M (WatchedOwner m) \<Longrightarrow> delivered deliver M E old (su_key t) (WatchedOwner m)"
    and "ResourceNotPaused M (WatchedCluster bc) \<Longrightarrow> delivered deliver M E old (su_key t) (WatchedCluster bc)"
    and "ResourceNotPaused M (WatchedOwnerCluster (su_cluster t)) \<Longrightarrow> resumed_or_ready old (WatchedOwnerCluster (su_cluster t))
      \<Longrightarrow> delivered deliver M E old (su_key t) (WatchedOwnerCluster (su_cluster t))"
proof -
  have w: "wired E M (su_key t) m (su_cluster t) bc"
    using assms(2-4) by (simp add: mapped_def)
  obtain f where f: "ClusterToTypedObjectsMapper M (v1beta1 ''BMCMachineList'') = Inr f"
    using assms(2) by (auto simp: mapped_def machine_setup_iff)
  show "ResourceNotPaused M (WatchedOwner m) \<Longrightarrow> delivered deliver M E old (su_key t) (WatchedOwner m)"
    using w by (simp add: delivered_iff [OF assms(1,2)] wired_def)
  show "ResourceNotPaused M (WatchedCluster bc) \<Longrightarrow> delivered deliver M E old (su_key t) (WatchedCluster bc)"
    using cluster_wakes_machine [OF w, of bc "om_Annotations (bc_Meta bc)"] by (simp add: delivered_iff [OF assms(1,2)])
  show "ResourceNotPaused M (WatchedOwnerCluster (su_cluster t)) \<Longrightarrow> resumed_or_ready old (WatchedOwnerCluster (su_cluster t))
      \<Longrightarrow> delivered deliver M E old (su_key t) (WatchedOwnerCluster (su_cluster t))"
    using w f by (simp add: delivered_iff [OF assms(1,2)] wired_def)
qed

section \<open>The invariant\<close>

lemma waits_queued [simp]: "waits M (s\<lparr>su_queued := q\<rparr>) = waits M s"
  by (simp add: waits_def)

lemma step_waits:
  assumes "runtime_step deliver M False s t" and "delivery_law deliver" and "su_queued s \<or> waits M s"
  shows "su_queued t \<or> waits M t"
  using assms(1)
proof (cases rule: runtime_step.cases)
  case (reconciled E out bm)
  then show ?thesis
    using reconciled_waits [OF reconciled(3,5) _ reconciled(6)] by (cases "asks_again out") simp_all
next
  case (machine_edited t' m bm E)
  have k: "su_key t' = watched_key (WatchedMachine bm)" by (simp add: machine_edited(2) su_key_def)
  show ?thesis
    using delivered_iff [OF assms(2) machine_edited(4), of "WatchedMachine bm"] k
    unfolding machine_edited(1) machine_edited(3) [symmetric]
    by (cases "ResourceNotPaused M (WatchedMachine bm)") (auto simp: waits_def machine_edited(2))
next
  case (owner_changed t' m E)
  have k: "su_key t' = su_key s" "su_owner t' = Some m" "su_machine t' = su_machine s" "su_bmc t' = su_bmc s"
    "su_cluster t' = su_cluster s" "su_unread t' = su_unread s" by (simp_all add: owner_changed(2) su_key_def)
  show ?thesis
    using wired_delivered(1) [OF assms(2) owner_changed(4) k(2)] assms(3) owner_changed(3)
    unfolding owner_changed(1) k(1) [symmetric]
    by (cases "su_bmc s"; cases "ResourceNotPaused M (WatchedOwner m)") (auto simp: waits_def k split: if_splits)
next
  case (cluster_changed t' cl E)
  have k: "su_key t' = su_key s" "su_cluster t' = cl" "su_owner t' = su_owner s" "su_bmc t' = su_bmc s" "su_machine t' = su_machine s"
    "su_unread t' = su_unread s" by (simp_all add: cluster_changed(2) su_key_def)
  show ?thesis
  proof (cases "\<exists>m bc. su_owner t' = Some m \<and> su_bmc t' = Some bc \<and> resumed_or_ready (su_cluster s) (WatchedOwnerCluster cl)")
    case True
    then show ?thesis
      using wired_delivered(3) [OF assms(2) cluster_changed(3)] cluster_changed(4)
      unfolding cluster_changed(1) k(1) [symmetric] by (auto simp: k)
  next
    case False
    with assms(3) show ?thesis
      unfolding cluster_changed(1) by (auto simp: waits_def k resumed_or_ready_def)
  qed
next
  case (bmc_changed t' bc E)
  have k: "su_key t' = su_key s" "su_bmc t' = Some bc" "su_machine t' = su_machine s" "su_owner t' = su_owner s"
    "su_cluster t' = su_cluster s" "su_unread t' = su_unread s" by (simp_all add: bmc_changed(2) su_key_def)
  show ?thesis
    using wired_delivered(2) [OF assms(2) bmc_changed(3) _ k(2)] assms(3)
    unfolding bmc_changed(1) k(1) [symmetric]
    by (cases "su_owner s"; cases "ResourceNotPaused M (WatchedCluster bc)") (auto simp: waits_def k split: if_splits)
next
  case bmc_removed
  then show ?thesis using assms(3) by (auto simp: waits_def)
qed simp

lemma runtime_waits: "runtime deliver M False s \<Longrightarrow> delivery_law deliver \<Longrightarrow> su_queued s \<or> waits M s"
  by (induction rule: runtime.induct) (auto dest: step_waits)

text \<open>
  C8. A machine that is not in the queue waits for something: in every state the running manager can
  reach, through any reconciliations, answers of the services, changes of the objects and their events, a
  machine whose key is neither queued nor due later has no owner or is paused; or it is being deleted and
  has been released; or it lives and its cluster is missing, one of the objects it depends on is paused, it
  waits for the infrastructure, the bootstrap secret or the block, its status says that it failed, or the
  read of its BMCCluster failed in its last reconciliation, which the code does not repeat.  Two conditions:
  the events are delivered as controller-runtime and Cluster API document it, and no event is one of a
  Cluster that carries the annotation for paused objects.
\<close>

theorem idle_machine_waits:
  assumes "runtime deliver M False s" and "delivery_law deliver" and "\<not> su_queued s"
  shows "su_owner s = None \<or> \<not> ResourceNotPaused M (WatchedMachine (su_machine s))
     \<or> (om_DeletionTimestamp (bm_Meta (su_machine s)) \<noteq> None
         \<and> MachineFinalizer \<notin> set (om_Finalizers (bm_Meta (su_machine s))))
     \<or> (om_DeletionTimestamp (bm_Meta (su_machine s)) = None
         \<and> (su_bmc s = None
           \<or> (\<exists>m. su_owner s = Some m \<and> (\<not> ResourceNotPaused M (WatchedOwner m) \<or> mach_DataSecretName m = None))
           \<or> cl_Paused (su_cluster s) \<or> \<not> cl_InfrastructureReady (su_cluster s)
           \<or> (\<exists>bc. su_bmc s = Some bc \<and> (\<not> ResourceNotPaused M (WatchedCluster bc)
                \<or> cspec_VIPManager (bc_Spec bc) = NONE \<and> annotation (bc_Meta bc) ANNOTATION_NAME_BMC_CLUSTER_IP_ALLOCATION_ID = []))
           \<or> mstat_BMCStatus (bm_Status (su_machine s)) \<in> {StatusIrreconcilable, StatusOrphaned, StatusError}
           \<or> su_unread s))"
  using runtime_waits [OF assms(1,2)] assms(3) unfolding waits_def failed_status_def
  by (cases "om_DeletionTimestamp (bm_Meta (su_machine s)) = None") (simp, auto)

text \<open>
  The example: a machine with its finalizer in the queue, whose cluster's infrastructure is not ready, and a
  manager that tests the annotation of Clusters.
\<close>

definition runtime_machine :: BMCMachine where
  "runtime_machine = example_machine\<lparr>bm_Meta := example_meta\<lparr>om_Finalizers := [MachineFinalizer]\<rparr>\<rparr>"

definition runtime_manager :: manager where
  "runtime_manager = watch_manager\<lparr>ResourceNotPaused := \<lambda>ob. case ob of WatchedOwnerCluster cl \<Rightarrow> \<not> cl_AnnotatedPaused cl | _ \<Rightarrow> True\<rparr>"

definition runtime_env :: "Cluster \<Rightarrow> env" where
  "runtime_env cl = watch_env\<lparr>GetOwnerMachine := \<lambda>_. Inr (Some example_owner), GetClusterFromMetadata := \<lambda>_. Inr cl,
     GetBMCCluster := \<lambda>_. Inr example_bmccluster, GetOwnerCluster := \<lambda>_. Inr (Some cl)\<rparr>"

definition runtime_state :: "Cluster \<Rightarrow> bool \<Rightarrow> surroundings" where
  "runtime_state cl q = \<lparr>su_machine = runtime_machine, su_owner = Some example_owner, su_cluster = cl,
     su_bmc = Some example_bmccluster, su_unread = False, su_queued = q\<rparr>"

lemma runtime_manager_simps:
  "ResourceNotPaused runtime_manager (WatchedMachine bm)" "ResourceNotPaused runtime_manager (WatchedOwner m)"
  "ResourceNotPaused runtime_manager (WatchedCluster bc)"
  "ResourceNotPaused runtime_manager (WatchedOwnerCluster cl) \<longleftrightarrow> \<not> cl_AnnotatedPaused cl"
  by (simp_all add: runtime_manager_def)

lemma runtime_mapped_read:
  assumes "cl_Name cl = ''c''"
  shows "mapped runtime_manager ((runtime_env cl)\<lparr>GetBMCCluster := g\<rparr>) old (runtime_state cl q)"
proof -
  have k: "su_key (runtime_state cl q) = watch_key"
    by (simp add: su_key_def runtime_state_def runtime_machine_def example_meta_def watch_key_def)
  have "watch_label example_owner (ClusterNameLabel (runtime_env cl)) = Some (cl_Name cl)"
    by (simp add: assms watch_label_def runtime_env_def watch_env_def example_env_def)
  then have "wired ((runtime_env cl)\<lparr>GetBMCCluster := g\<rparr>) runtime_manager watch_key example_owner cl example_bmccluster"
    by (simp add: wired_def watch_key_def runtime_manager_def watch_manager_def runtime_env_def watch_env_def
        example_owner_def example_bmccluster_def example_meta_def)
  then show ?thesis
    unfolding mapped_def k
    by (auto simp: machine_setup_iff runtime_manager_def watch_manager_def runtime_state_def)
qed

lemma runtime_mapped: "cl_Name cl = ''c'' \<Longrightarrow> mapped runtime_manager (runtime_env cl) old (runtime_state cl q)"
  using runtime_mapped_read [of cl "GetBMCCluster (runtime_env cl)"] by simp

lemma runtime_laws: "finalizer_laws (runtime_env cl)"
  using finalizer_laws_example [of "\<lambda>_. DoError (LibErr [])"]
  by (simp add: finalizer_laws_def runtime_env_def watch_env_def)

lemma watch_delivers: "delivery_law watch_deliver"
  by (simp add: delivery_law_def watch_deliver_def)

text \<open>The first reconciliation has nothing to do, and takes the machine from the queue.\<close>

lemma unready_reconciliation:
  defines "E \<equiv> runtime_env unready_cluster"
  shows "finds runtime_manager E (runtime_state unready_cluster True)"
    and "mapped runtime_manager E unready_cluster (runtime_state unready_cluster True)"
    and "machine_Reconcile (E\<lparr>GetBMCMachine := \<lambda>_. Inr runtime_machine\<rparr>) (watched_key (WatchedMachine runtime_machine))
      = Returns rests [PatchMachine runtime_machine]"
proof -
  let ?s = "runtime_state unready_cluster True" and ?E = "E\<lparr>GetBMCMachine := \<lambda>_. Inr runtime_machine\<rparr>"
  show "finds runtime_manager E ?s"
    unfolding finds_def E_def
    by (intro conjI runtime_laws) (simp_all add: runtime_env_def runtime_state_def runtime_manager_simps watch_env_def example_env_def
        unready_cluster_def example_cluster_def)
  show "mapped runtime_manager E unready_cluster ?s"
    unfolding E_def by (rule runtime_mapped) (simp add: unready_cluster_def example_cluster_def)
  let ?mc = "(machine_context runtime_machine example_owner)\<lparr>mc_Cluster := Some unready_cluster, mc_BMCCluster := Some example_bmccluster\<rparr>"
  have "mc_IsInfrastructureReady ?mc = Some False"
    by (simp add: mc_IsInfrastructureReady_def unready_cluster_def)
  moreover have "with_finalizer ?E ?mc = ?mc"
    by (simp add: with_finalizer_def mc_HasFini_def E_def runtime_env_def watch_env_def example_env_def runtime_machine_def
        list_contains_def)
  ultimately have "machine_reconcileLive ?E ?mc = Returns rests ?mc"
    by (simp add: machine_reconcileLive_unfold)
  then have "machine_dispatch ?E (machine_context runtime_machine example_owner) = Returns rests ?mc"
    by (simp add: machine_dispatch_def machine_IsMarkedDeleted_iff runtime_machine_def example_meta_def E_def runtime_env_def
        watch_env_def example_env_def unready_cluster_def example_cluster_def)
  then show "machine_Reconcile ?E (watched_key (WatchedMachine runtime_machine)) = Returns rests [PatchMachine runtime_machine]"
    using machine_Reconcile_run [of ?E "watched_key (WatchedMachine runtime_machine)" runtime_machine example_owner]
    by (simp add: E_def runtime_env_def machine_context_def)
qed

lemma runtime_reads: "\<not> misses (runtime_env cl) s"
  by (simp add: misses_def runtime_env_def)

lemma patched_itself: "patched_machine bm [PatchMachine x] = x"
  by (simp add: patched_machine_def)

lemma runtime_idle: "runtime watch_deliver runtime_manager annotated (runtime_state unready_cluster False)"
proof -
  let ?s = "runtime_state unready_cluster True"
  have s: "su_queued ?s" "su_machine ?s = runtime_machine" "su_cluster ?s = unready_cluster"
    "su_key ?s = watched_key (WatchedMachine runtime_machine)"
    by (simp_all add: runtime_state_def su_key_def)
  have "runtime_step watch_deliver runtime_manager annotated ?s (?s\<lparr>su_machine := runtime_machine, su_unread := False, su_queued := False\<rparr>)"
    using runtime_step.reconciled [OF s(1) unready_reconciliation(1) _ refl refl, of watch_deliver annotated]
      unready_reconciliation(2,3)
    by (simp add: s(2-4) patched_itself asks_again_def runtime_reads)
  moreover have "?s\<lparr>su_machine := runtime_machine, su_unread := False, su_queued := False\<rparr> = runtime_state unready_cluster False"
    by (simp add: runtime_state_def)
  ultimately show ?thesis
    using runtime.listed [of ?s] s(1) by (auto intro: runtime.later)
qed

theorem idle_machine_waits_witness:
  "\<exists>s. runtime watch_deliver runtime_manager False s \<and> \<not> su_queued s \<and> \<not> cl_InfrastructureReady (su_cluster s)"
proof -
  have q: "\<not> su_queued (runtime_state unready_cluster False)" by (simp add: runtime_state_def)
  have "\<not> cl_InfrastructureReady (su_cluster (runtime_state unready_cluster False))"
    using idle_machine_waits [OF runtime_idle watch_delivers q]
    by (simp add: runtime_state_def runtime_manager_simps runtime_machine_def example_meta_def example_owner_def
        unready_cluster_def example_cluster_def example_bmccluster_def KUBEVIP_def NONE_def example_machine_def
        zero_machine_status_def status_defs)
  then show ?thesis using runtime_idle q by blast
qed

text \<open>
  C19. A lost wake-up: when the infrastructure of a Cluster becomes ready while the Cluster carries the
  annotation for paused objects, the event is filtered; when the annotation is removed, the event is not one
  that the watch of Clusters lets through.  The running manager then reaches a state in which the machine
  is not queued and waits for nothing, until the next resynchronisation.
\<close>

theorem annotated_cluster_forgets:
  "\<exists>s. runtime watch_deliver runtime_manager True s \<and> \<not> su_queued s \<and> \<not> waits runtime_manager s
    \<and> cl_InfrastructureReady (su_cluster s) \<and> \<not> cl_Paused (su_cluster s) \<and> \<not> cl_AnnotatedPaused (su_cluster s)"
proof -
  let ?cl1 = "example_cluster\<lparr>cl_AnnotatedPaused := True\<rparr>"
  have names: "cl_Name ?cl1 = ''c''" "cl_Name example_cluster = ''c''" by (simp_all add: example_cluster_def)
  have step: "runtime watch_deliver runtime_manager True (runtime_state cl' False)"
    if "runtime watch_deliver runtime_manager True (runtime_state cl False)" "cl_Name cl' = ''c''"
      "\<not> delivered watch_deliver runtime_manager (runtime_env cl') cl watch_key (WatchedOwnerCluster cl')" for cl cl'
  proof -
    have k: "su_key (runtime_state cl False) = watch_key" "su_cluster (runtime_state cl False) = cl"
      by (simp_all add: su_key_def runtime_state_def runtime_machine_def example_meta_def watch_key_def)
    have t: "runtime_state cl' False = (runtime_state cl False)\<lparr>su_cluster := cl'\<rparr>" by (simp add: runtime_state_def)
    have q: "\<not> su_queued (runtime_state cl False)" "(runtime_state cl' False)\<lparr>su_queued := False\<rparr> = runtime_state cl' False"
      by (simp_all add: runtime_state_def)
    from runtime_step.cluster_changed [OF t, of runtime_manager "runtime_env cl'" True watch_deliver] that(3)
      runtime_mapped [OF that(2), of cl False]
    have "runtime_step watch_deliver runtime_manager True (runtime_state cl False) (runtime_state cl' False)"
      by (simp add: k q)
    with that(1) show ?thesis by (rule runtime.later)
  qed
  have "\<not> ResourceNotPaused runtime_manager (WatchedOwnerCluster ?cl1)" by (simp add: runtime_manager_simps)
  then have filtered: "\<not> delivered watch_deliver runtime_manager E old k (WatchedOwnerCluster ?cl1)" for E old k
  proof -
    have "ct_EventFilter c = ResourceNotPaused runtime_manager"
      if "machine_SetupWithManager E (runtime_manager\<lparr>ClusterUnpausedAndInfrastructureReady := p\<rparr>) = Inr c" for c p
      using that unfolding machine_setup_iff by (elim exE conjE) simp
    then show ?thesis
      using \<open>\<not> ResourceNotPaused runtime_manager _\<close> by (auto simp: delivered_def watch_deliver_def)
  qed
  have 1: "runtime watch_deliver runtime_manager True (runtime_state ?cl1 False)"
    using step [OF runtime_idle names(1)] filtered by blast
  have "\<not> delivered watch_deliver runtime_manager (runtime_env example_cluster) ?cl1 watch_key (WatchedOwnerCluster example_cluster)"
    using delivered_iff [OF watch_delivers runtime_mapped [OF names(2), of ?cl1 False], of "WatchedOwnerCluster example_cluster"]
    by (simp add: runtime_manager_simps resumed_or_ready_def example_cluster_def)
  from step [OF 1 names(2) this] show ?thesis
    by (intro exI [of _ "runtime_state example_cluster False"])
       (simp add: waits_def runtime_state_def runtime_manager_simps runtime_machine_def example_meta_def example_owner_def
        example_cluster_def example_bmccluster_def KUBEVIP_def NONE_def example_machine_def
        zero_machine_status_def failed_status_def status_defs)
qed

text \<open>Any error of the read of the BMCCluster ends a reconciliation in silence, not only that it does not exist.\<close>

lemma failed_read_rests:
  assumes "GetBMCMachine E key = Inr bm" and "GetOwnerMachine E (bm_Meta bm) = Inr (Some m)"
    and "om_DeletionTimestamp (bm_Meta bm) = None" and "GetClusterFromMetadata E m = Inr cl" and "cl_InfrastructureRef cl = Some n"
    and "GetBMCCluster E \<lparr>nn_Namespace = om_Namespace (bm_Meta bm), nn_Name = n\<rparr> = Inl e"
  shows "machine_Reconcile E key = Returns rests [PatchMachine bm]"
proof -
  have "machine_dispatch E (machine_context bm m) = Returns rests (machine_context bm m)"
    using assms(3-6) by (simp add: machine_dispatch_def machine_IsMarkedDeleted_iff)
  then show ?thesis
    using machine_Reconcile_run [OF assms(1,2)] by (simp add: machine_context_def)
qed

definition unreachable_env :: env where
  "unreachable_env = runtime_env example_cluster\<lparr>GetBMCCluster := \<lambda>_. Inl (LibErr ''timeout'')\<rparr>"

text \<open>
  C35. A failed read is forgotten: the reconciler takes any error of the read of the BMCCluster for a cluster
  that is not available and neither returns it nor asks to be called again.  The running manager reaches, with
  all events delivered, a state in which the machine is not in the queue and waits for nothing else than the
  next resynchronisation.
\<close>

theorem failed_read_forgets:
  "\<exists>s. runtime watch_deliver runtime_manager False s \<and> \<not> su_queued s \<and> su_unread s
    \<and> \<not> waits runtime_manager (s\<lparr>su_unread := False\<rparr>)"
proof -
  let ?s = "runtime_state example_cluster True" and ?t = "(runtime_state example_cluster False)\<lparr>su_unread := True\<rparr>"
  have s: "su_queued ?s" "su_machine ?s = runtime_machine" "su_cluster ?s = example_cluster"
    "su_key ?s = watched_key (WatchedMachine runtime_machine)" "su_bmc ?s = Some example_bmccluster" "su_owner ?s = Some example_owner"
    by (simp_all add: runtime_state_def su_key_def)
  have laws: "finalizer_laws unreachable_env"
    using runtime_laws [of example_cluster] by (simp add: unreachable_env_def finalizer_laws_def)
  have f: "finds runtime_manager unreachable_env ?s"
    by (simp add: finds_def laws s) (simp add: unreachable_env_def runtime_env_def runtime_manager_simps watch_env_def example_env_def
        example_cluster_def)
  have m: "mapped runtime_manager unreachable_env example_cluster ?s"
    unfolding unreachable_env_def by (rule runtime_mapped_read) (simp add: example_cluster_def)
  have "machine_Reconcile (unreachable_env\<lparr>GetBMCMachine := \<lambda>_. Inr runtime_machine\<rparr>) (watched_key (WatchedMachine runtime_machine))
      = Returns rests [PatchMachine runtime_machine]"
    by (rule failed_read_rests [where m = example_owner and cl = example_cluster])
       (simp_all add: unreachable_env_def runtime_env_def runtime_machine_def example_meta_def example_cluster_def)
  moreover have "misses unreachable_env ?s"
    by (simp add: misses_def s unreachable_env_def) (simp add: example_cluster_def)
  ultimately have "runtime_step watch_deliver runtime_manager False ?s (?s\<lparr>su_machine := runtime_machine, su_unread := True, su_queued := False\<rparr>)"
    using runtime_step.reconciled [OF s(1) f _ refl refl, of watch_deliver False] m
    by (simp add: s(2-4) patched_itself asks_again_def)
  moreover have "?s\<lparr>su_machine := runtime_machine, su_unread := True, su_queued := False\<rparr> = ?t"
    by (simp add: runtime_state_def)
  ultimately have "runtime watch_deliver runtime_manager False ?t"
    using runtime.listed [of ?s] s(1) by (auto intro: runtime.later)
  then show ?thesis
    by (intro exI [of _ ?t])
       (simp add: waits_def runtime_state_def runtime_manager_simps runtime_machine_def example_meta_def example_owner_def
        example_cluster_def example_bmccluster_def KUBEVIP_def NONE_def example_machine_def
        zero_machine_status_def failed_status_def status_defs)
qed

end
