(* ===== verification/Fleet.thy ===== *)
theory Fleet
  imports Life
begin

text \<open>
  Many objects of one kind under one controller, each owning external resources: the steps of the
  fleet in any order, the identifiers the service has given out with the object they were created
  for, and the contract under which no object ever holds, or sends a request about, the resource of
  another one.
\<close>

section \<open>Fleets and steps\<close>

record 'o fleet =
  fl_objs :: "nsname \<Rightarrow> 'o option"
  fl_owner :: "string \<Rightarrow> nsname option"
  fl_log :: "(nsname \<times> http_request) list"

definition no_fleet :: "'o fleet" where
  "no_fleet = \<lparr>fl_objs = Map.empty, fl_owner = Map.empty, fl_log = []\<rparr>"

text \<open>The identifiers in the answers to the requests of a run are the run's object's.\<close>

definition record_owner :: "(env \<Rightarrow> http_request \<Rightarrow> string option) \<Rightarrow> env \<Rightarrow> nsname \<Rightarrow> http_request list
    \<Rightarrow> (string \<Rightarrow> nsname option) \<Rightarrow> string \<Rightarrow> nsname option" where
  "record_owner issued E k rs ow = (\<lambda>i. if \<exists>r \<in> set rs. issued E r = Some i then Some k else ow i)"

text \<open>The service never gives out an identifier twice.\<close>

definition fresh_ids :: "(env \<Rightarrow> http_request \<Rightarrow> string option) \<Rightarrow> env \<Rightarrow> http_request list \<Rightarrow> (string \<Rightarrow> nsname option) \<Rightarrow> bool" where
  "fresh_ids issued E rs ow \<longleftrightarrow> (\<forall>r \<in> set rs. \<forall>i. issued E r = Some i \<longrightarrow> ow i = None)"

lemma record_owner_keeps:
  "fresh_ids issued E rs ow \<Longrightarrow> ow i = Some j \<Longrightarrow> record_owner issued E k rs ow i = Some j"
  by (auto simp: record_owner_def fresh_ids_def)

lemma record_owner_issued: "r \<in> set rs \<Longrightarrow> issued E r = Some i \<Longrightarrow> record_owner issued E k rs ow i = Some k"
  by (auto simp: record_owner_def)

text \<open>A reconciliation stores its patch or loses it; objects are born, edited and removed.\<close>

inductive fleet_step :: "'o run \<Rightarrow> (env \<Rightarrow> bool) \<Rightarrow> (env \<Rightarrow> http_request \<Rightarrow> string option) \<Rightarrow> ('o \<Rightarrow> 'o \<Rightarrow> bool)
    \<Rightarrow> (nsname \<Rightarrow> 'o \<Rightarrow> bool) \<Rightarrow> ('o \<Rightarrow> bool) \<Rightarrow> 'o fleet \<Rightarrow> 'o fleet \<Rightarrow> bool"
  for run ok issued edit newborn gone where
  reconciled: "fl_objs f k = Some x \<Longrightarrow> ok E \<Longrightarrow> run E x = (y, rs) \<Longrightarrow> fresh_ids issued E rs (fl_owner f)
    \<Longrightarrow> z = y \<or> z = x
    \<Longrightarrow> fleet_step run ok issued edit newborn gone f
          \<lparr>fl_objs = (fl_objs f)(k \<mapsto> z), fl_owner = record_owner issued E k rs (fl_owner f),
           fl_log = fl_log f @ map (Pair k) rs\<rparr>"
| edited: "fl_objs f k = Some x \<Longrightarrow> edit x y
    \<Longrightarrow> fleet_step run ok issued edit newborn gone f (f\<lparr>fl_objs := (fl_objs f)(k \<mapsto> y)\<rparr>)"
| removed: "fl_objs f k = Some x \<Longrightarrow> gone x
    \<Longrightarrow> fleet_step run ok issued edit newborn gone f (f\<lparr>fl_objs := (fl_objs f)(k := None)\<rparr>)"
| born: "fl_objs f k = None \<Longrightarrow> newborn k x
    \<Longrightarrow> fleet_step run ok issued edit newborn gone f (f\<lparr>fl_objs := (fl_objs f)(k \<mapsto> x)\<rparr>)"

lemma fleet_step_weaken:
  "fleet_step run ok issued edit newborn gone f f' \<Longrightarrow> (\<And>E. ok E \<Longrightarrow> ok' E)
   \<Longrightarrow> fleet_step run ok' issued edit newborn gone f f'"
  by (induction rule: fleet_step.induct) (blast intro: fleet_step.intros)+

text \<open>Owners are only ever added.\<close>

lemma fleet_step_owner:
  "fleet_step run ok issued edit newborn gone f f' \<Longrightarrow> fl_owner f i = Some j \<Longrightarrow> fl_owner f' i = Some j"
  by (induction rule: fleet_step.induct) (simp_all add: record_owner_keeps)

section \<open>The contract\<close>

text \<open>
  The stored identifier changes only to one the service just gave out, and requests about a resource
  name the stored identifier.
\<close>

locale keeper =
  fixes run :: "'o run" and ok :: "env \<Rightarrow> bool" and issued :: "env \<Rightarrow> http_request \<Rightarrow> string option"
    and edit :: "'o \<Rightarrow> 'o \<Rightarrow> bool" and newborn :: "nsname \<Rightarrow> 'o \<Rightarrow> bool" and held :: "'o \<Rightarrow> string"
    and key :: "'o \<Rightarrow> nsname" and about :: "http_request \<Rightarrow> string \<Rightarrow> bool"
  assumes run_held: "ok E \<Longrightarrow> run E x = (y, rs) \<Longrightarrow> held y = held x \<or> (\<exists>r \<in> set rs. issued E r = Some (held y))"
    and run_key: "run E x = (y, rs) \<Longrightarrow> key y = key x"
    and run_about: "ok E \<Longrightarrow> run E x = (y, rs) \<Longrightarrow> r \<in> set rs \<Longrightarrow> about r i \<Longrightarrow> i = held x"
    and edit_held: "edit x y \<Longrightarrow> held y = held x" and edit_key: "edit x y \<Longrightarrow> key y = key x"
    and newborn_held: "newborn k x \<Longrightarrow> held x = []" and newborn_key: "newborn k x \<Longrightarrow> key x = k"
begin

definition kept :: "'o fleet \<Rightarrow> bool" where
  "kept f \<longleftrightarrow> (\<forall>k x. fl_objs f k = Some x \<longrightarrow> key x = k \<and> (held x \<noteq> [] \<longrightarrow> fl_owner f (held x) = Some k))
     \<and> (\<forall>(k, r) \<in> set (fl_log f). \<forall>i. about r i \<and> i \<noteq> [] \<longrightarrow> fl_owner f i = Some k)"

lemma keptD:
  "kept f \<Longrightarrow> fl_objs f k = Some x \<Longrightarrow> key x = k \<and> (held x \<noteq> [] \<longrightarrow> fl_owner f (held x) = Some k)"
  "kept f \<Longrightarrow> (k, r) \<in> set (fl_log f) \<Longrightarrow> about r i \<Longrightarrow> i \<noteq> [] \<Longrightarrow> fl_owner f i = Some k"
  by (auto simp: kept_def)

text \<open>After a run the object holds what is its own.\<close>

lemma reconciled_held:
  assumes "kept f" and "fl_objs f k = Some x" and "ok E" and "run E x = (y, rs)"
    and "fresh_ids issued E rs (fl_owner f)" and "z = y \<or> z = x" and "held z \<noteq> []"
  shows "record_owner issued E k rs (fl_owner f) (held z) = Some k"
proof (cases "held z = held x")
  case True
  then show ?thesis
    using keptD(1) [OF assms(1,2)] assms(5,7) by (simp add: record_owner_keeps)
next
  case False
  then obtain r where "r \<in> set rs" "issued E r = Some (held z)"
    using run_held [OF assms(3,4)] assms(6) by auto
  then show ?thesis by (rule record_owner_issued)
qed

lemma step_kept:
  assumes "fleet_step run ok issued edit newborn gone f f'" and "kept f"
  shows "kept f'"
  using assms(1)
proof (cases rule: fleet_step.cases)
  case (reconciled k x E y rs z)
  have "key z = k"
    using keptD(1) [OF assms(2) reconciled(2)] run_key [OF reconciled(4)] reconciled(6) by auto
  moreover have "record_owner issued E k rs (fl_owner f) i = Some k" if "r \<in> set rs" "about r i" "i \<noteq> []" for r i
    using run_about [OF reconciled(3,4) that(1,2)] that(3) keptD(1) [OF assms(2) reconciled(2)]
      record_owner_keeps [OF reconciled(5)] by simp
  moreover note reconciled_held [OF assms(2) reconciled(2-6)]
  ultimately show ?thesis
    using assms(2) record_owner_keeps [OF reconciled(5)] unfolding kept_def reconciled(1) by auto
next
  case (edited k x y)
  then show ?thesis
    using assms(2) edit_held [of x y] edit_key [of x y] by (auto simp: kept_def)
next
  case (born k x)
  then show ?thesis
    using assms(2) newborn_held [of k x] newborn_key [of k x] by (auto simp: kept_def)
qed (use assms(2) in \<open>auto simp: kept_def\<close>)

lemma no_fleet_kept: "kept no_fleet"
  by (simp add: kept_def no_fleet_def)

text \<open>No two objects hold the same resource.\<close>

lemma kept_distinct:
  assumes "kept f" and "fl_objs f k = Some x" and "fl_objs f k' = Some x'" and "k \<noteq> k'" and "held x \<noteq> []"
  shows "held x \<noteq> held x'"
  using keptD(1) [OF assms(1,2)] keptD(1) [OF assms(1,3)] assms(4,5) by auto

end

end
