(* ===== verification/FleetSystem.thy ===== *)
theory FleetSystem
  imports Provisioning Fleet
begin

text \<open>
  Both reconcilers at work on all machines and clusters of the management cluster: the fleets of
  machines and of clusters keep their resources apart, and together they make a system in which a
  machine reads its cluster as some reconciliation of the cluster left it.
\<close>

section \<open>Machines\<close>

definition machine_key :: "BMCMachine \<Rightarrow> nsname" where
  "machine_key bm = \<lparr>nn_Namespace = om_Namespace (bm_Meta bm), nn_Name = om_Name (bm_Meta bm)\<rparr>"

definition machine_newborn :: "nsname \<Rightarrow> BMCMachine \<Rightarrow> bool" where
  "machine_newborn k bm \<longleftrightarrow> machine_key bm = k \<and> machine_ident bm = []"

definition machine_owner_edit :: "BMCMachine \<Rightarrow> BMCMachine \<Rightarrow> bool" where
  "machine_owner_edit x y \<longleftrightarrow> machine_edit x y \<and> machine_key y = machine_key x"

text \<open>The requests about a server: its poll and its deprovision request.\<close>

definition server_about :: "string \<Rightarrow> http_request \<Rightarrow> string \<Rightarrow> bool" where
  "server_about base r i \<longleftrightarrow> (hr_Method r = GET \<and> hr_URL r = base @ ''/bmc/v1/servers/'' @ i)
     \<or> (hr_Method r = POST \<and> hr_URL r = base @ ''/bmc/v1/servers/'' @ i @ ''/actions/deprovision'')"

lemma server_about_simps:
  assumes "BMCEndpointURL E = base"
  shows "server_about base (http_Get (server_url E j)) i \<longleftrightarrow> i = j"
    and "server_about base (deprovision_request E j) i \<longleftrightarrow> i = j"
    and "\<not> server_about base (create_http E q) i"
  using assms by (auto simp: server_about_def server_url_def deprovision_request_def create_http_def http_Get_def
      http_Post_def servers_url_eq fmt_extras_def)

lemma machine_request_about:
  assumes "machine_request E mc = Some r" and "BMCEndpointURL E = base" and "server_about base r i"
  shows "i = mc_GetMachineID mc"
proof (cases "machine_IsMarkedDeleted (Some (mc_BMCMachine mc))")
  case True
  with assms show ?thesis
    by (auto simp: machine_request_def delete_request_def server_about_simps split: if_splits)
next
  case False
  then obtain mc1 where l: "live_context E mc = Some mc1" "live_request E mc1 = Some r"
    using assms(1) by (auto simp: machine_request_def bind_eq_Some_conv)
  have "mc_GetMachineID mc1 = mc_GetMachineID mc"
    using live_context_frame [OF l(1)] by (simp add: mc_GetMachineID_def)
  then show ?thesis
    using l(2) assms(2,3) by (auto simp: live_request_def create_plan_def server_about_simps
        split: if_splits option.splits sum.splits)
qed

lemma sent_requests: "r \<in> set (requests (sent E q)) \<Longrightarrow> q = Some r"
  by (auto simp: sent_def http_send_def split: option.splits)

lemma machine_run_about:
  assumes "BMCEndpointURL E = base" and "machine_run E x = (y, rs)" and "r \<in> set rs" and "server_about base r i"
  shows "i = machine_ident x"
proof (cases rule: machine_run_cases [of E x])
  case idle
  with assms show ?thesis by simp
next
  case (run m E')
  then show ?thesis
    using machine_request_about [of E' "machine_context x m" r base i] sent_requests assms
    by (auto simp: machine_ident_mc [symmetric])
qed

lemma machine_run_held:
  assumes "BMCEndpointURL E = base" and "machine_run E x = (y, rs)"
  shows "machine_ident y = machine_ident x \<or> (\<exists>r \<in> set rs. server_issued base E r = Some (machine_ident y))"
  using machine_run_keeps(1) [OF assms(2)] machine_run_issued [OF _ assms] by metis

lemma machine_run_key: "machine_run E x = (y, rs) \<Longrightarrow> machine_key y = machine_key x"
  using machine_run_fixed [of E x y rs] by (simp add: fixed_meta_def machine_key_def)

interpretation server_keeper: keeper machine_run "\<lambda>E. BMCEndpointURL E = base" "server_issued base" machine_owner_edit
    machine_newborn machine_ident machine_key "server_about base"
  for base
  by unfold_locales
     (simp_all add: machine_run_held machine_run_key machine_run_about machine_owner_edit_def machine_edit_ident machine_newborn_def)

section \<open>Clusters\<close>

definition cluster_key :: "BMCCluster \<Rightarrow> nsname" where
  "cluster_key bc = \<lparr>nn_Namespace = om_Namespace (bc_Meta bc), nn_Name = om_Name (bc_Meta bc)\<rparr>"

definition cluster_block :: "BMCCluster \<Rightarrow> string" where
  "cluster_block bc = annotation (bc_Meta bc) ANNOTATION_NAME_BMC_CLUSTER_IP_ALLOCATION_ID"

definition cluster_newborn :: "nsname \<Rightarrow> BMCCluster \<Rightarrow> bool" where
  "cluster_newborn k bc \<longleftrightarrow> cluster_key bc = k \<and> cluster_block bc = []"

definition cluster_owner_edit :: "BMCCluster \<Rightarrow> BMCCluster \<Rightarrow> bool" where
  "cluster_owner_edit x y \<longleftrightarrow> cluster_edit x y \<and> cluster_key y = cluster_key x"

text \<open>The block id in the answer to an accepted allocation, and the requests about a block.\<close>

definition block_issued :: "string \<Rightarrow> env \<Rightarrow> http_request \<Rightarrow> string option" where
  "block_issued base E r = (if \<not> block_create base r then None
     else case BMC E r of
       Response c body \<Rightarrow> (case unmarshal_cluster_status body of
           Inr ips \<Rightarrow> if http_ok c then Some (cstat_ID ips) else None
         | Inl e \<Rightarrow> None)
     | ReadError c e \<Rightarrow> None | DoError e \<Rightarrow> None)"

definition block_about :: "string \<Rightarrow> http_request \<Rightarrow> string \<Rightarrow> bool" where
  "block_about base r i \<longleftrightarrow> hr_Method r \<noteq> POST \<and> hr_URL r = base @ ''/ips/v1/ip-blocks/'' @ i"

lemma cluster_block_cc: "cluster_block (cc_BMCCluster cc) = cc_GetIPAllocationID cc"
  by (simp add: cluster_block_def cc_GetIPAllocationID_def)

lemma allocation_stored:
  assumes "om_Annotations (cc_meta cc) \<noteq> None"
  shows "cc_GetIPAllocationID (outcome_state (cluster_allocated ips cc)) = cstat_ID ips"
proof (cases "ParseIP (TrimSuffix (cstat_CIDR ips) ''/31'')")
  case None
  with assms obtain cc1 where "cluster_allocated ips cc = Panics (IndexOutOfRange 15 0) cc1"
    and 1: "cc_SetIPAllocationID (cstat_ID ips) (allocation_noted ips cc) = Some cc1"
    using cluster_allocated_bad_address [of cc ips] by auto
  then show ?thesis using ip_allocation.get_put [OF 1] by simp
next
  case addr: (Some a)
  obtain cc1 cc2 where 1: "cc_SetIPAllocationID (cstat_ID ips) (allocation_noted ips cc) = Some cc1"
    and 2: "cc_SetIP (IP_String (next_address a)) cc1 = Some cc2"
    and r: "cluster_allocated ips cc = Returns (noRequeue, None)
      (cc_SetReady (cc_SetControlPlaneEndpoint (IP_String (next_address a)) 6443 cc2))"
    using cluster_allocated_ok [OF assms addr] by auto
  show ?thesis
    using ip_allocation.get_put [OF 1] cc_SetIP_simps(5) [OF 2] by (simp add: r cc_SetReady_def cc_GetIPAllocationID_def)
qed

lemma allocated_block:
  "cc_GetIPAllocationID (outcome_state (cluster_allocated ips cc)) \<in> {cc_GetIPAllocationID cc, cstat_ID ips}"
proof (cases "om_Annotations (cc_meta cc)")
  case None
  then show ?thesis
    by (simp add: cluster_allocated_no_map allocation_noted_def cc_GetIPAllocationID_def cc_SetStatus_def cc_Eventf_def)
qed (simp add: allocation_stored)

lemma cluster_create_block:
  assumes "cc_GetIPAllocationID (outcome_state (cluster_reconcileCreate E cc)) \<noteq> cc_GetIPAllocationID cc"
    and "BMCEndpointURL E = base"
  shows "URLError E (hr_URL (allocate_http E cc)) = None
    \<and> block_issued base E (allocate_http E cc) = Some (cc_GetIPAllocationID (outcome_state (cluster_reconcileCreate E cc)))"
proof -
  let ?q = "allocate_http E cc"
  have l: "cc_GetIPAllocationID (clog_effects es cc) = cc_GetIPAllocationID cc"
    "cc_GetIPAllocationID (cc_Event t r x (clog_effects es cc)) = cc_GetIPAllocationID cc" for es t r x
    by (simp_all add: cc_GetIPAllocationID_def cc_Event_def)
  have u: "URLError E (hr_URL ?q) = None"
    using assms(1) l by (auto simp: cluster_reconcileCreate_def http_send_def Let_def split: option.splits)
  obtain c body where c: "BMC E ?q = Response c body"
    using assms(1) u l by (cases "BMC E ?q") (auto simp: cluster_reconcileCreate_def http_send_def Let_def)
  let ?d = "clog_effects [Http ?q] cc"
  have r: "cluster_reconcileCreate E cc = cluster_create_response E c body ?d"
    using u c by (simp add: cluster_reconcileCreate_def http_send_def Let_def)
  have "http_ok c"
    using assms(1) l(1) by (intro ccontr [of "http_ok c"]) (simp add: r cluster_create_response_refused cc_GetIPAllocationID_def)
  then have a: "cluster_create_response E c body ?d = cluster_create_accepted E body ?d"
    by (auto simp: cluster_create_response_def http_ok_def)
  obtain ips where i: "unmarshal_cluster_status body = Inr ips"
    using assms(1) l by (cases "unmarshal_cluster_status body") (auto simp: r a cluster_create_accepted_def)
  then have "cc_GetIPAllocationID (outcome_state (cluster_reconcileCreate E cc)) = cstat_ID ips"
    using assms(1) allocated_block [of ips ?d] l(1) by (simp add: r a cluster_create_accepted_def)
  then show ?thesis
    using u c i \<open>http_ok c\<close> block_create_http [OF assms(2)] by (simp add: block_issued_def)
qed

text \<open>The dispatch keeps what the finalizer step and the other branches do not touch.\<close>

definition cluster_kept :: "ClusterContext \<Rightarrow> string \<times> string \<times> string" where
  "cluster_kept cc = (om_Namespace (cc_meta cc), om_Name (cc_meta cc), cc_GetIPAllocationID cc)"

lemma cluster_delete_kept: "cluster_kept (outcome_state (cluster_reconcileDelete E cc)) = cluster_kept cc"
  by (simp add: cluster_kept_def cluster_reconcileDelete_def cluster_deleted_def cc_GetIPAllocationID_def annotation_def
      cc_RemoveFini_def cc_Eventf_def cc_Event_def Let_def split: prod.split http_outcome.split)

lemma cluster_create_fixed: "fixed_meta (cc_meta (outcome_state (cluster_reconcileCreate E cc))) = fixed_meta (cc_meta cc)"
proof -
  have "fixed_meta (cc_meta (outcome_state (cluster_allocated ips d))) = fixed_meta (cc_meta d)" for ips d
    by (auto simp: fixed_meta_def cluster_allocated_def cc_SetIPAllocationID_def cc_SetIP_def annotate_Some_iff cc_SetStatus_def
        cc_Eventf_def cc_SetReady_def cc_SetControlPlaneEndpoint_def Let_def split: option.split)
  then have "fixed_meta (cc_meta (outcome_state (cluster_create_response E c body d))) = fixed_meta (cc_meta d)" for c body d
    by (simp add: cluster_create_response_def cluster_create_accepted_def cluster_frame cc_Event_def cc_Eventf_def split: sum.split)
  then show ?thesis
    by (simp add: cluster_reconcileCreate_def Let_def cc_Event_def split: prod.split http_outcome.split)
qed

lemma cluster_dispatch_fixed: "fixed_meta (cc_meta (outcome_state (cluster_dispatch E cc))) = fixed_meta (cc_meta cc)"
proof -
  have a: "fixed_meta (cc_meta (cc_AddFini E cc)) = fixed_meta (cc_meta cc)" by (simp add: fixed_meta_def cc_AddFini_def)
  have d: "fixed_meta (cc_meta (outcome_state (cluster_reconcileDelete E cc))) = fixed_meta (cc_meta cc)"
    by (simp add: fixed_meta_def cluster_reconcileDelete_def cluster_deleted_def cc_RemoveFini_def cc_Eventf_def cc_Event_def
        Let_def split: prod.split http_outcome.split)
  show ?thesis
    using a d cluster_create_fixed [of E cc] cluster_create_fixed [of E "cc_AddFini E cc"]
      cluster_sync_frame(1) [of E cc] cluster_sync_frame(1) [of E "cc_AddFini E cc"]
    by (auto simp: cluster_dispatch_def cluster_reconcileLive_def Let_def split: prod.split)
qed

lemma cluster_dispatch_key:
  "om_Namespace (cc_meta (outcome_state (cluster_dispatch E cc))) = om_Namespace (cc_meta cc)
   \<and> om_Name (cc_meta (outcome_state (cluster_dispatch E cc))) = om_Name (cc_meta cc)"
  using cluster_dispatch_fixed [of E cc] by (simp add: fixed_meta_def)

lemma cluster_dispatch_block:
  assumes "BMCEndpointURL E = base"
  shows "cc_GetIPAllocationID (outcome_state (cluster_dispatch E cc)) = cc_GetIPAllocationID cc
    \<or> (\<exists>r \<in> set (requests (request_log E (cluster_request E cc))).
        block_issued base E r = Some (cc_GetIPAllocationID (outcome_state (cluster_dispatch E cc))))"
proof (cases "cluster_IsMarkedDeleted (Some (cc_BMCCluster cc))")
  case True
  then show ?thesis
    using cluster_delete_kept [of E cc] by (simp add: cluster_dispatch_def cluster_kept_def)
next
  case live: False
  define d where "d = (if cc_HasFini E cc then cc else cc_AddFini E cc)"
  have d: "cc_GetIPAllocationID d = cc_GetIPAllocationID cc" "cc_GetIP d = cc_GetIP cc" "allocate_http E d = allocate_http E cc"
    by (simp_all add: d_def)
  have r: "cluster_dispatch E cc = (if cc_GetIP cc = [] then cluster_reconcileCreate E d
      else case cluster_reconcileSynchronize E d of (v, cc1) \<Rightarrow> Returns v cc1)"
    using live d(2) by (simp add: cluster_dispatch_def cluster_reconcileLive_def Let_def flip: d_def)
  show ?thesis
  proof (cases "cc_GetIP cc = []")
    case True
    show ?thesis
      using cluster_create_block [of E d base] assms live True
      by (auto simp: r d cluster_request_def request_log_def http_send_def)
  next
    case False
    then show ?thesis
      using cluster_sync_frame(1) [of E d] d(1)
      by (cases "cluster_reconcileSynchronize E d") (simp add: r cc_GetIPAllocationID_def)
  qed
qed

lemma block_issued_find [simp]: "block_issued base (E\<lparr>GetBMCCluster := g\<rparr>) = block_issued base E"
  by (simp add: block_issued_def fun_eq_iff)

lemma cluster_run_held:
  assumes "BMCEndpointURL E = base" and "cluster_run E x = (y, rs)"
  shows "cluster_block y = cluster_block x \<or> (\<exists>r \<in> set rs. block_issued base E r = Some (cluster_block y))"
proof (cases rule: cluster_run_cases [of E x])
  case idle
  with assms show ?thesis by simp
next
  case (run cl E')
  then show ?thesis
    using cluster_dispatch_block [of E' base "cluster_context x cl"] assms
    by (auto simp: cluster_block_cc [symmetric])
qed

lemma cluster_run_key: "cluster_run E x = (y, rs) \<Longrightarrow> cluster_key y = cluster_key x"
  by (cases rule: cluster_run_cases [of E x])
     (use cluster_dispatch_key [of _ "cluster_context x _"] in \<open>auto simp: cluster_key_def\<close>)

lemma log_requests: "r \<in> set (requests (request_log E q)) \<Longrightarrow> q = Some r"
  by (auto simp: request_log_def http_send_def split: option.splits)

lemma cluster_run_about:
  assumes "BMCEndpointURL E = base" and "cluster_run E x = (y, rs)" and "r \<in> set rs" and "block_about base r i"
  shows "i = cluster_block x"
proof (cases rule: cluster_run_cases [of E x])
  case idle
  with assms show ?thesis by simp
next
  case (run cl E')
  then have "cluster_request E' (cluster_context x cl) = Some r"
    using log_requests assms(2,3) by auto
  then show ?thesis
    using assms(1,4) run(1)
    by (auto simp: cluster_request_def block_about_def allocate_http_def ip_block_url_def http_Get_def http_Post_def
        http_Delete_def fmt_extras_def cluster_block_cc [symmetric] split: if_splits)
qed

lemma cluster_edit_block: "cluster_edit x y \<Longrightarrow> cluster_block y = cluster_block x"
  by (simp add: cluster_edit_def cluster_block_def annotation_def)

interpretation block_keeper: keeper cluster_run "\<lambda>E. BMCEndpointURL E = base" "block_issued base" cluster_owner_edit
    cluster_newborn cluster_block cluster_key "block_about base"
  for base
  by unfold_locales
     (simp_all add: cluster_run_held cluster_run_key cluster_run_about cluster_owner_edit_def cluster_edit_block cluster_newborn_def)

section \<open>The system\<close>

text \<open>
  Both fleets, and every version a cluster ever had: the cached client of the machine reconciler may
  return any of them.
\<close>

record system =
  sys_machines :: "BMCMachine fleet"
  sys_clusters :: "BMCCluster fleet"
  sys_seen :: "(nsname \<times> BMCCluster) set"

definition sees :: "(nsname \<times> BMCCluster) set \<Rightarrow> env \<Rightarrow> bool" where
  "sees V E \<longleftrightarrow> (\<forall>k bc. GetBMCCluster E k = Inr bc \<longrightarrow> (k, bc) \<in> V)"

definition versions :: "BMCCluster fleet \<Rightarrow> (nsname \<times> BMCCluster) set" where
  "versions f = {(k, bc). fl_objs f k = Some bc}"

inductive system_step :: "string \<Rightarrow> system \<Rightarrow> system \<Rightarrow> bool" for base where
  machine_moves: "fleet_step machine_run (\<lambda>E. BMCEndpointURL E = base \<and> sees (sys_seen s) E) (server_issued base)
      machine_owner_edit machine_newborn machine_gone (sys_machines s) f
    \<Longrightarrow> system_step base s (s\<lparr>sys_machines := f\<rparr>)"
| cluster_moves: "fleet_step cluster_run (\<lambda>E. BMCEndpointURL E = base) (block_issued base)
      cluster_owner_edit cluster_newborn cluster_gone (sys_clusters s) f
    \<Longrightarrow> system_step base s (s\<lparr>sys_clusters := f, sys_seen := sys_seen s \<union> versions f\<rparr>)"

inductive system_run :: "string \<Rightarrow> system \<Rightarrow> bool" for base where
  empty: "system_run base \<lparr>sys_machines = no_fleet, sys_clusters = no_fleet, sys_seen = {}\<rparr>"
| step: "system_run base s \<Longrightarrow> system_step base s s' \<Longrightarrow> system_run base s'"

text \<open>What a create request says about blocks.\<close>

definition asks_for_block :: "http_request \<Rightarrow> string \<Rightarrow> bool" where
  "asks_for_block r a \<longleftrightarrow> (\<exists>q. hr_Body r = json_text (json_CreateServerRequest q)
     \<and> csr_NetworkConfiguration q = user_defined_network a)"

definition asks_for_no_block :: "http_request \<Rightarrow> bool" where
  "asks_for_no_block r \<longleftrightarrow> (\<exists>q. hr_Body r = json_text (json_CreateServerRequest q) \<and> csr_NetworkConfiguration q = no_network)"

text \<open>A run that creates a server plans the network from the cluster it reads.\<close>

lemma planned_block:
  assumes "planned_request E mc b = Some q"
  shows "csr_NetworkConfiguration q = no_network
    \<or> (\<exists>bc. mc_BMCCluster mc = Some bc \<and> cluster_block bc \<noteq> [] \<and> csr_NetworkConfiguration q = user_defined_network (cluster_block bc))"
  using assms
  by (auto simp: planned_request_def create_request_def cluster_block_def Let_def split: if_splits option.splits)

lemma live_context_sees:
  assumes "live_context E mc = Some mc1" and "mc_BMCCluster mc1 = Some bc"
  shows "\<exists>n. GetBMCCluster E \<lparr>nn_Namespace = om_Namespace (mc_meta mc), nn_Name = n\<rparr> = Inr bc"
  using assms by (auto simp: live_context_def split: if_splits sum.splits option.splits)

lemma create_asks:
  assumes "machine_request E mc = Some r" and "server_create (BMCEndpointURL E) r" and "sees V E"
  shows "asks_for_no_block r \<or> (\<exists>bc n. (\<lparr>nn_Namespace = om_Namespace (mc_meta mc), nn_Name = n\<rparr>, bc) \<in> V
    \<and> cluster_block bc \<noteq> [] \<and> asks_for_block r (cluster_block bc))"
proof -
  have "\<not> machine_IsMarkedDeleted (Some (mc_BMCMachine mc))"
    using assms(1,2) by (auto simp: machine_request_def delete_request_def not_server_create split: if_splits)
  then obtain mc1 where l: "live_context E mc = Some mc1" "live_request E mc1 = Some r"
    using assms(1) by (auto simp: machine_request_def bind_eq_Some_conv)
  then obtain b q where q: "planned_request E mc1 b = Some q" "r = create_http E q"
    using assms(2) by (auto simp: live_request_def create_plan_def not_server_create split: if_splits option.splits sum.splits)
  have body: "hr_Body r = json_text (json_CreateServerRequest q)"
    by (simp add: q(2) create_http_def http_Post_def)
  from planned_block [OF q(1)] show ?thesis
  proof (elim disjE exE conjE)
    assume "csr_NetworkConfiguration q = no_network"
    with body show ?thesis by (auto simp: asks_for_no_block_def)
  next
    fix bc assume bc: "mc_BMCCluster mc1 = Some bc" "cluster_block bc \<noteq> []"
      "csr_NetworkConfiguration q = user_defined_network (cluster_block bc)"
    obtain n where "GetBMCCluster E \<lparr>nn_Namespace = om_Namespace (mc_meta mc), nn_Name = n\<rparr> = Inr bc"
      using live_context_sees [OF l(1) bc(1)] by blast
    with assms(3) have "(\<lparr>nn_Namespace = om_Namespace (mc_meta mc), nn_Name = n\<rparr>, bc) \<in> V"
      by (auto simp: sees_def)
    with bc body show ?thesis unfolding asks_for_block_def by blast
  qed
qed

lemma machine_run_asks:
  assumes "machine_run E x = (y, rs)" and "r \<in> set rs" and "server_create (BMCEndpointURL E) r" and "sees V E"
  shows "asks_for_no_block r \<or> (\<exists>bc n. (\<lparr>nn_Namespace = om_Namespace (bm_Meta x), nn_Name = n\<rparr>, bc) \<in> V
    \<and> cluster_block bc \<noteq> [] \<and> asks_for_block r (cluster_block bc))"
proof (cases rule: machine_run_cases [of E x])
  case idle
  with assms(1,2) show ?thesis by simp
next
  case (run m E')
  then have "machine_request E' (machine_context x m) = Some r"
    using sent_requests assms(1,2) by auto
  moreover have "sees V E'" "BMCEndpointURL E' = BMCEndpointURL E"
    using assms(4) run(1) by (simp_all add: sees_def)
  ultimately show ?thesis
    using create_asks [of E' "machine_context x m" r V] assms(3) by simp
qed

section \<open>The invariant of the system\<close>

definition block_of_namespace :: "system \<Rightarrow> string \<Rightarrow> string \<Rightarrow> bool" where
  "block_of_namespace s ns a \<longleftrightarrow> (\<exists>c. fl_owner (sys_clusters s) a = Some c \<and> nn_Namespace c = ns)"

definition system_ok :: "string \<Rightarrow> system \<Rightarrow> bool" where
  "system_ok base s \<longleftrightarrow> server_keeper.kept base (sys_machines s) \<and> block_keeper.kept base (sys_clusters s)
     \<and> (\<forall>(k, bc) \<in> sys_seen s. cluster_block bc \<noteq> [] \<longrightarrow> fl_owner (sys_clusters s) (cluster_block bc) = Some k)
     \<and> (\<forall>(k, r) \<in> set (fl_log (sys_machines s)). server_create base r \<longrightarrow> asks_for_no_block r
          \<or> (\<exists>a. a \<noteq> [] \<and> asks_for_block r a \<and> block_of_namespace s (nn_Namespace k) a))"

lemma machine_log_step:
  assumes "fleet_step machine_run (\<lambda>E. BMCEndpointURL E = base \<and> sees V E) (server_issued base)
      machine_owner_edit machine_newborn machine_gone f f'"
    and "server_keeper.kept base f" and "(k, r) \<in> set (fl_log f')" and "server_create base r"
  shows "(k, r) \<in> set (fl_log f) \<or> asks_for_no_block r \<or> (\<exists>bc n. (\<lparr>nn_Namespace = nn_Namespace k, nn_Name = n\<rparr>, bc) \<in> V
    \<and> cluster_block bc \<noteq> [] \<and> asks_for_block r (cluster_block bc))"
  using assms(1)
proof (cases rule: fleet_step.cases)
  case (reconciled l x E y rs z)
  have "machine_key x = l" using server_keeper.keptD(1) [OF assms(2) reconciled(2)] by simp
  then have "om_Namespace (bm_Meta x) = nn_Namespace l" by (auto simp: machine_key_def)
  then show ?thesis
    using machine_run_asks [OF reconciled(4), of r V] reconciled(1,3) assms(3,4) by auto
qed (use assms(3) in auto)

lemma system_step_ok:
  assumes "system_step base s s'" and "system_ok base s"
  shows "system_ok base s'"
  using assms(1)
proof (cases rule: system_step.cases)
  case (machine_moves f)
  have "server_keeper.kept base f"
    by (rule server_keeper.step_kept [OF fleet_step_weaken [OF machine_moves(2)]]) (use assms(2) in \<open>simp_all add: system_ok_def\<close>)
  moreover have "asks_for_no_block r \<or> (\<exists>a. a \<noteq> [] \<and> asks_for_block r a \<and> block_of_namespace s (nn_Namespace k) a)"
    if "(k, r) \<in> set (fl_log f)" "server_create base r" for k r
    using machine_log_step [OF machine_moves(2) _ that] assms(2) that(2)
    by (fastforce simp: system_ok_def block_of_namespace_def)
  ultimately show ?thesis
    using assms(2) by (auto simp: system_ok_def machine_moves(1) block_of_namespace_def)
next
  case (cluster_moves f)
  have k: "block_keeper.kept base f"
    by (rule block_keeper.step_kept [OF cluster_moves(2)]) (use assms(2) in \<open>simp add: system_ok_def\<close>)
  have o: "fl_owner (sys_clusters s) i = Some j \<Longrightarrow> fl_owner f i = Some j" for i j
    by (rule fleet_step_owner [OF cluster_moves(2)])
  have "fl_owner f (cluster_block bc) = Some l" if "(l, bc) \<in> versions f" "cluster_block bc \<noteq> []" for l bc
    using block_keeper.keptD(1) [OF k, of l bc] that by (simp add: versions_def)
  with k o assms(2) show ?thesis
    unfolding system_ok_def cluster_moves(1) block_of_namespace_def by fastforce
qed

lemma system_run_ok: "system_run base s \<Longrightarrow> system_ok base s"
proof (induction rule: system_run.induct)
  case empty
  then show ?case
    using server_keeper.no_fleet_kept block_keeper.no_fleet_kept by (simp add: system_ok_def) (simp add: no_fleet_def)
qed (rule system_step_ok)

section \<open>The properties of the system\<close>

text \<open>
  C3. Servers are kept apart: however the reconciliations of all machines and clusters interleave, with
  lost patches, stale reads of clusters, births, edits that leave annotations alone and removals, and
  provided that the service never gives out a server id twice, no two machines hold the same server,
  every poll and every deprovision request is about a server that was created for the machine that
  sends it, and only that machine can hold this server.
\<close>

theorem servers_kept_apart:
  assumes "system_run base s" and "f = sys_machines s"
  shows "(\<forall>k x k' x'. fl_objs f k = Some x \<and> fl_objs f k' = Some x' \<and> k \<noteq> k' \<and> machine_ident x \<noteq> []
        \<longrightarrow> machine_ident x \<noteq> machine_ident x')
    \<and> (\<forall>k r i. (k, r) \<in> set (fl_log f) \<and> server_about base r i \<and> i \<noteq> [] \<longrightarrow> fl_owner f i = Some k
        \<and> (\<forall>k' x. fl_objs f k' = Some x \<and> machine_ident x = i \<longrightarrow> k' = k))"
proof -
  have k: "server_keeper.kept base f"
    using system_run_ok [OF assms(1)] assms(2) by (simp add: system_ok_def)
  have "k' = k" if "fl_owner f i = Some k" "fl_objs f k' = Some x" "machine_ident x = i" "i \<noteq> []" for k k' x i
    using server_keeper.keptD(1) [OF k that(2)] that by simp
  then show ?thesis
    using server_keeper.kept_distinct [OF k] server_keeper.keptD(2) [OF k] by blast
qed

text \<open>
  C15. Blocks are kept apart: in the same system, if the service never gives out a block id twice, no two
  clusters hold the same block, every poll and every deletion of a block comes from the cluster it was
  allocated for, and a create request for a server names either no block or one that was allocated for a
  cluster in the namespace of the machine.
\<close>

theorem blocks_kept_apart:
  assumes "system_run base s" and "f = sys_clusters s"
  shows "(\<forall>k x k' x'. fl_objs f k = Some x \<and> fl_objs f k' = Some x' \<and> k \<noteq> k' \<and> cluster_block x \<noteq> []
        \<longrightarrow> cluster_block x \<noteq> cluster_block x')
    \<and> (\<forall>k r i. (k, r) \<in> set (fl_log f) \<and> block_about base r i \<and> i \<noteq> [] \<longrightarrow> fl_owner f i = Some k)
    \<and> (\<forall>k r. (k, r) \<in> set (fl_log (sys_machines s)) \<and> server_create base r \<longrightarrow> asks_for_no_block r
        \<or> (\<exists>a c. a \<noteq> [] \<and> asks_for_block r a \<and> fl_owner f a = Some c \<and> nn_Namespace c = nn_Namespace k))"
proof -
  have ok: "system_ok base s" by (rule system_run_ok [OF assms(1)])
  then have k: "block_keeper.kept base f"
    using assms(2) by (simp add: system_ok_def)
  have "asks_for_no_block r \<or> (\<exists>a c. a \<noteq> [] \<and> asks_for_block r a \<and> fl_owner f a = Some c \<and> nn_Namespace c = nn_Namespace k)"
    if "(k, r) \<in> set (fl_log (sys_machines s))" "server_create base r" for k r
    using ok that assms(2) by (auto simp: system_ok_def block_of_namespace_def)
  then show ?thesis
    using block_keeper.kept_distinct [OF k] block_keeper.keptD(2) [OF k] by blast
qed

section \<open>A system with two machines and a cluster\<close>

definition cluster_name :: nsname where
  "cluster_name = \<lparr>nn_Namespace = ''ns'', nn_Name = ''c''\<rparr>"

definition machine_name :: nsname where
  "machine_name = \<lparr>nn_Namespace = ''ns'', nn_Name = ''m''\<rparr>"

definition other_machine :: BMCMachine where
  "other_machine = example_machine\<lparr>bm_Meta := example_meta\<lparr>om_Name := ''m2''\<rparr>\<rparr>"

definition system_env :: env where
  "system_env = creating_env\<lparr>GetBMCCluster := \<lambda>k. if k = cluster_name then Inr example_bmccluster else Inl (LibErr ''not found'')\<rparr>"

text \<open>Births and reconciliations at the end of a run.\<close>

lemma system_machine_born:
  assumes "system_run base s" and "fl_objs (sys_machines s) k = None" and "machine_newborn k x"
  shows "system_run base (s\<lparr>sys_machines := (sys_machines s)\<lparr>fl_objs := (fl_objs (sys_machines s))(k \<mapsto> x)\<rparr>\<rparr>)"
  by (rule system_run.step [OF assms(1) system_step.machine_moves], rule fleet_step.born) (use assms in simp_all)

lemma system_machine_reconciled:
  assumes "system_run base s" and "fl_objs (sys_machines s) k = Some x" and "BMCEndpointURL E = base" and "sees (sys_seen s) E"
    and "machine_run E x = (y, rs)" and "fresh_ids (server_issued base) E rs (fl_owner (sys_machines s))"
  shows "system_run base (s\<lparr>sys_machines := \<lparr>fl_objs = (fl_objs (sys_machines s))(k \<mapsto> y),
    fl_owner = record_owner (server_issued base) E k rs (fl_owner (sys_machines s)),
    fl_log = fl_log (sys_machines s) @ map (Pair k) rs\<rparr>\<rparr>)"
  by (rule system_run.step [OF assms(1) system_step.machine_moves],
      rule fleet_step.reconciled [where k = k and x = x and E = E and y = y and z = y and rs = rs]) (simp_all add: assms)

lemma system_cluster_born:
  assumes "system_run base s" and "fl_objs (sys_clusters s) k = None" and "cluster_newborn k x"
    and "f = (sys_clusters s)\<lparr>fl_objs := (fl_objs (sys_clusters s))(k \<mapsto> x)\<rparr>"
  shows "system_run base (s\<lparr>sys_clusters := f, sys_seen := sys_seen s \<union> versions f\<rparr>)"
  by (rule system_run.step [OF assms(1) system_step.cluster_moves], unfold assms(4), rule fleet_step.born) (use assms in simp_all)

lemma system_cluster_reconciled:
  assumes "system_run base s" and "fl_objs (sys_clusters s) k = Some x" and "BMCEndpointURL E = base"
    and "cluster_run E x = (y, rs)" and "fresh_ids (block_issued base) E rs (fl_owner (sys_clusters s))"
    and "f = \<lparr>fl_objs = (fl_objs (sys_clusters s))(k \<mapsto> y),
      fl_owner = record_owner (block_issued base) E k rs (fl_owner (sys_clusters s)),
      fl_log = fl_log (sys_clusters s) @ map (Pair k) rs\<rparr>"
  shows "system_run base (s\<lparr>sys_clusters := f, sys_seen := sys_seen s \<union> versions f\<rparr>)"
  by (rule system_run.step [OF assms(1) system_step.cluster_moves], unfold assms(6),
      rule fleet_step.reconciled [where k = k and x = x and E = E and y = y and z = y and rs = rs]) (simp_all add: assms)

text \<open>A cluster and two machines are born.\<close>

lemma example_system_born:
  "\<exists>s. system_run ''https://api'' s \<and> fl_objs (sys_machines s) = [machine_name \<mapsto> example_machine,
     machine_name\<lparr>nn_Name := ''m2''\<rparr> \<mapsto> other_machine]
   \<and> fl_objs (sys_clusters s) = [cluster_name \<mapsto> example_bmccluster] \<and> fl_owner (sys_machines s) = Map.empty
   \<and> fl_owner (sys_clusters s) = Map.empty \<and> (cluster_name, example_bmccluster) \<in> sys_seen s"
proof -
  have c: "cluster_newborn cluster_name example_bmccluster"
    by (simp add: cluster_newborn_def cluster_key_def cluster_name_def cluster_block_def example_bmccluster_def
        example_meta_def annotation_def)
  have m: "machine_newborn machine_name example_machine"
    "machine_newborn (machine_name\<lparr>nn_Name := ''m2''\<rparr>) other_machine"
    by (simp_all add: machine_newborn_def machine_key_def machine_name_def other_machine_def machine_ident_def
        example_machine_def example_meta_def annotation_def)
  have n: "machine_name\<lparr>nn_Name := ''m2''\<rparr> \<noteq> machine_name" by (simp add: machine_name_def)
  note 1 = system_cluster_born [OF system_run.empty _ c refl, of "''https://api''"]
  note 2 = system_machine_born [OF 1 _ m(1)]
  note 3 = system_machine_born [OF 2 _ m(2)]
  show ?thesis
    using 3 n by (intro exI) (auto simp: no_fleet_def versions_def)
qed

text \<open>The first machine has had its server created.\<close>

lemma example_system_created:
  "\<exists>s y. system_run ''https://api'' s \<and> fl_objs (sys_machines s) machine_name = Some y \<and> machine_ident y = ''s1''
   \<and> fl_objs (sys_machines s) (machine_name\<lparr>nn_Name := ''m2''\<rparr>) = Some other_machine"
proof -
  obtain s where s: "system_run ''https://api'' s" "fl_objs (sys_machines s) = [machine_name \<mapsto> example_machine,
     machine_name\<lparr>nn_Name := ''m2''\<rparr> \<mapsto> other_machine]" "fl_owner (sys_machines s) = Map.empty"
    "(cluster_name, example_bmccluster) \<in> sys_seen s"
    using example_system_born by blast
  have n: "machine_name\<lparr>nn_Name := ''m2''\<rparr> \<noteq> machine_name" by (simp add: machine_name_def)
  have e: "serves system_env example_machine example_owner example_cluster example_bmccluster"
    by (simp add: serves_def system_env_def creating_env_def machine_env_def example_env_def example_cluster_def
        example_owner_def cluster_name_def example_machine_def example_meta_def)
  have b: "bootstrapped system_env example_machine example_owner example_bmccluster"
    by (simp add: bootstrapped_def system_env_def creating_env_def machine_env_def example_env_def example_owner_def)
  have live: "om_DeletionTimestamp (bm_Meta example_machine) = None" "machine_storable example_machine" "machine_ident example_machine = []"
    by (simp_all add: example_machine_def example_meta_def machine_ident_def annotation_def machine_storable_def)
  obtain y rs where r: "machine_run system_env example_machine = (y, rs)" by fastforce
  have u: "BMCEndpointURL system_env = ''https://api''" "sees (sys_seen s) system_env"
    "BMC system_env q = Response 201 (server_body ''s1'' ''creating'')" for q
    using s(4) by (simp_all add: system_env_def creating_facts sees_def)
  have "machine_ident y = ''s1''"
    using first_run_creates [OF e b live, of 201 "server_body ''s1'' ''creating''" "server_status ''s1'' ''creating''"] r
    by (simp add: u unmarshal_creating server_status_def http_ok_def)
  moreover note system_machine_reconciled [OF s(1) _ u(1,2) r, of machine_name]
  ultimately show ?thesis
    using s(2,3) n by (intro exI conjI) (auto simp: fresh_ids_def)
qed

theorem servers_kept_apart_witness:
  "\<exists>(s :: system) y. fl_objs (sys_machines s) machine_name = Some y \<and> machine_ident y = ''s1''
   \<and> (\<forall>k x. fl_objs (sys_machines s) k = Some x \<and> k \<noteq> machine_name \<longrightarrow> machine_ident x \<noteq> ''s1'')"
proof -
  obtain s y where s: "system_run ''https://api'' s" "fl_objs (sys_machines s) machine_name = Some y" "machine_ident y = ''s1''"
    using example_system_created by blast
  have "machine_ident x \<noteq> ''s1''" if "fl_objs (sys_machines s) k = Some x \<and> k \<noteq> machine_name" for k x
    using servers_kept_apart [OF s(1) refl, THEN conjunct1, rule_format, of machine_name y k x] s(2,3) that by auto
  with s(2,3) show ?thesis by (intro exI [of _ s] exI [of _ y]) simp
qed

theorem blocks_kept_apart_witness:
  "\<exists>(s :: system) y. fl_objs (sys_clusters s) cluster_name = Some y \<and> cluster_block y = ''b1''
   \<and> (\<forall>k x. fl_objs (sys_clusters s) k = Some x \<and> k \<noteq> cluster_name \<longrightarrow> cluster_block x \<noteq> ''b1'')"
proof -
  let ?n = "''10.1.2.4/31''" and ?ips = "block_status ''b1'' ''10.1.2.4/31'' ''unassigned''"
  obtain s where s: "system_run ''https://api'' s" "fl_objs (sys_clusters s) = [cluster_name \<mapsto> example_bmccluster]"
    "fl_owner (sys_clusters s) = Map.empty"
    using example_system_born by blast
  have b: "om_DeletionTimestamp (bc_Meta example_bmccluster) = None" "cluster_ident example_bmccluster = []"
    "om_Annotations (bc_Meta example_bmccluster) \<noteq> None"
    by (simp_all add: example_bmccluster_def example_meta_def cluster_ident_def annotation_def)
  obtain q es where r: "cluster_run (block_env ?n) example_bmccluster = (cc_BMCCluster (outcome_state
      (cluster_allocated ?ips (clog_effects es (block_context example_bmccluster)))), [allocate_http (block_env ?n) q])"
    using block_run [OF b(1,2), of ?n] by (auto simp: utf8_ok_ascii)
  let ?y = "cc_BMCCluster (outcome_state (cluster_allocated ?ips (clog_effects es (block_context example_bmccluster))))"
  have "cluster_block ?y = ''b1''"
    using allocation_stored [of "clog_effects es (block_context example_bmccluster)" ?ips] b(3)
    by (simp add: block_context_simps cluster_block_cc block_status_def)
  moreover obtain t where t: "system_run ''https://api'' t" "fl_objs (sys_clusters t) cluster_name = Some ?y"
    using system_cluster_reconciled [OF s(1) _ block_env_facts(2) r _ refl, of cluster_name] s(2,3)
    by (auto simp: fresh_ids_def)
  ultimately have "cluster_block x \<noteq> ''b1''" if "fl_objs (sys_clusters t) k = Some x \<and> k \<noteq> cluster_name" for k x
    using blocks_kept_apart [OF t(1) refl, THEN conjunct1, rule_format, of cluster_name ?y k x] that by auto
  with t(2) \<open>cluster_block ?y = ''b1''\<close> show ?thesis by (intro exI [of _ t] exI [of _ ?y]) simp
qed

end
