(* ===== verification/ClusterRuntime.thy ===== *)
theory ClusterRuntime
  imports Runtime FleetSystem
begin

text \<open>
  A BMCCluster in the running manager: the cluster reconciler, its work queue and the watches of
  BMCClusters and Clusters.  The invariant is the one of the machines, with the exception that the code
  has: a cluster whose allocation was refused for the time being is not tried again.
\<close>

section \<open>The cluster and its owner\<close>

text \<open>The third field remembers that the last allocation was answered with a temporary failure.\<close>

record cluster_surroundings =
  cs_object :: BMCCluster
  cs_owner :: "Cluster option"
  cs_refused :: bool
  cs_queued :: bool

definition cs_key :: "cluster_surroundings \<Rightarrow> nsname" where
  "cs_key s = watched_key (WatchedCluster (cs_object s))"

definition cluster_finds :: "manager \<Rightarrow> env \<Rightarrow> cluster_surroundings \<Rightarrow> bool" where
  "cluster_finds M E s \<longleftrightarrow> finalizer_laws E
     \<and> ((\<exists>e. GetOwnerCluster E (bc_Meta (cs_object s)) = Inl e) \<or> GetOwnerCluster E (bc_Meta (cs_object s)) = Inr (cs_owner s))
     \<and> (\<forall>cl. cs_owner s = Some cl \<longrightarrow>
          (IsPaused E cl (cs_object s) \<longleftrightarrow> cl_Paused cl \<or> \<not> ResourceNotPaused M (WatchedCluster (cs_object s))))"

text \<open>
  The predicate of this controller's watch of Clusters on an update, as Cluster API documents it: the
  cluster has been resumed.
\<close>

definition resumed :: "Cluster option \<Rightarrow> watched \<Rightarrow> bool" where
  "resumed old ob \<longleftrightarrow> (case ob of
     WatchedOwnerCluster cl \<Rightarrow> (\<exists>o'. old = Some o' \<and> cl_Paused o') \<and> \<not> cl_Paused cl
   | _ \<Rightarrow> False)"

definition cluster_delivered :: "(controller \<Rightarrow> watched \<Rightarrow> nsname set) \<Rightarrow> manager \<Rightarrow> Cluster option \<Rightarrow> nsname \<Rightarrow> watched \<Rightarrow> bool" where
  "cluster_delivered deliver M old key ob \<longleftrightarrow>
     (\<exists>c. cluster_SetupWithManager (M\<lparr>ClusterUnpaused := resumed old\<rparr>) = Inr c \<and> key \<in> deliver c ob)"

text \<open>The manager was built, and Cluster API's mapper knows the infrastructure object of the owner.\<close>

definition cluster_mapped :: "manager \<Rightarrow> cluster_surroundings \<Rightarrow> bool" where
  "cluster_mapped M s \<longleftrightarrow> (\<forall>old. \<exists>c. cluster_SetupWithManager (M\<lparr>ClusterUnpaused := resumed old\<rparr>) = Inr c)
     \<and> (\<forall>cl. cs_owner s = Some cl \<longrightarrow> cs_key s \<in> set (ClusterToInfrastructureMapFunc M (GroupVersion, ''BMCCluster'')
          (v1beta1 ''BMCCluster'') (WatchedOwnerCluster cl)))"

text \<open>A request of the reconciliation that creates something was answered with 500.\<close>

definition refused :: "env \<Rightarrow> effect list \<Rightarrow> bool" where
  "refused E es \<longleftrightarrow> (\<exists>r \<in> set (requests es). hr_Method r = POST \<and> (\<exists>body. BMC E r = Response 500 body))"

inductive cluster_runtime_step :: "(controller \<Rightarrow> watched \<Rightarrow> nsname set) \<Rightarrow> manager \<Rightarrow> bool
    \<Rightarrow> cluster_surroundings \<Rightarrow> cluster_surroundings \<Rightarrow> bool"
  for deliver M annotated where
  reconciled: "cs_queued s \<Longrightarrow> cluster_finds M E s \<Longrightarrow> cluster_mapped M s
    \<Longrightarrow> out = cluster_Reconcile (E\<lparr>GetBMCCluster := \<lambda>_. Inr (cs_object s)\<rparr>) (cs_key s)
    \<Longrightarrow> bc = patched_cluster (cs_object s) (outcome_state out)
    \<Longrightarrow> cluster_runtime_step deliver M annotated s
          (s\<lparr>cs_object := bc, cs_refused := refused E (outcome_state out), cs_queued := asks_again out
            \<or> (bc \<noteq> cs_object s \<and> cluster_delivered deliver M (cs_owner s) (cs_key s) (WatchedCluster bc))\<rparr>)"
| object_edited: "t = s\<lparr>cs_object := bc, cs_owner := o'\<rparr> \<Longrightarrow> cs_key t = cs_key s \<Longrightarrow> cluster_mapped M t
    \<Longrightarrow> cluster_runtime_step deliver M annotated s
          (t\<lparr>cs_queued := cs_queued s \<or> cluster_delivered deliver M (cs_owner s) (cs_key s) (WatchedCluster bc)\<rparr>)"
| owner_changed: "t = s\<lparr>cs_owner := Some cl\<rparr> \<Longrightarrow> cs_owner s \<noteq> None \<Longrightarrow> cluster_mapped M t
    \<Longrightarrow> annotated \<or> ResourceNotPaused M (WatchedOwnerCluster cl)
    \<Longrightarrow> cluster_runtime_step deliver M annotated s
          (t\<lparr>cs_queued := cs_queued s \<or> cluster_delivered deliver M (cs_owner s) (cs_key s) (WatchedOwnerCluster cl)\<rparr>)"
| resynchronised: "cluster_runtime_step deliver M annotated s (s\<lparr>cs_queued := True\<rparr>)"

inductive cluster_runtime :: "(controller \<Rightarrow> watched \<Rightarrow> nsname set) \<Rightarrow> manager \<Rightarrow> bool \<Rightarrow> cluster_surroundings \<Rightarrow> bool"
  for deliver M annotated where
  listed: "cs_queued s \<Longrightarrow> cluster_runtime deliver M annotated s"
| later: "cluster_runtime deliver M annotated s \<Longrightarrow> cluster_runtime_step deliver M annotated s t
    \<Longrightarrow> cluster_runtime deliver M annotated t"

section \<open>What a cluster waits for\<close>

text \<open>
  It has no owner or is paused; or it is being deleted and has been released; or it lives and its status
  says that it failed, or it has no address and its allocation was refused.
\<close>

definition cluster_waits :: "manager \<Rightarrow> cluster_surroundings \<Rightarrow> bool" where
  "cluster_waits M s \<longleftrightarrow> cs_owner s = None \<or> (\<exists>cl. cs_owner s = Some cl \<and> cl_Paused cl)
     \<or> \<not> ResourceNotPaused M (WatchedCluster (cs_object s))
     \<or> (if om_DeletionTimestamp (bc_Meta (cs_object s)) \<noteq> None
         then ClusterFinalizer \<notin> set (om_Finalizers (bc_Meta (cs_object s)))
         else cstat_BMCStatus (bc_Status (cs_object s)) \<in> {StatusIrreconcilable, StatusOrphaned}
           \<or> cs_refused s \<and> annotation (bc_Meta (cs_object s)) ANNOTATION_NAME_BMC_CLUSTER_IP = [])"

lemma cluster_waits_queued [simp]: "cluster_waits M (s\<lparr>cs_queued := q\<rparr>) = cluster_waits M s"
  by (simp add: cluster_waits_def)

section \<open>Reconciliations\<close>

text \<open>A reconciliation that does not ask to be called again has failed, was refused, or has got an address.\<close>

lemma live_cluster_rests:
  assumes "cluster_reconcileLive E cc = Returns rests cc'"
  shows "cc_GetBMCStatus cc' \<in> {StatusIrreconcilable, StatusOrphaned} \<or> cc_GetIP cc = [] \<and> cc_GetIP cc' \<noteq> []
    \<or> cc_GetIP cc = [] \<and> cc_GetIP cc' = [] \<and> (\<exists>body. BMC E (allocate_http E cc) = Response 500 body)"
proof -
  have w: "cc_GetIP (cc_with_finalizer E cc) = cc_GetIP cc" "allocate_http E (cc_with_finalizer E cc) = allocate_http E cc"
    by (simp_all add: cc_with_finalizer_def)
  show ?thesis
  proof (cases "cc_GetIP cc = []")
    case True
    then have "cluster_reconcileCreate E (cc_with_finalizer E cc) = Returns rests cc'"
      using assms by (simp add: cluster_reconcileLive_unfold)
    from cluster_create_rests [OF this] True w show ?thesis
      by (auto simp: cc_GetIP_def)
  next
    case False
    then have "cluster_reconcileSynchronize E (cc_with_finalizer E cc) = (rests, cc')"
      using assms by (auto simp: cluster_reconcileLive_unfold split: prod.splits)
    then show ?thesis using cluster_sync_rests by blast
  qed
qed

lemma allocation_refused:
  assumes "cluster_dispatch E (cluster_context bc cl) = Returns rests cc'" and "om_DeletionTimestamp (bc_Meta bc) = None"
    and "cc_GetIP (cluster_context bc cl) = []" and "BMC E (allocate_http E (cluster_context bc cl)) = Response 500 body"
  shows "refused E (cc_log cc' @ [PatchCluster p])"
proof -
  let ?cc = "cluster_context bc cl"
  have "URLError E (hr_URL (allocate_http E ?cc)) = None"
    using assms(1-3) by (auto simp: cluster_dispatch_def cluster_IsMarkedDeleted_iff cluster_reconcileLive_unfold
        cc_with_finalizer_def cluster_reconcileCreate_def http_send_def Let_def split: if_splits option.splits)
  then have "requests (cc_log cc') = [allocate_http E ?cc]"
    using cluster_requests_dispatch [of ?cc E] assms(1-3)
    by (simp add: cluster_request_def cluster_IsMarkedDeleted_iff request_log_def http_send_def requests_def)
  then show ?thesis
    using assms(4) by (simp add: refused_def requests_def allocate_http_def http_Post_def)
qed

lemma cluster_reconciled:
  assumes "cluster_finds M E s" and "out = cluster_Reconcile (E\<lparr>GetBMCCluster := \<lambda>_. Inr (cs_object s)\<rparr>) (cs_key s)"
    and "\<not> asks_again out" and "bc = patched_cluster (cs_object s) (outcome_state out)"
  shows "cluster_waits M (s\<lparr>cs_object := bc, cs_refused := refused E (outcome_state out), cs_queued := q\<rparr>)
    \<or> bc \<noteq> cs_object s \<and> watched_key (WatchedCluster bc) = cs_key s"
proof -
  let ?E = "E\<lparr>GetBMCCluster := \<lambda>_. Inr (cs_object s)\<rparr>"
  consider "cs_owner s = None" | cl where "cs_owner s = Some cl" "GetOwnerCluster E (bc_Meta (cs_object s)) = Inr (Some cl)"
    using assms(1,3) unfolding assms(2)
    by (cases "cs_owner s") (auto simp: cluster_finds_def cluster_Reconcile_def asks_again_def)
  then show ?thesis
  proof cases
    case 1
    then show ?thesis by (simp add: cluster_waits_def)
  next
    case (2 cl)
    let ?cc = "cluster_context (cs_object s) cl"
    show ?thesis
    proof (cases "IsPaused E cl (cs_object s)")
      case True
      then have "out = Returns rests []" using 2(2) by (simp add: assms(2) cluster_Reconcile_def)
      then have "bc = cs_object s" using assms(4) by (simp add: patched_cluster_def)
      with True 2(1) assms(1) show ?thesis by (auto simp: cluster_finds_def cluster_waits_def)
    next
      case False
      then have run: "out = cluster_finish (cluster_dispatch ?E ?cc)"
        using 2(2) unfolding assms(2) by (intro cluster_Reconcile_run) simp_all
      obtain cc' where d: "cluster_dispatch ?E ?cc = Returns rests cc'"
        using assms(3) by (cases "cluster_dispatch ?E ?cc") (auto simp: run asks_again_def prod_eq_iff)
      have bc: "bc = cc_BMCCluster cc'" and es: "outcome_state out = cc_log cc' @ [PatchCluster bc]"
        using assms(4) d by (simp_all add: run patched_cluster_def)
      have f: "fixed_meta (bc_Meta bc) = fixed_meta (bc_Meta (cs_object s))"
        using cluster_dispatch_fixed [of ?E ?cc] d by (simp add: bc)
      have k: "watched_key (WatchedCluster bc) = cs_key s" using f by (simp add: cs_key_def fixed_meta_def)
      show ?thesis
      proof (cases "om_DeletionTimestamp (bc_Meta (cs_object s)) = None")
        case True
        then have l: "cluster_reconcileLive ?E ?cc = Returns rests cc'"
          using d by (simp add: cluster_dispatch_def cluster_IsMarkedDeleted_iff)
        have t: "om_DeletionTimestamp (bc_Meta bc) = None" using f True by (simp add: fixed_meta_def)
        from live_cluster_rests [OF l] show ?thesis
        proof (elim disjE conjE exE)
          assume "cc_GetBMCStatus cc' \<in> {StatusIrreconcilable, StatusOrphaned}"
          then show ?thesis using t by (simp add: cluster_waits_def bc cc_GetBMCStatus_def)
        next
          assume "cc_GetIP ?cc = []" and "cc_GetIP cc' \<noteq> []"
          then show ?thesis using k by (auto simp: bc cc_GetIP_def)
        next
          fix body
          assume i: "cc_GetIP ?cc = []" "cc_GetIP cc' = []" and b: "BMC ?E (allocate_http ?E ?cc) = Response 500 body"
          have "refused ?E (outcome_state out)" unfolding es by (rule allocation_refused [OF d True i(1) b])
          then show ?thesis using t i(2) by (simp add: cluster_waits_def refused_def bc cc_GetIP_def)
        qed
      next
        case False
        then have "cc_meta cc' = cc_meta (cc_RemoveFini ?E ?cc)"
          using d by (auto simp: cluster_dispatch_def cluster_IsMarkedDeleted_iff cluster_reconcileDelete_def cluster_deleted_def
              cc_Eventf_def cc_Event_def cc_RemoveFini_def Let_def split: prod.splits http_outcome.splits if_splits)
        then have "ClusterFinalizer \<notin> set (om_Finalizers (bc_Meta bc))"
          using assms(1) by (simp add: bc cluster_finds_def finalizer_laws_def cc_RemoveFini_def)
        then show ?thesis using f False by (simp add: cluster_waits_def fixed_meta_def)
      qed
    qed
  qed
qed

section \<open>Events\<close>

lemma cluster_setup_iff:
  "cluster_SetupWithManager M = Inr c \<longleftrightarrow> Build M c = None
     \<and> c = \<lparr>ct_For = v1beta1 ''BMCCluster'', ct_EventFilter = ResourceNotPaused M, ct_Watches = [
         \<lparr>wa_Type = capi ''Cluster'',
          wa_Handler = ClusterToInfrastructureMapFunc M (GroupVersion, ''BMCCluster'') (v1beta1 ''BMCCluster''),
          wa_Predicates = [ClusterUnpaused M]\<rparr>]\<rparr>"
  by (auto simp: cluster_SetupWithManager_def Let_def split: option.splits)

lemma cluster_delivers:
  assumes "delivery_law deliver" and "cluster_mapped M t" and "ResourceNotPaused M ob"
  shows "ob = WatchedCluster bc \<Longrightarrow> key = watched_key ob \<Longrightarrow> cluster_delivered deliver M old key ob"
    and "ob = WatchedOwnerCluster cl \<Longrightarrow> cs_owner t = Some cl \<Longrightarrow> resumed old ob \<Longrightarrow> cluster_delivered deliver M old (cs_key t) ob"
proof -
  obtain c where c: "cluster_SetupWithManager (M\<lparr>ClusterUnpaused := resumed old\<rparr>) = Inr c"
    using assms(2) unfolding cluster_mapped_def by blast
  then have e: "c = \<lparr>ct_For = v1beta1 ''BMCCluster'', ct_EventFilter = ResourceNotPaused M, ct_Watches = [
         \<lparr>wa_Type = capi ''Cluster'',
          wa_Handler = ClusterToInfrastructureMapFunc M (GroupVersion, ''BMCCluster'') (v1beta1 ''BMCCluster''),
          wa_Predicates = [resumed old]\<rparr>]\<rparr>"
    by (simp add: cluster_setup_iff)
  have law: "deliver c ob = (if watched_type ob = v1beta1 ''BMCCluster'' then {watched_key ob} else {})
      \<union> (if capi ''Cluster'' = watched_type ob \<and> resumed old ob
         then set (ClusterToInfrastructureMapFunc M (GroupVersion, ''BMCCluster'') (v1beta1 ''BMCCluster'') ob) else {})"
    using assms(1,3) by (simp add: delivery_law_def e)
  show "ob = WatchedCluster bc \<Longrightarrow> key = watched_key ob \<Longrightarrow> cluster_delivered deliver M old key ob"
    using c law by (auto simp: cluster_delivered_def)
  show "ob = WatchedOwnerCluster cl \<Longrightarrow> cs_owner t = Some cl \<Longrightarrow> resumed old ob \<Longrightarrow> cluster_delivered deliver M old (cs_key t) ob"
    using c law assms(2) unfolding cluster_delivered_def cluster_mapped_def by (intro exI [of _ c]) simp
qed

section \<open>The invariant\<close>

lemma cluster_step_waits:
  assumes "cluster_runtime_step deliver M False s t" and "delivery_law deliver" and "cs_queued s \<or> cluster_waits M s"
  shows "cs_queued t \<or> cluster_waits M t"
  using assms(1)
proof (cases rule: cluster_runtime_step.cases)
  case (reconciled E out bc)
  show ?thesis
  proof (cases "asks_again out \<or> \<not> ResourceNotPaused M (WatchedCluster bc)")
    case True
    then show ?thesis unfolding reconciled(1) by (auto simp: cluster_waits_def)
  next
    case False
    then have "cluster_delivered deliver M (cs_owner s) (watched_key (WatchedCluster bc)) (WatchedCluster bc)"
      using cluster_delivers(1) [OF assms(2) reconciled(4)] by blast
    then show ?thesis
      using cluster_reconciled [OF reconciled(3,5) _ reconciled(6)] False unfolding reconciled(1) by auto
  qed
next
  case (object_edited t' o' bc)
  have "cluster_delivered deliver M (cs_owner s) (cs_key s) (WatchedCluster bc)" if "ResourceNotPaused M (WatchedCluster bc)"
    using object_edited(2,3) by (intro cluster_delivers(1) [OF assms(2) object_edited(4) that refl]) (simp add: cs_key_def)
  then show ?thesis
    unfolding object_edited(1) by (auto simp: cluster_waits_def object_edited(2))
next
  case (owner_changed t' cl)
  have k: "cs_key t' = cs_key s" "cs_owner t' = Some cl" by (simp_all add: owner_changed(2) cs_key_def)
  have "cluster_delivered deliver M (cs_owner s) (cs_key s) (WatchedOwnerCluster cl)" if "resumed (cs_owner s) (WatchedOwnerCluster cl)"
    using cluster_delivers(2) [OF assms(2) owner_changed(4) _ refl k(2) that] owner_changed(5) by (simp add: k)
  then show ?thesis
    using assms(3) owner_changed(3) unfolding owner_changed(1)
    by (auto simp: cluster_waits_def resumed_def owner_changed(2))
qed simp

lemma cluster_runtime_waits:
  "cluster_runtime deliver M False s \<Longrightarrow> delivery_law deliver \<Longrightarrow> cs_queued s \<or> cluster_waits M s"
  by (induction rule: cluster_runtime.induct) (auto dest: cluster_step_waits)

text \<open>
  C9. A cluster that is not in the queue waits for something: in every state the running manager can
  reach, a BMCCluster whose key is neither queued nor due later has no owner or is paused; or it is being
  deleted and has been released; or it lives and its status says irreconcilable or orphaned; or it still
  has no address and its last allocation was answered with a temporary failure, the one case that the
  code means to retry and does not.  Two conditions: the events are delivered as controller-runtime and
  Cluster API document it, and no event is one of a Cluster that carries the annotation for paused objects.
\<close>

theorem idle_cluster_waits:
  assumes "cluster_runtime deliver M False s" and "delivery_law deliver" and "\<not> cs_queued s"
  shows "cs_owner s = None \<or> (\<exists>cl. cs_owner s = Some cl \<and> cl_Paused cl) \<or> \<not> ResourceNotPaused M (WatchedCluster (cs_object s))
     \<or> (om_DeletionTimestamp (bc_Meta (cs_object s)) \<noteq> None
         \<and> ClusterFinalizer \<notin> set (om_Finalizers (bc_Meta (cs_object s))))
     \<or> (om_DeletionTimestamp (bc_Meta (cs_object s)) = None
         \<and> (cstat_BMCStatus (bc_Status (cs_object s)) \<in> {StatusIrreconcilable, StatusOrphaned}
           \<or> cs_refused s \<and> annotation (bc_Meta (cs_object s)) ANNOTATION_NAME_BMC_CLUSTER_IP = []))"
  using cluster_runtime_waits [OF assms(1,2)] assms(3) unfolding cluster_waits_def
  by (cases "om_DeletionTimestamp (bc_Meta (cs_object s)) = None") (simp, auto)

text \<open>
  The example: a cluster with its finalizer, in the manager of the machine example, whose allocation is
  answered with 500.
\<close>

definition refused_object :: BMCCluster where
  "refused_object = example_bmccluster\<lparr>bc_Meta := example_meta\<lparr>om_Name := ''c'', om_Finalizers := [ClusterFinalizer]\<rparr>\<rparr>"

definition refused_state :: "bool \<Rightarrow> bool \<Rightarrow> cluster_surroundings" where
  "refused_state r q = \<lparr>cs_object = refused_object, cs_owner = Some example_cluster, cs_refused = r, cs_queued = q\<rparr>"

definition refused_manager :: manager where
  "refused_manager = watch_manager\<lparr>ResourceNotPaused := \<lambda>_. True,
     ClusterToInfrastructureMapFunc := \<lambda>_ _ _. [\<lparr>nn_Namespace = ''ns'', nn_Name = ''c''\<rparr>], Build := \<lambda>_. None\<rparr>"

lemma refused_create:
  assumes "\<And>q. BMC E q = Response 500 body" and "\<And>u. URLError E u = None"
  shows "\<exists>d. cluster_reconcileCreate E cc = Returns rests d \<and> cc_BMCCluster d = cc_BMCCluster cc"
  by (simp add: cluster_reconcileCreate_def http_send_def assms Let_def cluster_create_response_def cc_Eventf_def)

lemma refused_idle:
  "\<exists>r. cluster_runtime watch_deliver refused_manager annotated (refused_state r False)"
proof -
  let ?s = "refused_state False True" and ?E = "example_env (\<lambda>_. Response 500 [])\<lparr>GetOwnerCluster := \<lambda>_. Inr (Some example_cluster)\<rparr>"
  let ?E' = "?E\<lparr>GetBMCCluster := \<lambda>_. Inr (cs_object ?s)\<rparr>" and ?cc = "cluster_context refused_object example_cluster"
  have s: "cs_queued ?s" "cs_object ?s = refused_object" "cs_owner ?s = Some example_cluster" by (simp_all add: refused_state_def)
  have "finalizer_laws ?E"
    using finalizer_laws_example [of "\<lambda>_. Response 500 []"] by (simp add: finalizer_laws_def)
  then have f: "cluster_finds refused_manager ?E ?s"
    by (simp add: cluster_finds_def s example_env_def refused_manager_def example_cluster_def)
  have m: "cluster_mapped refused_manager ?s"
    by (simp add: cluster_mapped_def cluster_setup_iff refused_manager_def cs_key_def refused_state_def refused_object_def
        example_meta_def)
  have w: "cc_with_finalizer ?E' ?cc = ?cc"
    by (simp add: cc_with_finalizer_def cc_HasFini_def example_env_def refused_object_def list_contains_def)
  have i: "cc_GetIP ?cc = []"
    by (simp add: cc_GetIP_def refused_object_def example_meta_def annotation_def)
  have "\<exists>d. cluster_reconcileCreate ?E' ?cc = Returns rests d \<and> cc_BMCCluster d = cc_BMCCluster ?cc"
    by (rule refused_create) (simp_all add: example_env_def)
  then obtain d where d: "cluster_reconcileCreate ?E' ?cc = Returns rests d" "cc_BMCCluster d = refused_object" by auto
  have "cluster_dispatch ?E' ?cc = Returns rests d"
    by (simp add: cluster_dispatch_def cluster_IsMarkedDeleted_iff cluster_reconcileLive_unfold w i d(1))
       (simp add: refused_object_def example_meta_def)
  then have r: "cluster_Reconcile ?E' (cs_key ?s) = Returns rests (cc_log d @ [PatchCluster refused_object])"
    using cluster_Reconcile_run [of ?E' "cs_key ?s" refused_object example_cluster]
    by (simp add: s d(2) example_env_def)
  have "patched_cluster (cs_object ?s) (cc_log d @ [PatchCluster refused_object]) = refused_object"
    by (simp add: patched_cluster_def)
  from cluster_runtime_step.reconciled [OF s(1) f m r [symmetric], of refused_object watch_deliver annotated] this
  have "cluster_runtime_step watch_deliver refused_manager annotated ?s
      (?s\<lparr>cs_object := refused_object, cs_refused := refused ?E (cc_log d @ [PatchCluster refused_object]), cs_queued := False\<rparr>)"
    by (simp add: asks_again_def s(2))
  moreover have "?s\<lparr>cs_object := refused_object, cs_refused := b, cs_queued := False\<rparr> = refused_state b False" for b
    by (simp add: refused_state_def)
  ultimately show ?thesis
    using cluster_runtime.later [OF cluster_runtime.listed [OF s(1)]] by (metis (full_types))
qed

theorem idle_cluster_waits_witness:
  "\<exists>s. cluster_runtime watch_deliver refused_manager False s \<and> \<not> cs_queued s \<and> cs_refused s"
proof -
  obtain r where r: "cluster_runtime watch_deliver refused_manager False (refused_state r False)"
    using refused_idle by blast
  have q: "\<not> cs_queued (refused_state r False)" by (simp add: refused_state_def)
  have "cs_refused (refused_state r False)"
    using idle_cluster_waits [OF r watch_delivers q]
    by (simp add: refused_state_def refused_object_def refused_manager_def example_meta_def example_cluster_def
        example_bmccluster_def zero_cluster_status_def status_defs)
  then show ?thesis using r q by blast
qed

end
