(* ===== verification/BringUp.thy ===== *)
theory BringUp
  imports FleetSystem
begin

text \<open>
  The way from a new cluster and a new control plane machine to a serving machine in the cluster's own
  block, with the reconcilers taking turns in the system of FleetSystem.
\<close>

section \<open>The cluster gets its block\<close>

lemma cluster_run_dispatch:
  assumes "GetOwnerCluster E (bc_Meta bc) = Inr (Some cl)" and "\<not> IsPaused E cl bc" and "E' = E\<lparr>GetBMCCluster := \<lambda>_. Inr bc\<rparr>"
  shows "cluster_run E bc = (cc_BMCCluster (outcome_state (cluster_dispatch E' (cluster_context bc cl))),
    requests (request_log E' (cluster_request E' (cluster_context bc cl))))"
proof -
  let ?req = "\<lparr>nn_Namespace = om_Namespace (bc_Meta bc), nn_Name = om_Name (bc_Meta bc)\<rparr>"
  have "cluster_Reconcile E' ?req = cluster_finish (cluster_dispatch E' (cluster_context bc cl))"
    by (rule cluster_Reconcile_run) (use assms in simp_all)
  then show ?thesis
    using cluster_requests_dispatch [of "cluster_context bc cl" E'] assms(3)
    by (simp add: cluster_run_def Let_def cluster_finish_state patched_cluster_def requests_def)
qed

text \<open>What the service answers to an allocation.\<close>

definition allocates :: "env \<Rightarrow> BMCClusterStatus \<Rightarrow> bool" where
  "allocates E ips \<longleftrightarrow> (\<forall>u. URLError E u = None) \<and> (\<exists>c body. http_ok c \<and> unmarshal_cluster_status body = Inr ips
     \<and> (\<forall>r. block_create (BMCEndpointURL E) r \<longrightarrow> BMC E r = Response c body))"

lemma cluster_run_allocates:
  assumes "GetOwnerCluster E (bc_Meta bc) = Inr (Some cl)" and "\<not> IsPaused E cl bc" and "allocates E ips"
    and "om_DeletionTimestamp (bc_Meta bc) = None" and "cluster_storable bc" and "cluster_ident bc = []"
    and "ParseIP (TrimSuffix (cstat_CIDR ips) ''/31'') = Some a" and "cluster_run E bc = (y, rs)"
  shows "cluster_ident y = IP_String (next_address a)" and "cluster_block y = cstat_ID ips" and "cstat_Ready (bc_Status y)"
    and "cspec_ControlPlaneEndpoint (bc_Spec y) = \<lparr>ep_Host = IP_String (next_address a), ep_Port = 6443\<rparr>"
    and "cspec_VIPManager (bc_Spec y) = cspec_VIPManager (bc_Spec bc)"
    and "\<forall>r \<in> set rs. block_create (BMCEndpointURL E) r"
proof -
  let ?E = "E\<lparr>GetBMCCluster := \<lambda>_. Inr bc\<rparr>" and ?cc = "cluster_context bc cl"
  define d where "d = (if cc_HasFini ?E ?cc then ?cc else cc_AddFini ?E ?cc)"
  let ?q = "allocate_http ?E ?cc"
  obtain c body where s: "http_ok c" "unmarshal_cluster_status body = Inr ips" "BMC E ?q = Response c body" "URLError E (hr_URL ?q) = None"
    using assms(3) block_create_http [of ?E "BMCEndpointURL E" ?cc] by (auto simp: allocates_def)
  have i: "cc_GetIP ?cc = []" using assms(6) by (simp add: cluster_ident_cc [symmetric])
  have al: "allocate_http ?E d = ?q" "cc_GetIP d = []" "om_Annotations (cc_meta d) \<noteq> None" "cc_spec d = bc_Spec bc"
    using i assms(5) by (simp_all add: d_def cluster_storable_def)
  have "cluster_dispatch ?E ?cc = cluster_reconcileCreate ?E d"
    using assms(4) al(2) by (simp add: cluster_dispatch_def cluster_reconcileLive_def cluster_IsMarkedDeleted_iff Let_def flip: d_def)
  also have "\<dots> = cluster_create_response ?E c body (clog_effects [Http ?q] d)"
    using s(3,4) by (simp add: cluster_reconcileCreate_def al(1) http_send_def Let_def)
  also have "\<dots> = cluster_allocated ips (clog_effects [Http ?q] d)"
    using s(1,2) by (auto simp: cluster_create_response_def http_ok_def cluster_create_accepted_def)
  finally have r: "y = cc_BMCCluster (outcome_state (cluster_allocated ips (clog_effects [Http ?q] d)))"
    and rs: "rs = requests (request_log ?E (cluster_request ?E ?cc))"
    using cluster_run_dispatch [OF assms(1,2) refl] assms(8) by simp_all
  have m: "om_Annotations (cc_meta (clog_effects [Http ?q] d)) \<noteq> None" using al(3) by simp
  obtain cc1 cc2 where 1: "cc_SetIPAllocationID (cstat_ID ips) (allocation_noted ips (clog_effects [Http ?q] d)) = Some cc1"
    and 2: "cc_SetIP (IP_String (next_address a)) cc1 = Some cc2"
    and o: "cluster_allocated ips (clog_effects [Http ?q] d)
      = Returns (noRequeue, None) (cc_SetReady (cc_SetControlPlaneEndpoint (IP_String (next_address a)) 6443 cc2))"
    using cluster_allocated_ok [OF m assms(7)] by blast
  show "cluster_ident y = IP_String (next_address a)" "cstat_Ready (bc_Status y)"
    "cspec_ControlPlaneEndpoint (bc_Spec y) = \<lparr>ep_Host = IP_String (next_address a), ep_Port = 6443\<rparr>"
    "cspec_VIPManager (bc_Spec y) = cspec_VIPManager (bc_Spec bc)"
    using cc_SetIP_simps [OF 2] cc_SetIPAllocationID_simps [OF 1] al(4)
    by (simp_all add: r o cc_SetReady_def cluster_ident_def cc_GetIP_def)
  show "cluster_block y = cstat_ID ips"
    using allocation_stored [OF m, of ips] by (simp add: r cluster_block_cc)
  show "\<forall>r \<in> set rs. block_create (BMCEndpointURL E) r"
    using assms(4) i block_create_http [of ?E "BMCEndpointURL E" ?cc] log_requests
    by (fastforce simp: rs cluster_request_def cluster_IsMarkedDeleted_iff)
qed

section \<open>The machine gets its server\<close>

lemma machine_create_request:
  assumes "serves E bm m cl bc" and "bootstrapped E bm m bc" and "om_DeletionTimestamp (bm_Meta bm) = None"
    and "machine_ident bm = []"
  shows "\<exists>q b. snd (machine_run E bm) = [create_http E q] \<and> planned_request E (due_context bm m cl bc) b = Some q"
proof -
  let ?E = "E\<lparr>GetBMCMachine := \<lambda>_. Inr bm\<rparr>" and ?d = "due_context bm m cl bc"
  have b: "bootstrapped ?E bm m bc" using assms(2) by (simp add: bootstrapped_def)
  obtain b q where q: "mc_GetDataSecretValue ?E ?d = Some (Inr b)" "planned_request ?E ?d b = Some q"
    using bootstrapped_plan [OF b] by blast
  have s: "GetOwnerMachine E (bm_Meta bm) = Inr (Some m)" "GetClusterFromMetadata ?E m = Inr cl" "\<not> IsPaused ?E cl bc"
    and n: "\<exists>n. cl_InfrastructureRef cl = Some n
      \<and> GetBMCCluster ?E \<lparr>nn_Namespace = om_Namespace (bm_Meta bm), nn_Name = n\<rparr> = Inr bc"
    and g: "mc_IsInfrastructureReady ?d = Some True" "mc_IsDataSecretReady ?d" and u: "URLError E x = None" for x
    using assms(1) by (auto simp: serves_def mc_IsInfrastructureReady_def mc_IsDataSecretReady_def)
  have i: "mc_GetMachineID ?d = []" using assms(4) by (simp add: machine_ident_mc [symmetric])
  have "live_context ?E (machine_context bm m) = Some ?d"
    using s(2,3) n assms(3) by (auto simp: live_context_def machine_IsMarkedDeleted_iff due_context_def)
  then have "machine_request ?E (machine_context bm m) = Some (create_http ?E q)"
    using assms(3) g i q by (simp add: machine_request_def machine_IsMarkedDeleted_iff live_request_def create_plan_def)
  moreover have "create_http ?E q = create_http E q" by (simp add: create_http_def servers_url_eq)
  moreover have "planned_request E ?d b = planned_request ?E ?d b"
    by (simp add: planned_request_def mc_IsControlPlaneMachine_def)
  ultimately show ?thesis
    using machine_run_dispatch [OF s(1) refl] q(2) u by (auto simp: sent_def http_send_def)
qed

lemma machine_run_no_create:
  assumes "machine_ident x \<noteq> []" and "machine_run E x = (y, rs)" and "r \<in> set rs"
  shows "\<not> server_create (BMCEndpointURL E) r"
proof (cases rule: machine_run_cases [of E x])
  case idle
  with assms(2,3) show ?thesis by simp
next
  case (run m E')
  have "filter (server_create (BMCEndpointURL E)) rs = []"
    using dispatch_created(2) [of "machine_context x m" E' "BMCEndpointURL E"] assms(1,2) run
    by (simp add: machine_ident_mc [symmetric])
  with assms(3) show ?thesis by (auto simp: filter_empty_conv)
qed

section \<open>The three reconciliations\<close>

text \<open>What the three reconciliations meet: the cluster's allocation, the machine's create and its poll.\<close>

definition cluster_due :: "env \<Rightarrow> BMCCluster \<Rightarrow> BMCClusterStatus \<Rightarrow> bool" where
  "cluster_due E bc ips \<longleftrightarrow> (\<exists>cl. GetOwnerCluster E (bc_Meta bc) = Inr (Some cl) \<and> \<not> IsPaused E cl bc) \<and> allocates E ips
     \<and> om_DeletionTimestamp (bc_Meta bc) = None \<and> cluster_storable bc \<and> cluster_ident bc = []"

definition machine_due :: "env \<Rightarrow> BMCMachine \<Rightarrow> BMCCluster \<Rightarrow> BMCMachineStatus \<Rightarrow> bool" where
  "machine_due E bm bc ss \<longleftrightarrow> (\<exists>m cl. serves E bm m cl bc \<and> bootstrapped E bm m bc \<and> util_IsControlPlaneMachine E m)
     \<and> om_DeletionTimestamp (bm_Meta bm) = None \<and> machine_storable bm \<and> machine_ident bm = []
     \<and> (\<exists>c body. http_ok c \<and> unmarshal_machine_status (Decoders E) body = Inr ss
          \<and> (\<forall>r. server_create (BMCEndpointURL E) r \<longrightarrow> BMC E r = Response c body))"

definition finds_powered_on :: "env \<Rightarrow> BMCMachine \<Rightarrow> string \<Rightarrow> bool" where
  "finds_powered_on E bm i \<longleftrightarrow> (\<exists>m cl bc. serves E bm m cl bc) \<and> (\<exists>c body ss. http_ok c
     \<and> BMC E (http_Get (server_url E i)) = Response c body \<and> unmarshal_machine_status (Decoders E) body = Inr ss
     \<and> mstat_BMCStatus ss = StatusPoweredOn)"

lemma machine_due_asks:
  assumes "machine_due E bm bc ss" and "cspec_VIPManager (bc_Spec bc) = NONE" and "cluster_block bc = b" and "b \<noteq> []"
  shows "\<exists>r. snd (machine_run E bm) = [r] \<and> server_create (BMCEndpointURL E) r \<and> asks_for_block r b
    \<and> server_issued (BMCEndpointURL E) E r = Some (mstat_BMCServerID ss)"
proof -
  obtain m cl where s: "serves E bm m cl bc" "bootstrapped E bm m bc" "util_IsControlPlaneMachine E m"
    "om_DeletionTimestamp (bm_Meta bm) = None" "machine_ident bm = []"
    using assms(1) by (auto simp: machine_due_def)
  obtain q d where q: "snd (machine_run E bm) = [create_http E q]" "planned_request E (due_context bm m cl bc) d = Some q"
    using machine_create_request [OF s(1,2,4,5)] by blast
  have "csr_NetworkConfiguration q = user_defined_network b"
    using q(2) s(3) assms(2-4) by (auto simp: planned_request_def mc_IsControlPlaneMachine_def cluster_block_def Let_def split: if_splits)
  then have "asks_for_block (create_http E q) b"
    by (auto simp: asks_for_block_def create_http_def http_Post_def)
  moreover have c: "server_create (BMCEndpointURL E) (create_http E q)" by (rule server_create_http [OF refl])
  moreover obtain c body where "http_ok c" "unmarshal_machine_status (Decoders E) body = Inr ss"
    "BMC E (create_http E q) = Response c body"
    using assms(1) c by (auto simp: machine_due_def)
  then have "server_issued (BMCEndpointURL E) E (create_http E q) = Some (mstat_BMCServerID ss)"
    using c by (simp add: server_issued_def)
  ultimately show ?thesis using q(1) by auto
qed

lemma machine_due_created:
  assumes "machine_due E bm bc ss" and "machine_run E bm = (x, ms)" and "mstat_BMCServerID ss \<noteq> []"
  shows "machine_ident x = mstat_BMCServerID ss" and "om_DeletionTimestamp (bm_Meta x) = None" and "machine_linked x"
proof -
  obtain m cl c body where s: "serves E bm m cl bc" "bootstrapped E bm m bc" "om_DeletionTimestamp (bm_Meta bm) = None"
    "machine_storable bm" "machine_ident bm = []" and a: "\<forall>r. server_create (BMCEndpointURL E) r \<longrightarrow> BMC E r = Response c body"
    "http_ok c" "unmarshal_machine_status (Decoders E) body = Inr ss"
    using assms(1) by (auto simp: machine_due_def)
  show "machine_ident x = mstat_BMCServerID ss"
    using first_run_creates [OF s, of c body ss] a assms(2) by simp
  show "om_DeletionTimestamp (bm_Meta x) = None" "machine_linked x"
    using machine_run_timestamp [OF assms(2)] machine_run_linked [OF _ assms(2)] s(3,5)
    by (simp_all add: machine_linked_def machine_ident_def Let_def)
qed

text \<open>The system after a reconciliation of one object whose patch arrives.\<close>

definition fleet_turn :: "'o run \<Rightarrow> (env \<Rightarrow> http_request \<Rightarrow> string option) \<Rightarrow> env \<Rightarrow> nsname \<Rightarrow> 'o fleet \<Rightarrow> 'o fleet" where
  "fleet_turn run issued E k f = (case fl_objs f k of
     None \<Rightarrow> f
   | Some x \<Rightarrow> (case run E x of (y, rs) \<Rightarrow>
       \<lparr>fl_objs = (fl_objs f)(k \<mapsto> y), fl_owner = record_owner issued E k rs (fl_owner f),
        fl_log = fl_log f @ map (Pair k) rs\<rparr>))"

definition cluster_turned :: "string \<Rightarrow> env \<Rightarrow> nsname \<Rightarrow> system \<Rightarrow> system" where
  "cluster_turned base E k s = (let f = fleet_turn cluster_run (block_issued base) E k (sys_clusters s)
     in s\<lparr>sys_clusters := f, sys_seen := sys_seen s \<union> versions f\<rparr>)"

definition machine_turned :: "string \<Rightarrow> env \<Rightarrow> nsname \<Rightarrow> system \<Rightarrow> system" where
  "machine_turned base E k s = s\<lparr>sys_machines := fleet_turn machine_run (server_issued base) E k (sys_machines s)\<rparr>"

lemma system_cluster_turned:
  assumes "system_run base s" and "fl_objs (sys_clusters s) k = Some x" and "BMCEndpointURL E = base"
    and "cluster_run E x = (y, rs)" and "fresh_ids (block_issued base) E rs (fl_owner (sys_clusters s))"
  shows "system_run base (cluster_turned base E k s)"
    and "fl_objs (sys_clusters (cluster_turned base E k s)) k = Some y"
    and "sys_machines (cluster_turned base E k s) = sys_machines s" and "(k, y) \<in> sys_seen (cluster_turned base E k s)"
    and "sys_seen s \<subseteq> sys_seen (cluster_turned base E k s)"
  using system_cluster_reconciled [OF assms refl] assms(2,4)
  by (auto simp: cluster_turned_def fleet_turn_def Let_def versions_def)

lemma system_machine_turned:
  assumes "system_run base s" and "fl_objs (sys_machines s) k = Some x" and "BMCEndpointURL E = base" and "sees (sys_seen s) E"
    and "machine_run E x = (y, rs)" and "fresh_ids (server_issued base) E rs (fl_owner (sys_machines s))"
  shows "system_run base (machine_turned base E k s)"
    and "fl_objs (sys_machines (machine_turned base E k s)) k = Some y"
    and "sys_clusters (machine_turned base E k s) = sys_clusters s" and "sys_seen (machine_turned base E k s) = sys_seen s"
    and "fl_log (sys_machines (machine_turned base E k s)) = fl_log (sys_machines s) @ map (Pair k) rs"
  using system_machine_reconciled [OF assms] assms(2,5) by (simp_all add: machine_turned_def fleet_turn_def)

text \<open>In the system, a poll that finds the server powered on makes the machine serve.\<close>

lemma system_serves:
  assumes "system_run base s" and "fl_objs (sys_machines s) km = Some x" and "BMCEndpointURL E = base" and "sees (sys_seen s) E"
    and "finds_powered_on E x i" and "machine_ident x = i" and "i \<noteq> []"
    and "om_DeletionTimestamp (bm_Meta x) = None" and "machine_linked x" and "machine_run E x = (z, ps)"
  shows "system_run base (machine_turned base E km s)" and "machine_stage z = Serving" and "machine_ident z = i"
proof -
  have n: "machine_ident x \<noteq> []" using assms(6,7) by simp
  have "fresh_ids (server_issued base) E ps (fl_owner (sys_machines s))"
    using machine_run_no_create [OF n assms(10)] assms(3) by (auto simp: fresh_ids_def server_issued_def split: if_splits)
  from system_machine_turned(1) [OF assms(1-4,10) this] show "system_run base (machine_turned base E km s)" .
  obtain m cl bc c body ss where p: "serves E x m cl bc" "http_ok c"
    "BMC E (http_Get (server_url E (machine_ident x))) = Response c body"
    "unmarshal_machine_status (Decoders E) body = Inr ss" "mstat_BMCStatus ss = StatusPoweredOn"
    using assms(5,6) by (auto simp: finds_powered_on_def)
  show "machine_stage z = Serving" "machine_ident z = i"
    using powered_on_serves(1) [OF p(1) assms(8) n assms(9) p(3,2,4,5)] machine_run_keeps(1) [OF assms(10) n] assms(6,10) by simp_all
qed

text \<open>
  C6. A cluster without VIP manager comes up: in the system of all clusters and machines, the
  reconciliation of a new cluster whose allocation is accepted, then one of a control plane machine that
  reads the cluster as it is now and whose create is accepted, then one that finds the server powered
  on, with all three patches stored and nothing else happening in between, end in a state of the system with
  a ready cluster that has the allocated address as its endpoint and a serving machine that holds the
  created server, whose create request asked for the cluster's own block.
\<close>

theorem bring_up_completes:
  assumes "system_run base s" and "fl_objs (sys_clusters s) kc = Some bc" and "fl_objs (sys_machines s) km = Some bm"
    and "cluster_due Ec bc ips" and "BMCEndpointURL Ec = base" and "cspec_VIPManager (bc_Spec bc) = NONE"
    and "ParseIP (TrimSuffix (cstat_CIDR ips) ''/31'') = Some a" and "cstat_ID ips \<noteq> []" and "fl_owner (sys_clusters s) (cstat_ID ips) = None"
    and "cluster_run Ec bc = (y, rs)"
    and "machine_due Em bm y ss" and "BMCEndpointURL Em = base" and "sees (insert (kc, y) (sys_seen s)) Em"
    and "mstat_BMCServerID ss \<noteq> []" and "fl_owner (sys_machines s) (mstat_BMCServerID ss) = None"
    and "machine_run Em bm = (x, ms)"
    and "finds_powered_on Ep x (mstat_BMCServerID ss)" and "BMCEndpointURL Ep = base" and "sees (insert (kc, y) (sys_seen s)) Ep"
    and "t = machine_turned base Ep km (machine_turned base Em km (cluster_turned base Ec kc s))"
  shows "system_run base t \<and> fl_objs (sys_clusters t) kc = Some y \<and> cstat_Ready (bc_Status y)
    \<and> cspec_ControlPlaneEndpoint (bc_Spec y) = \<lparr>ep_Host = IP_String (next_address a), ep_Port = 6443\<rparr>
    \<and> (\<exists>z. fl_objs (sys_machines t) km = Some z \<and> machine_stage z = Serving \<and> machine_ident z = mstat_BMCServerID ss)
    \<and> fl_owner (sys_clusters t) (cstat_ID ips) = Some kc \<and> fl_owner (sys_machines t) (mstat_BMCServerID ss) = Some km
    \<and> (\<exists>r. (km, r) \<in> set (fl_log (sys_machines t)) \<and> server_create base r \<and> asks_for_block r (cstat_ID ips))"
proof -
  define i where "i = mstat_BMCServerID ss"
  define s1 where "s1 = cluster_turned base Ec kc s"
  define s2 where "s2 = machine_turned base Em km s1"
  obtain cl where c: "GetOwnerCluster Ec (bc_Meta bc) = Inr (Some cl)" "\<not> IsPaused Ec cl bc" "allocates Ec ips"
    "om_DeletionTimestamp (bc_Meta bc) = None" "cluster_storable bc" "cluster_ident bc = []"
    using assms(4) by (auto simp: cluster_due_def)
  note y = cluster_run_allocates [OF c assms(7,10)]
  have "fresh_ids (block_issued base) Ec rs (fl_owner (sys_clusters s))"
    using c(3) assms(5,9) by (auto simp: fresh_ids_def block_issued_def allocates_def split: if_splits)
  note 1 = system_cluster_turned [OF assms(1,2,5,10) this, folded s1_def]
  have sees1: "sees (sys_seen s1) E" if "sees (insert (kc, y) (sys_seen s)) E" for E
    using that 1(4,5) by (auto simp: sees_def)
  obtain r where r: "ms = [r]" "server_create base r" "asks_for_block r (cstat_ID ips)" "server_issued base Em r = Some i"
    using machine_due_asks [OF assms(11) _ y(2) assms(8)] y(5) assms(6,12,16) by (auto simp: i_def)
  have "fresh_ids (server_issued base) Em ms (fl_owner (sys_machines s1))"
    using r(1,4) assms(15) by (simp add: fresh_ids_def 1(3) i_def)
  note 2 = system_machine_turned [OF 1(1) _ assms(12) sees1 [OF assms(13)] assms(16) this, of km, folded s2_def]
  have bm: "fl_objs (sys_machines s1) km = Some bm" using assms(3) by (simp add: 1(3))
  note x = machine_due_created [OF assms(11,16,14), folded i_def]
  obtain z ps where z: "machine_run Ep x = (z, ps)" by fastforce
  have t: "t = machine_turned base Ep km s2" by (simp add: assms(20) s1_def s2_def)
  have i: "i \<noteq> []" "finds_powered_on Ep x i" using assms(14,17) by (simp_all add: i_def)
  have sees2: "sees (sys_seen s2) Ep" using sees1 [OF assms(19)] by (simp add: 2(4) [OF bm])
  note 3 = system_serves [OF 2(1) [OF bm] 2(2) [OF bm] assms(18) sees2 i(2) x(1) i(1) x(2,3) z, folded t]
  have o: "fl_objs (sys_machines t) km = Some z" "fl_objs (sys_clusters t) kc = Some y" "(km, r) \<in> set (fl_log (sys_machines t))"
    using 1(2) 2(2,3,5) [OF bm] z by (simp_all add: t machine_turned_def fleet_turn_def r(1))
  have k: "server_keeper.kept base (sys_machines t)" "block_keeper.kept base (sys_clusters t)"
    using system_run_ok [OF 3(1)] by (simp_all add: system_ok_def)
  have "fl_owner (sys_clusters t) (cstat_ID ips) = Some kc" "fl_owner (sys_machines t) i = Some km"
    using block_keeper.keptD(1) [OF k(2) o(2)] server_keeper.keptD(1) [OF k(1) o(1)] y(2) assms(8) 3(3) i(1) by simp_all
  with 3 o y(3,4) r(2,3) show ?thesis unfolding i_def by blast
qed

text \<open>The cluster of the example without VIP manager, and the three services.\<close>

definition none_cluster :: BMCCluster where
  "none_cluster = example_bmccluster\<lparr>bc_Spec := (bc_Spec example_bmccluster)\<lparr>cspec_VIPManager := NONE\<rparr>\<rparr>"

definition reading :: "BMCCluster \<Rightarrow> env \<Rightarrow> env" where
  "reading y E = E\<lparr>GetBMCCluster := \<lambda>k. if k = cluster_name then Inr y else Inl (LibErr ''not found''),
     util_IsControlPlaneMachine := \<lambda>_. True\<rparr>"

lemma example_system_new:
  "\<exists>s. system_run ''https://api'' s \<and> fl_objs (sys_machines s) machine_name = Some example_machine
   \<and> fl_objs (sys_clusters s) cluster_name = Some none_cluster \<and> fl_owner (sys_machines s) = Map.empty
   \<and> fl_owner (sys_clusters s) = Map.empty"
proof -
  have c: "cluster_newborn cluster_name none_cluster"
    by (simp add: cluster_newborn_def cluster_key_def cluster_name_def cluster_block_def none_cluster_def
        example_bmccluster_def example_meta_def annotation_def)
  have m: "machine_newborn machine_name example_machine"
    by (simp add: machine_newborn_def machine_key_def machine_name_def machine_ident_def
        example_machine_def example_meta_def annotation_def)
  note 1 = system_cluster_born [OF system_run.empty _ c refl, of "''https://api''"]
  note 2 = system_machine_born [OF 1 _ m]
  show ?thesis using 2 by (intro exI) (auto simp: no_fleet_def)
qed

theorem bring_up_completes_witness:
  "\<exists>(t :: system) y z. fl_objs (sys_clusters t) cluster_name = Some y \<and> fl_objs (sys_machines t) machine_name = Some z
    \<and> machine_stage z = Serving \<and> machine_ident z = ''s1'' \<and> fl_owner (sys_clusters t) ''b1'' = Some cluster_name
    \<and> ep_Port (cspec_ControlPlaneEndpoint (bc_Spec y)) = 6443"
proof -
  let ?n = "''10.1.2.4/31''" and ?ips = "block_status ''b1'' ''10.1.2.4/31'' ''unassigned''"
  let ?a = "v4_prefix @ [10, 1, 2, 4]"
  obtain s where s: "system_run ''https://api'' s" "fl_objs (sys_clusters s) cluster_name = Some none_cluster"
    "fl_objs (sys_machines s) machine_name = Some example_machine" "fl_owner (sys_clusters s) ''b1'' = None"
    "fl_owner (sys_machines s) ''s1'' = None"
    using example_system_new by auto
  obtain y rs where y: "cluster_run (block_env ?n) none_cluster = (y, rs)" by fastforce
  have u: "unmarshal_cluster_status (block_body ''b1'' ?n ''unassigned'') = Inr ?ips"
    by (rule unmarshal_block_body) (simp_all add: utf8_ok_ascii)
  have "allocates (block_env ?n) ?ips"
    using u by (auto simp: allocates_def block_env_facts http_ok_def intro!: exI [of _ 201])
  then have c: "cluster_due (block_env ?n) none_cluster ?ips"
    by (simp add: cluster_due_def block_env_facts none_cluster_def example_bmccluster_def example_meta_def
        cluster_storable_def cluster_ident_def annotation_def)
  have "octets_str [10, 1, 2, 4] @ ''/31'' = ?n" by code_simp
  then have p: "ParseIP (TrimSuffix (cstat_CIDR ?ips) ''/31'') = Some ?a"
    using ParseIP_octets [of 10 1 2 4] TrimSuffix_append [of "octets_str [10, 1, 2, 4]" "''/31''"]
    by (simp add: block_status_def)
  have "cluster_block y = ''b1''"
    using cluster_run_allocates(2) [of "block_env ?n" none_cluster example_cluster ?ips ?a y rs] c p y
    by (simp add: cluster_due_def block_env_facts block_status_def)
  then have "\<exists>m cl. serves (reading y creating_env) example_machine m cl y \<and> bootstrapped (reading y creating_env) example_machine m y
      \<and> util_IsControlPlaneMachine (reading y creating_env) m"
    "om_DeletionTimestamp (bm_Meta example_machine) = None \<and> machine_storable example_machine \<and> machine_ident example_machine = []"
    by (auto simp: serves_def bootstrapped_def reading_def creating_env_def machine_env_def example_env_def
        example_cluster_def example_owner_def cluster_name_def example_machine_def example_meta_def cluster_block_def
        machine_storable_def machine_ident_def annotation_def)
  moreover have "\<exists>c body. http_ok c \<and> unmarshal_machine_status (Decoders (reading y creating_env)) body = Inr (server_status ''s1'' ''creating'')
      \<and> (\<forall>r. server_create (BMCEndpointURL (reading y creating_env)) r \<longrightarrow> BMC (reading y creating_env) r = Response c body)"
    by (intro exI [of _ 201] exI [of _ "server_body ''s1'' ''creating''"])
      (simp add: http_ok_def unmarshal_creating reading_def creating_env_def machine_env_def example_env_def)
  ultimately have d: "machine_due (reading y creating_env) example_machine y (server_status ''s1'' ''creating'')"
    unfolding machine_due_def by blast
  obtain x ms where x: "machine_run (reading y creating_env) example_machine = (x, ms)" by fastforce
  have f: "fixed_meta (bm_Meta x) = fixed_meta (bm_Meta example_machine)" by (rule machine_run_fixed [OF x])
  have "unmarshal_machine_status fd (server_body ''s1'' ''powered-on'') = Inr (server_status ''s1'' ''powered-on'')" for fd
    by (rule unmarshal_server_body) (simp_all add: utf8_ok_ascii)
  then have o: "finds_powered_on (reading y powered_env) x ''s1''"
    using f by (auto simp: finds_powered_on_def serves_def reading_def powered_env_def machine_env_def example_env_def
        example_cluster_def example_owner_def cluster_name_def fixed_meta_def example_machine_def example_meta_def
        http_ok_def server_status_def StatusPoweredOn_def intro!: exI [of _ 200])
  have e: "BMCEndpointURL (block_env ?n) = ''https://api''" "BMCEndpointURL (reading y creating_env) = ''https://api''"
    "BMCEndpointURL (reading y powered_env) = ''https://api''"
    by (simp_all add: block_env_facts reading_def creating_facts powered_env_def machine_env_def example_env_def)
  have v: "sees (insert (cluster_name, y) V) (reading y E)" for V E by (simp add: sees_def reading_def)
  have n: "cspec_VIPManager (bc_Spec none_cluster) = NONE" "cstat_ID ?ips \<noteq> []" "mstat_BMCServerID (server_status ''s1'' ''creating'') \<noteq> []"
    "fl_owner (sys_clusters s) (cstat_ID ?ips) = None" "fl_owner (sys_machines s) (mstat_BMCServerID (server_status ''s1'' ''creating'')) = None"
    "finds_powered_on (reading y powered_env) x (mstat_BMCServerID (server_status ''s1'' ''creating''))"
    using s(4,5) o by (simp_all add: none_cluster_def block_status_def server_status_def)
  obtain t :: system and z where "fl_objs (sys_clusters t) cluster_name = Some y" "fl_objs (sys_machines t) machine_name = Some z"
    "machine_stage z = Serving" "machine_ident z = ''s1''" "fl_owner (sys_clusters t) ''b1'' = Some cluster_name"
    "ep_Port (cspec_ControlPlaneEndpoint (bc_Spec y)) = 6443"
    using bring_up_completes [OF s(1-3) c e(1) n(1) p n(2,4) y d e(2) v n(3,5) x n(6) e(3) v refl]
    by (auto simp: block_status_def server_status_def)
  then show ?thesis by (intro exI [of _ t] exI [of _ y] exI [of _ z]) simp
qed

end
