(* ===== verification/ManagerSystem.thy ===== *)
theory ManagerSystem
  imports ClusterRuntime BringUp
begin

text \<open>
  The running manager as a whole: both controllers with their work queues, one BMCCluster, the Cluster
  that owns it and the machines of that cluster.  A patch of one controller is an event of the other.  Each
  object sees a run of its own system of Runtime and ClusterRuntime, so the invariants of both hold
  together.
\<close>

section \<open>The state and its projections\<close>

record node =
  nd_machine :: BMCMachine
  nd_owner :: "Machine option"
  nd_unread :: bool
  nd_queued :: bool

record manager_state =
  ms_bmc :: BMCCluster
  ms_cluster :: Cluster
  ms_refused :: bool
  ms_queued :: bool
  ms_nodes :: "nsname \<Rightarrow> node option"

definition cluster_side :: "manager_state \<Rightarrow> cluster_surroundings" where
  "cluster_side s = \<lparr>cs_object = ms_bmc s, cs_owner = Some (ms_cluster s), cs_refused = ms_refused s, cs_queued = ms_queued s\<rparr>"

definition machine_side :: "manager_state \<Rightarrow> node \<Rightarrow> surroundings" where
  "machine_side s n = \<lparr>su_machine = nd_machine n, su_owner = nd_owner n, su_cluster = ms_cluster s,
     su_bmc = Some (ms_bmc s), su_unread = nd_unread n, su_queued = nd_queued n\<rparr>"

definition node_key :: "node \<Rightarrow> nsname" where
  "node_key n = watched_key (WatchedMachine (nd_machine n))"

text \<open>An event reaches every machine that its delivery names.\<close>

definition wake :: "(nsname \<Rightarrow> bool) \<Rightarrow> (nsname \<Rightarrow> node option) \<Rightarrow> nsname \<Rightarrow> node option" where
  "wake P ns k = map_option (\<lambda>n. n\<lparr>nd_queued := nd_queued n \<or> P (node_key n)\<rparr>) (ns k)"

definition all_mapped :: "manager \<Rightarrow> env \<Rightarrow> Cluster \<Rightarrow> manager_state \<Rightarrow> bool" where
  "all_mapped M E old s \<longleftrightarrow> (\<forall>k n. ms_nodes s k = Some n \<longrightarrow> mapped M E old (machine_side s n))"

section \<open>Steps\<close>

text \<open>An accepted allocation names the block that it allocated.\<close>

definition names_blocks :: "env \<Rightarrow> bool" where
  "names_blocks E \<longleftrightarrow> (\<forall>r. block_issued (BMCEndpointURL E) E r \<noteq> Some [])"

text \<open>
  Either controller takes a key from its queue; a machine is created; others change a machine, its owner,
  the BMCCluster with exception of the two annotations and the readiness that the controller keeps there,
  or the Cluster, whose infrastructure Cluster API marks ready only when the BMCCluster says so.  The first
  flag is the one of the component systems; the second allows the periodic resynchronisation.
\<close>

definition bmc_edit :: "BMCCluster \<Rightarrow> BMCCluster \<Rightarrow> bool" where
  "bmc_edit x y \<longleftrightarrow> cluster_edit x y \<and> cstat_Ready (bc_Status y) = cstat_Ready (bc_Status x)"

definition infrastructure_marked :: "Cluster \<Rightarrow> Cluster \<Rightarrow> BMCCluster \<Rightarrow> bool" where
  "infrastructure_marked old cl bc \<longleftrightarrow>
     (cl_InfrastructureReady cl \<longrightarrow> cl_InfrastructureReady old \<or> cstat_Ready (bc_Status bc))"

text \<open>Each step is labelled with what was done and with the environments it was done in.\<close>

datatype manager_action =
    ClusterTurn env env
  | MachineTurn nsname env
  | MachineCreated nsname node
  | MachineEdited nsname BMCMachine "Machine option" env
  | OwnerChanged nsname Machine env
  | BMCEdited BMCCluster env
  | ClusterChanged Cluster env
  | Resynchronise

inductive manager_step :: "(controller \<Rightarrow> watched \<Rightarrow> nsname set) \<Rightarrow> manager \<Rightarrow> bool \<Rightarrow> bool
    \<Rightarrow> manager_action \<Rightarrow> manager_state \<Rightarrow> manager_state \<Rightarrow> bool"
  for deliver M annotated resync where
  cluster_turn: "ms_queued s \<Longrightarrow> cluster_finds M E (cluster_side s) \<Longrightarrow> cluster_mapped M (cluster_side s) \<Longrightarrow> names_blocks E
    \<Longrightarrow> out = cluster_Reconcile (E\<lparr>GetBMCCluster := \<lambda>_. Inr (ms_bmc s)\<rparr>) (cs_key (cluster_side s))
    \<Longrightarrow> bc = patched_cluster (ms_bmc s) (outcome_state out)
    \<Longrightarrow> t = s\<lparr>ms_bmc := bc, ms_refused := refused E (outcome_state out)\<rparr> \<Longrightarrow> all_mapped M E' (ms_cluster s) t
    \<Longrightarrow> manager_step deliver M annotated resync (ClusterTurn E E') s (t\<lparr>
          ms_queued := asks_again out
            \<or> (bc \<noteq> ms_bmc s \<and> cluster_delivered deliver M (Some (ms_cluster s)) (cs_key (cluster_side s)) (WatchedCluster bc)),
          ms_nodes := wake (\<lambda>k. bc \<noteq> ms_bmc s \<and> delivered deliver M E' (ms_cluster s) k (WatchedCluster bc)) (ms_nodes s)\<rparr>)"
| machine_turn: "ms_nodes s k = Some n \<Longrightarrow> nd_queued n \<Longrightarrow> finds M E (machine_side s n)
    \<Longrightarrow> mapped M E (ms_cluster s) (machine_side s n)
    \<Longrightarrow> out = machine_Reconcile (E\<lparr>GetBMCMachine := \<lambda>_. Inr (nd_machine n)\<rparr>) (node_key n)
    \<Longrightarrow> bm = patched_machine (nd_machine n) (outcome_state out)
    \<Longrightarrow> manager_step deliver M annotated resync (MachineTurn k E) s (s\<lparr>ms_nodes := (ms_nodes s)(k \<mapsto> n\<lparr>nd_machine := bm, nd_unread := misses E (machine_side s n),
          nd_queued := asks_again out
          \<or> (bm \<noteq> nd_machine n \<and> delivered deliver M E (ms_cluster s) (node_key n) (WatchedMachine bm))\<rparr>)\<rparr>)"
| machine_created: "ms_nodes s k = None \<Longrightarrow> nd_queued n
    \<Longrightarrow> manager_step deliver M annotated resync (MachineCreated k n) s (s\<lparr>ms_nodes := (ms_nodes s)(k \<mapsto> n)\<rparr>)"
| machine_edited: "ms_nodes s k = Some n \<Longrightarrow> n' = n\<lparr>nd_machine := bm, nd_owner := m\<rparr> \<Longrightarrow> node_key n' = node_key n
    \<Longrightarrow> mapped M E (ms_cluster s) (machine_side s n')
    \<Longrightarrow> manager_step deliver M annotated resync (MachineEdited k bm m E) s (s\<lparr>ms_nodes := (ms_nodes s)(k \<mapsto> n'\<lparr>nd_queued := nd_queued n
          \<or> delivered deliver M E (ms_cluster s) (node_key n) (WatchedMachine bm)\<rparr>)\<rparr>)"
| owner_changed: "ms_nodes s k = Some n \<Longrightarrow> n' = n\<lparr>nd_owner := Some m\<rparr> \<Longrightarrow> nd_owner n \<noteq> None
    \<Longrightarrow> mapped M E (ms_cluster s) (machine_side s n')
    \<Longrightarrow> manager_step deliver M annotated resync (OwnerChanged k m E) s (s\<lparr>ms_nodes := (ms_nodes s)(k \<mapsto> n'\<lparr>nd_queued := nd_queued n
          \<or> delivered deliver M E (ms_cluster s) (node_key n) (WatchedOwner m)\<rparr>)\<rparr>)"
| bmc_edited: "bmc_edit (ms_bmc s) bc \<Longrightarrow> t = s\<lparr>ms_bmc := bc\<rparr> \<Longrightarrow> cs_key (cluster_side t) = cs_key (cluster_side s)
    \<Longrightarrow> cluster_mapped M (cluster_side t) \<Longrightarrow> all_mapped M E (ms_cluster s) t
    \<Longrightarrow> manager_step deliver M annotated resync (BMCEdited bc E) s (t\<lparr>
          ms_queued := ms_queued s \<or> cluster_delivered deliver M (Some (ms_cluster s)) (cs_key (cluster_side s)) (WatchedCluster bc),
          ms_nodes := wake (\<lambda>k. delivered deliver M E (ms_cluster s) k (WatchedCluster bc)) (ms_nodes s)\<rparr>)"
| cluster_changed: "infrastructure_marked (ms_cluster s) cl (ms_bmc s) \<Longrightarrow> t = s\<lparr>ms_cluster := cl\<rparr> \<Longrightarrow> cluster_mapped M (cluster_side t) \<Longrightarrow> all_mapped M E (ms_cluster s) t
    \<Longrightarrow> annotated \<or> ResourceNotPaused M (WatchedOwnerCluster cl)
    \<Longrightarrow> manager_step deliver M annotated resync (ClusterChanged cl E) s (t\<lparr>
          ms_queued := ms_queued s \<or> cluster_delivered deliver M (Some (ms_cluster s)) (cs_key (cluster_side s)) (WatchedOwnerCluster cl),
          ms_nodes := wake (\<lambda>k. delivered deliver M E (ms_cluster s) k (WatchedOwnerCluster cl)) (ms_nodes s)\<rparr>)"
| resynchronised: "resync
    \<Longrightarrow> manager_step deliver M annotated resync Resynchronise s (s\<lparr>ms_queued := True, ms_nodes := wake (\<lambda>_. True) (ms_nodes s)\<rparr>)"

text \<open>
  At its start the manager lists all objects.  A cluster with an address has a block and is ready, one
  without is not; and Cluster API has marked no other.
\<close>

definition block_known :: "BMCCluster \<Rightarrow> bool" where
  "block_known bc \<longleftrightarrow> (if cluster_ident bc = [] then \<not> cstat_Ready (bc_Status bc)
     else cstat_Ready (bc_Status bc) \<and> cluster_block bc \<noteq> [])"

definition marked_known :: "manager_state \<Rightarrow> bool" where
  "marked_known s \<longleftrightarrow> block_known (ms_bmc s) \<and> (cl_InfrastructureReady (ms_cluster s) \<longrightarrow> cstat_Ready (bc_Status (ms_bmc s)))"

inductive manager_run :: "(controller \<Rightarrow> watched \<Rightarrow> nsname set) \<Rightarrow> manager \<Rightarrow> bool \<Rightarrow> bool \<Rightarrow> manager_state \<Rightarrow> bool"
  for deliver M annotated resync where
  started: "ms_queued s \<Longrightarrow> (\<forall>k n. ms_nodes s k = Some n \<longrightarrow> nd_queued n) \<Longrightarrow> marked_known s
    \<Longrightarrow> manager_run deliver M annotated resync s"
| later: "manager_run deliver M annotated resync s \<Longrightarrow> manager_step deliver M annotated resync a s t
    \<Longrightarrow> manager_run deliver M annotated resync t"

section \<open>What each object sees\<close>

lemma side_simps [simp]:
  "cs_object (cluster_side s) = ms_bmc s" "cs_owner (cluster_side s) = Some (ms_cluster s)"
  "cs_refused (cluster_side s) = ms_refused s" "cs_queued (cluster_side s) = ms_queued s"
  "su_machine (machine_side s n) = nd_machine n" "su_owner (machine_side s n) = nd_owner n"
  "su_cluster (machine_side s n) = ms_cluster s" "su_bmc (machine_side s n) = Some (ms_bmc s)"
  "su_unread (machine_side s n) = nd_unread n" "su_queued (machine_side s n) = nd_queued n" "su_key (machine_side s n) = node_key n"
  by (simp_all add: cluster_side_def machine_side_def su_key_def node_key_def)

lemma side_updates:
  "cluster_side (s\<lparr>ms_nodes := ns\<rparr>) = cluster_side s"
  "cluster_side (s\<lparr>ms_queued := q\<rparr>) = (cluster_side s)\<lparr>cs_queued := q\<rparr>"
  "cluster_side (s\<lparr>ms_refused := r\<rparr>) = (cluster_side s)\<lparr>cs_refused := r\<rparr>"
  "cluster_side (s\<lparr>ms_bmc := bc\<rparr>) = (cluster_side s)\<lparr>cs_object := bc\<rparr>"
  "cluster_side (s\<lparr>ms_cluster := cl\<rparr>) = (cluster_side s)\<lparr>cs_owner := Some cl\<rparr>"
  "machine_side (s\<lparr>ms_nodes := ns\<rparr>) n = machine_side s n"
  "machine_side (s\<lparr>ms_queued := q\<rparr>) n = machine_side s n"
  "machine_side (s\<lparr>ms_refused := r\<rparr>) n = machine_side s n"
  "machine_side (s\<lparr>ms_bmc := bc\<rparr>) n = (machine_side s n)\<lparr>su_bmc := Some bc\<rparr>"
  "machine_side (s\<lparr>ms_cluster := cl\<rparr>) n = (machine_side s n)\<lparr>su_cluster := cl\<rparr>"
  "machine_side s (n\<lparr>nd_queued := q\<rparr>) = (machine_side s n)\<lparr>su_queued := q\<rparr>"
  "machine_side s (n\<lparr>nd_unread := b\<rparr>) = (machine_side s n)\<lparr>su_unread := b\<rparr>"
  "machine_side s (n\<lparr>nd_machine := bm\<rparr>) = (machine_side s n)\<lparr>su_machine := bm\<rparr>"
  "machine_side s (n\<lparr>nd_owner := m\<rparr>) = (machine_side s n)\<lparr>su_owner := m\<rparr>"
  by (simp_all add: cluster_side_def machine_side_def)

text \<open>A step of the manager is a step of the cluster's own system or leaves its side alone.\<close>

lemma cluster_simulation:
  assumes "manager_step deliver M annotated resync a s t"
  shows "cluster_side t = cluster_side s \<or> cluster_runtime_step deliver M annotated (cluster_side s) (cluster_side t)"
  using assms
proof (cases rule: manager_step.cases)
  case (cluster_turn E out bc t' E')
  from cluster_runtime_step.reconciled [of "cluster_side s" M E out bc deliver annotated] cluster_turn(3-8)
  show ?thesis unfolding cluster_turn(2,9) by (simp add: side_updates)
next
  case (bmc_edited bc t' E)
  have "cluster_side t' = (cluster_side s)\<lparr>cs_object := bc, cs_owner := cs_owner (cluster_side s)\<rparr>"
    by (simp add: bmc_edited(4) cluster_side_def)
  from cluster_runtime_step.object_edited [OF this, of M deliver annotated] bmc_edited(5,6)
  show ?thesis unfolding bmc_edited(2) by (simp add: side_updates)
next
  case (cluster_changed cl t' E)
  have "cluster_side t' = (cluster_side s)\<lparr>cs_owner := Some cl\<rparr>"
    by (simp add: cluster_changed(4) cluster_side_def)
  from cluster_runtime_step.owner_changed [OF this, of M annotated deliver] cluster_changed(5,7)
  show ?thesis unfolding cluster_changed(2) by (simp add: side_updates)
next
  case resynchronised
  show ?thesis
    unfolding resynchronised(2) using cluster_runtime_step.resynchronised [of deliver M annotated "cluster_side s"]
    by (simp add: side_updates)
qed (simp_all add: side_updates)

text \<open>So is it for each machine.\<close>

lemma wake_Some: "wake P ns k = Some n' \<longleftrightarrow> (\<exists>n. ns k = Some n \<and> n' = n\<lparr>nd_queued := nd_queued n \<or> P (node_key n)\<rparr>)"
  by (auto simp: wake_def)

lemma bmc_event:
  assumes "all_mapped M E (ms_cluster s) t" and "t = s\<lparr>ms_bmc := bc, ms_refused := r\<rparr>" and "ms_nodes s k = Some n"
    and "q = (nd_queued n \<or> delivered deliver M E (ms_cluster s) (node_key n) (WatchedCluster bc))"
  shows "runtime_step deliver M annotated (machine_side s n) (machine_side t (n\<lparr>nd_queued := q\<rparr>))"
proof -
  have "mapped M E (ms_cluster s) (machine_side t n)" using assms(1,3) by (simp add: all_mapped_def assms(2))
  moreover have "machine_side t n = (machine_side s n)\<lparr>su_bmc := Some bc\<rparr>" by (simp add: assms(2) side_updates)
  ultimately show ?thesis
    using runtime_step.bmc_changed [of "machine_side t n" bc "machine_side s n"] by (simp add: side_updates(11) assms(4))
qed

lemma machine_simulation:
  assumes "manager_step deliver M annotated resync a s t" and "ms_nodes s k = Some n"
  shows "\<exists>n'. ms_nodes t k = Some n'
    \<and> (machine_side t n' = machine_side s n \<or> runtime_step deliver M annotated (machine_side s n) (machine_side t n'))"
  using assms(1)
proof (cases rule: manager_step.cases)
  case (cluster_turn E out bc t' E')
  show ?thesis
    using bmc_event [OF cluster_turn(10,9) assms(2) refl, of deliver annotated] assms(2)
    unfolding cluster_turn(2,9) by (cases "bc = ms_bmc s") (auto simp: wake_Some machine_side_def)
next
  case (machine_turn k' n0 E out bm)
  from runtime_step.reconciled [of "machine_side s n0" M E out bm deliver annotated] machine_turn(4-8)
  show ?thesis using assms(2) machine_turn(3) unfolding machine_turn(2) by (auto simp: side_updates)
next
  case (machine_created k' n0)
  with assms(2) show ?thesis by (auto simp: side_updates)
next
  case (machine_edited k' n0 n1 m bm E)
  have "machine_side s n1 = (machine_side s n0)\<lparr>su_machine := bm, su_owner := m\<rparr>"
    by (simp add: machine_edited(4) side_updates)
  from runtime_step.machine_edited [OF this, of M E deliver annotated] machine_edited(3,5,6)
  show ?thesis using assms(2) unfolding machine_edited(2) by (auto simp: side_updates)
next
  case (owner_changed k' n0 n1 m E)
  have "machine_side s n1 = (machine_side s n0)\<lparr>su_owner := Some m\<rparr>"
    by (simp add: owner_changed(4) side_updates)
  from runtime_step.owner_changed [OF this, of M E deliver annotated] owner_changed(3,5,6)
  show ?thesis using assms(2) unfolding owner_changed(2) by (auto simp: side_updates owner_changed(4))
next
  case (bmc_edited bc t' E)
  have "t' = s\<lparr>ms_bmc := bc, ms_refused := ms_refused s\<rparr>" by (simp add: bmc_edited(4))
  from bmc_event [OF bmc_edited(7) this assms(2) refl, of deliver annotated]
  show ?thesis using assms(2) unfolding bmc_edited(2,4) by (auto simp: wake_Some machine_side_def)
next
  case (cluster_changed cl t' E)
  let ?q = "nd_queued n \<or> delivered deliver M E (ms_cluster s) (node_key n) (WatchedOwnerCluster cl)"
  have "machine_side t' n = (machine_side s n)\<lparr>su_cluster := cl\<rparr>" by (simp add: cluster_changed(4) side_updates)
  moreover have "mapped M E (ms_cluster s) (machine_side t' n)"
    using cluster_changed(6) assms(2) by (simp add: all_mapped_def cluster_changed(4))
  ultimately have "runtime_step deliver M annotated (machine_side s n) (machine_side t' (n\<lparr>nd_queued := ?q\<rparr>))"
    using runtime_step.cluster_changed [of "machine_side t' n" cl "machine_side s n" M E] cluster_changed(7)
    by (simp add: side_updates(11))
  then show ?thesis
    using assms(2) unfolding cluster_changed(2,4) by (auto simp: wake_Some machine_side_def)
next
  case resynchronised
  show ?thesis
    unfolding resynchronised(2) using runtime_step.resynchronised [of deliver M annotated "machine_side s n"] assms(2)
    by (auto simp: wake_Some side_updates)
qed

lemma new_machine_queued:
  assumes "manager_step deliver M annotated resync a s t" and "ms_nodes s k = None" and "ms_nodes t k = Some n"
  shows "nd_queued n"
  using assms by (cases rule: manager_step.cases) (auto simp: wake_def split: if_splits)

lemma manager_projects:
  assumes "manager_run deliver M annotated resync s"
  shows "cluster_runtime deliver M annotated (cluster_side s)"
    and "ms_nodes s k = Some n \<Longrightarrow> runtime deliver M annotated (machine_side s n)"
proof -
  have "cluster_runtime deliver M annotated (cluster_side s)
      \<and> (\<forall>k n. ms_nodes s k = Some n \<longrightarrow> runtime deliver M annotated (machine_side s n))"
    using assms
  proof induction
    case (started s)
    then show ?case by (auto intro: cluster_runtime.listed runtime.listed)
  next
    case (later s a t)
    have "runtime deliver M annotated (machine_side t n)" if "ms_nodes t k = Some n" for k n
    proof (cases "ms_nodes s k")
      case None
      then show ?thesis using new_machine_queued [OF later(2) None that] by (auto intro: runtime.listed)
    next
      case (Some n0)
      with machine_simulation [OF later(2) Some] later.IH that show ?thesis by (auto intro: runtime.later)
    qed
    moreover have "cluster_runtime deliver M annotated (cluster_side t)"
      using cluster_simulation [OF later(2)] later.IH by (auto intro: cluster_runtime.later)
    ultimately show ?case by blast
  qed
  then show "cluster_runtime deliver M annotated (cluster_side s)"
    and "ms_nodes s k = Some n \<Longrightarrow> runtime deliver M annotated (machine_side s n)" by blast+
qed

section \<open>The block of a cluster with an address\<close>

lemma allocated_ip_block:
  assumes "cc_GetIP cc = []" and "cc_GetIP (outcome_state (cluster_allocated ips cc)) \<noteq> []"
  shows "cc_GetIPAllocationID (outcome_state (cluster_allocated ips cc)) = cstat_ID ips"
proof (cases "om_Annotations (cc_meta cc)")
  case None
  with assms show ?thesis
    by (simp add: cluster_allocated_no_map allocation_noted_def cc_GetIP_def cc_SetStatus_def cc_Eventf_def)
qed (simp add: allocation_stored)

lemma create_ip_block:
  assumes "cc_GetIP cc = []" and "cc_GetIP (outcome_state (cluster_reconcileCreate E cc)) \<noteq> []" and "BMCEndpointURL E = base"
  shows "block_issued base E (allocate_http E cc) = Some (cc_GetIPAllocationID (outcome_state (cluster_reconcileCreate E cc)))"
proof -
  let ?q = "allocate_http E cc" and ?d = "clog_effects [Http (allocate_http E cc)] cc"
  have l: "cc_GetIP (clog_effects es cc) = cc_GetIP cc" "cc_GetIP (cc_Event t r x (clog_effects es cc)) = cc_GetIP cc" for es t r x
    by (simp_all add: cc_GetIP_def cc_Event_def)
  have u: "URLError E (hr_URL ?q) = None"
    using assms(1,2) l by (auto simp: cluster_reconcileCreate_def http_send_def Let_def split: option.splits)
  obtain c body where c: "BMC E ?q = Response c body"
    using assms(1,2) u l by (cases "BMC E ?q") (auto simp: cluster_reconcileCreate_def http_send_def Let_def)
  have r: "cluster_reconcileCreate E cc = cluster_create_response E c body ?d"
    using u c by (simp add: cluster_reconcileCreate_def http_send_def Let_def)
  have "http_ok c"
    using assms(1,2) l(1) by (intro ccontr [of "http_ok c"]) (simp add: r cluster_create_response_refused cc_GetIP_def)
  then have a: "cluster_create_response E c body ?d = cluster_create_accepted E body ?d"
    by (auto simp: cluster_create_response_def http_ok_def)
  obtain ips where i: "unmarshal_cluster_status body = Inr ips"
    using assms(1,2) l by (cases "unmarshal_cluster_status body") (auto simp: r a cluster_create_accepted_def)
  then have "cluster_reconcileCreate E cc = cluster_allocated ips ?d"
    by (simp add: r a cluster_create_accepted_def)
  then show ?thesis
    using allocated_ip_block [of ?d ips] assms(1,2) l(1) u c i \<open>http_ok c\<close> block_create_http [OF assms(3)]
    by (simp add: block_issued_def)
qed

lemma cluster_delete_annotations:
  "om_Annotations (cc_meta (outcome_state (cluster_reconcileDelete E cc))) = om_Annotations (cc_meta cc)"
  by (simp add: cluster_reconcileDelete_def cluster_deleted_def cc_Eventf_def cc_Event_def cc_RemoveFini_def Let_def
      split: prod.split http_outcome.split)

lemma allocated_ready:
  assumes "cc_GetIP (outcome_state (cluster_allocated ips cc)) = []"
  shows "cstat_Ready (cc_status (outcome_state (cluster_allocated ips cc))) = cstat_Ready (cc_status cc)"
proof -
  have n: "cstat_Ready (cc_status (allocation_noted ips cc)) = cstat_Ready (cc_status cc)"
    by (simp add: allocation_noted_def cc_SetStatus_def cc_Eventf_def)
  show ?thesis
  proof (cases "om_Annotations (cc_meta cc)")
    case None
    then show ?thesis by (simp add: cluster_allocated_no_map n)
  next
    case (Some m)
    then have m: "om_Annotations (cc_meta cc) \<noteq> None" by simp
    show ?thesis
    proof (cases "ParseIP (TrimSuffix (cstat_CIDR ips) ''/31'')")
      case None
      then show ?thesis
        using cluster_allocated_bad_address [OF m, of ips] n by (auto dest: cc_SetIPAllocationID_simps(1))
    next
      case addr: (Some a)
      have "IP_String (next_address a) \<noteq> []"
        by (rule IP_String_nonempty) (simp add: next_address_def ParseIP_length [OF addr])
      then show ?thesis
        using cluster_allocated_ok [OF m addr] assms cc_SetIP_simps(4) by (auto simp: cc_SetReady_def cc_GetIP_def)
    qed
  qed
qed

lemma create_ready:
  assumes "cc_GetIP (outcome_state (cluster_reconcileCreate E cc)) = []"
  shows "cstat_Ready (cc_status (outcome_state (cluster_reconcileCreate E cc))) = cstat_Ready (cc_status cc)"
proof -
  have "cstat_Ready (cc_status (outcome_state (cluster_create_response E c body d))) = cstat_Ready (cc_status d)"
    if "cc_GetIP (outcome_state (cluster_create_response E c body d)) = []" for c body d
    using that allocated_ready
    by (auto simp: cluster_create_response_def cluster_create_accepted_def cluster_frame cc_Eventf_def cc_Event_def split: sum.splits if_splits)
  then show ?thesis
    using assms by (auto simp: cluster_reconcileCreate_def cc_Event_def Let_def split: prod.splits http_outcome.splits)
qed

text \<open>A reconciliation changes the two annotations and the readiness only by an accepted allocation.\<close>

lemma delete_ready_kept: "cc_status (outcome_state (cluster_reconcileDelete E cc)) = cc_status cc"
  by (simp add: cluster_reconcileDelete_def cluster_deleted_def cc_Eventf_def cc_Event_def cc_RemoveFini_def Let_def
      split: prod.split http_outcome.split)

lemma dispatch_block_known:
  assumes "block_known (cc_BMCCluster cc)" and "names_blocks E"
  shows "block_known (cc_BMCCluster (outcome_state (cluster_dispatch E cc)))"
    and "cc_GetIP cc \<noteq> [] \<Longrightarrow> cc_GetIP (outcome_state (cluster_dispatch E cc)) = cc_GetIP cc"
proof -
  let ?w = "cc_with_finalizer E cc" and ?o = "outcome_state (cluster_dispatch E cc)"
  have w: "cc_GetIP ?w = cc_GetIP cc" "cc_GetIPAllocationID ?w = cc_GetIPAllocationID cc" "cc_status ?w = cc_status cc"
    "om_Annotations (cc_meta ?w) = om_Annotations (cc_meta cc)"
    by (simp_all add: cc_with_finalizer_def)
  show "cc_GetIP cc \<noteq> [] \<Longrightarrow> cc_GetIP ?o = cc_GetIP cc" by (rule dispatch_cluster_created(1)) simp_all
  show "block_known (cc_BMCCluster ?o)"
  proof (cases "cluster_IsMarkedDeleted (Some (cc_BMCCluster cc)) \<or> cc_GetIP cc \<noteq> []")
    case True
    then have "om_Annotations (cc_meta ?o) = om_Annotations (cc_meta cc)"
      using w cluster_delete_annotations [of E cc] cluster_sync_frame(1) [of E ?w]
      by (auto simp: cluster_dispatch_def cluster_reconcileLive_unfold split: prod.split)
    then have "cc_GetIP ?o = cc_GetIP cc" "cc_GetIPAllocationID ?o = cc_GetIPAllocationID cc"
      by (simp_all add: cc_GetIP_def cc_GetIPAllocationID_def annotation_def)
    moreover have "cstat_Ready (cc_status ?o) = cstat_Ready (cc_status cc)"
      if "cluster_IsMarkedDeleted (Some (cc_BMCCluster cc)) \<or> cstat_Ready (cc_status cc)"
      using that True w cluster_sync_ready [of ?w E] delete_ready_kept [of E cc]
      by (auto simp: cluster_dispatch_def cluster_reconcileLive_unfold split: prod.split)
    ultimately show ?thesis
      using assms(1) True by (auto simp: block_known_def cluster_ident_cc cluster_block_cc split: if_splits)
  next
    case False
    then have r: "?o = outcome_state (cluster_reconcileCreate E ?w)"
      by (simp add: cluster_dispatch_def cluster_reconcileLive_unfold)
    have "\<not> cstat_Ready (cc_status cc)" using assms(1) False by (simp add: block_known_def cluster_ident_cc)
    then show ?thesis
      using create_ready [of E ?w] create_ip_block [of ?w E "BMCEndpointURL E"] linked_create [of ?w E] False w assms(2)
      by (auto simp: block_known_def r cluster_ident_cc cluster_block_cc names_blocks_def cc_linked_iff cc_IsReady_def)
  qed
qed

lemma cluster_run_block_known:
  assumes "block_known x" and "names_blocks E" and "cluster_run E x = (y, rs)"
  shows "block_known y \<and> (cstat_Ready (bc_Status x) \<longrightarrow> cstat_Ready (bc_Status y))"
proof (cases rule: cluster_run_cases [of E x])
  case idle
  with assms show ?thesis by simp
next
  case (run cl E')
  have "names_blocks E'" using assms(2) by (simp add: names_blocks_def run(1))
  then have "block_known y" "cluster_ident x \<noteq> [] \<Longrightarrow> cluster_ident y = cluster_ident x"
    using dispatch_block_known [of "cluster_context x cl" E'] assms(1,3) run(2)
    by (auto simp: cluster_ident_cc [symmetric])
  then show ?thesis using assms(1) by (auto simp: block_known_def split: if_splits)
qed

lemma manager_marked_known: "manager_run deliver M annotated resync s \<Longrightarrow> marked_known s"
proof (induction rule: manager_run.induct)
  case (later s a t)
  from later(2) show ?case
  proof (cases rule: manager_step.cases)
    case (cluster_turn E out bc t' E')
    have "fst (cluster_run E (ms_bmc s)) = bc"
      by (simp add: cluster_turn(7,8) cluster_run_def Let_def cs_key_def)
    then show ?thesis
      using cluster_run_block_known [OF _ cluster_turn(6)] later.IH unfolding cluster_turn(2,9)
      by (cases "cluster_run E (ms_bmc s)") (auto simp: marked_known_def)
  next
    case (bmc_edited bc t' E)
    then have e: "cluster_edit (ms_bmc s) bc" by (simp add: bmc_edit_def)
    have "block_known bc = block_known (ms_bmc s)"
      using bmc_edited(3) by (simp add: bmc_edit_def block_known_def cluster_edit_ident [OF e] cluster_edit_block [OF e])
    then show ?thesis
      using later.IH bmc_edited(3) unfolding bmc_edited(2,4) by (simp add: marked_known_def bmc_edit_def)
  qed (use later.IH in \<open>auto simp: marked_known_def infrastructure_marked_def\<close>)
qed (simp add: marked_known_def)

section \<open>The properties of the manager\<close>

text \<open>
  C10. Whoever waits is served: in every state the manager can reach, a machine that is not in the queue,
  lives, has an owner with bootstrap data, no failure and a last reconciliation in which the BMCCluster
  could be read, with nothing paused, waits for its Cluster's infrastructure, never for the block alone; and
  either the BMCCluster is ready, so that the Cluster is to be marked, or it has no address yet and its
  reconciliation, which allocates, is due, unless it is being deleted and has been released, has failed, or
  its last allocation was refused for the time being.  Others
  leave the two annotations and the readiness of the BMCCluster alone, Cluster API marks the infrastructure
  ready only when the BMCCluster is, accepted allocations name their block, the events are delivered as
  documented, and no event is one of a Cluster that carries the annotation for paused objects.
\<close>

theorem machine_wait_served:
  assumes "manager_run deliver M False resync s" and "delivery_law deliver" and "ms_nodes s k = Some n" and "\<not> nd_queued n"
    and "\<not> nd_unread n"
    and "om_DeletionTimestamp (bm_Meta (nd_machine n)) = None" and "nd_owner n = Some m" and "mach_DataSecretName m \<noteq> None"
    and "mstat_BMCStatus (bm_Status (nd_machine n)) \<notin> {StatusIrreconcilable, StatusOrphaned, StatusError}"
    and "\<not> cl_Paused (ms_cluster s)" and "ResourceNotPaused M (WatchedOwner m)"
    and "ResourceNotPaused M (WatchedMachine (nd_machine n))" and "ResourceNotPaused M (WatchedCluster (ms_bmc s))"
  shows "\<not> cl_InfrastructureReady (ms_cluster s)
    \<and> (cstat_Ready (bc_Status (ms_bmc s))
      \<or> (annotation (bc_Meta (ms_bmc s)) ANNOTATION_NAME_BMC_CLUSTER_IP = []
          \<and> (ms_queued s \<or> ms_refused s
            \<or> (om_DeletionTimestamp (bc_Meta (ms_bmc s)) \<noteq> None
                \<and> ClusterFinalizer \<notin> set (om_Finalizers (bc_Meta (ms_bmc s))))
            \<or> cstat_BMCStatus (bc_Status (ms_bmc s)) \<in> {StatusIrreconcilable, StatusOrphaned})))"
proof -
  have b: "block_known (ms_bmc s)" "cl_InfrastructureReady (ms_cluster s) \<longrightarrow> cstat_Ready (bc_Status (ms_bmc s))"
    using manager_marked_known [OF assms(1)] by (simp_all add: marked_known_def)
  have "waits M (machine_side s n)"
    using runtime_waits [OF manager_projects(2) [OF assms(1,3)] assms(2)] assms(4) by simp
  then have "\<not> cl_InfrastructureReady (ms_cluster s) \<or> cluster_block (ms_bmc s) = []"
    using assms(5-13) by (auto simp: waits_def failed_status_def cluster_block_def)
  then have "\<not> cl_InfrastructureReady (ms_cluster s)"
    using b by (auto simp: block_known_def split: if_splits)
  moreover have "ms_queued s \<or> cluster_waits M (cluster_side s)"
    using cluster_runtime_waits [OF manager_projects(1) [OF assms(1)] assms(2)] by simp
  ultimately show ?thesis
    using b(1) assms(10,13) by (auto simp: cluster_waits_def block_known_def cluster_ident_def split: if_splits)
qed

text \<open>The example of Runtime with its cluster, which has no address yet and is in the queue.\<close>

definition manager_example :: "bool \<Rightarrow> manager_state" where
  "manager_example q = \<lparr>ms_bmc = example_bmccluster, ms_cluster = unready_cluster, ms_refused = False, ms_queued = True,
     ms_nodes = [watch_key \<mapsto> \<lparr>nd_machine = runtime_machine, nd_owner = Some example_owner, nd_unread = False, nd_queued = q\<rparr>]\<rparr>"

lemma manager_waiting: "manager_run watch_deliver runtime_manager False False (manager_example False)"
proof -
  let ?s = "manager_example True" and ?n = "\<lparr>nd_machine = runtime_machine, nd_owner = Some example_owner, nd_unread = False, nd_queued = True\<rparr>"
  have n: "ms_nodes ?s watch_key = Some ?n" "nd_queued ?n" "nd_machine ?n = runtime_machine"
    "node_key ?n = watched_key (WatchedMachine runtime_machine)"
    by (simp_all add: manager_example_def node_key_def)
  have m: "machine_side ?s ?n = runtime_state unready_cluster True" "ms_cluster ?s = unready_cluster"
    by (simp_all add: machine_side_def manager_example_def runtime_state_def)
  have "manager_step watch_deliver runtime_manager False False (MachineTurn watch_key (runtime_env unready_cluster)) ?s
      (?s\<lparr>ms_nodes := (ms_nodes ?s)(watch_key \<mapsto> ?n\<lparr>nd_machine := runtime_machine, nd_unread := False, nd_queued := False\<rparr>)\<rparr>)"
    using manager_step.machine_turn [OF n(1,2) _ _ refl refl, of runtime_manager "runtime_env unready_cluster" watch_deliver False False]
      unready_reconciliation
    by (simp only: m n(3,4) patched_itself outcome_state.simps) (simp add: asks_again_def runtime_reads)
  moreover have "?s\<lparr>ms_nodes := (ms_nodes ?s)(watch_key \<mapsto> ?n\<lparr>nd_machine := runtime_machine, nd_unread := False, nd_queued := False\<rparr>)\<rparr>
      = manager_example False"
    by (simp add: manager_example_def)
  moreover have "marked_known ?s"
    by (simp add: marked_known_def block_known_def manager_example_def cluster_ident_def example_bmccluster_def example_meta_def
        annotation_def zero_cluster_status_def unready_cluster_def)
  then have "manager_run watch_deliver runtime_manager False False ?s"
    by (intro manager_run.started) (auto simp: manager_example_def)
  ultimately show ?thesis by (auto intro: manager_run.later)
qed

theorem machine_wait_served_witness:
  "\<exists>s n. manager_run watch_deliver runtime_manager False False s \<and> ms_nodes s watch_key = Some n \<and> \<not> nd_queued n
    \<and> \<not> cl_InfrastructureReady (ms_cluster s) \<and> annotation (bc_Meta (ms_bmc s)) ANNOTATION_NAME_BMC_CLUSTER_IP = []"
proof -
  let ?s = "manager_example False" and ?n = "\<lparr>nd_machine = runtime_machine, nd_owner = Some example_owner, nd_unread = False, nd_queued = False\<rparr>"
  have n: "ms_nodes ?s watch_key = Some ?n" "\<not> nd_queued ?n" "nd_owner ?n = Some example_owner"
    "om_DeletionTimestamp (bm_Meta (nd_machine ?n)) = None" "mach_DataSecretName example_owner \<noteq> None"
    "mstat_BMCStatus (bm_Status (nd_machine ?n)) \<notin> {StatusIrreconcilable, StatusOrphaned, StatusError}"
    "\<not> cl_Paused (ms_cluster ?s)" "ms_bmc ?s = example_bmccluster" "\<not> nd_unread ?n"
    by (simp_all add: manager_example_def runtime_machine_def example_meta_def example_owner_def example_machine_def
        zero_machine_status_def status_defs unready_cluster_def example_cluster_def)
  have p: "ResourceNotPaused runtime_manager (WatchedOwner example_owner)"
    "ResourceNotPaused runtime_manager (WatchedMachine (nd_machine ?n))" "ResourceNotPaused runtime_manager (WatchedCluster (ms_bmc ?s))"
    by (simp_all add: runtime_manager_simps)
  have "\<not> cstat_Ready (bc_Status (ms_bmc ?s))"
    by (simp add: n(8) example_bmccluster_def zero_cluster_status_def)
  then show ?thesis
    using machine_wait_served [OF manager_waiting watch_delivers n(1,2,9,4,3,5,6,7) p] manager_waiting n(1,2)
    by (intro exI [of _ ?s] exI [of _ ?n]) simp
qed

end
