(* ===== verification/ManagerBringUp.thy ===== *)
theory ManagerBringUp
  imports ManagerSystem
begin

text \<open>
  The way from a new cluster and a new machine to a serving machine in the running manager, where each
  reconciliation is due to the event of the step before and nothing is resynchronised.  What is done is a
  trace of actions, which with the first state determines the last one.
\<close>

section \<open>Traces\<close>

inductive manager_trace :: "(controller \<Rightarrow> watched \<Rightarrow> nsname set) \<Rightarrow> manager \<Rightarrow> bool \<Rightarrow> bool
    \<Rightarrow> manager_action list \<Rightarrow> manager_state \<Rightarrow> manager_state \<Rightarrow> bool"
  for deliver M annotated resync where
  nothing: "manager_trace deliver M annotated resync [] s s"
| first: "manager_step deliver M annotated resync a s t \<Longrightarrow> manager_trace deliver M annotated resync as t u
    \<Longrightarrow> manager_trace deliver M annotated resync (a # as) s u"

inductive_cases manager_traceE: "manager_trace deliver M annotated resync (a # as) s u"

lemma step_determines:
  assumes "manager_step deliver M ann resync a s t" and "manager_step deliver M ann resync a s u"
  shows "t = u"
  using assms by (elim manager_step.cases; simp)

lemma trace_determines:
  assumes "manager_trace deliver M ann resync as s t" and "manager_trace deliver M ann resync as s u"
  shows "t = u"
  using assms
proof (induction arbitrary: u)
  case (nothing s)
  then show ?case by (cases rule: manager_trace.cases) simp_all
next
  case (first a s t as v)
  from first.prems obtain t' where t': "manager_step deliver M ann resync a s t'" "manager_trace deliver M ann resync as t' u"
    by (rule manager_traceE)
  with first step_determines [OF first.hyps(1) t'(1)] show ?case by simp
qed

text \<open>A trace from a state that the manager can reach ends in one.\<close>

lemma run_trace: "manager_trace deliver M ann resync as s t \<Longrightarrow> manager_run deliver M ann resync s \<Longrightarrow> manager_run deliver M ann resync t"
  by (induction rule: manager_trace.induct) (auto intro: manager_run.later)

section \<open>What does not depend on the queue\<close>

lemma mapped_cong:
  assumes "su_key s = su_key t" and "su_owner s = su_owner t" and "su_cluster s = su_cluster t" and "su_bmc s = su_bmc t"
  shows "mapped M E old s = mapped M E old t"
  by (simp add: mapped_def assms)

lemma finds_queued [simp]: "finds M E (s\<lparr>su_queued := q\<rparr>) = finds M E s"
  by (cases "su_bmc s") (simp_all add: finds_def)

lemma finds_unread [simp]: "finds M E (s\<lparr>su_unread := b\<rparr>) = finds M E s"
  by (cases "su_bmc s") (simp_all add: finds_def)

text \<open>The scene of a state: what it holds except for the queues.\<close>

definition same_scene :: "manager_state \<Rightarrow> manager_state \<Rightarrow> bool" where
  "same_scene s t \<longleftrightarrow> ms_bmc s = ms_bmc t \<and> ms_cluster s = ms_cluster t
     \<and> (\<forall>k. map_option (nd_queued_update (\<lambda>_. True)) (ms_nodes s k) = map_option (nd_queued_update (\<lambda>_. True)) (ms_nodes t k))"

lemma same_scene_node:
  assumes "same_scene s t" and "ms_nodes s k = Some n"
  shows "\<exists>q. ms_nodes t k = Some (n\<lparr>nd_queued := q\<rparr>)"
proof -
  have "map_option (nd_queued_update (\<lambda>_. True)) (ms_nodes s k) = map_option (nd_queued_update (\<lambda>_. True)) (ms_nodes t k)"
    using assms(1) unfolding same_scene_def by blast
  then have "map_option (nd_queued_update (\<lambda>_. True)) (ms_nodes t k) = Some (n\<lparr>nd_queued := True\<rparr>)"
    using assms(2) by (metis option.simps(9))
  then obtain n' where n': "ms_nodes t k = Some n'" "n'\<lparr>nd_queued := True\<rparr> = n\<lparr>nd_queued := True\<rparr>" by auto
  then have "n' = n\<lparr>nd_queued := nd_queued n'\<rparr>" by (cases n, cases n') simp
  with n'(1) show ?thesis by metis
qed

lemma same_scene_side: "same_scene s t \<Longrightarrow> machine_side t n = machine_side s n"
  by (simp add: same_scene_def machine_side_def)

lemma same_scene_sym: "same_scene s t \<Longrightarrow> same_scene t s"
  by (simp add: same_scene_def)

lemma same_scene_mapped:
  assumes "same_scene s t" and "all_mapped M E old s"
  shows "all_mapped M E old t"
  unfolding all_mapped_def
proof (intro allI impI)
  fix k n assume n: "ms_nodes t k = Some n"
  obtain q where "ms_nodes s k = Some (n\<lparr>nd_queued := q\<rparr>)"
    using same_scene_node [OF same_scene_sym [OF assms(1)] n] by blast
  then have "mapped M E old (machine_side s (n\<lparr>nd_queued := q\<rparr>))" using assms(2) by (simp add: all_mapped_def)
  then show "mapped M E old (machine_side t n)"
    by (subst mapped_cong [of _ "machine_side s (n\<lparr>nd_queued := q\<rparr>)"])
       (simp_all add: same_scene_side [OF assms(1)] node_key_def)
qed

lemma same_scene_wake:
  "same_scene s (s\<lparr>ms_queued := q, ms_nodes := wake P (ms_nodes s)\<rparr>)"
  "same_scene s (s\<lparr>ms_refused := r\<rparr>)"
  by (simp_all add: same_scene_def wake_def option.map_comp comp_def)

lemma same_scene_trans: "same_scene s t \<Longrightarrow> same_scene t u \<Longrightarrow> same_scene s u"
  by (simp add: same_scene_def)

section \<open>The turns\<close>

lemma cluster_turns:
  assumes "ms_queued s" and "cluster_finds M E (cluster_side s)" and "cluster_mapped M (cluster_side s)" and "names_blocks E"
    and "cluster_run E (ms_bmc s) = (y, rs)" and "all_mapped M E' (ms_cluster s) (s\<lparr>ms_bmc := y\<rparr>)"
  shows "\<exists>t. manager_step deliver M ann resync (ClusterTurn E E') s t \<and> same_scene (s\<lparr>ms_bmc := y\<rparr>) t"
proof -
  define out where "out = cluster_Reconcile (E\<lparr>GetBMCCluster := \<lambda>_. Inr (ms_bmc s)\<rparr>) (cs_key (cluster_side s))"
  define t where "t = s\<lparr>ms_bmc := y, ms_refused := refused E (outcome_state out)\<rparr>"
  have y: "y = patched_cluster (ms_bmc s) (outcome_state out)"
    using assms(5) by (simp add: out_def cluster_run_def Let_def cs_key_def)
  have st: "same_scene (s\<lparr>ms_bmc := y\<rparr>) t" unfolding t_def by (rule same_scene_wake)
  have m: "all_mapped M E' (ms_cluster s) t" by (rule same_scene_mapped [OF st assms(6)])
  note step = manager_step.cluster_turn [OF assms(1-4) out_def y t_def m, of deliver ann resync]
  have "ms_nodes s = ms_nodes t" by (simp add: t_def)
  with step same_scene_trans [OF st same_scene_wake(1)] show ?thesis by metis
qed

lemma cluster_marked:
  assumes "delivery_law deliver" and "cstat_Ready (bc_Status (ms_bmc s))"
    and "\<not> cl_InfrastructureReady (ms_cluster s)" and "cl = (ms_cluster s)\<lparr>cl_InfrastructureReady := True\<rparr>"
    and "ResourceNotPaused M (WatchedOwnerCluster cl)" and "cluster_mapped M (cluster_side (s\<lparr>ms_cluster := cl\<rparr>))"
    and "all_mapped M E (ms_cluster s) (s\<lparr>ms_cluster := cl\<rparr>)" and "ms_nodes s k = Some n" and "nd_owner n \<noteq> None"
  shows "\<exists>t. manager_step deliver M ann resync (ClusterChanged cl E) s t \<and> same_scene (s\<lparr>ms_cluster := cl\<rparr>) t
    \<and> ms_nodes t k = Some (n\<lparr>nd_queued := True\<rparr>)"
proof -
  let ?t = "s\<lparr>ms_cluster := cl\<rparr>"
  obtain m where m: "nd_owner n = Some m" using assms(9) by blast
  have "infrastructure_marked (ms_cluster s) cl (ms_bmc s)" using assms(2) by (simp add: infrastructure_marked_def)
  from manager_step.cluster_changed [OF this refl assms(6,7)] assms(5)
  have step: "manager_step deliver M ann resync (ClusterChanged cl E) s (?t\<lparr>
      ms_queued := ms_queued s \<or> cluster_delivered deliver M (Some (ms_cluster s)) (cs_key (cluster_side s)) (WatchedOwnerCluster cl),
      ms_nodes := wake (\<lambda>k. delivered deliver M E (ms_cluster s) k (WatchedOwnerCluster cl)) (ms_nodes ?t)\<rparr>)" by simp
  have "mapped M E (ms_cluster s) (machine_side ?t n)" using assms(7,8) by (simp add: all_mapped_def)
  from wired_delivered(3) [OF assms(1) this, of m "ms_bmc s"] m assms(3-5)
  have "delivered deliver M E (ms_cluster s) (node_key n) (WatchedOwnerCluster cl)"
    by (simp add: resumed_or_ready_def)
  then have "wake (\<lambda>k. delivered deliver M E (ms_cluster s) k (WatchedOwnerCluster cl)) (ms_nodes ?t) k = Some (n\<lparr>nd_queued := True\<rparr>)"
    using assms(8) by (simp add: wake_def)
  with step show ?thesis
    by (intro exI conjI) (assumption, rule same_scene_wake(1), simp)
qed

lemma machine_turns:
  assumes "ms_nodes s k = Some n" and "nd_queued n" and "finds M E (machine_side s n)"
    and "mapped M E (ms_cluster s) (machine_side s n)" and "machine_run E (nd_machine n) = (x, rs)"
  obtains b q where "manager_step deliver M ann resync (MachineTurn k E) s
      (s\<lparr>ms_nodes := (ms_nodes s)(k \<mapsto> n\<lparr>nd_machine := x, nd_unread := b, nd_queued := q\<rparr>)\<rparr>)"
    and "delivery_law deliver \<Longrightarrow> x \<noteq> nd_machine n \<Longrightarrow> ResourceNotPaused M (WatchedMachine x) \<Longrightarrow> q"
proof -
  define out where "out = machine_Reconcile (E\<lparr>GetBMCMachine := \<lambda>_. Inr (nd_machine n)\<rparr>) (node_key n)"
  have x: "x = patched_machine (nd_machine n) (outcome_state out)"
    using assms(5) by (simp add: out_def machine_run_def Let_def node_key_def)
  note step = manager_step.machine_turn [OF assms(1-4) out_def x, of deliver ann resync]
  have "node_key n = watched_key (WatchedMachine x)"
    using machine_run_fixed [OF assms(5)] by (simp add: node_key_def fixed_meta_def)
  then have "delivered deliver M E (ms_cluster s) (node_key n) (WatchedMachine x)"
    if "delivery_law deliver" "ResourceNotPaused M (WatchedMachine x)"
    using delivered_iff [OF that(1) assms(4) that(2)] by simp
  with step show thesis by (intro that) blast+
qed

section \<open>From new objects to a serving machine\<close>

lemma same_scene_cluster: "same_scene s t \<Longrightarrow> same_scene (s\<lparr>ms_cluster := cl\<rparr>) (t\<lparr>ms_cluster := cl\<rparr>)"
  by (simp add: same_scene_def)

lemma same_scene_cluster_mapped:
  "same_scene s t \<Longrightarrow> cluster_mapped M (cluster_side s) \<Longrightarrow> cluster_mapped M (cluster_side t)"
  by (simp add: same_scene_def cluster_mapped_def cs_key_def)

lemma poll_makes_serve:
  assumes "finds_powered_on E x i" and "machine_ident x = i" and "i \<noteq> []" and "om_DeletionTimestamp (bm_Meta x) = None"
    and "machine_linked x" and "machine_run E x = (z, ps)"
  shows "machine_stage z = Serving" and "machine_ident z = i"
proof -
  have n: "machine_ident x \<noteq> []" using assms(2,3) by simp
  obtain m cl bc c body ss where p: "serves E x m cl bc" "http_ok c"
    "BMC E (http_Get (server_url E (machine_ident x))) = Response c body"
    "unmarshal_machine_status (Decoders E) body = Inr ss" "mstat_BMCStatus ss = StatusPoweredOn"
    using assms(1,2) by (auto simp: finds_powered_on_def)
  show "machine_stage z = Serving" "machine_ident z = i"
    using powered_on_serves(1) [OF p(1) assms(4) n assms(5) p(3,2,4,5)] machine_run_keeps(1) [OF assms(6) n] assms(2,6) by simp_all
qed

text \<open>
  C7. The manager brings a cluster and its machine up, driven by nothing but its own queues and events: in
  any state in which a new cluster is in the queue, and a machine has no server yet, whether it is in the
  queue or not, the trace of four actions, the cluster's turn, the mark that Cluster API sets on the ready
  cluster, and two turns of the machine, is possible, each turn because its key is in the queue by then; and
  it ends, whatever state that is, with a ready cluster with its endpoint and a serving machine that holds the
  created server.  The cluster's turn allocates its block; the event of the mark wakes the machine, which then
  creates its server; and the event of that patch brings the machine back for the poll that finds the server
  powered on.
\<close>

theorem manager_brings_up:
  assumes "delivery_law deliver"
    and "ms_queued s" and "cluster_due Ec (ms_bmc s) ips" and "cluster_finds M Ec (cluster_side s)"
    and "cluster_mapped M (cluster_side s)" and "names_blocks Ec"
    and "ParseIP (TrimSuffix (cstat_CIDR ips) ''/31'') = Some a" and "cluster_run Ec (ms_bmc s) = (y, rs)"
    and "s1 = s\<lparr>ms_bmc := y\<rparr>" and "all_mapped M Ec (ms_cluster s) s1"
    and "\<not> cl_InfrastructureReady (ms_cluster s)" and "cl = (ms_cluster s)\<lparr>cl_InfrastructureReady := True\<rparr>"
    and "ResourceNotPaused M (WatchedOwnerCluster cl)"
    and "s2 = s1\<lparr>ms_cluster := cl\<rparr>" and "cluster_mapped M (cluster_side s2)" and "all_mapped M E (ms_cluster s) s2"
    and "all_mapped M E cl s2"
    and "ms_nodes s k = Some n" and "nd_owner n \<noteq> None"
    and "machine_due E (nd_machine n) y ss" and "mstat_BMCServerID ss \<noteq> []" and "machine_run E (nd_machine n) = (x, ms)"
    and "ResourceNotPaused M (WatchedMachine x)" and "finds_powered_on E x (mstat_BMCServerID ss)"
    and "finds M E (machine_side s2 n)" and "finds M E (machine_side s2 (n\<lparr>nd_machine := x\<rparr>))"
    and "as = [ClusterTurn Ec Ec, ClusterChanged cl E, MachineTurn k E, MachineTurn k E]"
  shows "(\<exists>t. manager_trace deliver M False False as s t)
    \<and> (\<forall>t. manager_trace deliver M False False as s t \<longrightarrow> cstat_Ready (bc_Status (ms_bmc t))
      \<and> cspec_ControlPlaneEndpoint (bc_Spec (ms_bmc t)) = \<lparr>ep_Host = IP_String (next_address a), ep_Port = 6443\<rparr>
      \<and> (\<exists>n'. ms_nodes t k = Some n' \<and> machine_stage (nd_machine n') = Serving
        \<and> machine_ident (nd_machine n') = mstat_BMCServerID ss))"
proof -
  obtain c where c: "GetOwnerCluster Ec (bc_Meta (ms_bmc s)) = Inr (Some c)" "\<not> IsPaused Ec c (ms_bmc s)" "allocates Ec ips"
    "om_DeletionTimestamp (bc_Meta (ms_bmc s)) = None" "cluster_storable (ms_bmc s)" "cluster_ident (ms_bmc s) = []"
    using assms(3) by (auto simp: cluster_due_def)
  note y = cluster_run_allocates [OF c assms(7,8)]
  obtain t1 where 1: "manager_step deliver M False False (ClusterTurn Ec Ec) s t1" "same_scene s1 t1"
    using cluster_turns [OF assms(2,4-6,8)] assms(10) unfolding assms(9) by blast
  have s1: "ms_bmc t1 = y" "ms_cluster t1 = ms_cluster s" "ms_nodes s1 k = Some n"
    using 1(2) assms(9,18) by (simp_all add: same_scene_def)
  then obtain q1 where q1: "ms_nodes t1 k = Some (n\<lparr>nd_queued := q1\<rparr>)"
    using same_scene_node [OF 1(2)] by blast
  have s2: "same_scene s2 (t1\<lparr>ms_cluster := cl\<rparr>)"
    unfolding assms(14) by (rule same_scene_cluster [OF 1(2)])
  obtain t2 where 2: "manager_step deliver M False False (ClusterChanged cl E) t1 t2" "same_scene (t1\<lparr>ms_cluster := cl\<rparr>) t2"
    "ms_nodes t2 k = Some (n\<lparr>nd_queued := True\<rparr>)"
    using cluster_marked [OF assms(1) _ _ _ assms(13) same_scene_cluster_mapped [OF s2 assms(15)] _ q1, of E]
      same_scene_mapped [OF s2 assms(16)] y(3) assms(11,12,19) s1 by auto
  have e2: "same_scene s2 t2" by (rule same_scene_trans [OF s2 2(2)])
  have c2: "ms_cluster t2 = cl" using 2(2) by (simp add: same_scene_def)
  let ?n2 = "n\<lparr>nd_queued := True\<rparr>"
  have m2: "mapped M E cl (machine_side t2 ?n2)"
    using same_scene_mapped [OF e2 assms(17)] 2(3) by (simp add: all_mapped_def)
  have f2: "finds M E (machine_side t2 ?n2)"
    using assms(25) by (simp add: same_scene_side [OF e2] side_updates)
  note x = machine_due_created [OF assms(20,22,21)]
  have ne: "x \<noteq> nd_machine n" using x(1) assms(20,21) by (auto simp: machine_due_def)
  obtain b q where "manager_step deliver M False False (MachineTurn k E) t2
      (t2\<lparr>ms_nodes := (ms_nodes t2)(k \<mapsto> ?n2\<lparr>nd_machine := x, nd_unread := b, nd_queued := q\<rparr>)\<rparr>)"
    and "delivery_law deliver \<Longrightarrow> x \<noteq> nd_machine ?n2 \<Longrightarrow> ResourceNotPaused M (WatchedMachine x) \<Longrightarrow> q"
    by (rule machine_turns [OF 2(3) _ f2, of x ms deliver False False]) (use m2 c2 assms(22) in simp_all)
  then have 3: "manager_step deliver M False False (MachineTurn k E) t2
      (t2\<lparr>ms_nodes := (ms_nodes t2)(k \<mapsto> n\<lparr>nd_machine := x, nd_unread := b, nd_queued := True\<rparr>)\<rparr>)"
    using assms(1,23) ne by simp
  let ?n3 = "n\<lparr>nd_machine := x, nd_unread := b, nd_queued := True\<rparr>"
  define t3 where "t3 = t2\<lparr>ms_nodes := (ms_nodes t2)(k \<mapsto> ?n3)\<rparr>"
  have n3: "ms_nodes t3 k = Some ?n3" "ms_cluster t3 = cl" "machine_side t3 n' = machine_side t2 n'" for n'
    by (simp_all add: t3_def c2 side_updates)
  have "node_key ?n3 = node_key ?n2"
    using machine_run_fixed [OF assms(22)] by (simp add: node_key_def fixed_meta_def)
  then have m3: "mapped M E cl (machine_side t3 ?n3)"
    using m2 by (subst mapped_cong [of _ "machine_side t2 ?n2"]) (simp_all add: n3)
  have q: "machine_side s2 ?n3 = (machine_side s2 (n\<lparr>nd_machine := x\<rparr>))\<lparr>su_unread := b, su_queued := True\<rparr>"
    by (simp add: machine_side_def)
  have f3: "finds M E (machine_side t3 ?n3)"
    unfolding n3(3) same_scene_side [OF e2] q finds_queued finds_unread by (rule assms(26))
  obtain z ps where z: "machine_run E x = (z, ps)" by fastforce
  obtain b4 q4 where 4: "manager_step deliver M False False (MachineTurn k E) t3
      (t3\<lparr>ms_nodes := (ms_nodes t3)(k \<mapsto> ?n3\<lparr>nd_machine := z, nd_unread := b4, nd_queued := q4\<rparr>)\<rparr>)"
    by (rule machine_turns [OF n3(1) _ f3, of z ps deliver False False]) (use m3 n3(2) z in simp_all)
  define t4 where "t4 = t3\<lparr>ms_nodes := (ms_nodes t3)(k \<mapsto> ?n3\<lparr>nd_machine := z, nd_unread := b4, nd_queued := q4\<rparr>)\<rparr>"
  have t4: "ms_bmc t4 = ms_bmc t3" "\<exists>n4. ms_nodes t4 k = Some n4 \<and> nd_machine n4 = z" by (simp_all add: t4_def)
  have y4: "ms_bmc t4 = y" using e2 t4(1) assms(9,14) by (simp add: t3_def same_scene_def)
  have tr: "manager_trace deliver M False False as s t4"
    unfolding assms(27) t4_def using manager_trace.nothing
    by (rule manager_trace.first [OF 1(1) manager_trace.first [OF 2(1) manager_trace.first [OF 3 [folded t3_def]
        manager_trace.first [OF 4]]]])
  note serve = poll_makes_serve [OF assms(24) x(1) assms(21) x(2,3) z]
  show ?thesis
  proof (intro conjI allI impI)
    show "\<exists>t. manager_trace deliver M False False as s t" using tr by blast
    fix t assume "manager_trace deliver M False False as s t"
    with trace_determines [OF tr] have t: "t = t4" by blast
    show "cstat_Ready (bc_Status (ms_bmc t))" by (simp add: t y4 y(3))
    show "cspec_ControlPlaneEndpoint (bc_Spec (ms_bmc t)) = \<lparr>ep_Host = IP_String (next_address a), ep_Port = 6443\<rparr>"
      by (simp add: t y4 y(4))
    show "\<exists>n'. ms_nodes t k = Some n' \<and> machine_stage (nd_machine n') = Serving
        \<and> machine_ident (nd_machine n') = mstat_BMCServerID ss"
      using t4(2) serve unfolding t by blast
  qed
qed

section \<open>An example\<close>

text \<open>The cluster without VIP manager and the machine of the examples, listed at the start of the manager.\<close>

definition new_state :: manager_state where
  "new_state = \<lparr>ms_bmc = none_cluster, ms_cluster = unready_cluster, ms_refused = False, ms_queued = True,
     ms_nodes = [watch_key \<mapsto> \<lparr>nd_machine = example_machine, nd_owner = Some example_owner, nd_unread = False, nd_queued = True\<rparr>]\<rparr>"

definition listing :: "Cluster \<Rightarrow> env \<Rightarrow> env" where
  "listing cl E = E\<lparr>GetOwnerCluster := \<lambda>_. Inr (Some cl), ListMachines := \<lambda>_ _. Inr [example_owner]\<rparr>"

definition serving_env :: "BMCCluster \<Rightarrow> env" where
  "serving_env y = listing example_cluster ((machine_env example_machine (\<lambda>r. if hr_Method r = POST
       then Response 201 (server_body ''s1'' ''creating'') else Response 200 (server_body ''s1'' ''powered-on'')))
     \<lparr>GetBMCCluster := \<lambda>_. Inr y, util_IsControlPlaneMachine := \<lambda>_. True\<rparr>)"

lemma listing_laws: "finalizer_laws (listing cl E) = finalizer_laws E"
  by (simp add: listing_def finalizer_laws_def)

lemma new_wired:
  assumes "om_Namespace (bc_Meta bc) = ''ns''" and "om_Namespace (bm_Meta bm) = ''ns''" and "om_Name (bm_Meta bm) = ''m''"
  shows "mapped refused_manager (listing cl E) old
    \<lparr>su_machine = bm, su_owner = Some example_owner, su_cluster = cl, su_bmc = Some bc, su_unread = False, su_queued = q\<rparr>"
  using assms
  by (auto simp: mapped_def wired_def machine_setup_iff refused_manager_def watch_manager_def listing_def su_key_def watch_key_def
      example_owner_def)

lemma new_mapped:
  assumes "om_Namespace (bc_Meta bc) = ''ns''"
  shows "all_mapped refused_manager (listing cl E) old (new_state\<lparr>ms_bmc := bc, ms_cluster := cl\<rparr>)"
  using new_wired [OF assms, of example_machine cl E old]
  by (auto simp: all_mapped_def new_state_def machine_side_def example_machine_def example_meta_def split: if_splits)

lemma new_cluster_mapped:
  assumes "om_Namespace (bc_Meta bc) = ''ns''" and "om_Name (bc_Meta bc) = ''c''"
  shows "cluster_mapped refused_manager (cluster_side (new_state\<lparr>ms_bmc := bc, ms_cluster := cl\<rparr>))"
  using assms by (simp add: cluster_mapped_def cluster_setup_iff refused_manager_def cs_key_def)

lemma serving_env_finds:
  assumes "bm_Meta x = m"
  shows "finds refused_manager (serving_env y) (machine_side (new_state\<lparr>ms_bmc := y, ms_cluster := example_cluster\<rparr>)
    \<lparr>nd_machine = x, nd_owner = Some example_owner, nd_unread = False, nd_queued = q\<rparr>)"
proof -
  have "finalizer_laws (serving_env y)"
    using finalizer_laws_example [of "\<lambda>_. DoError (LibErr [])"]
    by (simp add: finalizer_laws_def serving_env_def listing_def machine_env_def example_env_def)
  then show ?thesis
    by (simp add: finds_def) (simp add: serving_env_def listing_def machine_env_def example_env_def refused_manager_def example_cluster_def)
qed

lemma serving_env_due:
  assumes "cluster_block y \<noteq> []"
  shows "machine_due (serving_env y) example_machine y (server_status ''s1'' ''creating'')"
proof -
  have "serves (serving_env y) example_machine example_owner example_cluster y"
    "bootstrapped (serving_env y) example_machine example_owner y" "util_IsControlPlaneMachine (serving_env y) example_owner"
    "om_DeletionTimestamp (bm_Meta example_machine) = None" "machine_storable example_machine" "machine_ident example_machine = []"
    using assms by (simp_all add: serves_def bootstrapped_def serving_env_def listing_def machine_env_def example_env_def
        example_cluster_def example_owner_def example_machine_def example_meta_def cluster_block_def machine_storable_def
        machine_ident_def annotation_def)
  moreover have "\<forall>r. server_create (BMCEndpointURL (serving_env y)) r
      \<longrightarrow> BMC (serving_env y) r = Response 201 (server_body ''s1'' ''creating'')"
    by (simp add: serving_env_def listing_def machine_env_def example_env_def server_create_def)
  moreover have "http_ok 201" by (simp add: http_ok_def)
  ultimately show ?thesis unfolding machine_due_def using unmarshal_creating by blast
qed

lemma serving_env_polls: "finds_powered_on (serving_env y) x ''s1''"
proof -
  have "unmarshal_machine_status fd (server_body ''s1'' ''powered-on'') = Inr (server_status ''s1'' ''powered-on'')" for fd
    by (rule unmarshal_server_body) (simp_all add: utf8_ok_ascii)
  then show ?thesis
    by (auto simp: finds_powered_on_def serves_def serving_env_def listing_def machine_env_def example_env_def example_cluster_def
        example_owner_def http_ok_def http_Get_def server_status_def StatusPoweredOn_def intro!: exI [of _ 200])
qed

definition allocating_env :: env where
  "allocating_env = listing unready_cluster (block_env ''10.1.2.4/31'')"

lemma allocating_env_facts:
  defines "ips \<equiv> block_status ''b1'' ''10.1.2.4/31'' ''unassigned''"
  shows "cluster_due allocating_env none_cluster ips" and "names_blocks allocating_env"
    and "cluster_finds refused_manager allocating_env (cluster_side new_state)"
    and "ParseIP (TrimSuffix (cstat_CIDR ips) ''/31'') = Some (v4_prefix @ [10, 1, 2, 4])" and "cstat_ID ips = ''b1''"
proof -
  have u: "unmarshal_cluster_status (block_body ''b1'' ''10.1.2.4/31'' ''unassigned'') = Inr ips"
    unfolding ips_def by (rule unmarshal_block_body) (simp_all add: utf8_ok_ascii)
  have f: "GetOwnerCluster allocating_env om = Inr (Some unready_cluster)" "URLError allocating_env u = None"
    "BMC allocating_env r = Response 201 (block_body ''b1'' ''10.1.2.4/31'' ''unassigned'')" "\<not> IsPaused allocating_env cl bc" for om u r cl bc
    using block_env_facts(3-5) [of "''10.1.2.4/31''"] by (simp_all add: allocating_env_def listing_def)
  show i: "cstat_ID ips = ''b1''" by (simp add: ips_def block_status_def)
  have "allocates allocating_env ips"
    using u by (auto simp: allocates_def f http_ok_def intro!: exI [of _ 201])
  then show "cluster_due allocating_env none_cluster ips"
    by (simp add: cluster_due_def f none_cluster_def example_bmccluster_def example_meta_def cluster_storable_def cluster_ident_def
        annotation_def)
  show "names_blocks allocating_env"
    by (simp add: names_blocks_def block_issued_def f u i http_ok_def)
  have "finalizer_laws allocating_env"
    using finalizer_laws_example [of "\<lambda>_. DoError (LibErr [])"]
    by (simp add: allocating_env_def listing_def finalizer_laws_def block_env_def cluster_env_def example_env_def)
  then show "cluster_finds refused_manager allocating_env (cluster_side new_state)"
    by (simp add: cluster_finds_def f new_state_def refused_manager_def unready_cluster_def example_cluster_def)
  have "octets_str [10, 1, 2, 4] @ ''/31'' = ''10.1.2.4/31''" by code_simp
  then show "ParseIP (TrimSuffix (cstat_CIDR ips) ''/31'') = Some (v4_prefix @ [10, 1, 2, 4])"
    using ParseIP_octets [of 10 1 2 4] TrimSuffix_append [of "octets_str [10, 1, 2, 4]" "''/31''"]
    by (simp add: ips_def block_status_def)
qed

theorem manager_brings_up_witness:
  "\<exists>t n as. manager_trace watch_deliver refused_manager False False as new_state t
    \<and> manager_run watch_deliver refused_manager False False t \<and> cstat_Ready (bc_Status (ms_bmc t))
    \<and> ms_nodes t watch_key = Some n \<and> machine_stage (nd_machine n) = Serving \<and> machine_ident (nd_machine n) = ''s1''"
proof -
  let ?ips = "block_status ''b1'' ''10.1.2.4/31'' ''unassigned''" and ?ss = "server_status ''s1'' ''creating''"
  let ?n = "\<lparr>nd_machine = example_machine, nd_owner = Some example_owner, nd_unread = False, nd_queued = True\<rparr>"
  note c = allocating_env_facts
  have s: "ms_bmc new_state = none_cluster" "ms_cluster new_state = unready_cluster" "ms_queued new_state"
    "ms_nodes new_state watch_key = Some ?n"
    by (simp_all add: new_state_def)
  have ns: "om_Namespace (bc_Meta none_cluster) = ''ns''" "om_Name (bc_Meta none_cluster) = ''c''"
    by (simp_all add: none_cluster_def example_bmccluster_def example_meta_def)
  obtain y rs where y: "cluster_run allocating_env none_cluster = (y, rs)" by fastforce
  have ny: "om_Namespace (bc_Meta y) = ''ns''" "om_Name (bc_Meta y) = ''c''"
    using cluster_run_key [OF y] ns by (simp_all add: cluster_key_def)
  obtain o' where "GetOwnerCluster allocating_env (bc_Meta none_cluster) = Inr (Some o')" "\<not> IsPaused allocating_env o' none_cluster"
    "allocates allocating_env ?ips" "om_DeletionTimestamp (bc_Meta none_cluster) = None" "cluster_storable none_cluster"
    "cluster_ident none_cluster = []"
    using c(1) by (auto simp: cluster_due_def)
  from cluster_run_allocates(2) [OF this c(4) y] have b: "cluster_block y \<noteq> []" by (simp add: c(5))
  obtain x ms where x: "machine_run (serving_env y) example_machine = (x, ms)" by fastforce
  have r: "manager_run watch_deliver refused_manager False False new_state"
    by (rule manager_run.started)
       (simp_all add: new_state_def marked_known_def block_known_def none_cluster_def example_bmccluster_def cluster_ident_def
          example_meta_def annotation_def zero_cluster_status_def unready_cluster_def split: if_splits)
  define s2 where "s2 = new_state\<lparr>ms_bmc := y, ms_cluster := example_cluster\<rparr>"
  have cl: "example_cluster = unready_cluster\<lparr>cl_InfrastructureReady := True\<rparr>" "\<not> cl_InfrastructureReady unready_cluster"
    by (simp_all add: unready_cluster_def example_cluster_def)
  have u: "new_state\<lparr>ms_bmc := bc\<rparr> = new_state\<lparr>ms_bmc := bc, ms_cluster := unready_cluster\<rparr>"
    "new_state = new_state\<lparr>ms_bmc := none_cluster, ms_cluster := unready_cluster\<rparr>" for bc
    by (simp_all add: new_state_def)
  have am: "all_mapped refused_manager allocating_env old (new_state\<lparr>ms_bmc := y\<rparr>)"
    "all_mapped refused_manager (serving_env y) old s2" for old
    using new_mapped [OF ny(1), of unready_cluster "block_env ''10.1.2.4/31''" old] new_mapped [OF ny(1), of example_cluster _ old]
    by (simp_all only: u(1) [symmetric] s2_def allocating_env_def serving_env_def)
  have cm: "cluster_mapped refused_manager (cluster_side new_state)" "cluster_mapped refused_manager (cluster_side s2)"
    using new_cluster_mapped [OF ns, of unready_cluster] new_cluster_mapped [OF ny, of example_cluster] by (simp_all add: s2_def flip: u(2))
  have p: "ResourceNotPaused refused_manager ob" for ob by (simp add: refused_manager_def)
  have f: "finds refused_manager (serving_env y) (machine_side s2 ?n)"
    "finds refused_manager (serving_env y) (machine_side s2 (?n\<lparr>nd_machine := x\<rparr>))"
    unfolding s2_def using serving_env_finds [OF refl] by simp_all
  let ?as = "[ClusterTurn allocating_env allocating_env, ClusterChanged example_cluster (serving_env y),
    MachineTurn watch_key (serving_env y), MachineTurn watch_key (serving_env y)]"
  have "\<exists>t n. manager_trace watch_deliver refused_manager False False ?as new_state t \<and> cstat_Ready (bc_Status (ms_bmc t))
      \<and> ms_nodes t watch_key = Some n \<and> machine_stage (nd_machine n) = Serving \<and> machine_ident (nd_machine n) = ''s1''"
    using manager_brings_up [of watch_deliver new_state allocating_env ?ips refused_manager "v4_prefix @ [10, 1, 2, 4]" y rs
        "new_state\<lparr>ms_bmc := y\<rparr>" example_cluster s2 "serving_env y" watch_key ?n ?ss x ms ?as]
      watch_delivers c y am cl p cm f x serving_env_due [OF b] serving_env_polls
    by (simp add: s s2_def server_status_def) blast
  then show ?thesis using run_trace [OF _ r] by blast
qed

end
