(* ===== verification/WorkQueue.thy ===== *)
theory WorkQueue
  imports MachineProps ClusterProps
begin

text \<open>
  What the work queue makes of the verdict of a reconciliation, as controller-runtime documents it, and
  the schedule of the polls that follows.
\<close>

datatype schedule =
    Forget
  | AddAfter int
  | AddRateLimited

text \<open>
  A panic is recovered from and counts as an error; with an error the key is put back by the rate limiter
  and the delay that was returned beside it is ignored; otherwise a positive delay is waited for.
\<close>

fun schedule_of :: "(verdict, 's) outcome \<Rightarrow> schedule" where
  "schedule_of (Panics p s) = AddRateLimited"
| "schedule_of (Returns (r, e) s) = (if e \<noteq> None then AddRateLimited
     else if RequeueAfter r > 0 then AddAfter (RequeueAfter r) else Forget)"

lemma schedule_verdicts [simp]:
  "schedule_of (Returns (noRequeue, None) s) = Forget"
  "schedule_of (Returns (requeueAfter1Min, None) s) = AddAfter (1 * Minute)"
  "schedule_of (Returns (requeueAfter2Min, None) s) = AddAfter (2 * Minute)"
  "schedule_of (Returns (requeueAfter5Min, None) s) = AddAfter (5 * Minute)"
  "schedule_of (Returns (q, Some e) s) = AddRateLimited"
  by (simp_all add: requeue_defs Minute_def)

declare schedule_of.simps(2) [simp del]

lemma poll_status_schedule:
  assumes "\<not> panicked (poll_status E ss mc)"
  shows "schedule_of (poll_status E ss mc) = (if mstat_BMCStatus ss = StatusPoweredOn then AddAfter (2 * Minute)
    else if mstat_BMCStatus ss = StatusError then Forget else AddAfter (1 * Minute))"
  using assms by (cases "mc_SetNodeRef E (status_delta E ss mc)") (auto simp: poll_status_def Let_def split: if_splits)

text \<open>
  C25. When a machine is polled again: five minutes after an answer that says bad request, bad credentials
  or a failure of the service, two minutes after the server was found powered on, one minute after any
  other status; not at all after a denied access or the status error.  After a call that failed, an
  unreadable answer or an unexpected code the rate limiter decides: the two minutes that the code asks for
  in the first two cases never take effect, because they are returned beside an error.
\<close>

theorem machine_poll_schedule:
  assumes "mspec_ProviderID (mc_spec mc) \<noteq> None" and "mc_Cluster mc \<noteq> None"
  shows "schedule_of (machine_reconcileSynchronize E mc) =
    (case fst (http_send E (http_Get (server_url E (mc_GetMachineID mc)))) of
       DoError e \<Rightarrow> AddRateLimited
     | ReadError c e \<Rightarrow> AddRateLimited
     | Response c body \<Rightarrow>
         if c \<in> {400, 401, 500} then AddAfter (5 * Minute)
         else if c = 403 then Forget
         else if c \<in> {200, 201, 202, 204} then
           (case unmarshal_machine_status (Decoders E) body of
              Inl j \<Rightarrow> AddRateLimited
            | Inr ss \<Rightarrow> if mstat_BMCStatus ss = ''powered-on'' then AddAfter (2 * Minute)
                else if mstat_BMCStatus ss = ''error'' then Forget else AddAfter (1 * Minute))
         else AddRateLimited)"
proof -
  have n: "\<not> panicked (machine_reconcileSynchronize E mc)" by (rule sync_no_panic [OF assms])
  obtain out es where o': "http_send E (http_Get (server_url E (mc_GetMachineID mc))) = (out, es)" by fastforce
  show ?thesis
  proof (cases out)
    case (Response c body)
    let ?r = "poll_response E c body (log_effects es mc)"
    have r: "machine_reconcileSynchronize E mc = ?r"
      by (simp add: machine_reconcileSynchronize_def o' Response Let_def)
    have "\<not> panicked (poll_status E ss (log_effects es mc))"
      if "http_ok c" "unmarshal_machine_status (Decoders E) body = Inr ss" for ss
      using n that unfolding r by (auto simp: poll_response_def poll_accepted_def http_ok_def)
    then show ?thesis
      unfolding r by (auto simp: o' Response poll_response_def poll_accepted_def http_ok_def poll_status_schedule status_defs
          split: sum.split)
  qed (simp_all add: machine_reconcileSynchronize_def o' Let_def)
qed

theorem machine_poll_schedule_witness:
  "schedule_of (machine_reconcileSynchronize (example_env (\<lambda>_. ReadError 200 (LibErr ''timeout''))) example_created) = AddRateLimited
   \<and> schedule_of (machine_reconcileSynchronize (example_env (\<lambda>_. Response 401 [])) example_created) = AddAfter (5 * Minute)"
proof -
  have h: "mspec_ProviderID (mc_spec example_created) \<noteq> None" "mc_Cluster example_created \<noteq> None"
    by (simp_all add: example_created_def example_mc_def mc_SetStatus_def)
  show ?thesis
    unfolding machine_poll_schedule [OF h] by (simp add: http_send_def example_env_def)
qed

text \<open>
  C26. When a cluster is polled again: five minutes after every answer the code knows, except a denied
  access, after which it is not; and by the rate limiter, not after the two minutes of the code, when the
  call failed or the answer was unreadable or unexpected.
\<close>

theorem cluster_poll_schedule:
  "(case cluster_reconcileSynchronize E cc of (v, cc') \<Rightarrow> schedule_of (Returns v cc')) =
    (case fst (http_send E (http_Get (ip_block_url E (cc_GetIPAllocationID cc)))) of
       DoError e \<Rightarrow> AddRateLimited
     | ReadError c e \<Rightarrow> AddRateLimited
     | Response c body \<Rightarrow>
         if c = 403 then Forget
         else if c \<in> {400, 401, 500} then AddAfter (5 * Minute)
         else if c \<in> {200, 201, 202, 204} \<and> (\<exists>ss. unmarshal_cluster_status body = Inr ss) then AddAfter (5 * Minute)
         else AddRateLimited)"
  by (auto simp: cluster_reconcileSynchronize_def cluster_poll_response_def cluster_poll_accepted_def http_ok_def Let_def
      split: prod.split http_outcome.split sum.split)

end
