(* ===== verification/CachedReads.thy ===== *)
theory CachedReads
  imports MachineSystem ClusterSystem
begin

text \<open>
  The manager's client reads objects from a cache that lags behind the API server.  Here a
  reconciliation may read any earlier version of its own object, and its patch is merged into the
  version that is current.  The contract of a creator, together with what a merge does to the
  identifier, still gives one resource for each object as long as the cache shows the controller its
  own patches; without that it does not.
\<close>

section \<open>Versions of an object\<close>

text \<open>
  Every version the API server has stored, oldest first; the position of the version made by the
  controller's last patch; whether the object has been removed; and the requests sent for it.
\<close>

record 'o cached =
  cv_versions :: "'o list"
  cv_own :: nat
  cv_gone :: bool
  cv_log :: "(http_request \<times> http_outcome) list"

text \<open>
  A reconciliation that changes nothing makes no version.  The flag tells whether the cache always
  shows the controller at least the version of its own last patch; the versions others have made
  since may be missing in any case.
\<close>

inductive cached_step :: "'o run \<Rightarrow> (env \<Rightarrow> bool) \<Rightarrow> ('o \<Rightarrow> 'o \<Rightarrow> bool) \<Rightarrow> ('o \<Rightarrow> bool)
    \<Rightarrow> ('o \<Rightarrow> 'o \<Rightarrow> 'o \<Rightarrow> 'o \<Rightarrow> bool) \<Rightarrow> bool \<Rightarrow> 'o cached \<Rightarrow> 'o cached \<Rightarrow> bool"
  for run ok edit gone merged sees_own where
  patched: "\<not> cv_gone c \<Longrightarrow> n < length (cv_versions c) \<Longrightarrow> (sees_own \<longrightarrow> cv_own c \<le> n) \<Longrightarrow> ok E
    \<Longrightarrow> run E (cv_versions c ! n) = (y, rs) \<Longrightarrow> y \<noteq> cv_versions c ! n
    \<Longrightarrow> merged (cv_versions c ! n) y (last (cv_versions c)) z
    \<Longrightarrow> cached_step run ok edit gone merged sees_own c
      (c\<lparr>cv_versions := cv_versions c @ [z], cv_own := length (cv_versions c), cv_log := cv_log c @ exchanges E rs\<rparr>)"
| unchanged: "\<not> cv_gone c \<Longrightarrow> n < length (cv_versions c) \<Longrightarrow> (sees_own \<longrightarrow> cv_own c \<le> n) \<Longrightarrow> ok E
    \<Longrightarrow> run E (cv_versions c ! n) = (cv_versions c ! n, rs)
    \<Longrightarrow> cached_step run ok edit gone merged sees_own c (c\<lparr>cv_log := cv_log c @ exchanges E rs\<rparr>)"
| edited: "\<not> cv_gone c \<Longrightarrow> edit (last (cv_versions c)) z
    \<Longrightarrow> cached_step run ok edit gone merged sees_own c (c\<lparr>cv_versions := cv_versions c @ [z]\<rparr>)"
| removed: "\<not> cv_gone c \<Longrightarrow> gone (last (cv_versions c))
    \<Longrightarrow> cached_step run ok edit gone merged sees_own c (c\<lparr>cv_gone := True\<rparr>)"

inductive cached_life :: "'o run \<Rightarrow> (env \<Rightarrow> bool) \<Rightarrow> ('o \<Rightarrow> 'o \<Rightarrow> bool) \<Rightarrow> ('o \<Rightarrow> bool)
    \<Rightarrow> ('o \<Rightarrow> 'o \<Rightarrow> 'o \<Rightarrow> 'o \<Rightarrow> bool) \<Rightarrow> bool \<Rightarrow> ('o \<Rightarrow> bool) \<Rightarrow> 'o cached \<Rightarrow> bool"
  for run ok edit gone merged sees_own init where
  born: "init x \<Longrightarrow> cached_life run ok edit gone merged sees_own init
    \<lparr>cv_versions = [x], cv_own = 0, cv_gone = False, cv_log = []\<rparr>"
| later: "cached_life run ok edit gone merged sees_own init c \<Longrightarrow> cached_step run ok edit gone merged sees_own c c'
    \<Longrightarrow> cached_life run ok edit gone merged sees_own init c'"

section \<open>The contract\<close>

text \<open>
  A merge changes the identifier exactly when the patch does: a patch only names what differs between
  the version that was read and the result.
\<close>

locale cached_creator = creator run ok edit storable ident is_create
  for run :: "'o run" and ok and edit and storable and ident and is_create +
  fixes merged :: "'o \<Rightarrow> 'o \<Rightarrow> 'o \<Rightarrow> 'o \<Rightarrow> bool"
  assumes merged_ident: "merged x y v z \<Longrightarrow> ident z = (if ident y = ident x then ident v else ident y)"
    and merged_storable: "merged x y v z \<Longrightarrow> storable v \<Longrightarrow> storable z"
begin

text \<open>Since the controller's last patch every version has the identifier, once there is a resource.\<close>

definition settled :: "'o cached \<Rightarrow> bool" where
  "settled c \<longleftrightarrow> cv_own c < length (cv_versions c) \<and> (\<forall>x \<in> set (cv_versions c). storable x)
     \<and> accepted_count is_create (cv_log c) \<le> 1
     \<and> (accepted_count is_create (cv_log c) = 0 \<or> (\<forall>x \<in> set (drop (cv_own c) (cv_versions c)). ident x \<noteq> []))"

lemma settled_last:
  "settled c \<Longrightarrow> storable (last (cv_versions c))
    \<and> (accepted_count is_create (cv_log c) = 0 \<or> ident (last (cv_versions c)) \<noteq> [])"
  by (cases "cv_versions c" rule: rev_cases) (auto simp: settled_def)

lemma settled_read:
  assumes "settled c" and "n < length (cv_versions c)" and "cv_own c \<le> n"
  shows "storable (cv_versions c ! n) \<and> (accepted_count is_create (cv_log c) = 0 \<or> ident (cv_versions c ! n) \<noteq> [])"
proof -
  have "cv_versions c ! n \<in> set (drop (cv_own c) (cv_versions c))"
    using assms(2,3) by (auto simp: in_set_conv_nth intro!: exI [of _ "n - cv_own c"])
  with assms(1,2) show ?thesis by (auto simp: settled_def)
qed

lemma cached_step_settled:
  assumes "cached_step run ok edit gone merged True c c'" and "settled c"
  shows "settled c'"
  using assms(1)
proof (cases rule: cached_step.cases)
  case (patched n E y rs z)
  let ?x = "cv_versions c ! n" and ?v = "last (cv_versions c)"
  have r: "storable ?x" "accepted_count is_create (cv_log c) = 0 \<or> ident ?x \<noteq> []"
    and v: "storable ?v" "accepted_count is_create (cv_log c) = 0 \<or> ident ?v \<noteq> []"
    using settled_read [OF assms(2)] settled_last [OF assms(2)] patched by simp_all
  note k = reconcile_counts [OF r(1) patched(5,6)]
  have z: "ident z = (if ident y = ident ?x then ident ?v else ident y)" "storable z"
    using merged_ident [OF patched(8)] merged_storable [OF patched(8) v(1)] by simp_all
  have "accepted_count is_create (cv_log c) \<noteq> 0 \<or> accepted_count is_create (exchanges E rs) \<noteq> 0 \<longrightarrow> ident z \<noteq> []"
    using k r(2) v(2) z(1) by (auto split: if_splits)
  with assms(2) k r(2) z(2) show ?thesis
    unfolding patched(1) by (auto simp: settled_def split: if_splits)
next
  case (unchanged n E rs)
  have "storable (cv_versions c ! n)" "accepted_count is_create (cv_log c) = 0 \<or> ident (cv_versions c ! n) \<noteq> []"
    using settled_read [OF assms(2)] unchanged by simp_all
  with reconcile_counts [OF this(1) unchanged(5,6)] assms(2) show ?thesis
    unfolding unchanged(1) by (auto simp: settled_def split: if_splits)
next
  case (edited z)
  with settled_last [OF assms(2)] edit_ident [OF edited(3)] edit_inv [OF _ edited(3)] assms(2)
  show ?thesis by (auto simp: settled_def)
next
  case removed
  with assms(2) show ?thesis by (simp add: settled_def)
qed

lemma cached_life_settled: "cached_life run ok edit gone merged True storable c \<Longrightarrow> settled c"
proof (induction rule: cached_life.induct)
  case (born x)
  then show ?case by (simp add: settled_def)
qed (rule cached_step_settled)

lemma cached_once: "cached_life run ok edit gone merged True storable c \<Longrightarrow> accepted_count is_create (cv_log c) \<le> 1"
  using cached_life_settled by (auto simp: settled_def)

end

section \<open>Machines and clusters\<close>

text \<open>
  What merging the patch of a reconciliation does to the annotations: those it changed get the new
  value, the others keep the current one.
\<close>

definition annotations_merged :: "ObjectMeta \<Rightarrow> ObjectMeta \<Rightarrow> ObjectMeta \<Rightarrow> ObjectMeta \<Rightarrow> bool" where
  "annotations_merged x y v z \<longleftrightarrow> (\<forall>k. annotation z k = (if annotation y k = annotation x k then annotation v k else annotation y k))
     \<and> (om_Annotations v \<noteq> None \<longrightarrow> om_Annotations z \<noteq> None)"

definition machine_merged :: "BMCMachine \<Rightarrow> BMCMachine \<Rightarrow> BMCMachine \<Rightarrow> BMCMachine \<Rightarrow> bool" where
  "machine_merged x y v z \<longleftrightarrow> annotations_merged (bm_Meta x) (bm_Meta y) (bm_Meta v) (bm_Meta z)"

definition cluster_merged :: "BMCCluster \<Rightarrow> BMCCluster \<Rightarrow> BMCCluster \<Rightarrow> BMCCluster \<Rightarrow> bool" where
  "cluster_merged x y v z \<longleftrightarrow> annotations_merged (bc_Meta x) (bc_Meta y) (bc_Meta v) (bc_Meta z)"

lemma merged_ident:
  "machine_merged mx my mv mz \<Longrightarrow> machine_ident mz = (if machine_ident my = machine_ident mx then machine_ident mv else machine_ident my)"
  "cluster_merged cx cy cv cz \<Longrightarrow> cluster_ident cz = (if cluster_ident cy = cluster_ident cx then cluster_ident cv else cluster_ident cy)"
  by (simp_all add: machine_merged_def cluster_merged_def annotations_merged_def machine_ident_def cluster_ident_def)

lemma merged_storable:
  "machine_merged mx my mv mz \<Longrightarrow> machine_storable mv \<Longrightarrow> machine_storable mz"
  "cluster_merged cx cy cv cz \<Longrightarrow> cluster_storable cv \<Longrightarrow> cluster_storable cz"
  by (simp_all add: machine_merged_def cluster_merged_def annotations_merged_def machine_storable_def cluster_storable_def)

interpretation cached_server: cached_creator machine_run "reliable_servers base" machine_edit machine_storable machine_ident
    "server_create base" machine_merged
  for base
  by unfold_locales (simp_all add: merged_ident merged_storable)

interpretation cached_block: cached_creator cluster_run "reliable_blocks base" cluster_edit cluster_storable cluster_ident
    "block_create base" cluster_merged
  for base
  by unfold_locales (simp_all add: merged_ident merged_storable)

text \<open>With the version that is current read and nothing in between, the patch is the result.\<close>

lemma annotations_merged_self:
  "om_Annotations v = om_Annotations x \<or> om_Annotations v = om_Annotations y \<Longrightarrow> om_Annotations y \<noteq> None
    \<Longrightarrow> annotations_merged x y v y"
  by (auto simp: annotations_merged_def annotation_def)

section \<open>One server, or many\<close>

text \<open>
  C18. One server per machine despite a lagging cache: reconciliations may read any version of the
  machine, as long as it is not older than the controller's own last patch, and patches are merged
  into whatever is current; still at most one create request is ever accepted.
\<close>

theorem one_server_despite_stale_reads:
  assumes "cached_life machine_run (reliable_servers base) machine_edit machine_gone machine_merged True machine_storable c"
  shows "accepted_count (server_create base) (cv_log c) \<le> 1"
  by (rule cached_server.cached_once [OF assms])

text \<open>The same for the blocks of clusters.\<close>

lemma one_block_despite_stale_reads:
  "cached_life cluster_run (reliable_blocks base) cluster_edit cluster_gone cluster_merged True cluster_storable c
    \<Longrightarrow> accepted_count (block_create base) (cv_log c) \<le> 1"
  by (rule cached_block.cached_once)

text \<open>The life in which the created version is always there and the first one is read again.\<close>

lemma example_rereads:
  assumes "n \<noteq> 0 \<longrightarrow> \<not> sees_own \<or> n = 1"
  shows "\<exists>c. cached_life machine_run (reliable_servers ''https://api'') machine_edit machine_gone machine_merged sees_own machine_storable c
    \<and> accepted_count (server_create ''https://api'') (cv_log c) = n \<and> \<not> cv_gone c
    \<and> (if n = 0 then cv_versions c = [example_machine] \<and> cv_own c = 0
       else cv_versions c \<noteq> [] \<and> hd (cv_versions c) = example_machine \<and> last (cv_versions c) = creating_result example_machine)"
  using assms
proof (induction n)
  case 0
  have "machine_storable example_machine" by (simp add: machine_storable_def example_machine_def example_meta_def)
  then show ?case
    by (intro exI [of _ "\<lparr>cv_versions = [example_machine], cv_own = 0, cv_gone = False, cv_log = []\<rparr>"]) (simp add: cached_life.born)
next
  case (Suc n)
  let ?x = "example_machine" and ?y = "creating_result example_machine"
  have live: "om_DeletionTimestamp (bm_Meta ?x) = None" "machine_ident ?x = []" "om_Annotations (bm_Meta ?x) = Some Map.empty"
    by (simp_all add: example_machine_def example_meta_def machine_ident_def annotation_def)
  obtain q where r: "machine_run creating_env ?x = (?y, [create_http creating_env q])"
    using creating_run [OF live(1,2)] by (auto simp: creating_result_def)
  have i: "machine_ident ?y = ''s1''" by (rule creating_result_map(1) [OF live(3)])
  then have y: "?y \<noteq> ?x" "om_Annotations (bm_Meta ?y) \<noteq> None"
    using live(2) by (auto simp: machine_ident_def annotation_def split: option.splits)
  obtain c where c: "cached_life machine_run (reliable_servers ''https://api'') machine_edit machine_gone machine_merged sees_own machine_storable c"
    "accepted_count (server_create ''https://api'') (cv_log c) = n" "\<not> cv_gone c"
    "if n = 0 then cv_versions c = [?x] \<and> cv_own c = 0 else cv_versions c \<noteq> [] \<and> hd (cv_versions c) = ?x \<and> last (cv_versions c) = ?y"
    using Suc by auto
  have v: "0 < length (cv_versions c)" "cv_versions c ! 0 = ?x" "sees_own \<longrightarrow> cv_own c \<le> 0"
    "last (cv_versions c) = ?x \<or> last (cv_versions c) = ?y"
    using c(4) Suc.prems by (auto simp: hd_conv_nth split: if_splits)
  have m: "machine_merged ?x ?y (last (cv_versions c)) ?y"
    using v(4) y(2) annotations_merged_self by (auto simp: machine_merged_def)
  note s = cached_step.patched [OF c(3) v(1,3), of "reliable_servers ''https://api''" creating_env machine_run ?y
      "[create_http creating_env q]" machine_merged ?y machine_edit machine_gone]
  have "cached_step machine_run (reliable_servers ''https://api'') machine_edit machine_gone machine_merged sees_own c
      (c\<lparr>cv_versions := cv_versions c @ [?y], cv_own := length (cv_versions c),
        cv_log := cv_log c @ exchanges creating_env [create_http creating_env q]\<rparr>)"
    using s creating_env_reliable r y(1) m by (simp add: v(2))
  from cached_life.later [OF c(1) this] show ?case
    using c(2,3) creating_exchange [of q] v(1,2)
    by (intro exI [of _ "c\<lparr>cv_versions := cv_versions c @ [?y], cv_own := length (cv_versions c),
        cv_log := cv_log c @ exchanges creating_env [create_http creating_env q]\<rparr>"]) (simp add: hd_append hd_conv_nth)
qed

theorem one_server_despite_stale_reads_witness:
  "\<exists>c. cached_life machine_run (reliable_servers ''https://api'') machine_edit machine_gone machine_merged True machine_storable c
    \<and> accepted_count (server_create ''https://api'') (cv_log c) = 1 \<and> accepted_count (server_create ''https://api'') (cv_log c) \<le> 1"
proof -
  obtain c where c: "cached_life machine_run (reliable_servers ''https://api'') machine_edit machine_gone machine_merged True machine_storable c"
    "accepted_count (server_create ''https://api'') (cv_log c) = 1"
    using example_rereads [of 1 True] by auto
  show ?thesis using one_server_despite_stale_reads [OF c(1)] c by (intro exI [of _ c]) simp
qed

text \<open>
  C13. When the cache may hide the controller's own patches, the number of servers of one machine has no
  bound, although the service is reliable, every patch arrives and the machine has an annotation map:
  each reconciliation that reads the version from before the first create creates again, and its patch
  replaces the id of the server before.
\<close>

theorem stale_reads_create_again:
  "\<exists>c. cached_life machine_run (reliable_servers ''https://api'') machine_edit machine_gone machine_merged False machine_storable c
    \<and> accepted_count (server_create ''https://api'') (cv_log c) = n"
  using example_rereads [of n False] by auto

end
