(* ===== verification/Settling.thy ===== *)
theory Settling
  imports FleetSystem
begin

text \<open>
  Reconciliations settle.  The patch of a reconciliation is an event that brings the object back into
  the queue, so a controller that changed its object every time would keep itself busy.  While its
  surroundings and the answers stay the same, a reconciler changes an object at most once.
\<close>

section \<open>Machines\<close>

text \<open>Each way a poll marks a machine changes nothing the second time.\<close>

lemma marks_settle:
  "mc_BMCMachine d = mc_BMCMachine (poll_stale mc) \<Longrightarrow> mc_BMCMachine (poll_stale d) = mc_BMCMachine d"
  "mc_BMCMachine d = mc_BMCMachine (poll_irreconcilable E c mc) \<Longrightarrow> mc_BMCMachine (poll_irreconcilable E c d) = mc_BMCMachine d"
  "mc_BMCMachine d = mc_BMCMachine (poll_orphaned c mc) \<Longrightarrow> mc_BMCMachine (poll_orphaned c d) = mc_BMCMachine d"
  "mc_BMCMachine d = mc_BMCMachine (poll_unavailable c mc) \<Longrightarrow> mc_BMCMachine (poll_unavailable c d) = mc_BMCMachine d"
  "mc_BMCMachine d = mc_BMCMachine (poll_unreadable E j mc) \<Longrightarrow> mc_BMCMachine (poll_unreadable F j d) = mc_BMCMachine d"
  by (auto simp: go_defs upd_status_def)

lemma merge_status_idem: "merge_status s (merge_status s t) = merge_status s t"
  by (simp add: merge_status_def)

lemma status_delta_settles:
  assumes "mc_BMCMachine d = mc_BMCMachine (status_delta E ss mc)"
  shows "mc_BMCMachine (status_delta E ss d) = mc_BMCMachine d"
proof (cases "mstat_BMCStatus ss = StatusError")
  case True
  then show ?thesis
    using assms by (cases "mc_IsStatusEqual mc StatusError")
      (simp_all add: status_delta_def go_defs merge_status_def upd_status_def Let_def StatusPoweredOn_def StatusError_def)
next
  case False
  then have "mc_GetBMCStatus (status_delta E ss mc) = mstat_BMCStatus ss"
    by (simp add: status_delta_def go_defs merge_status_def upd_status_def Let_def)
  then show ?thesis using assms by (simp add: status_delta_def mc_IsStatusEqual_def mc_GetBMCStatus_def)
qed

text \<open>The reference to the node: set once, or looked up again with the same result.\<close>

lemma SetNodeRef_settles:
  assumes "mc_SetNodeRef E mc = Returns () mc'" and "mc_Cluster d = mc_Cluster mc" and "mc_Machine d = mc_Machine mc"
    and "mstat_NodeRef (mc_status d) = mstat_NodeRef (mc_status mc')"
  shows "\<exists>d'. mc_SetNodeRef E d = Returns () d' \<and> mc_BMCMachine d' = mc_BMCMachine d"
proof (cases "mstat_NodeRef (mc_status d)")
  case None
  then have n: "mstat_NodeRef (mc_status mc) = None"
    using assms(1,4) by (cases "mstat_NodeRef (mc_status mc)") (simp_all add: mc_SetNodeRef_def)
  then obtain cl where cl: "mc_Cluster mc = Some cl"
    using assms(1) by (cases "mc_Cluster mc") (simp_all add: mc_SetNodeRef_def)
  let ?rc = "GetRemoteClient E \<lparr>nn_Namespace = cl_Namespace cl, nn_Name = cl_Name cl\<rparr>"
  have "(\<exists>e. ?rc = Inl e) \<or> (\<exists>rc e. ?rc = Inr rc \<and> rc_GetNode rc (mc_GetHostname mc) = Inl e)"
  proof (rule ccontr)
    assume "\<not> ?thesis"
    then obtain rc k where "?rc = Inr rc" and "rc_GetNode rc (mc_GetHostname mc) = Inr k"
      by (metis sum.exhaust)
    let ?mc = "mc_Event ''Normal'' ''SuccessNodeRef'' (''Succesfully set node ref '' @ node_Name k)
      (upd_status (mstat_NodeRef_update (\<lambda>_. Some (node_reference E k))) mc)"
    have "patch_node E rc k ?mc = Returns () mc'"
      using assms(1) n cl \<open>?rc = Inr rc\<close> \<open>rc_GetNode rc (mc_GetHostname mc) = Inr k\<close> by (simp add: mc_SetNodeRef_def)
    then have "mstat_NodeRef (mc_status mc') \<noteq> None"
      using outcome_patch_node(1) [of E rc k ?mc] by (simp add: mc_Event_def)
    with None assms(4) show False by simp
  qed
  then show ?thesis
    using None cl assms(2,3) by (auto simp: mc_SetNodeRef_def mc_GetHostname_def node_event_def mc_Eventf_def)
qed (auto simp: mc_SetNodeRef_def)

lemma status_delta_frame:
  "mc_Cluster (status_delta E ss mc) = mc_Cluster mc" "mc_Machine (status_delta E ss mc) = mc_Machine mc"
  by (simp_all add: status_delta_def go_defs Let_def)

lemma status_delta_status:
  "mc_GetBMCStatus (status_delta E ss mc) = (if mstat_BMCStatus ss = StatusError \<and> \<not> mc_IsStatusEqual mc StatusError
     then StatusIrreconcilable else mstat_BMCStatus ss)"
  by (simp add: status_delta_def go_defs merge_status_def Let_def status_defs)

text \<open>A poll that finds the server powered on leaves the machine ready, with the reported status.\<close>

lemma poll_status_settles:
  assumes "poll_status E ss mc = Returns v mc'" and "mc_Cluster d = mc_Cluster mc" and "mc_Machine d = mc_Machine mc"
    and "mc_BMCMachine d = mc_BMCMachine mc'"
  shows "mc_BMCMachine (outcome_state (poll_status E ss d)) = mc_BMCMachine d"
proof (cases "mstat_BMCStatus ss = StatusPoweredOn")
  case True
  let ?mc1 = "status_delta E ss mc"
  obtain mc2 where r: "mc_SetNodeRef E ?mc1 = Returns () mc2"
    and mc': "mc' = (if mc_IsReady mc2 then mc2 else mc_SetReady E (mc_MergeBMCStatusProperties ss mc2))"
    using assms(1) True by (cases "mc_SetNodeRef E ?mc1") (auto simp: poll_status_def Let_def)
  obtain nr where "mc_status mc2 = (mc_status ?mc1)\<lparr>mstat_NodeRef := nr\<rparr>"
    using outcome_SetNodeRef(3) [of E ?mc1] r by auto
  then have "mc_GetBMCStatus mc2 = StatusPoweredOn"
    using status_delta_status [of E ss mc] True by (simp add: mc_GetBMCStatus_def status_defs)
  then have q: "mc_IsStatusEqual d (mstat_BMCStatus ss)" "mc_IsReady d" "mstat_NodeRef (mc_status d) = mstat_NodeRef (mc_status mc2)"
    using True by (auto simp: mc' assms(4) mc_IsReady_def mc_SetReady_def mc_MergeBMCStatusProperties_def merge_status_def
        mc_IsStatusEqual_def mc_GetBMCStatus_def)
  obtain d' where "mc_SetNodeRef E d = Returns () d'" "mc_BMCMachine d' = mc_BMCMachine d"
    using SetNodeRef_settles [OF r, of d] assms(2,3) q(3) by (auto simp: status_delta_frame)
  with q(1,2) True show ?thesis
    by (simp add: poll_status_def status_delta_def mc_IsReady_def)
next
  case False
  then have "mc' = status_delta E ss mc"
    using assms(1) by (simp add: poll_status_def Let_def split: if_splits)
  then show ?thesis
    using False status_delta_settles [of d E ss mc] assms(4) by (simp add: poll_status_def Let_def)
qed

lemma poll_response_settles:
  assumes "poll_response E c body mc = Returns v mc'" and "mc_Cluster d = mc_Cluster mc" and "mc_Machine d = mc_Machine mc"
    and "mc_BMCMachine d = mc_BMCMachine mc'"
  shows "mc_BMCMachine (outcome_state (poll_response E c body d)) = mc_BMCMachine d"
proof (cases "http_ok c")
  case True
  then have r: "poll_response E c body x = poll_accepted E body x" for x
    by (auto simp: poll_response_def http_ok_def)
  show ?thesis
  proof (cases "unmarshal_machine_status (Decoders E) body")
    case (Inl j)
    with assms(1) have "mc' = poll_unreadable E j mc" by (simp add: r poll_accepted_def)
    with Inl assms(4) marks_settle(5) [of d E j mc E] show ?thesis by (simp add: r poll_accepted_def)
  next
    case (Inr ss)
    with assms poll_status_settles [of E ss mc v mc' d] show ?thesis by (simp add: r poll_accepted_def)
  qed
next
  case False
  then show ?thesis
    using assms(1,4) marks_settle(2) [of d E c mc] marks_settle(3) [of d c mc] marks_settle(4) [of d c mc]
    by (auto simp: poll_response_def mc_Eventf_def split: if_splits)
qed

lemma sync_settles:
  assumes "machine_reconcileSynchronize E mc = Returns v mc'" and "mc_Cluster d = mc_Cluster mc" and "mc_Machine d = mc_Machine mc"
    and "mc_BMCMachine d = mc_BMCMachine mc'"
  shows "mc_BMCMachine (outcome_state (machine_reconcileSynchronize E d)) = mc_BMCMachine d"
proof -
  have i: "mc_GetMachineID d = mc_GetMachineID mc"
    using sync_frame(1) [of E mc] assms(1,4) by (simp add: mc_GetMachineID_def)
  obtain out es where o': "http_send E (http_Get (server_url E (mc_GetMachineID mc))) = (out, es)" by fastforce
  show ?thesis
    using assms marks_settle(1) [of "log_effects es d" "log_effects es mc"]
      poll_response_settles [of E _ _ "log_effects es mc" v mc' "log_effects es d"]
    by (cases out) (simp_all add: machine_reconcileSynchronize_def i o' Let_def)
qed

section \<open>The lookup of the object itself\<close>

text \<open>A context that has been set up does not look its own object up again.\<close>

lemma ErrorText_lookup [simp]: "ErrorText (E\<lparr>GetBMCMachine := g\<rparr>) e = ErrorText E e"
  by (induction e) simp_all

lemma http_send_lookup [simp]: "http_send (E\<lparr>GetBMCMachine := g\<rparr>) r = http_send E r"
  by (simp add: http_send_def split: option.split)

lemma SetNodeRef_lookup [simp]: "mc_SetNodeRef (E\<lparr>GetBMCMachine := g\<rparr>) mc = mc_SetNodeRef E mc"
  by (simp add: mc_SetNodeRef_def patch_node_def node_event_def node_reference_def GetRemoteClient_def Let_def
      split: option.split sum.split)

lemma sync_lookup: "machine_reconcileSynchronize (E\<lparr>GetBMCMachine := g\<rparr>) mc = machine_reconcileSynchronize E mc"
proof -
  have "poll_status (E\<lparr>GetBMCMachine := g\<rparr>) ss d = poll_status E ss d" for ss d
    by (simp add: poll_status_def status_delta_def mc_SetReady_def external_addresses_def Let_def split: outcome.split)
  then have "poll_response (E\<lparr>GetBMCMachine := g\<rparr>) c body d = poll_response E c body d" for c body d
    by (simp add: poll_response_def poll_accepted_def poll_irreconcilable_def poll_unreadable_def split: sum.split)
  then show ?thesis
    by (simp add: machine_reconcileSynchronize_def server_url_def Let_def split: prod.split http_outcome.split)
qed

section \<open>A reconciliation repeated\<close>

text \<open>
  The owner of an object is found by its owner references, which the finalizers are no part of.
\<close>

definition owner_law :: "env \<Rightarrow> bool" where
  "owner_law E \<longleftrightarrow> (\<forall>om fs. GetOwnerMachine E (om\<lparr>om_Finalizers := fs\<rparr>) = GetOwnerMachine E om)"

lemma live_settles:
  assumes "finalizer_laws E" and "mc_linked mc" and "mc_GetMachineID mc \<noteq> []" and "mc_Cluster mc \<noteq> None"
    and "mc_Cluster d = mc_Cluster mc" and "mc_Machine d = mc_Machine mc"
    and "mc_BMCMachine d = mc_BMCMachine (outcome_state (machine_reconcileLive E mc))"
  shows "mc_BMCMachine (outcome_state (machine_reconcileLive (E\<lparr>GetBMCMachine := g\<rparr>) d)) = mc_BMCMachine d"
    and "\<exists>fs. mc_meta d = (mc_meta mc)\<lparr>om_Finalizers := fs\<rparr>"
proof -
  let ?w = "with_finalizer E mc" and ?F = "E\<lparr>GetBMCMachine := g\<rparr>"
  have w: "mc_meta ?w = (mc_meta mc)\<lparr>om_Finalizers := om_Finalizers (mc_meta ?w)\<rparr>" "mc_Machine ?w = mc_Machine mc"
    by (simp_all add: with_finalizer_def mc_AddFini_def)
  have f: "MachineFinalizer \<in> set (om_Finalizers (mc_meta ?w))"
    using finalizer_lawsD [OF assms(1)] by (auto simp: with_finalizer_def mc_HasFini_def mc_AddFini_def)
  obtain r where r: "mc_IsInfrastructureReady mc = Some r"
    using assms(4) by (auto simp: mc_IsInfrastructureReady_def)
  have live: "machine_reconcileLive E mc = (if r \<and> mc_IsDataSecretReady mc then machine_reconcileSynchronize E ?w
      else Returns (noRequeue, None) ?w)"
    using r assms(3) by (simp add: machine_reconcileLive_unfold)
  have m: "mc_meta d = mc_meta ?w"
    using assms(7) by (simp add: live sync_frame)
  then show "\<exists>fs. mc_meta d = (mc_meta mc)\<lparr>om_Finalizers := fs\<rparr>" using w(1) by metis
  have "with_finalizer ?F d = d"
    using f m finalizer_lawsD(3) [OF assms(1)] by (simp add: with_finalizer_def mc_HasFini_def)
  moreover have "mc_GetMachineID d = mc_GetMachineID mc"
    using m w(1) by (metis mc_GetMachineID_def with_finalizer_simps(1))
  moreover have "mc_IsInfrastructureReady d = Some r" "mc_IsDataSecretReady d \<longleftrightarrow> mc_IsDataSecretReady mc"
    using r assms(5,6) by (simp_all add: mc_IsInfrastructureReady_def mc_IsDataSecretReady_def)
  ultimately have second: "machine_reconcileLive ?F d = (if r \<and> mc_IsDataSecretReady mc then machine_reconcileSynchronize E d
      else Returns (noRequeue, None) d)"
    using assms(3) by (simp add: machine_reconcileLive_unfold sync_lookup)
  have "mspec_ProviderID (mc_spec ?w) \<noteq> None"
    using assms(2,3) by (auto simp: mc_linked_iff)
  then obtain v mc' where "machine_reconcileSynchronize E ?w = Returns v mc'"
    using sync_no_panic [of ?w E] assms(4) by (cases "machine_reconcileSynchronize E ?w") simp_all
  then show "mc_BMCMachine (outcome_state (machine_reconcileLive ?F d)) = mc_BMCMachine d"
    using sync_settles [of E ?w v mc' d] assms(5-7) w(2) by (auto simp: live second)
qed

text \<open>
  C11. Reconciliations of a machine settle: when a machine with a server, not being deleted, has been
  reconciled, a further reconciliation in the same surroundings, with the same answers, changes nothing, so
  that its patch is no further event of the watch, whatever the answers are: errors, refusals, any status
  of the server.
\<close>

theorem machine_settles:
  assumes "finalizer_laws E" and "owner_law E" and "machine_ident bm \<noteq> []" and "machine_linked bm"
    and "om_DeletionTimestamp (bm_Meta bm) = None" and "machine_run E bm = (x, rs)"
  shows "fst (machine_run E x) = x"
proof (cases "x = bm")
  case True
  with assms(6) show ?thesis by simp
next
  case False
  let ?E = "E\<lparr>GetBMCMachine := \<lambda>_. Inr bm\<rparr>" and ?F = "E\<lparr>GetBMCMachine := \<lambda>_. Inr x\<rparr>"
  obtain m where m: "GetOwnerMachine E (bm_Meta bm) = Inr (Some m)"
    using False assms(6) by (cases "GetOwnerMachine E (bm_Meta bm)")
      (auto simp: machine_run_def machine_Reconcile_def patched_machine_def Let_def split: option.splits)
  let ?mc = "machine_context bm m"
  have x: "x = mc_BMCMachine (outcome_state (machine_dispatch ?E ?mc))"
    using machine_run_dispatch [OF m refl] assms(6) by simp
  obtain mc1 where l: "live_context ?E ?mc = Some mc1" "machine_dispatch ?E ?mc = machine_reconcileLive ?E mc1"
    using False assms(5) x by (cases rule: machine_dispatch_cases [of ?mc ?E]) (auto simp: machine_IsMarkedDeleted_iff)
  define d where "d = mc1\<lparr>mc_BMCMachine := x\<rparr>"
  have c: "mc_BMCMachine mc1 = bm" "mc_Cluster mc1 \<noteq> None"
    using live_context_frame [OF l(1)] by simp_all
  have s: "mc_BMCMachine (outcome_state (machine_reconcileLive (?E\<lparr>GetBMCMachine := g\<rparr>) d)) = x"
    and fs: "\<exists>fs. bm_Meta x = (bm_Meta bm)\<lparr>om_Finalizers := fs\<rparr>" for g
    using live_settles(1) [of ?E mc1 d g] live_settles(2) [of ?E mc1 d] assms(1,3,4) c x l(2)
    by (simp_all add: d_def machine_ident_def mc_GetMachineID_def finalizer_laws_def)
  obtain fs where meta: "bm_Meta x = (bm_Meta bm)\<lparr>om_Finalizers := fs\<rparr>" using fs by blast
  have "GetOwnerMachine E (bm_Meta x) = Inr (Some m)"
    using assms(2) m by (simp add: meta owner_law_def)
  from machine_run_dispatch [OF this refl]
  have r: "fst (machine_run E x) = mc_BMCMachine (outcome_state (machine_dispatch ?F (machine_context x m)))" by simp
  have "live_context ?F (machine_context x m) = Some d"
    using l(1) by (auto simp: live_context_def d_def meta machine_context_def machine_IsMarkedDeleted_iff
        split: if_splits sum.splits option.splits)
  then have "machine_dispatch ?F (machine_context x m) = machine_reconcileLive ?F d"
    using assms(5) by (cases rule: machine_dispatch_cases [of "machine_context x m" ?F]) (auto simp: machine_IsMarkedDeleted_iff meta)
  with r s [of "\<lambda>_. Inr x"] show ?thesis by simp
qed

theorem machine_settles_witness:
  "fst (machine_run (machine_env example_machine (\<lambda>_. Response 400 []))
      (fst (machine_run (machine_env example_machine (\<lambda>_. Response 400 [])) (mc_BMCMachine example_created))))
    = fst (machine_run (machine_env example_machine (\<lambda>_. Response 400 [])) (mc_BMCMachine example_created))"
proof (rule machine_settles)
  let ?E = "machine_env example_machine (\<lambda>_. Response 400 [])"
  show "finalizer_laws ?E"
    using finalizer_laws_example [of "\<lambda>_. Response 400 []"] by (simp add: finalizer_laws_def machine_env_def)
  show "owner_law ?E" by (simp add: owner_law_def machine_env_finds)
  show "machine_run ?E (mc_BMCMachine example_created)
      = (fst (machine_run ?E (mc_BMCMachine example_created)), snd (machine_run ?E (mc_BMCMachine example_created)))" by simp
qed (simp_all add: machine_ident_def machine_linked_def annotation_def example_created_def example_mc_def example_machine_def
      example_meta_def mc_SetStatus_def server_status_def zero_machine_status_def Let_def)

section \<open>Clusters\<close>

lemma cluster_marks_settle:
  "cc_BMCCluster d = cc_BMCCluster (cluster_stale cc) \<Longrightarrow> cc_BMCCluster (cluster_stale d) = cc_BMCCluster d"
  "cc_BMCCluster d = cc_BMCCluster (cluster_irreconcilable c cc) \<Longrightarrow> cc_BMCCluster (cluster_irreconcilable c d) = cc_BMCCluster d"
  "cc_BMCCluster d = cc_BMCCluster (cluster_denied s c cc) \<Longrightarrow> cc_BMCCluster (cluster_denied s c d) = cc_BMCCluster d"
  "cc_BMCCluster d = cc_BMCCluster (cluster_unreadable E j cc) \<Longrightarrow> cc_BMCCluster (cluster_unreadable F j d) = cc_BMCCluster d"
  by (auto simp: go_defs cupd_status_def)

text \<open>A readable answer: the status is taken over and the readiness decided from it.\<close>

lemma cluster_ready_settles:
  assumes "cc_BMCCluster d = cc_BMCCluster (ready_unassigned (ready_assigned (cluster_status_delta ss cc)))"
  shows "cc_BMCCluster (ready_unassigned (ready_assigned (cluster_status_delta ss d))) = cc_BMCCluster d"
proof -
  let ?r = "ready_unassigned (ready_assigned (cluster_status_delta ss cc))"
  have "cc_GetBMCStatus ?r = cstat_BMCStatus ss"
    using cluster_ready_conditions(2) [of "cluster_status_delta ss cc"]
    by (auto simp: cluster_status_delta_def go_defs)
  then have "cluster_status_delta ss d = d"
    using assms by (simp add: cluster_status_delta_def cc_GetBMCStatus_def cc_IsStatusEqual_def)
  moreover have "cc_IsReady d \<or> \<not> (cc_IsStatusEqual d StatusAssigned \<and> cspec_VIPManager (cc_spec d) = NONE)
      \<and> \<not> (cc_IsStatusEqual d StatusNotAssigned \<and> cspec_VIPManager (cc_spec d) = KUBEVIP)"
    using cluster_ready_conditions [of "cluster_status_delta ss cc"] assms
    by (auto simp: cc_IsReady_def cc_IsStatusEqual_def ready_assigned_def ready_unassigned_def cc_SetReady_def)
  ultimately show ?thesis
    by (auto simp: ready_assigned_def ready_unassigned_def)
qed

lemma cluster_response_settles:
  assumes "cc_BMCCluster d = cc_BMCCluster (snd (cluster_poll_response E c body cc))"
  shows "cc_BMCCluster (snd (cluster_poll_response F c body d)) = cc_BMCCluster d"
proof (cases "http_ok c")
  case True
  then have r: "cluster_poll_response G c body y = cluster_poll_accepted G body y" for G y
    by (auto simp: cluster_poll_response_def http_ok_def)
  show ?thesis
    using assms cluster_marks_settle(4) [of d E _ cc F] cluster_ready_settles [of d _ cc]
    by (cases "unmarshal_cluster_status body") (simp_all add: r cluster_poll_accepted_def)
next
  case False
  then have r: "cc_BMCCluster (snd (cluster_poll_response G c body x)) = cc_BMCCluster (if c \<in> {400, 401} then cluster_irreconcilable c x
      else if c = 403 then cluster_denied StatusOrphaned c x else if c = 500 then cluster_denied StatusStale c x else x)" for G x
    by (simp add: cluster_poll_response_def cc_Eventf_def)
  consider "c \<in> {400, 401}" | "c = 403" | "c = 500" | "c \<notin> {400, 401, 403, 500}" by blast
  then show ?thesis
  proof cases
    case 1
    with assms cluster_marks_settle(2) [of d c cc] show ?thesis unfolding r by simp
  next
    case 2
    with assms cluster_marks_settle(3) [of d StatusOrphaned c cc] show ?thesis unfolding r by simp
  next
    case 3
    with assms cluster_marks_settle(3) [of d StatusStale c cc] show ?thesis unfolding r by simp
  next
    case 4
    with assms show ?thesis unfolding r by simp
  qed
qed

lemma cluster_live_settles:
  assumes "finalizer_laws E" and "cc_GetIP cc \<noteq> []" and "E1 = E\<lparr>GetBMCCluster := g\<rparr>" and "E2 = E\<lparr>GetBMCCluster := h\<rparr>"
    and "cc_BMCCluster d = cc_BMCCluster (outcome_state (cluster_reconcileLive E1 cc))"
  shows "cc_BMCCluster (outcome_state (cluster_reconcileLive E2 d)) = cc_BMCCluster d"
    and "\<exists>fs. cc_meta d = (cc_meta cc)\<lparr>om_Finalizers := fs\<rparr>"
proof -
  define w where "w = (if cc_HasFini E1 cc then cc else cc_AddFini E1 cc)"
  have w: "cc_meta w = (cc_meta cc)\<lparr>om_Finalizers := om_Finalizers (cc_meta w)\<rparr>" "cc_GetIP w = cc_GetIP cc"
    by (simp add: w_def cc_AddFini_def) (simp add: w_def)
  have f: "ClusterFinalizer \<in> set (om_Finalizers (cc_meta w))"
    using finalizer_lawsD [OF assms(1)] by (auto simp: w_def assms(3) cc_HasFini_def cc_AddFini_def)
  have live: "outcome_state (cluster_reconcileLive E1 cc) = snd (cluster_reconcileSynchronize E1 w)"
    using assms(2) w(2) by (simp add: cluster_reconcileLive_def w_def [symmetric] Let_def split: prod.split)
  have m: "cc_meta d = cc_meta w" using assms(5) by (simp add: live cluster_sync_frame)
  then show "\<exists>fs. cc_meta d = (cc_meta cc)\<lparr>om_Finalizers := fs\<rparr>" using w(1) by metis
  have i: "cc_GetIPAllocationID d = cc_GetIPAllocationID w" "cc_GetIP d \<noteq> []"
    using m w(2) assms(2) by (simp_all add: cc_GetIPAllocationID_def cc_GetIP_def)
  have "cc_HasFini E2 d"
    using f m finalizer_lawsD(3) [OF assms(1)] by (simp add: assms(4) cc_HasFini_def)
  then have second: "outcome_state (cluster_reconcileLive E2 d) = snd (cluster_reconcileSynchronize E2 d)"
    using i(2) by (simp add: cluster_reconcileLive_def Let_def split: prod.split)
  let ?r = "http_Get (ip_block_url E (cc_GetIPAllocationID w))"
  obtain out es where o': "http_send E ?r = (out, es)" by fastforce
  have send: "http_send E1 ?r = (out, es)" "http_send E2 ?r = (out, es)" "ip_block_url E1 = ip_block_url E" "ip_block_url E2 = ip_block_url E"
    using o' by (auto simp: assms(3,4) http_send_def ip_block_url_def fun_eq_iff split: option.splits)
  show "cc_BMCCluster (outcome_state (cluster_reconcileLive E2 d)) = cc_BMCCluster d"
    using assms(5) cluster_marks_settle(1) [of "clog_effects es d" "clog_effects es w"]
      cluster_response_settles [of "clog_effects es d" E1 _ _ "clog_effects es w" E2]
    unfolding live second
    by (cases out) (simp_all add: cluster_reconcileSynchronize_def i(1) send Let_def)
qed

text \<open>
  Reconciliations of a cluster settle: when a cluster with an address, not being deleted, has been
  reconciled, a further reconciliation with the same answers changes nothing, whatever the answers are.
\<close>

theorem cluster_settles:
  assumes "finalizer_laws E" and "cluster_ident bc \<noteq> []" and "om_DeletionTimestamp (bc_Meta bc) = None"
    and "cluster_run E bc = (x, rs)"
  shows "fst (cluster_run E x) = x"
proof (cases rule: cluster_run_cases [of E bc])
  case idle
  with assms(4) show ?thesis by simp
next
  case (run cl E1)
  let ?cc = "cluster_context bc cl"
  have l: "cluster_dispatch E1 ?cc = cluster_reconcileLive E1 ?cc"
    using assms(3) by (simp add: cluster_dispatch_def cluster_IsMarkedDeleted_iff)
  have x: "x = cc_BMCCluster (outcome_state (cluster_reconcileLive E1 ?cc))"
    using run(2) assms(4) by (simp add: l)
  have ip: "cc_GetIP ?cc \<noteq> []" using assms(2) by (simp add: cluster_ident_def cc_GetIP_def)
  show ?thesis
  proof (cases rule: cluster_run_cases [of E x])
    case (run cl' E2)
    note two = run
    let ?d = "cluster_context x cl'"
    have d: "cc_BMCCluster ?d = cc_BMCCluster (outcome_state (cluster_reconcileLive E1 ?cc))" by (simp add: x)
    obtain fs where "bc_Meta x = (bc_Meta bc)\<lparr>om_Finalizers := fs\<rparr>"
      using cluster_live_settles(2) [OF assms(1) ip \<open>E1 = _\<close> two(1) d] by auto
    then have "cluster_dispatch E2 ?d = cluster_reconcileLive E2 ?d"
      using assms(3) by (simp add: cluster_dispatch_def cluster_IsMarkedDeleted_iff)
    then show ?thesis
      using cluster_live_settles(1) [OF assms(1) ip \<open>E1 = _\<close> two(1) d] two(2) by simp
  qed simp
qed

text \<open>A cluster with an address, polled while the service is down.\<close>

definition addressed_cluster :: BMCCluster where
  "addressed_cluster = example_bmccluster\<lparr>bc_Meta := example_meta\<lparr>om_Name := ''c'',
     om_Annotations := Some [ANNOTATION_NAME_BMC_CLUSTER_IP \<mapsto> ''10.1.2.5'']\<rparr>\<rparr>"

theorem cluster_settles_witness:
  "fst (cluster_run (cluster_env example_bmccluster (\<lambda>_. Response 500 []))
      (fst (cluster_run (cluster_env example_bmccluster (\<lambda>_. Response 500 [])) addressed_cluster)))
    = fst (cluster_run (cluster_env example_bmccluster (\<lambda>_. Response 500 [])) addressed_cluster)"
proof (rule cluster_settles)
  let ?E = "cluster_env example_bmccluster (\<lambda>_. Response 500 [])"
  show "finalizer_laws ?E"
    using finalizer_laws_example [of "\<lambda>_. Response 500 []"] by (simp add: finalizer_laws_def cluster_env_def)
  show "cluster_run ?E addressed_cluster = (fst (cluster_run ?E addressed_cluster), snd (cluster_run ?E addressed_cluster))" by simp
qed (simp_all add: cluster_ident_def annotation_def addressed_cluster_def example_meta_def)

end
