(* ===== verification/GoHeap.thy ===== *)
theory GoHeap
  imports Prelude
begin

text \<open>
  Memory as the Go code sees it, for the parts of the program where aliasing matters.  A heap maps
  addresses to cells, a location is an address with a path into its cell (a variable, a field or an
  element of an array), and the statement forms of the generated copy functions are operations on
  locations.  The contract of a deep copy, a locale, says what a copy function leaves alone, that the
  copy shows the value of the original, and that it reaches new memory only.
\<close>

section \<open>Heaps\<close>

type_synonym addr = nat

record 'c heap =
  hp_cells :: "addr \<Rightarrow> 'c option"
  hp_next :: addr

text \<open>\<open>new\<close> and \<open>make\<close>: a cell at an address that has not been used.\<close>

definition alloc :: "'c \<Rightarrow> 'c heap \<Rightarrow> addr \<times> 'c heap" where
  "alloc c h = (hp_next h, h\<lparr>hp_cells := (hp_cells h)(hp_next h \<mapsto> c), hp_next := hp_next h + 1\<rparr>)"

definition cell_at :: "'c heap \<Rightarrow> addr \<Rightarrow> 'c" where
  "cell_at h a = the (hp_cells h a)"

definition store :: "addr \<Rightarrow> 'c \<Rightarrow> 'c heap \<Rightarrow> 'c heap" where
  "store a c h = h\<lparr>hp_cells := (hp_cells h)(a \<mapsto> c)\<rparr>"

lemma heap_simps [simp]:
  "hp_next (store a c h) = hp_next h" "cell_at (store a c h) b = (if b = a then c else cell_at h b)"
  "fst (alloc c h) = hp_next h" "hp_next (snd (alloc c h)) = Suc (hp_next h)"
  "cell_at (snd (alloc c h)) b = (if b = hp_next h then c else cell_at h b)"
  by (simp_all add: store_def alloc_def cell_at_def)

section \<open>Locations\<close>

record ('c, 'a) loc =
  loc_base :: addr
  loc_get :: "'c \<Rightarrow> 'a"
  loc_set :: "'a \<Rightarrow> 'c \<Rightarrow> 'c"

definition load :: "('c, 'a) loc \<Rightarrow> 'c heap \<Rightarrow> 'a" where
  "load l h = loc_get l (cell_at h (loc_base l))"

definition assign :: "('c, 'a) loc \<Rightarrow> 'a \<Rightarrow> 'c heap \<Rightarrow> 'c heap" where
  "assign l v h = store (loc_base l) (loc_set l v (cell_at h (loc_base l))) h"

text \<open>The location of a whole cell, of a field (\<open>&l.F\<close>), and of an element of an array.\<close>

definition whole :: "('c \<Rightarrow> 'a) \<Rightarrow> ('a \<Rightarrow> 'c) \<Rightarrow> addr \<Rightarrow> ('c, 'a) loc" where
  "whole sel con a = \<lparr>loc_base = a, loc_get = sel, loc_set = (\<lambda>v c. con v)\<rparr>"

definition field :: "('a \<Rightarrow> 'b) \<Rightarrow> (('b \<Rightarrow> 'b) \<Rightarrow> 'a \<Rightarrow> 'a) \<Rightarrow> ('c, 'a) loc \<Rightarrow> ('c, 'b) loc" where
  "field g u l = \<lparr>loc_base = loc_base l, loc_get = (\<lambda>c. g (loc_get l c)),
     loc_set = (\<lambda>v c. loc_set l (u (\<lambda>_. v) (loc_get l c)) c)\<rparr>"

definition element :: "('c \<Rightarrow> 'a list) \<Rightarrow> ('a list \<Rightarrow> 'c) \<Rightarrow> addr \<Rightarrow> nat \<Rightarrow> ('c, 'a) loc" where
  "element sel con a i = \<lparr>loc_base = a, loc_get = (\<lambda>c. sel c ! i), loc_set = (\<lambda>v c. con ((sel c)[i := v]))\<rparr>"

lemma loc_base_simps [simp]:
  "loc_base (whole sel con a) = a" "loc_base (field g u l) = loc_base l" "loc_base (element asel acon a i) = a"
  by (simp_all add: whole_def field_def element_def)

lemma load_simps [simp]:
  "load (whole sel con a) h = sel (cell_at h a)" "load (field g u l) h = g (load l h)"
  "load (element asel acon a i) h = asel (cell_at h a) ! i"
  by (simp_all add: load_def whole_def field_def element_def)

lemma load_other: "cell_at h' (loc_base l) = cell_at h (loc_base l) \<Longrightarrow> load l h' = load l h"
  by (simp add: load_def)

text \<open>
  A location is usable in a heap when its cell is allocated, of the right type, and what is written
  there can be read back, a later write hiding an earlier one.
\<close>

definition lawful :: "('c, 'a) loc \<Rightarrow> 'c \<Rightarrow> bool" where
  "lawful l c \<longleftrightarrow> (\<forall>v. loc_get l (loc_set l v c) = v) \<and> (\<forall>v w. loc_set l v (loc_set l w c) = loc_set l v c)
     \<and> loc_set l (loc_get l c) c = c"

definition usable :: "('c, 'a) loc \<Rightarrow> 'c heap \<Rightarrow> bool" where
  "usable l h \<longleftrightarrow> loc_base l < hp_next h \<and> lawful l (cell_at h (loc_base l))"

lemma lawful_set: "lawful l c \<Longrightarrow> lawful l (loc_set l v c)"
  by (simp add: lawful_def)

lemma usable_assign [simp]: "usable l h \<Longrightarrow> usable l (assign l v h)"
  by (simp add: usable_def assign_def lawful_set)

lemma load_assign [simp]: "usable l h \<Longrightarrow> load l (assign l v h) = v"
  by (simp add: usable_def lawful_def load_def assign_def)

lemma usable_whole: "(\<And>v. sel (con v) = v) \<Longrightarrow> a < hp_next h \<Longrightarrow> cell_at h a = con v \<Longrightarrow> usable (whole sel con a) h"
  by (simp add: usable_def lawful_def whole_def)

lemma usable_element:
  "(\<And>v. sel (con v) = v) \<Longrightarrow> a < hp_next h \<Longrightarrow> cell_at h a = con xs \<Longrightarrow> i < length xs
   \<Longrightarrow> usable (element sel con a i) h"
  by (simp add: usable_def lawful_def element_def)

section \<open>Slices\<close>

text \<open>A slice is nil, or refers to a part of an array: offset and length.\<close>

datatype slice = NilSlice | Slice addr nat nat

fun slice_len :: "slice \<Rightarrow> nat" where
  "slice_len NilSlice = 0"
| "slice_len (Slice a off n) = n"

fun elems :: "('c \<Rightarrow> 'a list) \<Rightarrow> 'c heap \<Rightarrow> slice \<Rightarrow> 'a list" where
  "elems sel h NilSlice = []"
| "elems sel h (Slice a off n) = map (\<lambda>i. sel (cell_at h a) ! (off + i)) [0..<n]"

fun slice_foot :: "slice \<Rightarrow> addr set" where
  "slice_foot NilSlice = {}"
| "slice_foot (Slice a off n) = {a}"

text \<open>The location of \<open>s[i]\<close>; an index into a nil slice does not occur, loops run to the length.\<close>

fun slice_at :: "('c \<Rightarrow> 'a list) \<Rightarrow> ('a list \<Rightarrow> 'c) \<Rightarrow> slice \<Rightarrow> nat \<Rightarrow> ('c, 'a) loc" where
  "slice_at sel con NilSlice i = element sel con 0 i"
| "slice_at sel con (Slice a off n) i = element sel con a (off + i)"

text \<open>\<open>copy(dst, src)\<close>: as many elements as fit, all read before any is written.\<close>

fun copy_elems :: "('c \<Rightarrow> 'a list) \<Rightarrow> ('a list \<Rightarrow> 'c) \<Rightarrow> slice \<Rightarrow> slice \<Rightarrow> 'c heap \<Rightarrow> 'c heap" where
  "copy_elems sel con NilSlice src h = h"
| "copy_elems sel con (Slice a off n) src h =
     (let xs = take n (elems sel h src); ys = sel (cell_at h a)
      in store a (con (take off ys @ xs @ drop (off + length xs) ys)) h)"

lemma length_elems [simp]: "length (elems sel h s) = slice_len s"
  by (cases s) simp_all

section \<open>The statement forms of the copy functions\<close>

text \<open>
  \<open>if in.F != nil { in, out := &in.F, &out.F; *out = new(T); **out = **in }\<close>, with the zero
  value of the new cell.  The pointers are read again after the assignment, as the code does.
\<close>

definition clone_pointer :: "'c \<Rightarrow> ('c, addr option) loc \<Rightarrow> ('c, addr option) loc \<Rightarrow> 'c heap \<Rightarrow> 'c heap" where
  "clone_pointer z inl out h = (case load inl h of None \<Rightarrow> h
     | Some p \<Rightarrow> (case alloc z h of (q, h1) \<Rightarrow>
         let h2 = assign out (Some q) h1
         in store (the (load out h2)) (cell_at h2 (the (load inl h2))) h2))"

text \<open>\<open>*out = make([]T, len(*in)); copy( *out, *in)\<close>, also with the test for nil.\<close>

definition make_copy :: "('c \<Rightarrow> 'a list) \<Rightarrow> ('a list \<Rightarrow> 'c) \<Rightarrow> 'a \<Rightarrow> ('c, slice) loc \<Rightarrow> ('c, slice) loc \<Rightarrow> 'c heap \<Rightarrow> 'c heap" where
  "make_copy sel con z inl out h =
     (let n = slice_len (load inl h) in
      case alloc (con (replicate n z)) h of (q, h1) \<Rightarrow>
        let h2 = assign out (Slice q 0 n) h1
        in copy_elems sel con (load out h2) (load inl h2) h2)"

definition clone_slice :: "('c \<Rightarrow> 'a list) \<Rightarrow> ('a list \<Rightarrow> 'c) \<Rightarrow> 'a \<Rightarrow> ('c, slice) loc \<Rightarrow> ('c, slice) loc \<Rightarrow> 'c heap \<Rightarrow> 'c heap" where
  "clone_slice sel con z inl out h = (if load inl h = NilSlice then h else make_copy sel con z inl out h)"

text \<open>\<open>*out = make([]T, len(*in)); for i := range *in { (*in)[i].DeepCopyInto(&(*out)[i]) }\<close>.\<close>

definition clone_items :: "(('c, 'a) loc \<Rightarrow> ('c, 'a) loc \<Rightarrow> 'c heap \<Rightarrow> 'c heap) \<Rightarrow> ('c \<Rightarrow> 'a list) \<Rightarrow> ('a list \<Rightarrow> 'c) \<Rightarrow> 'a
    \<Rightarrow> ('c, slice) loc \<Rightarrow> ('c, slice) loc \<Rightarrow> 'c heap \<Rightarrow> 'c heap" where
  "clone_items into sel con z inl out h =
     (if load inl h = NilSlice then h
      else let n = slice_len (load inl h) in
        case alloc (con (replicate n z)) h of (q, h1) \<Rightarrow>
          fold (\<lambda>i h. into (slice_at sel con (load inl h) i) (slice_at sel con (load out h) i) h) [0..<n]
            (assign out (Slice q 0 n) h1))"

text \<open>A copy function of another repository, which gives the copy of a value.\<close>

definition call_into :: "('a \<Rightarrow> 'c heap \<Rightarrow> 'a \<times> 'c heap) \<Rightarrow> ('c, 'a) loc \<Rightarrow> ('c, 'a) loc \<Rightarrow> 'c heap \<Rightarrow> 'c heap" where
  "call_into f inl out h = (case f (load inl h) h of (v, h') \<Rightarrow> assign out v h')"

text \<open>\<open>DeepCopy\<close>: nil for nil, else a new object that is copied into.\<close>

definition deep_copy :: "(('c, 'a) loc \<Rightarrow> ('c, 'a) loc \<Rightarrow> 'c heap \<Rightarrow> 'c heap) \<Rightarrow> ('c \<Rightarrow> 'a) \<Rightarrow> ('a \<Rightarrow> 'c) \<Rightarrow> 'a
    \<Rightarrow> addr option \<Rightarrow> 'c heap \<Rightarrow> addr option \<times> 'c heap" where
  "deep_copy into sel con z p h = (case p of None \<Rightarrow> (None, h)
     | Some a \<Rightarrow> (case alloc (con z) h of (q, h1) \<Rightarrow> (Some q, into (whole sel con a) (whole sel con q) h1)))"

end
