(* ===== verification/CopyLaws.thy ===== *)
theory CopyLaws
  imports GoHeap
begin

text \<open>
  The contract of a deep copy and how contracts compose.  A value in memory has a view, what a reader
  sees through its pointers, and a footprint, the cells it sees it in.  A copy function keeps all
  memory but the cell it writes to, leaves a value with the view of the original, and the footprint of
  the new value is new memory.  The statement forms of the generated code have the contract for a part of a
  struct; parts in sequence have it for the pair, and after \<open>*out = *in\<close> for the struct.
\<close>

section \<open>Agreement, views and footprints\<close>

definition agree_except :: "addr \<Rightarrow> 'c heap \<Rightarrow> 'c heap \<Rightarrow> bool" where
  "agree_except b h h' \<longleftrightarrow> hp_next h \<le> hp_next h' \<and> (\<forall>a < hp_next h. a \<noteq> b \<longrightarrow> cell_at h' a = cell_at h a)"

definition local_view :: "('c heap \<Rightarrow> 'a \<Rightarrow> 'v) \<Rightarrow> ('c heap \<Rightarrow> 'a \<Rightarrow> addr set) \<Rightarrow> bool" where
  "local_view view foot \<longleftrightarrow> (\<forall>h h' x. (\<forall>a \<in> foot h x. cell_at h' a = cell_at h a)
     \<longrightarrow> view h' x = view h x \<and> foot h' x = foot h x)"

lemma agree_refl [simp]: "agree_except b h h"
  by (simp add: agree_except_def)

lemma agree_trans: "agree_except b h h' \<Longrightarrow> agree_except b h' h'' \<Longrightarrow> agree_except b h h''"
  unfolding agree_except_def using order_trans order_less_le_trans by (metis (no_types))

lemma agree_next: "agree_except b h h' \<Longrightarrow> hp_next h \<le> hp_next h'"
  by (simp add: agree_except_def)

lemma agree_cell: "agree_except b h h' \<Longrightarrow> a < hp_next h \<Longrightarrow> a \<noteq> b \<Longrightarrow> cell_at h' a = cell_at h a"
  by (simp add: agree_except_def)

lemma agree_load: "agree_except b h h' \<Longrightarrow> loc_base l < hp_next h \<Longrightarrow> loc_base l \<noteq> b \<Longrightarrow> load l h' = load l h"
  by (simp add: agree_except_def load_def)

lemma agree_assign: "agree_except (loc_base l) h (assign l v h)"
  by (simp add: agree_except_def assign_def)

lemma agree_alloc: "agree_except b h (snd (alloc c h))"
  by (simp add: agree_except_def)

lemma agree_store: "hp_next h \<le> a \<Longrightarrow> agree_except b h h' \<Longrightarrow> agree_except b h (store a c h')"
  by (auto simp: agree_except_def)

lemma alloc_result:
  obtains h1 where "alloc c h = (hp_next h, h1)" and "hp_next h1 = Suc (hp_next h)"
    and "\<And>a. cell_at h1 a = (if a = hp_next h then c else cell_at h a)" and "\<And>b. agree_except b h h1"
  by (rule that [of "snd (alloc c h)"]) (simp_all add: agree_alloc prod_eq_iff)

text \<open>A write into a cell that was new at the start.\<close>

lemma agree_new: "agree_except b h h' \<Longrightarrow> hp_next h \<le> q \<Longrightarrow> agree_except q h' h'' \<Longrightarrow> agree_except b h h''"
  by (auto simp: agree_except_def)

text \<open>Views do not change when their footprint does not.\<close>

lemma local_viewD:
  assumes "local_view view foot" and "\<And>a. a \<in> foot h x \<Longrightarrow> cell_at h' a = cell_at h a"
  shows "view h' x = view h x" and "foot h' x = foot h x"
  using assms unfolding local_view_def by blast+

lemma local_view_agree:
  assumes "local_view view foot" and "agree_except b h h'" and "foot h x \<subseteq> {..<hp_next h} - {b}"
  shows "view h' x = view h x" and "foot h' x = foot h x"
proof -
  have same: "cell_at h' a = cell_at h a" if "a \<in> foot h x" for a
    using agree_cell [OF assms(2), of a] assms(3) that by auto
  show "view h' x = view h x" "foot h' x = foot h x"
    by (rule local_viewD [OF assms(1) same], assumption)+
qed

lemma local_view_pair:
  "local_view v1 f1 \<Longrightarrow> local_view v2 f2
   \<Longrightarrow> local_view (\<lambda>h (x, y). (v1 h x, v2 h y)) (\<lambda>h (x, y). f1 h x \<union> f2 h y)"
  unfolding local_view_def by (simp add: Ball_def) metis

lemma local_view_map: "local_view v f \<Longrightarrow> local_view (\<lambda>h x. mk x (v h (pr x))) (\<lambda>h x. f h (pr x))"
  unfolding local_view_def by metis

section \<open>The contract\<close>

definition copied :: "('c, 'a) loc \<Rightarrow> 'c heap \<Rightarrow> 'c heap \<Rightarrow> 'a \<Rightarrow> ('c heap \<Rightarrow> 't \<Rightarrow> 'v) \<Rightarrow> ('c heap \<Rightarrow> 't \<Rightarrow> addr set)
    \<Rightarrow> 't \<Rightarrow> 't \<Rightarrow> bool" where
  "copied out h h' w view foot x t \<longleftrightarrow> agree_except (loc_base out) h h'
     \<and> cell_at h' (loc_base out) = loc_set out w (cell_at h (loc_base out))
     \<and> view h' t = view h x \<and> foot h' t \<subseteq> {hp_next h..<hp_next h'}"

definition ready :: "('c, 'a) loc \<Rightarrow> ('c, 'a) loc \<Rightarrow> 'c heap \<Rightarrow> addr set \<Rightarrow> bool" where
  "ready inl out h f \<longleftrightarrow> usable out h \<and> loc_base inl < hp_next h \<and> loc_base inl \<noteq> loc_base out
     \<and> f \<subseteq> {..<hp_next h} - {loc_base out}"

locale deep_copier =
  fixes into :: "('c, 'a) loc \<Rightarrow> ('c, 'a) loc \<Rightarrow> 'c heap \<Rightarrow> 'c heap"
    and view :: "'c heap \<Rightarrow> 'a \<Rightarrow> 'v" and foot :: "'c heap \<Rightarrow> 'a \<Rightarrow> addr set"
  assumes local: "local_view view foot"
    and copies: "ready inl out h (foot h (load inl h)) \<Longrightarrow> \<exists>t. copied out h (into inl out h) t view foot (load inl h) t"

text \<open>
  The same for a part of a struct, which has been copied by \<open>*out = *in\<close> already: the part is read by
  \<open>pr\<close> and replaced by \<open>up\<close>.
\<close>

definition part_copier :: "(('c, 'a) loc \<Rightarrow> ('c, 'a) loc \<Rightarrow> 'c heap \<Rightarrow> 'c heap) \<Rightarrow> ('a \<Rightarrow> 't) \<Rightarrow> ('t \<Rightarrow> 'a \<Rightarrow> 'a)
    \<Rightarrow> ('c heap \<Rightarrow> 't \<Rightarrow> 'v) \<Rightarrow> ('c heap \<Rightarrow> 't \<Rightarrow> addr set) \<Rightarrow> bool" where
  "part_copier P pr up view foot \<longleftrightarrow> local_view view foot
     \<and> (\<forall>inl out h. ready inl out h (foot h (pr (load inl h))) \<and> pr (load out h) = pr (load inl h)
        \<longrightarrow> (\<exists>t. copied out h (P inl out h) (up t (load out h)) view foot (pr (load inl h)) t))"

lemma part_copierD:
  assumes "part_copier P pr up view foot" and "ready inl out h (foot h (pr (load inl h)))"
    and "pr (load out h) = pr (load inl h)"
  obtains t where "copied out h (P inl out h) (up t (load out h)) view foot (pr (load inl h)) t"
  using assms unfolding part_copier_def by blast

lemma part_copierI:
  assumes "local_view view foot"
    and "\<And>inl out h. ready inl out h (foot h (pr (load inl h))) \<Longrightarrow> pr (load out h) = pr (load inl h)
      \<Longrightarrow> \<exists>t. copied out h (P inl out h) (up t (load out h)) view foot (pr (load inl h)) t"
  shows "part_copier P pr up view foot"
  using assms unfolding part_copier_def by blast

section \<open>Composition\<close>

lemma usable_field:
  assumes "usable l h" and "\<And>t s. g (u (\<lambda>_. t) s) = t" and "\<And>s t s'. u (\<lambda>_. t) (u (\<lambda>_. s') s) = u (\<lambda>_. t) s"
    and "\<And>s. u (\<lambda>_. g s) s = s"
  shows "usable (field g u l) h"
  using assms by (simp add: usable_def lawful_def field_def)

lemma copied_field:
  "copied (field g u out) h h' t view foot x y \<Longrightarrow> copied out h h' (u (\<lambda>_. t) (load out h)) view foot x y"
  by (simp add: copied_def field_def load_def)

lemma part_field:
  fixes P :: "('c, 'b) loc \<Rightarrow> ('c, 'b) loc \<Rightarrow> 'c heap \<Rightarrow> 'c heap" and g :: "'a \<Rightarrow> 'b"
  assumes P: "part_copier P id (\<lambda>t _. t) view foot" and "\<And>t s. g (u (\<lambda>_. t) s) = t"
    and "\<And>s t s'. u (\<lambda>_. t) (u (\<lambda>_. s') s) = u (\<lambda>_. t) s" and "\<And>s. u (\<lambda>_. g s) s = s"
  shows "part_copier (\<lambda>inl out. P (field g u inl) (field g u out)) g (\<lambda>t. u (\<lambda>_. t)) view foot"
proof (rule part_copierI)
  show "local_view view foot" using P by (simp add: part_copier_def)
  fix inl out :: "('c, 'a) loc" and h
  assume r: "ready inl out h (foot h (g (load inl h)))" and e: "g (load out h) = g (load inl h)"
  from r have "ready (field g u inl) (field g u out) h (foot h (id (load (field g u inl) h)))"
    using usable_field [of out h g u] assms(2-4) by (simp add: ready_def)
  from part_copierD [OF P this] e
  obtain t where "copied (field g u out) h (P (field g u inl) (field g u out) h) t view foot (g (load inl h)) t"
    by auto
  then show "\<exists>t. copied out h (P (field g u inl) (field g u out) h) (u (\<lambda>_. t) (load out h)) view foot (g (load inl h)) t"
    using copied_field by fastforce
qed

lemma copied_load: "usable out h \<Longrightarrow> copied out h h' w view foot x t \<Longrightarrow> load out h' = w \<and> usable out h'"
  by (auto simp: copied_def usable_def lawful_def load_def dest: agree_next)

lemma part_seq:
  fixes P :: "('c, 'a) loc \<Rightarrow> ('c, 'a) loc \<Rightarrow> 'c heap \<Rightarrow> 'c heap"
  assumes P: "part_copier P pr1 up1 v1 f1" and Q: "part_copier Q pr2 up2 v2 f2"
    and other: "\<And>t s. pr2 (up1 t s) = pr2 s"
  shows "part_copier (\<lambda>inl out h. Q inl out (P inl out h)) (\<lambda>s. (pr1 s, pr2 s)) (\<lambda>(t1, t2) s. up2 t2 (up1 t1 s))
    (\<lambda>h (x, y). (v1 h x, v2 h y)) (\<lambda>h (x, y). f1 h x \<union> f2 h y)"
proof (rule part_copierI [OF local_view_pair])
  show l1: "local_view v1 f1" and l2: "local_view v2 f2" using P Q by (simp_all add: part_copier_def)
  fix inl out :: "('c, 'a) loc" and h
  let ?b = "loc_base out" and ?x = "load inl h"
  assume r: "ready inl out h (case (pr1 ?x, pr2 ?x) of (x, y) \<Rightarrow> f1 h x \<union> f2 h y)"
    and e: "(pr1 (load out h), pr2 (load out h)) = (pr1 ?x, pr2 ?x)"
  let ?h1 = "P inl out h"
  from r have r1: "ready inl out h (f1 h (pr1 ?x))" by (simp add: ready_def)
  from P r1 e obtain t1 where t1: "copied out h ?h1 (up1 t1 (load out h)) v1 f1 (pr1 ?x) t1"
    by (auto elim: part_copierD)
  then have a1: "agree_except ?b h ?h1" and c1: "cell_at ?h1 ?b = loc_set out (up1 t1 (load out h)) (cell_at h ?b)"
    and p1: "v1 ?h1 t1 = v1 h (pr1 ?x)" and q1: "f1 ?h1 t1 \<subseteq> {hp_next h..<hp_next ?h1}"
    by (simp_all add: copied_def)
  from copied_load [OF _ t1] r have u1: "load out ?h1 = up1 t1 (load out h)" "usable out ?h1"
    by (simp_all add: ready_def)
  from r have f2: "f2 h (pr2 ?x) \<subseteq> {..<hp_next h} - {?b}" by (simp add: ready_def)
  note same = local_view_agree [OF l2 a1 f2] and x = agree_load [OF a1, of inl]
  from r x same f2 u1 agree_next [OF a1] have r2: "ready inl out ?h1 (f2 ?h1 (pr2 (load inl ?h1)))"
    by (auto simp: ready_def)
  obtain t2 where t2: "copied out ?h1 (Q inl out ?h1) (up2 t2 (load out ?h1)) v2 f2 (pr2 (load inl ?h1)) t2"
    by (rule part_copierD [OF Q r2]) (use r x e u1 other in \<open>simp_all add: ready_def\<close>)
  let ?h2 = "Q inl out ?h1"
  from t2 have a2: "agree_except ?b ?h1 ?h2" by (simp add: copied_def)
  have "?b < hp_next h" using r by (simp add: ready_def usable_def)
  with q1 have "f1 ?h1 t1 \<subseteq> {..<hp_next ?h1} - {?b}" by auto
  note keep = local_view_agree [OF l1 a2 this]
  have lw: "lawful out (cell_at h ?b)" using r by (simp add: ready_def usable_def)
  have "copied out h ?h2 (up2 t2 (up1 t1 (load out h))) (\<lambda>h (x, y). (v1 h x, v2 h y)) (\<lambda>h (x, y). f1 h x \<union> f2 h y)
      (pr1 ?x, pr2 ?x) (t1, t2)"
    using t2 keep a1 p1 q1 c1 u1 lw agree_next [OF a1] agree_next [OF a2] x r same agree_trans [OF a1 a2]
    by (auto simp: copied_def ready_def lawful_def)
  then show "\<exists>t. copied out h ?h2 ((case t of (t1, t2) \<Rightarrow> \<lambda>s. up2 t2 (up1 t1 s)) (load out h))
      (\<lambda>h (x, y). (v1 h x, v2 h y)) (\<lambda>h (x, y). f1 h x \<union> f2 h y) (pr1 ?x, pr2 ?x) t"
    by (intro exI [of _ "(t1, t2)"]) simp
qed

text \<open>A copy function of a whole value is one of the part that is all of it.\<close>

lemma part_all: "deep_copier P view foot \<Longrightarrow> part_copier P id (\<lambda>t _. t) view foot"
  by (auto simp: part_copier_def deep_copier_def)

text \<open>Parts of a struct, after \<open>*out = *in\<close>, make a copy of the struct.\<close>

lemma struct_copier:
  fixes Q :: "('c, 'a) loc \<Rightarrow> ('c, 'a) loc \<Rightarrow> 'c heap \<Rightarrow> 'c heap"
  assumes Q: "part_copier Q pr up v f" and "\<And>t s. pr (up t s) = t" and "\<And>t s x. mk (up t s) x = mk s x"
  shows "deep_copier (\<lambda>inl out h. Q inl out (assign out (load inl h) h)) (\<lambda>h s. mk s (v h (pr s))) (\<lambda>h s. f h (pr s))"
proof
  have l: "local_view v f" using Q by (simp add: part_copier_def)
  then show "local_view (\<lambda>h s. mk s (v h (pr s))) (\<lambda>h s. f h (pr s))" by (rule local_view_map)
  fix inl out :: "('c, 'a) loc" and h
  let ?x = "load inl h" and ?b = "loc_base out"
  let ?h1 = "assign out ?x h"
  assume r: "ready inl out h (f h (pr ?x))"
  have a1: "agree_except ?b h ?h1" by (rule agree_assign)
  have u: "usable out h" and ft: "f h (pr ?x) \<subseteq> {..<hp_next h} - {?b}" using r by (simp_all add: ready_def)
  note same = local_view_agree [OF l a1 ft] and x = agree_load [OF a1, of inl]
  have n: "hp_next ?h1 = hp_next h" by (simp add: assign_def)
  have x1: "load inl ?h1 = ?x" using x r by (simp add: ready_def)
  have r1: "ready inl out ?h1 (f ?h1 (pr (load inl ?h1)))"
    using r u same x1 n by (simp add: ready_def)
  obtain t where t: "copied out ?h1 (Q inl out ?h1) (up t ?x) v f (pr ?x) t"
    by (rule part_copierD [OF Q r1]) (use u x1 in simp_all)
  have "copied out h (Q inl out ?h1) (up t ?x) (\<lambda>h s. mk s (v h (pr s))) (\<lambda>h s. f h (pr s)) ?x (up t ?x)"
    using t same n u agree_trans [OF a1, of "Q inl out ?h1"] assms(2,3)
    by (auto simp: copied_def assign_def usable_def lawful_def)
  then show "\<exists>t. copied out h (Q inl out ?h1) t (\<lambda>h s. mk s (v h (pr s))) (\<lambda>h s. f h (pr s)) ?x t"
    by blast
qed

section \<open>The statement forms have the contract\<close>

text \<open>A field without pointers.\<close>

lemma plain_copier: "deep_copier (\<lambda>inl out h. assign out (load inl h) h) (\<lambda>h x. x) (\<lambda>h x. {})"
  by unfold_locales (auto simp: copied_def local_view_def agree_assign [unfolded assign_def] assign_def)

lemma pointer_part:
  "part_copier (clone_pointer z) id (\<lambda>t _. t) (\<lambda>h p. map_option (cell_at h) p) (\<lambda>h p. set_option p)"
proof (rule part_copierI)
  show "local_view (\<lambda>h p. map_option (cell_at h) p) (\<lambda>h p. set_option p)"
    by (auto simp: local_view_def map_option_case split: option.split)
  fix inl out :: "('a, addr option) loc" and h
  assume r: "ready inl out h (set_option (id (load inl h)))" and e: "id (load out h) = id (load inl h)"
  show "\<exists>t. copied out h (clone_pointer z inl out h) t (\<lambda>h p. map_option (cell_at h) p) (\<lambda>h p. set_option p)
      (id (load inl h)) t"
  proof (cases "load inl h")
    case None
    then show ?thesis
      using r e by (intro exI [of _ None]) (auto simp: clone_pointer_def copied_def ready_def usable_def lawful_def load_def)
  next
    case (Some p)
    let ?q = "hp_next h"
    obtain h1 where a: "alloc z h = (?q, h1)" "hp_next h1 = Suc ?q"
      "\<And>a. cell_at h1 a = (if a = ?q then z else cell_at h a)" "\<And>b. agree_except b h h1"
      by (rule alloc_result [of z h]) blast
    let ?h2 = "assign out (Some ?q) h1"
    have b: "loc_base out < ?q" "loc_base inl < ?q" "loc_base inl \<noteq> loc_base out" "p < ?q" "p \<noteq> loc_base out"
      using r Some by (auto simp: ready_def usable_def)
    have u: "usable out h1" using r a by (auto simp: ready_def usable_def)
    have ag: "agree_except (loc_base out) h ?h2" by (rule agree_trans [OF a(4) agree_assign])
    from agree_load [OF this b(2,3)] Some have "load inl ?h2 = Some p" by simp
    then have c: "clone_pointer z inl out h = store ?q (cell_at ?h2 p) ?h2"
      using Some u by (simp add: clone_pointer_def a(1) Let_def)
    have "agree_except (loc_base out) h (store ?q (cell_at ?h2 p) ?h2)"
      by (intro agree_store ag) simp
    then show ?thesis
      unfolding c using b Some a(2,3) by (intro exI [of _ "Some ?q"]) (auto simp: copied_def assign_def)
  qed
qed

text \<open>Slices of values without pointers.\<close>

definition slice_view :: "('c \<Rightarrow> 'a list) \<Rightarrow> 'c heap \<Rightarrow> slice \<Rightarrow> 'a list option" where
  "slice_view sel h s = (if s = NilSlice then None else Some (elems sel h s))"

lemma elems_cong: "\<forall>a \<in> slice_foot s. cell_at h' a = cell_at h a \<Longrightarrow> elems sel h' s = elems sel h s"
  by (cases s) simp_all

lemma slice_view_local: "local_view (slice_view sel) (\<lambda>h. slice_foot)"
  by (simp add: local_view_def slice_view_def elems_cong)

text \<open>An array cell: what is put into it is what is seen in it.\<close>

definition array_cell :: "('c \<Rightarrow> 'a list) \<Rightarrow> ('a list \<Rightarrow> 'c) \<Rightarrow> bool" where
  "array_cell sel con \<longleftrightarrow> (\<forall>xs. sel (con xs) = xs)"

lemma make_copy_result:
  assumes con: "array_cell sel con" and r: "ready inl out h (slice_foot (load inl h))"
  shows "copied out h (make_copy sel con z inl out h) (Slice (hp_next h) 0 (slice_len (load inl h)))
    (elems sel) (\<lambda>h. slice_foot) (load inl h) (Slice (hp_next h) 0 (slice_len (load inl h)))"
proof -
  let ?s = "load inl h" and ?q = "hp_next h"
  let ?n = "slice_len ?s"
  obtain h1 where a: "alloc (con (replicate ?n z)) h = (?q, h1)" "hp_next h1 = Suc ?q"
    "\<And>a. cell_at h1 a = (if a = ?q then con (replicate ?n z) else cell_at h a)" "\<And>b. agree_except b h h1"
    by (rule alloc_result [of "con (replicate ?n z)" h]) blast
  let ?h2 = "assign out (Slice ?q 0 ?n) h1"
  have b: "loc_base out < ?q" "loc_base inl < ?q" "loc_base inl \<noteq> loc_base out"
    using r by (auto simp: ready_def usable_def)
  have u: "usable out h1" using r a by (auto simp: ready_def usable_def)
  have ag: "agree_except (loc_base out) h ?h2" by (rule agree_trans [OF a(4) agree_assign])
  have s: "load inl ?h2 = ?s" by (rule agree_load [OF ag b(2,3)])
  have e: "elems sel ?h2 ?s = elems sel h ?s"
    by (rule elems_cong) (use r agree_cell [OF ag] in \<open>auto simp: ready_def\<close>)
  have q: "cell_at ?h2 ?q = con (replicate ?n z)" using b a(3) by (simp add: assign_def)
  have c: "make_copy sel con z inl out h = store ?q (con (elems sel h ?s)) ?h2"
    using s e u q con by (simp add: make_copy_def a(1) Let_def array_cell_def)
  have "elems sel (make_copy sel con z inl out h) (Slice ?q 0 ?n) = elems sel h ?s"
    by (rule nth_equalityI) (simp_all add: c con [unfolded array_cell_def])
  moreover have "agree_except (loc_base out) h (store ?q (con (elems sel h ?s)) ?h2)"
    by (intro agree_store ag) simp
  ultimately show ?thesis
    unfolding c using b a(2,3) by (auto simp: copied_def assign_def)
qed

lemma make_copy_copier:
  assumes "array_cell sel con"
  shows "deep_copier (make_copy sel con z) (elems sel) (\<lambda>h. slice_foot)"
proof
  show "local_view (elems sel) (\<lambda>h. slice_foot)" by (simp add: local_view_def elems_cong)
qed (rule exI, rule make_copy_result [OF assms])

lemma copied_same:
  "usable out h \<Longrightarrow> load out h = x \<Longrightarrow> view h x = v \<Longrightarrow> foot h x = {} \<Longrightarrow> view h y = v
   \<Longrightarrow> copied out h h x view foot y x"
  by (auto simp: copied_def usable_def lawful_def load_def)

lemma slice_part:
  assumes "array_cell sel con"
  shows "part_copier (clone_slice sel con z) id (\<lambda>t _. t) (slice_view sel) (\<lambda>h. slice_foot)"
proof (rule part_copierI [OF slice_view_local])
  fix inl out :: "('a, slice) loc" and h
  assume r: "ready inl out h (slice_foot (id (load inl h)))" and e: "id (load out h) = id (load inl h)"
  show "\<exists>t. copied out h (clone_slice sel con z inl out h) t (slice_view sel) (\<lambda>h. slice_foot) (id (load inl h)) t"
  proof (cases "load inl h = NilSlice")
    case True
    with r e show ?thesis
      by (intro exI [of _ NilSlice]) (auto simp: clone_slice_def ready_def intro: copied_same)
  next
    case False
    then show ?thesis
      using make_copy_result [OF assms, of inl out h z] r
      by (intro exI [of _ "Slice (hp_next h) 0 (slice_len (load inl h))"])
        (simp add: clone_slice_def copied_def slice_view_def del: elems.simps)
  qed
qed

text \<open>A copy function of another repository.\<close>

definition value_copier :: "('a \<Rightarrow> 'c heap \<Rightarrow> 'a \<times> 'c heap) \<Rightarrow> ('c heap \<Rightarrow> 'a \<Rightarrow> 'v) \<Rightarrow> ('c heap \<Rightarrow> 'a \<Rightarrow> addr set) \<Rightarrow> bool" where
  "value_copier f view foot \<longleftrightarrow> local_view view foot \<and> (\<forall>x h y h'. f x h = (y, h') \<and> foot h x \<subseteq> {..<hp_next h} \<longrightarrow>
     hp_next h \<le> hp_next h' \<and> (\<forall>a < hp_next h. cell_at h' a = cell_at h a)
     \<and> view h' y = view h x \<and> foot h' y \<subseteq> {hp_next h..<hp_next h'})"

lemma call_copier:
  assumes "value_copier f view foot"
  shows "deep_copier (call_into f) view foot"
proof
  show l: "local_view view foot" using assms by (simp add: value_copier_def)
  fix inl out :: "('b, 'a) loc" and h
  assume r: "ready inl out h (foot h (load inl h))"
  obtain y h' where f: "f (load inl h) h = (y, h')" by fastforce
  moreover have "foot h (load inl h) \<subseteq> {..<hp_next h}" using r by (auto simp: ready_def)
  ultimately have c: "hp_next h \<le> hp_next h'" "\<forall>a < hp_next h. cell_at h' a = cell_at h a"
    "view h' y = view h (load inl h)" "foot h' y \<subseteq> {hp_next h..<hp_next h'}"
    using assms unfolding value_copier_def by blast+
  have b: "loc_base out < hp_next h" using r by (simp add: ready_def usable_def)
  have "foot h' y \<subseteq> {..<hp_next h'} - {loc_base out}" using c(4) b by auto
  note same = local_view_agree [OF l agree_assign this]
  have "copied out h (assign out y h') y view foot (load inl h) y"
    using c b same by (auto simp: copied_def agree_except_def assign_def)
  then show "\<exists>t. copied out h (call_into f inl out h) t view foot (load inl h) t"
    by (auto simp: call_into_def f)
qed

text \<open>Slices of values that have copy functions of their own.\<close>

definition items_view :: "('c heap \<Rightarrow> 'a \<Rightarrow> 'v) \<Rightarrow> ('c \<Rightarrow> 'a list) \<Rightarrow> 'c heap \<Rightarrow> slice \<Rightarrow> 'v list option" where
  "items_view view sel h s = (if s = NilSlice then None else Some (map (view h) (elems sel h s)))"

definition items_foot :: "('c heap \<Rightarrow> 'a \<Rightarrow> addr set) \<Rightarrow> ('c \<Rightarrow> 'a list) \<Rightarrow> 'c heap \<Rightarrow> slice \<Rightarrow> addr set" where
  "items_foot foot sel h s = slice_foot s \<union> (\<Union>x \<in> set (elems sel h s). foot h x)"

lemma items_view_local:
  assumes "local_view view foot"
  shows "local_view (items_view view sel) (items_foot foot sel)"
  unfolding local_view_def
proof (intro allI impI)
  fix h h' s
  assume same: "\<forall>a \<in> items_foot foot sel h s. cell_at h' a = cell_at h a"
  then have e: "elems sel h' s = elems sel h s" by (intro elems_cong) (simp add: items_foot_def)
  have "view h' x = view h x \<and> foot h' x = foot h x" if "x \<in> set (elems sel h s)" for x
    using local_viewD [OF assms, of h x h'] same that by (auto simp: items_foot_def)
  then show "items_view view sel h' s = items_view view sel h s \<and> items_foot foot sel h' s = items_foot foot sel h s"
    by (simp add: items_view_def items_foot_def e)
qed

text \<open>The loop, up to element k: the elements before it are copies, those after it still zero.\<close>

definition items_copied :: "('c heap \<Rightarrow> 'a \<Rightarrow> 'v) \<Rightarrow> ('c heap \<Rightarrow> 'a \<Rightarrow> addr set) \<Rightarrow> ('a list \<Rightarrow> 'c) \<Rightarrow> 'a
    \<Rightarrow> 'c heap \<Rightarrow> addr \<Rightarrow> 'v list \<Rightarrow> nat \<Rightarrow> 'c heap \<Rightarrow> bool" where
  "items_copied view foot con z h2 q vs rest h \<longleftrightarrow> agree_except q h2 h \<and>
     (\<exists>ys. cell_at h q = con (ys @ replicate rest z) \<and> map (view h) ys = vs
        \<and> (\<forall>y \<in> set ys. foot h y \<subseteq> {hp_next h2..<hp_next h}))"

lemma items_step:
  assumes into: "deep_copier into view foot" and con: "array_cell sel con" and q: "q < hp_next h2"
    and sofar: "items_copied view foot con z h2 q vs (Suc rest) h"
    and src: "a < hp_next h2" "a \<noteq> q" "x = sel (cell_at h2 a) ! j" "foot h2 x \<subseteq> {..<hp_next h2} - {q}"
  shows "items_copied view foot con z h2 q (vs @ [view h2 x]) rest
    (into (element sel con a j) (element sel con q (length vs)) h)"
proof -
  let ?in = "element sel con a j" and ?out = "element sel con q (length vs)"
  let ?h' = "into ?in ?out h"
  have l: "local_view view foot" by (rule deep_copier.local [OF into])
  from sofar obtain ys where ag: "agree_except q h2 h" and c: "cell_at h q = con (ys @ replicate (Suc rest) z)"
    and vs: "map (view h) ys = vs" and ys: "\<And>y. y \<in> set ys \<Longrightarrow> foot h y \<subseteq> {hp_next h2..<hp_next h}"
    by (auto simp: items_copied_def)
  have n: "length ys = length vs" using vs by auto
  note x = local_view_agree [OF l ag src(4)]
  have le: "hp_next h2 \<le> hp_next h" by (rule agree_next [OF ag])
  have ld: "load ?in h = x" using agree_cell [OF ag src(1,2)] src(3) by simp
  have "ready ?in ?out h (foot h (load ?in h))"
    using usable_element [of sel con q h "ys @ replicate (Suc rest) z" "length vs"] con c q le src x ld n
    by (auto simp: ready_def array_cell_def)
  from deep_copier.copies [OF into this] obtain t where t: "copied ?out h ?h' t view foot x t"
    unfolding ld by blast
  then have ag': "agree_except q h ?h'" and v: "view ?h' t = view h2 x" and ft: "foot ?h' t \<subseteq> {hp_next h..<hp_next ?h'}"
    and c': "cell_at ?h' q = con ((ys @ [t]) @ replicate rest z)"
    using x con c n by (auto simp: copied_def element_def array_cell_def list_update_append)
  have keep: "view ?h' y = view h y \<and> foot ?h' y = foot h y" if "y \<in> set ys" for y
  proof -
    have "foot h y \<subseteq> {..<hp_next h} - {q}" using ys [OF that] q by auto
    from local_view_agree [OF l ag' this] show ?thesis by simp
  qed
  have "\<forall>y \<in> set (ys @ [t]). foot ?h' y \<subseteq> {hp_next h2..<hp_next ?h'}"
    using keep ys ft le agree_next [OF ag'] by fastforce
  moreover have "map (view ?h') (ys @ [t]) = vs @ [view h2 x]" using keep vs v by auto
  ultimately show ?thesis
    unfolding items_copied_def using c' agree_trans [OF ag ag'] by blast
qed

lemma items_loop:
  assumes into: "deep_copier into view foot" and con: "array_cell sel con" and q: "q < hp_next h2"
    and c: "cell_at h2 q = con (replicate n z)" and a: "a < hp_next h2" "a \<noteq> q"
    and ft: "\<And>i. i < n \<Longrightarrow> foot h2 (sel (cell_at h2 a) ! (off + i)) \<subseteq> {..<hp_next h2} - {q}"
    and il: "loc_base inl < hp_next h2" "loc_base inl \<noteq> q" "load inl h2 = Slice a off n"
    and ol: "loc_base out < hp_next h2" "loc_base out \<noteq> q" "load out h2 = Slice q 0 n" and k: "k \<le> n"
  shows "items_copied view foot con z h2 q (map (\<lambda>i. view h2 (sel (cell_at h2 a) ! (off + i))) [0..<k]) (n - k)
    (fold (\<lambda>i h. into (slice_at sel con (load inl h) i) (slice_at sel con (load out h) i) h) [0..<k] h2)"
  using k
proof (induction k)
  case 0
  show ?case using c by (simp add: items_copied_def)
next
  case (Suc k)
  let ?h = "fold (\<lambda>i h. into (slice_at sel con (load inl h) i) (slice_at sel con (load out h) i) h) [0..<k] h2"
  let ?vs = "map (\<lambda>i. view h2 (sel (cell_at h2 a) ! (off + i))) [0..<k]"
  have IH: "items_copied view foot con z h2 q ?vs (Suc (n - Suc k)) ?h"
    using Suc by (simp add: Suc_diff_Suc)
  then have ag: "agree_except q h2 ?h" by (simp add: items_copied_def)
  have l: "load inl ?h = Slice a off n" "load out ?h = Slice q 0 n"
    using agree_load [OF ag il(1,2)] agree_load [OF ag ol(1,2)] il(3) ol(3) by simp_all
  from items_step [OF into con q IH a refl ft, of k] Suc.prems show ?case
    by (simp add: l)
qed

lemma items_part:
  fixes into :: "('c, 'a) loc \<Rightarrow> ('c, 'a) loc \<Rightarrow> 'c heap \<Rightarrow> 'c heap"
  assumes into: "deep_copier into view foot" and con: "array_cell sel con"
  shows "part_copier (clone_items into sel con z) id (\<lambda>t _. t) (items_view view sel) (items_foot foot sel)"
proof (rule part_copierI [OF items_view_local [OF deep_copier.local [OF into]]])
  fix inl out :: "('c, slice) loc" and h
  assume r: "ready inl out h (items_foot foot sel h (id (load inl h)))" and e: "id (load out h) = id (load inl h)"
  have l: "local_view view foot" by (rule deep_copier.local [OF into])
  show "\<exists>t. copied out h (clone_items into sel con z inl out h) t (items_view view sel) (items_foot foot sel)
    (id (load inl h)) t"
  proof (cases "load inl h")
    case NilSlice
    with r e show ?thesis
      by (intro exI [of _ NilSlice]) (auto simp: clone_items_def ready_def items_foot_def intro: copied_same)
  next
    case s: (Slice a off n)
    let ?q = "hp_next h" and ?s = "Slice (hp_next h) 0 n"
    obtain h1 where h1: "alloc (con (replicate n z)) h = (?q, h1)" "hp_next h1 = Suc ?q"
      "\<And>a. cell_at h1 a = (if a = ?q then con (replicate n z) else cell_at h a)" "\<And>b. agree_except b h h1"
      by (rule alloc_result [of "con (replicate n z)" h]) blast
    let ?h2 = "assign out ?s h1"
    let ?H = "clone_items into sel con z inl out h"
    let ?x = "\<lambda>i. sel (cell_at h a) ! (off + i)"
    have b: "loc_base out < ?q" "loc_base inl < ?q" "loc_base inl \<noteq> loc_base out" "a < ?q" "a \<noteq> loc_base out"
      using r s by (auto simp: ready_def usable_def items_foot_def)
    have u: "usable out h1" using r h1 by (auto simp: ready_def usable_def)
    have ag: "agree_except (loc_base out) h ?h2" by (rule agree_trans [OF h1(4) agree_assign])
    have il: "load inl ?h2 = Slice a off n" using agree_load [OF ag b(2,3)] s by simp
    have n2: "hp_next ?h2 = Suc ?q" using h1(2) by (simp add: assign_def)
    have ol: "load out ?h2 = ?s" and cq: "cell_at ?h2 ?q = con (replicate n z)"
      using u b h1(3) by simp_all (simp add: assign_def)
    have ca: "cell_at ?h2 a = cell_at h a" by (rule agree_cell [OF ag b(4,5)])
    from r s have all: "(\<Union>i \<in> {0..<n}. foot h (?x i)) \<subseteq> {..<hp_next h} - {loc_base out}"
      by (simp add: ready_def items_foot_def)
    have fx: "foot h (?x i) \<subseteq> {..<hp_next h} - {loc_base out}" if "i < n" for i
      using all that by (meson UN_upper atLeastLessThan_iff le0 order_trans)
    note x = local_view_agree [OF l ag fx]
    have "foot ?h2 (sel (cell_at ?h2 a) ! (off + i)) \<subseteq> {..<hp_next ?h2} - {?q}" if "i < n" for i
      using x(2) [OF that] fx [OF that] n2 by (auto simp: ca)
    with items_loop [OF into con, where q = ?q and ?h2.0 = ?h2 and n = n and z = z and a = a and off = off
        and inl = inl and out = out and k = n] b il ol cq n2 ca
    have "items_copied view foot con z ?h2 ?q (map (\<lambda>i. view ?h2 (?x i)) [0..<n]) 0 ?H"
      by (simp add: clone_items_def s h1(1))
    moreover have "map (\<lambda>i. view ?h2 (?x i)) [0..<n] = map (\<lambda>i. view h (?x i)) [0..<n]"
      using x(1) by simp
    ultimately obtain ys where H: "agree_except ?q ?h2 ?H" "cell_at ?H ?q = con ys"
      "map (view ?H) ys = map (\<lambda>i. view h (?x i)) [0..<n]" "\<And>y. y \<in> set ys \<Longrightarrow> foot ?H y \<subseteq> {hp_next ?h2..<hp_next ?H}"
      by (auto simp: items_copied_def)
    have len: "length ys = n" using arg_cong [OF H(3), of length] by simp
    have el: "elems sel ?H ?s = ys"
      using con H(2) len by (auto simp: array_cell_def intro: nth_equalityI)
    have er: "elems sel h (Slice a off n) = map ?x [0..<n]" by simp
    have "copied out h ?H ?s (items_view view sel) (items_foot foot sel) (Slice a off n) ?s"
      unfolding copied_def
    proof (intro conjI)
      show "agree_except (loc_base out) h ?H" by (rule agree_new [OF ag order_refl H(1)])
      show "cell_at ?H (loc_base out) = loc_set out ?s (cell_at h (loc_base out))"
        using agree_cell [OF H(1), of "loc_base out"] b n2 h1(3) by (simp add: assign_def)
      show "items_view view sel ?H ?s = items_view view sel h (Slice a off n)"
        using H(3) by (simp add: items_view_def el er o_def del: elems.simps)
      show "items_foot foot sel ?H ?s \<subseteq> {hp_next h..<hp_next ?H}"
        using H(4) n2 agree_next [OF H(1)] el by (auto simp: items_foot_def simp del: elems.simps) force+
    qed
    then show ?thesis by (auto simp: s)
  qed
qed

section \<open>What a new copy promises\<close>

text \<open>
  The object at q after the call is a copy of the object at p before it, and the two are independent:
  old memory is as before, the copy shows what the original shows, it still does after any change of
  old memory, and the original still does after any change of the memory allocated since.
\<close>

definition independent_copy :: "('c heap \<Rightarrow> 'a \<Rightarrow> 'v) \<Rightarrow> ('c \<Rightarrow> 'a) \<Rightarrow> 'c heap \<Rightarrow> addr \<Rightarrow> 'c heap \<Rightarrow> addr \<Rightarrow> bool" where
  "independent_copy view sel h p h' q \<longleftrightarrow>
     hp_next h \<le> q \<and> q < hp_next h' \<and> (\<forall>a < hp_next h. cell_at h' a = cell_at h a)
     \<and> view h' (sel (cell_at h' q)) = view h (sel (cell_at h p))
     \<and> (\<forall>k. (\<forall>a \<ge> hp_next h. cell_at k a = cell_at h' a) \<longrightarrow> view k (sel (cell_at k q)) = view h (sel (cell_at h p)))
     \<and> (\<forall>k. (\<forall>a < hp_next h. cell_at k a = cell_at h a) \<longrightarrow> view k (sel (cell_at k p)) = view h (sel (cell_at h p)))"

definition reachable :: "('c heap \<Rightarrow> 'a \<Rightarrow> addr set) \<Rightarrow> ('c \<Rightarrow> 'a) \<Rightarrow> 'c heap \<Rightarrow> addr \<Rightarrow> addr set" where
  "reachable foot sel h p = insert p (foot h (sel (cell_at h p)))"

context deep_copier
begin

lemma deep_copy_new:
  assumes sel: "\<And>v. sel (con v) = v" and p: "reachable foot sel h p \<subseteq> {..<hp_next h}"
  shows "\<exists>q h'. deep_copy into sel con z (Some p) h = (Some q, h') \<and> independent_copy view sel h p h' q"
proof -
  let ?q = "hp_next h" and ?x = "sel (cell_at h p)"
  obtain h1 where h1: "alloc (con z) h = (?q, h1)" "hp_next h1 = Suc ?q"
    "\<And>a. cell_at h1 a = (if a = ?q then con z else cell_at h a)" "\<And>b. agree_except b h h1"
    by (rule alloc_result [of "con z" h]) blast
  let ?in = "whole sel con p" and ?out = "whole sel con ?q"
  let ?h' = "into ?in ?out h1"
  have b: "p < ?q" "foot h ?x \<subseteq> {..<?q}" using p by (simp_all add: reachable_def)
  have fx: "foot h ?x \<subseteq> {..<?q} - {?q}" using b(2) by auto
  note x = local_view_agree [OF local h1(4) fx]
  have ld: "load ?in h1 = ?x" using b h1(3) by simp
  have "ready ?in ?out h1 (foot h1 (load ?in h1))"
    using usable_whole [of sel con ?q h1 z] sel h1(2,3) b x(2) ld by (auto simp: ready_def)
  from copies [OF this] obtain t where t: "copied ?out h1 ?h' t view foot ?x t" unfolding ld by blast
  then have ag: "agree_except ?q h1 ?h'" and c: "cell_at ?h' ?q = con t" and v: "view ?h' t = view h ?x"
    and ft: "foot ?h' t \<subseteq> {Suc ?q..<hp_next ?h'}"
    using x h1(2) by (simp_all add: copied_def whole_def)
  have old: "\<forall>a < ?q. cell_at ?h' a = cell_at h a"
    using agree_cell [OF ag] h1(2,3) by simp
  have own: "view k (sel (cell_at k ?q)) = view h ?x" if k: "\<forall>a \<ge> ?q. cell_at k a = cell_at ?h' a" for k
  proof -
    have "view k t = view ?h' t" by (rule local_viewD(1) [OF local]) (use k ft in auto)
    then show ?thesis using k c sel v by simp
  qed
  have kept: "view k (sel (cell_at k p)) = view h ?x" if k: "\<forall>a < ?q. cell_at k a = cell_at h a" for k
  proof -
    have "view k ?x = view h ?x" by (rule local_viewD(1) [OF local]) (use k b in auto)
    then show ?thesis using k b by simp
  qed
  have "?q < hp_next ?h'" and "view ?h' (sel (cell_at ?h' ?q)) = view h ?x"
    using agree_next [OF ag] h1(2) c v sel by simp_all
  then have "independent_copy view sel h p ?h' ?q"
    unfolding independent_copy_def using old own kept by blast
  then show ?thesis by (auto simp: deep_copy_def h1(1))
qed

end

end
