(* ===== verification/DeepCopy.thy ===== *)
theory DeepCopy
  imports CopyLaws ApiTypes
begin

text \<open>
  The generated copy functions of \<open>api/v1beta1/zz_generated.deepcopy.go\<close> on an explicit memory.  The API
  objects are laid out as the Go types are: pointers are addresses, slices refer to arrays, and structs are
  in place.  Metadata and quantities are types of other repositories: an opaque type whose copy functions
  are parameters.
\<close>

section \<open>The objects in memory\<close>

record TypeMeta =
  tm_Kind :: string
  tm_APIVersion :: string

record GMachineSpec =
  gms_ProviderID :: "addr option"
  gms_Description :: string
  gms_OS :: string
  gms_Type :: string
  gms_Location :: string
  gms_InstallDefaultSSHKeys :: "addr option"
  gms_SSHKeyIDs :: slice
  gms_NetworkType :: string

record 'f GMachineStatus =
  gmt_BMCServerID :: string
  gmt_BMCStatus :: string
  gmt_CPU :: string
  gmt_CPUCount :: "32 word"
  gmt_CPUCores :: "32 word"
  gmt_CPUFrequency :: 'f
  gmt_Ram :: string
  gmt_Storage :: string
  gmt_PrivateIPAddresses :: slice
  gmt_PublicIPAddresses :: slice
  gmt_Ready :: bool
  gmt_Addresses :: slice
  gmt_FailureReason :: "addr option"
  gmt_FailureMessage :: "addr option"
  gmt_NodeRef :: "addr option"

record 'f GMachine =
  gm_TypeMeta :: TypeMeta
  gm_ObjectMeta :: 'f
  gm_Spec :: GMachineSpec
  gm_Status :: "'f GMachineStatus"

record 'f GMachineList =
  gml_TypeMeta :: TypeMeta
  gml_ListMeta :: 'f
  gml_Items :: slice

record GClusterStatus =
  gct_Ready :: bool
  gct_ErrorMessage :: "addr option"
  gct_ID :: string
  gct_CIDR :: string
  gct_BMCStatus :: string

record 'f GCluster =
  gc_TypeMeta :: TypeMeta
  gc_ObjectMeta :: 'f
  gc_Spec :: BMCClusterSpec
  gc_Status :: GClusterStatus

record 'f GClusterList =
  gcl_TypeMeta :: TypeMeta
  gcl_ListMeta :: 'f
  gcl_Items :: slice

record 'f GTemplateResource =
  gtr_ObjectMeta :: 'f
  gtr_Spec :: GMachineSpec

record 'f GTemplateSpec =
  gts_Template :: "'f GTemplateResource"

record 'f GTemplate =
  gt_TypeMeta :: TypeMeta
  gt_ObjectMeta :: 'f
  gt_Spec :: "'f GTemplateSpec"

record 'f GTemplateList =
  gtl_TypeMeta :: TypeMeta
  gtl_ListMeta :: 'f
  gtl_Items :: slice

text \<open>A cell holds a variable of one of the types, an array, or memory of another repository.\<close>

datatype 'f cell =
    CString (un_CString: string)
  | CBool (un_CBool: bool)
  | CStrings (un_CStrings: "string list")
  | CNodeAddresses (un_CNodeAddresses: "NodeAddress list")
  | CObjectReference (un_CObjectReference: ObjectReference)
  | CMachineSpec (un_CMachineSpec: GMachineSpec)
  | CMachineStatus (un_CMachineStatus: "'f GMachineStatus")
  | CMachine (un_CMachine: "'f GMachine")
  | CMachines (un_CMachines: "'f GMachine list")
  | CMachineList (un_CMachineList: "'f GMachineList")
  | CClusterSpec (un_CClusterSpec: BMCClusterSpec)
  | CClusterStatus (un_CClusterStatus: GClusterStatus)
  | CCluster (un_CCluster: "'f GCluster")
  | CClusters (un_CClusters: "'f GCluster list")
  | CClusterList (un_CClusterList: "'f GClusterList")
  | CTemplateResource (un_CTemplateResource: "'f GTemplateResource")
  | CTemplateSpec (un_CTemplateSpec: "'f GTemplateSpec")
  | CTemplate (un_CTemplate: "'f GTemplate")
  | CTemplates (un_CTemplates: "'f GTemplate list")
  | CTemplateList (un_CTemplateList: "'f GTemplateList")
  | CTag (un_CTag: Tag)
  | CTags (un_CTags: "Tag list")
  | CTagList (un_CTagList: slice)
  | CForeign (un_CForeign: 'f)

type_synonym 'f store = "'f cell heap"
type_synonym ('f, 'a) copy_into = "('f cell, 'a) loc \<Rightarrow> ('f cell, 'a) loc \<Rightarrow> 'f store \<Rightarrow> 'f store"

text \<open>
  The copy functions of other repositories, and the zero values of their types.
\<close>

record 'f library =
  lib_ObjectMeta :: "'f \<Rightarrow> 'f store \<Rightarrow> 'f \<times> 'f store"
  lib_ListMeta :: "'f \<Rightarrow> 'f store \<Rightarrow> 'f \<times> 'f store"
  lib_TemplateMeta :: "'f \<Rightarrow> 'f store \<Rightarrow> 'f \<times> 'f store"
  lib_Quantity :: "'f \<Rightarrow> 'f store \<Rightarrow> 'f \<times> 'f store"
  zero_ObjectMeta :: 'f
  zero_ListMeta :: 'f
  zero_TemplateMeta :: 'f
  zero_Quantity :: 'f

section \<open>Zero values\<close>

definition zero_TypeMeta :: TypeMeta where
  "zero_TypeMeta = \<lparr>tm_Kind = [], tm_APIVersion = []\<rparr>"

definition zero_GMachineSpec :: GMachineSpec where
  "zero_GMachineSpec = \<lparr>gms_ProviderID = None, gms_Description = [], gms_OS = [], gms_Type = [], gms_Location = [],
     gms_InstallDefaultSSHKeys = None, gms_SSHKeyIDs = NilSlice, gms_NetworkType = []\<rparr>"

definition zero_GMachineStatus :: "'f library \<Rightarrow> 'f GMachineStatus" where
  "zero_GMachineStatus L = \<lparr>gmt_BMCServerID = [], gmt_BMCStatus = [], gmt_CPU = [], gmt_CPUCount = 0, gmt_CPUCores = 0,
     gmt_CPUFrequency = zero_Quantity L, gmt_Ram = [], gmt_Storage = [], gmt_PrivateIPAddresses = NilSlice,
     gmt_PublicIPAddresses = NilSlice, gmt_Ready = False, gmt_Addresses = NilSlice, gmt_FailureReason = None,
     gmt_FailureMessage = None, gmt_NodeRef = None\<rparr>"

definition zero_GMachine :: "'f library \<Rightarrow> 'f GMachine" where
  "zero_GMachine L = \<lparr>gm_TypeMeta = zero_TypeMeta, gm_ObjectMeta = zero_ObjectMeta L, gm_Spec = zero_GMachineSpec,
     gm_Status = zero_GMachineStatus L\<rparr>"

definition zero_GMachineList :: "'f library \<Rightarrow> 'f GMachineList" where
  "zero_GMachineList L = \<lparr>gml_TypeMeta = zero_TypeMeta, gml_ListMeta = zero_ListMeta L, gml_Items = NilSlice\<rparr>"

definition zero_APIEndpoint :: APIEndpoint where
  "zero_APIEndpoint = \<lparr>ep_Host = [], ep_Port = 0\<rparr>"

definition zero_BMCClusterSpec :: BMCClusterSpec where
  "zero_BMCClusterSpec = \<lparr>cspec_Location = [], cspec_ControlPlaneEndpoint = zero_APIEndpoint, cspec_VIPManager = []\<rparr>"

definition zero_GClusterStatus :: GClusterStatus where
  "zero_GClusterStatus = \<lparr>gct_Ready = False, gct_ErrorMessage = None, gct_ID = [], gct_CIDR = [], gct_BMCStatus = []\<rparr>"

definition zero_GCluster :: "'f library \<Rightarrow> 'f GCluster" where
  "zero_GCluster L = \<lparr>gc_TypeMeta = zero_TypeMeta, gc_ObjectMeta = zero_ObjectMeta L, gc_Spec = zero_BMCClusterSpec,
     gc_Status = zero_GClusterStatus\<rparr>"

definition zero_GClusterList :: "'f library \<Rightarrow> 'f GClusterList" where
  "zero_GClusterList L = \<lparr>gcl_TypeMeta = zero_TypeMeta, gcl_ListMeta = zero_ListMeta L, gcl_Items = NilSlice\<rparr>"

definition zero_GTemplateResource :: "'f library \<Rightarrow> 'f GTemplateResource" where
  "zero_GTemplateResource L = \<lparr>gtr_ObjectMeta = zero_TemplateMeta L, gtr_Spec = zero_GMachineSpec\<rparr>"

definition zero_GTemplateSpec :: "'f library \<Rightarrow> 'f GTemplateSpec" where
  "zero_GTemplateSpec L = \<lparr>gts_Template = zero_GTemplateResource L\<rparr>"

definition zero_GTemplate :: "'f library \<Rightarrow> 'f GTemplate" where
  "zero_GTemplate L = \<lparr>gt_TypeMeta = zero_TypeMeta, gt_ObjectMeta = zero_ObjectMeta L, gt_Spec = zero_GTemplateSpec L\<rparr>"

definition zero_GTemplateList :: "'f library \<Rightarrow> 'f GTemplateList" where
  "zero_GTemplateList L = \<lparr>gtl_TypeMeta = zero_TypeMeta, gtl_ListMeta = zero_ListMeta L, gtl_Items = NilSlice\<rparr>"

definition zero_Tag :: Tag where
  "zero_Tag = \<lparr>tag_Name = [], tag_Value = []\<rparr>"

definition zero_ObjectReference :: ObjectReference where
  "zero_ObjectReference = \<lparr>or_APIVersion = [], or_Kind = [], or_Name = [], or_UID = []\<rparr>"

definition zero_NodeAddress :: NodeAddress where
  "zero_NodeAddress = \<lparr>na_Type = [], na_Address = []\<rparr>"

section \<open>The copy functions\<close>

text \<open>
  \<open>DeepCopyInto(out)\<close> writes into a location, \<open>DeepCopy\<close> into a new object, and \<open>DeepCopyObject\<close>
  gives the new object as an interface value with its type, nil for nil.
\<close>

datatype object = OCluster addr | OClusterList addr | OMachine addr | OMachineList addr | OTemplate addr
  | OTemplateList addr

text \<open>The locations of the fields: \<open>at_F l\<close> is \<open>&l.F\<close>.\<close>

abbreviation "at_cspec_ControlPlaneEndpoint \<equiv> field cspec_ControlPlaneEndpoint cspec_ControlPlaneEndpoint_update"
abbreviation "at_gct_ErrorMessage \<equiv> field gct_ErrorMessage gct_ErrorMessage_update"
abbreviation "at_gc_TypeMeta \<equiv> field gc_TypeMeta gc_TypeMeta_update"
abbreviation "at_gc_ObjectMeta \<equiv> field gc_ObjectMeta gc_ObjectMeta_update"
abbreviation "at_gc_Spec \<equiv> field gc_Spec gc_Spec_update"
abbreviation "at_gc_Status \<equiv> field gc_Status gc_Status_update"
abbreviation "at_gcl_TypeMeta \<equiv> field gcl_TypeMeta gcl_TypeMeta_update"
abbreviation "at_gcl_ListMeta \<equiv> field gcl_ListMeta gcl_ListMeta_update"
abbreviation "at_gcl_Items \<equiv> field gcl_Items gcl_Items_update"
abbreviation "at_gms_ProviderID \<equiv> field gms_ProviderID gms_ProviderID_update"
abbreviation "at_gms_InstallDefaultSSHKeys \<equiv> field gms_InstallDefaultSSHKeys gms_InstallDefaultSSHKeys_update"
abbreviation "at_gms_SSHKeyIDs \<equiv> field gms_SSHKeyIDs gms_SSHKeyIDs_update"
abbreviation "at_gmt_CPUFrequency \<equiv> field gmt_CPUFrequency gmt_CPUFrequency_update"
abbreviation "at_gmt_PrivateIPAddresses \<equiv> field gmt_PrivateIPAddresses gmt_PrivateIPAddresses_update"
abbreviation "at_gmt_PublicIPAddresses \<equiv> field gmt_PublicIPAddresses gmt_PublicIPAddresses_update"
abbreviation "at_gmt_Addresses \<equiv> field gmt_Addresses gmt_Addresses_update"
abbreviation "at_gmt_FailureReason \<equiv> field gmt_FailureReason gmt_FailureReason_update"
abbreviation "at_gmt_FailureMessage \<equiv> field gmt_FailureMessage gmt_FailureMessage_update"
abbreviation "at_gmt_NodeRef \<equiv> field gmt_NodeRef gmt_NodeRef_update"
abbreviation "at_gm_TypeMeta \<equiv> field gm_TypeMeta gm_TypeMeta_update"
abbreviation "at_gm_ObjectMeta \<equiv> field gm_ObjectMeta gm_ObjectMeta_update"
abbreviation "at_gm_Spec \<equiv> field gm_Spec gm_Spec_update"
abbreviation "at_gm_Status \<equiv> field gm_Status gm_Status_update"
abbreviation "at_gml_TypeMeta \<equiv> field gml_TypeMeta gml_TypeMeta_update"
abbreviation "at_gml_ListMeta \<equiv> field gml_ListMeta gml_ListMeta_update"
abbreviation "at_gml_Items \<equiv> field gml_Items gml_Items_update"
abbreviation "at_gtr_ObjectMeta \<equiv> field gtr_ObjectMeta gtr_ObjectMeta_update"
abbreviation "at_gtr_Spec \<equiv> field gtr_Spec gtr_Spec_update"
abbreviation "at_gts_Template \<equiv> field gts_Template gts_Template_update"
abbreviation "at_gt_TypeMeta \<equiv> field gt_TypeMeta gt_TypeMeta_update"
abbreviation "at_gt_ObjectMeta \<equiv> field gt_ObjectMeta gt_ObjectMeta_update"
abbreviation "at_gt_Spec \<equiv> field gt_Spec gt_Spec_update"
abbreviation "at_gtl_TypeMeta \<equiv> field gtl_TypeMeta gtl_TypeMeta_update"
abbreviation "at_gtl_ListMeta \<equiv> field gtl_ListMeta gtl_ListMeta_update"
abbreviation "at_gtl_Items \<equiv> field gtl_Items gtl_Items_update"

subsection \<open>Clusters\<close>

definition BMCClusterSpec_DeepCopyInto :: "('f, BMCClusterSpec) copy_into" where
  "BMCClusterSpec_DeepCopyInto inl out h =
     (let h1 = assign out (load inl h) h
      in assign (at_cspec_ControlPlaneEndpoint out)
         (load (at_cspec_ControlPlaneEndpoint inl) h1) h1)"

definition BMCClusterSpec_DeepCopy :: "addr option \<Rightarrow> 'f store \<Rightarrow> addr option \<times> 'f store" where
  "BMCClusterSpec_DeepCopy = deep_copy BMCClusterSpec_DeepCopyInto un_CClusterSpec CClusterSpec zero_BMCClusterSpec"

definition BMCClusterStatus_DeepCopyInto :: "('f, GClusterStatus) copy_into" where
  "BMCClusterStatus_DeepCopyInto inl out h =
     (let h1 = assign out (load inl h) h
      in clone_pointer (CString []) (at_gct_ErrorMessage inl) (at_gct_ErrorMessage out) h1)"

definition BMCClusterStatus_DeepCopy :: "addr option \<Rightarrow> 'f store \<Rightarrow> addr option \<times> 'f store" where
  "BMCClusterStatus_DeepCopy = deep_copy BMCClusterStatus_DeepCopyInto un_CClusterStatus CClusterStatus zero_GClusterStatus"

definition BMCCluster_DeepCopyInto :: "'f library \<Rightarrow> ('f, 'f GCluster) copy_into" where
  "BMCCluster_DeepCopyInto L inl out h =
     (let h1 = assign out (load inl h) h;
       h2 = assign (at_gc_TypeMeta out) (load (at_gc_TypeMeta inl) h1) h1;
       h3 = call_into (lib_ObjectMeta L) (at_gc_ObjectMeta inl) (at_gc_ObjectMeta out) h2;
       h4 = assign (at_gc_Spec out) (load (at_gc_Spec inl) h3) h3
      in BMCClusterStatus_DeepCopyInto (at_gc_Status inl) (at_gc_Status out) h4)"

definition BMCCluster_DeepCopy :: "'f library \<Rightarrow> addr option \<Rightarrow> 'f store \<Rightarrow> addr option \<times> 'f store" where
  "BMCCluster_DeepCopy L = deep_copy (BMCCluster_DeepCopyInto L) un_CCluster CCluster (zero_GCluster L)"

definition BMCCluster_DeepCopyObject :: "'f library \<Rightarrow> addr option \<Rightarrow> 'f store \<Rightarrow> object option \<times> 'f store" where
  "BMCCluster_DeepCopyObject L p h = (case BMCCluster_DeepCopy L p h of
     (Some c, h') \<Rightarrow> (Some (OCluster c), h') | (None, h') \<Rightarrow> (None, h'))"

definition BMCClusterList_DeepCopyInto :: "'f library \<Rightarrow> ('f, 'f GClusterList) copy_into" where
  "BMCClusterList_DeepCopyInto L inl out h =
     (let h1 = assign out (load inl h) h;
       h2 = assign (at_gcl_TypeMeta out) (load (at_gcl_TypeMeta inl) h1) h1;
       h3 = call_into (lib_ListMeta L) (at_gcl_ListMeta inl) (at_gcl_ListMeta out) h2
      in clone_items (BMCCluster_DeepCopyInto L) un_CClusters CClusters (zero_GCluster L)
         (at_gcl_Items inl) (at_gcl_Items out) h3)"

definition BMCClusterList_DeepCopy :: "'f library \<Rightarrow> addr option \<Rightarrow> 'f store \<Rightarrow> addr option \<times> 'f store" where
  "BMCClusterList_DeepCopy L = deep_copy (BMCClusterList_DeepCopyInto L) un_CClusterList CClusterList (zero_GClusterList L)"

definition BMCClusterList_DeepCopyObject :: "'f library \<Rightarrow> addr option \<Rightarrow> 'f store \<Rightarrow> object option \<times> 'f store" where
  "BMCClusterList_DeepCopyObject L p h = (case BMCClusterList_DeepCopy L p h of
     (Some c, h') \<Rightarrow> (Some (OClusterList c), h') | (None, h') \<Rightarrow> (None, h'))"

subsection \<open>Machines\<close>

definition BMCMachineSpec_DeepCopyInto :: "('f, GMachineSpec) copy_into" where
  "BMCMachineSpec_DeepCopyInto inl out h =
     (let h1 = assign out (load inl h) h;
       h2 = clone_pointer (CString []) (at_gms_ProviderID inl) (at_gms_ProviderID out) h1;
       h3 = clone_pointer (CBool False) (at_gms_InstallDefaultSSHKeys inl) (at_gms_InstallDefaultSSHKeys out) h2
      in clone_slice un_CStrings CStrings [] (at_gms_SSHKeyIDs inl) (at_gms_SSHKeyIDs out) h3)"

definition BMCMachineSpec_DeepCopy :: "addr option \<Rightarrow> 'f store \<Rightarrow> addr option \<times> 'f store" where
  "BMCMachineSpec_DeepCopy = deep_copy BMCMachineSpec_DeepCopyInto un_CMachineSpec CMachineSpec zero_GMachineSpec"

definition BMCMachineStatus_DeepCopyInto :: "'f library \<Rightarrow> ('f, 'f GMachineStatus) copy_into" where
  "BMCMachineStatus_DeepCopyInto L inl out h =
     (let h1 = assign out (load inl h) h;
       h2 = call_into (lib_Quantity L) (at_gmt_CPUFrequency inl) (at_gmt_CPUFrequency out) h1;
       h3 = clone_slice un_CStrings CStrings [] (at_gmt_PrivateIPAddresses inl) (at_gmt_PrivateIPAddresses out) h2;
       h4 = clone_slice un_CStrings CStrings [] (at_gmt_PublicIPAddresses inl) (at_gmt_PublicIPAddresses out) h3;
       h5 = clone_slice un_CNodeAddresses CNodeAddresses zero_NodeAddress (at_gmt_Addresses inl) (at_gmt_Addresses out) h4;
       h6 = clone_pointer (CString []) (at_gmt_FailureReason inl) (at_gmt_FailureReason out) h5;
       h7 = clone_pointer (CString []) (at_gmt_FailureMessage inl) (at_gmt_FailureMessage out) h6
      in clone_pointer (CObjectReference zero_ObjectReference) (at_gmt_NodeRef inl) (at_gmt_NodeRef out) h7)"

definition BMCMachineStatus_DeepCopy :: "'f library \<Rightarrow> addr option \<Rightarrow> 'f store \<Rightarrow> addr option \<times> 'f store" where
  "BMCMachineStatus_DeepCopy L = deep_copy (BMCMachineStatus_DeepCopyInto L) un_CMachineStatus CMachineStatus (zero_GMachineStatus L)"

definition BMCMachine_DeepCopyInto :: "'f library \<Rightarrow> ('f, 'f GMachine) copy_into" where
  "BMCMachine_DeepCopyInto L inl out h =
     (let h1 = assign out (load inl h) h;
       h2 = assign (at_gm_TypeMeta out) (load (at_gm_TypeMeta inl) h1) h1;
       h3 = call_into (lib_ObjectMeta L) (at_gm_ObjectMeta inl) (at_gm_ObjectMeta out) h2;
       h4 = BMCMachineSpec_DeepCopyInto (at_gm_Spec inl) (at_gm_Spec out) h3
      in BMCMachineStatus_DeepCopyInto L (at_gm_Status inl) (at_gm_Status out) h4)"

definition BMCMachine_DeepCopy :: "'f library \<Rightarrow> addr option \<Rightarrow> 'f store \<Rightarrow> addr option \<times> 'f store" where
  "BMCMachine_DeepCopy L = deep_copy (BMCMachine_DeepCopyInto L) un_CMachine CMachine (zero_GMachine L)"

definition BMCMachine_DeepCopyObject :: "'f library \<Rightarrow> addr option \<Rightarrow> 'f store \<Rightarrow> object option \<times> 'f store" where
  "BMCMachine_DeepCopyObject L p h = (case BMCMachine_DeepCopy L p h of
     (Some c, h') \<Rightarrow> (Some (OMachine c), h') | (None, h') \<Rightarrow> (None, h'))"

definition BMCMachineList_DeepCopyInto :: "'f library \<Rightarrow> ('f, 'f GMachineList) copy_into" where
  "BMCMachineList_DeepCopyInto L inl out h =
     (let h1 = assign out (load inl h) h;
       h2 = assign (at_gml_TypeMeta out) (load (at_gml_TypeMeta inl) h1) h1;
       h3 = call_into (lib_ListMeta L) (at_gml_ListMeta inl) (at_gml_ListMeta out) h2
      in clone_items (BMCMachine_DeepCopyInto L) un_CMachines CMachines (zero_GMachine L)
         (at_gml_Items inl) (at_gml_Items out) h3)"

definition BMCMachineList_DeepCopy :: "'f library \<Rightarrow> addr option \<Rightarrow> 'f store \<Rightarrow> addr option \<times> 'f store" where
  "BMCMachineList_DeepCopy L = deep_copy (BMCMachineList_DeepCopyInto L) un_CMachineList CMachineList (zero_GMachineList L)"

definition BMCMachineList_DeepCopyObject :: "'f library \<Rightarrow> addr option \<Rightarrow> 'f store \<Rightarrow> object option \<times> 'f store" where
  "BMCMachineList_DeepCopyObject L p h = (case BMCMachineList_DeepCopy L p h of
     (Some c, h') \<Rightarrow> (Some (OMachineList c), h') | (None, h') \<Rightarrow> (None, h'))"

subsection \<open>Machine templates\<close>

definition BMCMachineTemplateResource_DeepCopyInto :: "'f library \<Rightarrow> ('f, 'f GTemplateResource) copy_into" where
  "BMCMachineTemplateResource_DeepCopyInto L inl out h =
     (let h1 = assign out (load inl h) h;
       h2 = call_into (lib_TemplateMeta L) (at_gtr_ObjectMeta inl) (at_gtr_ObjectMeta out) h1
      in BMCMachineSpec_DeepCopyInto (at_gtr_Spec inl) (at_gtr_Spec out) h2)"

definition BMCMachineTemplateResource_DeepCopy :: "'f library \<Rightarrow> addr option \<Rightarrow> 'f store \<Rightarrow> addr option \<times> 'f store" where
  "BMCMachineTemplateResource_DeepCopy L = deep_copy (BMCMachineTemplateResource_DeepCopyInto L) un_CTemplateResource CTemplateResource (zero_GTemplateResource L)"

definition BMCMachineTemplateSpec_DeepCopyInto :: "'f library \<Rightarrow> ('f, 'f GTemplateSpec) copy_into" where
  "BMCMachineTemplateSpec_DeepCopyInto L inl out h =
     (let h1 = assign out (load inl h) h
      in BMCMachineTemplateResource_DeepCopyInto L (at_gts_Template inl) (at_gts_Template out) h1)"

definition BMCMachineTemplateSpec_DeepCopy :: "'f library \<Rightarrow> addr option \<Rightarrow> 'f store \<Rightarrow> addr option \<times> 'f store" where
  "BMCMachineTemplateSpec_DeepCopy L = deep_copy (BMCMachineTemplateSpec_DeepCopyInto L) un_CTemplateSpec CTemplateSpec (zero_GTemplateSpec L)"

definition BMCMachineTemplate_DeepCopyInto :: "'f library \<Rightarrow> ('f, 'f GTemplate) copy_into" where
  "BMCMachineTemplate_DeepCopyInto L inl out h =
     (let h1 = assign out (load inl h) h;
       h2 = assign (at_gt_TypeMeta out) (load (at_gt_TypeMeta inl) h1) h1;
       h3 = call_into (lib_ObjectMeta L) (at_gt_ObjectMeta inl) (at_gt_ObjectMeta out) h2
      in BMCMachineTemplateSpec_DeepCopyInto L (at_gt_Spec inl) (at_gt_Spec out) h3)"

definition BMCMachineTemplate_DeepCopy :: "'f library \<Rightarrow> addr option \<Rightarrow> 'f store \<Rightarrow> addr option \<times> 'f store" where
  "BMCMachineTemplate_DeepCopy L = deep_copy (BMCMachineTemplate_DeepCopyInto L) un_CTemplate CTemplate (zero_GTemplate L)"

definition BMCMachineTemplate_DeepCopyObject :: "'f library \<Rightarrow> addr option \<Rightarrow> 'f store \<Rightarrow> object option \<times> 'f store" where
  "BMCMachineTemplate_DeepCopyObject L p h = (case BMCMachineTemplate_DeepCopy L p h of
     (Some c, h') \<Rightarrow> (Some (OTemplate c), h') | (None, h') \<Rightarrow> (None, h'))"

definition BMCMachineTemplateList_DeepCopyInto :: "'f library \<Rightarrow> ('f, 'f GTemplateList) copy_into" where
  "BMCMachineTemplateList_DeepCopyInto L inl out h =
     (let h1 = assign out (load inl h) h;
       h2 = assign (at_gtl_TypeMeta out) (load (at_gtl_TypeMeta inl) h1) h1;
       h3 = call_into (lib_ListMeta L) (at_gtl_ListMeta inl) (at_gtl_ListMeta out) h2
      in clone_items (BMCMachineTemplate_DeepCopyInto L) un_CTemplates CTemplates (zero_GTemplate L)
         (at_gtl_Items inl) (at_gtl_Items out) h3)"

definition BMCMachineTemplateList_DeepCopy :: "'f library \<Rightarrow> addr option \<Rightarrow> 'f store \<Rightarrow> addr option \<times> 'f store" where
  "BMCMachineTemplateList_DeepCopy L = deep_copy (BMCMachineTemplateList_DeepCopyInto L) un_CTemplateList CTemplateList (zero_GTemplateList L)"

definition BMCMachineTemplateList_DeepCopyObject :: "'f library \<Rightarrow> addr option \<Rightarrow> 'f store \<Rightarrow> object option \<times> 'f store" where
  "BMCMachineTemplateList_DeepCopyObject L p h = (case BMCMachineTemplateList_DeepCopy L p h of
     (Some c, h') \<Rightarrow> (Some (OTemplateList c), h') | (None, h') \<Rightarrow> (None, h'))"

subsection \<open>Tags\<close>

definition Tag_DeepCopyInto :: "('f, Tag) copy_into" where
  "Tag_DeepCopyInto inl out h = assign out (load inl h) h"

definition Tag_DeepCopy :: "addr option \<Rightarrow> 'f store \<Rightarrow> addr option \<times> 'f store" where
  "Tag_DeepCopy = deep_copy Tag_DeepCopyInto un_CTag CTag zero_Tag"

text \<open>A tag list is passed as a value: the parameter is a variable of its own, whose address is taken.\<close>

definition TagList_DeepCopyInto :: "slice \<Rightarrow> ('f cell, slice) loc \<Rightarrow> 'f store \<Rightarrow> 'f store" where
  "TagList_DeepCopyInto tags out h = (case alloc (CTagList tags) h of (a, h1) \<Rightarrow>
     make_copy un_CTags CTags zero_Tag (whole un_CTagList CTagList a) out h1)"

definition TagList_DeepCopy :: "slice \<Rightarrow> 'f store \<Rightarrow> slice \<times> 'f store" where
  "TagList_DeepCopy tags h = (if tags = NilSlice then (NilSlice, h)
     else case alloc (CTagList NilSlice) h of (q, h1) \<Rightarrow>
       let h2 = TagList_DeepCopyInto tags (whole un_CTagList CTagList q) h1
       in (load (whole un_CTagList CTagList q) h2, h2))"

end
