(* ===== verification/DeepCopyProps.thy ===== *)
theory DeepCopyProps
  imports DeepCopy
begin

text \<open>
  The generated copy functions make deep copies: each meets the contract \<open>deep_copier\<close> for the view of
  its type, the value of the model of the controllers that a reader sees in memory, with the slices that are
  nil.  The copy of an API object is then independent of the original, whatever is written to either.
\<close>

section \<open>What a reader sees\<close>

text \<open>
  How the metadata and quantities of other repositories are read, and where they reach.  What their copy
  functions document: they are deep copies too.
\<close>

record ('f, 'l, 'm) reader =
  read_ObjectMeta :: "'f store \<Rightarrow> 'f \<Rightarrow> ObjectMeta"
  read_ListMeta :: "'f store \<Rightarrow> 'f \<Rightarrow> 'l"
  read_TemplateMeta :: "'f store \<Rightarrow> 'f \<Rightarrow> 'm"
  read_Quantity :: "'f store \<Rightarrow> 'f \<Rightarrow> string"
  foot_foreign :: "'f store \<Rightarrow> 'f \<Rightarrow> addr set"

definition library_laws :: "'f library \<Rightarrow> ('f, 'l, 'm) reader \<Rightarrow> bool" where
  "library_laws L R \<longleftrightarrow> value_copier (lib_ObjectMeta L) (read_ObjectMeta R) (foot_foreign R)
     \<and> value_copier (lib_ListMeta L) (read_ListMeta R) (foot_foreign R)
     \<and> value_copier (lib_TemplateMeta L) (read_TemplateMeta R) (foot_foreign R)
     \<and> value_copier (lib_Quantity L) (read_Quantity R) (foot_foreign R)"

lemma library_lawsD:
  assumes "library_laws L R"
  shows "value_copier (lib_ObjectMeta L) (read_ObjectMeta R) (foot_foreign R)"
    and "value_copier (lib_ListMeta L) (read_ListMeta R) (foot_foreign R)"
    and "value_copier (lib_TemplateMeta L) (read_TemplateMeta R) (foot_foreign R)"
    and "value_copier (lib_Quantity L) (read_Quantity R) (foot_foreign R)"
  using assms by (simp_all add: library_laws_def)

text \<open>The contents of pointers and slices.\<close>

abbreviation pointee :: "'f store \<Rightarrow> addr option \<Rightarrow> 'f cell option" where
  "pointee h p \<equiv> map_option (cell_at h) p"

definition show_list :: "'a list option \<Rightarrow> 'a list" where
  "show_list xs = (case xs of None \<Rightarrow> [] | Some ys \<Rightarrow> ys)"

subsection \<open>Clusters\<close>

fun show_ClusterStatus :: "GClusterStatus \<Rightarrow> 'f cell option \<Rightarrow> BMCClusterStatus" where
  "show_ClusterStatus s m = \<lparr>cstat_Ready = gct_Ready s, cstat_ErrorMessage = map_option un_CString m,
     cstat_ID = gct_ID s, cstat_CIDR = gct_CIDR s, cstat_BMCStatus = gct_BMCStatus s\<rparr>"

definition view_ClusterStatus :: "'f store \<Rightarrow> GClusterStatus \<Rightarrow> BMCClusterStatus" where
  "view_ClusterStatus h s = show_ClusterStatus s (pointee h (gct_ErrorMessage s))"

definition foot_ClusterStatus :: "'f store \<Rightarrow> GClusterStatus \<Rightarrow> addr set" where
  "foot_ClusterStatus h s = set_option (gct_ErrorMessage s)"

definition view_Cluster :: "('f, 'l, 'm) reader \<Rightarrow> 'f store \<Rightarrow> 'f GCluster \<Rightarrow> TypeMeta \<times> BMCCluster" where
  "view_Cluster R h c = (gc_TypeMeta c, \<lparr>bc_Meta = read_ObjectMeta R h (gc_ObjectMeta c), bc_Spec = gc_Spec c,
     bc_Status = view_ClusterStatus h (gc_Status c)\<rparr>)"

definition foot_Cluster :: "('f, 'l, 'm) reader \<Rightarrow> 'f store \<Rightarrow> 'f GCluster \<Rightarrow> addr set" where
  "foot_Cluster R h c = foot_foreign R h (gc_ObjectMeta c) \<union> foot_ClusterStatus h (gc_Status c)"

definition view_ClusterList :: "('f, 'l, 'm) reader \<Rightarrow> 'f store \<Rightarrow> 'f GClusterList
    \<Rightarrow> TypeMeta \<times> 'l \<times> (TypeMeta \<times> BMCCluster) list option" where
  "view_ClusterList R h l = (gcl_TypeMeta l, read_ListMeta R h (gcl_ListMeta l),
     items_view (view_Cluster R) un_CClusters h (gcl_Items l))"

definition foot_ClusterList :: "('f, 'l, 'm) reader \<Rightarrow> 'f store \<Rightarrow> 'f GClusterList \<Rightarrow> addr set" where
  "foot_ClusterList R h l = foot_foreign R h (gcl_ListMeta l) \<union> items_foot (foot_Cluster R) un_CClusters h (gcl_Items l)"

subsection \<open>Machines\<close>

text \<open>With the specification goes whether its slice is nil, with the status which of its slices are.\<close>

definition show_MachineSpec :: "GMachineSpec \<Rightarrow> ('f cell option \<times> 'f cell option) \<times> string list option \<Rightarrow> BMCMachineSpec \<times> bool" where
  "show_MachineSpec s = (\<lambda>((p, b), k). (\<lparr>mspec_ProviderID = map_option un_CString p, mspec_Description = gms_Description s,
     mspec_OS = gms_OS s, mspec_Type = gms_Type s, mspec_Location = gms_Location s,
     mspec_InstallDefaultSSHKeys = map_option un_CBool b, mspec_SSHKeyIDs = show_list k,
     mspec_NetworkType = gms_NetworkType s\<rparr>, k = None))"

definition view_MachineSpec :: "'f store \<Rightarrow> GMachineSpec \<Rightarrow> BMCMachineSpec \<times> bool" where
  "view_MachineSpec h s = show_MachineSpec s ((pointee h (gms_ProviderID s), pointee h (gms_InstallDefaultSSHKeys s)),
     slice_view un_CStrings h (gms_SSHKeyIDs s))"

definition foot_MachineSpec :: "'f store \<Rightarrow> GMachineSpec \<Rightarrow> addr set" where
  "foot_MachineSpec h s = set_option (gms_ProviderID s) \<union> set_option (gms_InstallDefaultSSHKeys s)
     \<union> slice_foot (gms_SSHKeyIDs s)"

definition show_MachineStatus :: "'f GMachineStatus
    \<Rightarrow> (((((string \<times> string list option) \<times> string list option) \<times> NodeAddress list option) \<times> 'f cell option)
        \<times> 'f cell option) \<times> 'f cell option \<Rightarrow> BMCMachineStatus \<times> bool \<times> bool \<times> bool" where
  "show_MachineStatus s = (\<lambda>((((((q, priv), pub), as), r), m), n).
     (\<lparr>mstat_BMCServerID = gmt_BMCServerID s, mstat_BMCStatus = gmt_BMCStatus s, mstat_CPU = gmt_CPU s,
       mstat_CPUCount = gmt_CPUCount s, mstat_CPUCores = gmt_CPUCores s, mstat_CPUFrequency = q,
       mstat_Ram = gmt_Ram s, mstat_Storage = gmt_Storage s, mstat_PrivateIPAddresses = show_list priv,
       mstat_PublicIPAddresses = show_list pub, mstat_Ready = gmt_Ready s, mstat_Addresses = show_list as,
       mstat_FailureReason = map_option un_CString r, mstat_FailureMessage = map_option un_CString m,
       mstat_NodeRef = map_option un_CObjectReference n\<rparr>, priv = None, pub = None, as = None))"

definition view_MachineStatus :: "('f, 'l, 'm) reader \<Rightarrow> 'f store \<Rightarrow> 'f GMachineStatus \<Rightarrow> BMCMachineStatus \<times> bool \<times> bool \<times> bool" where
  "view_MachineStatus R h s = show_MachineStatus s ((((((read_Quantity R h (gmt_CPUFrequency s),
     slice_view un_CStrings h (gmt_PrivateIPAddresses s)), slice_view un_CStrings h (gmt_PublicIPAddresses s)),
     slice_view un_CNodeAddresses h (gmt_Addresses s)), pointee h (gmt_FailureReason s)),
     pointee h (gmt_FailureMessage s)), pointee h (gmt_NodeRef s))"

definition foot_MachineStatus :: "('f, 'l, 'm) reader \<Rightarrow> 'f store \<Rightarrow> 'f GMachineStatus \<Rightarrow> addr set" where
  "foot_MachineStatus R h s = foot_foreign R h (gmt_CPUFrequency s) \<union> slice_foot (gmt_PrivateIPAddresses s)
     \<union> slice_foot (gmt_PublicIPAddresses s) \<union> slice_foot (gmt_Addresses s) \<union> set_option (gmt_FailureReason s)
     \<union> set_option (gmt_FailureMessage s) \<union> set_option (gmt_NodeRef s)"

definition show_Machine :: "'f GMachine \<Rightarrow> ((TypeMeta \<times> ObjectMeta) \<times> BMCMachineSpec \<times> bool) \<times> BMCMachineStatus \<times> bool \<times> bool \<times> bool
    \<Rightarrow> TypeMeta \<times> BMCMachine \<times> bool \<times> bool \<times> bool \<times> bool" where
  "show_Machine g = (\<lambda>(((t, m), s, n), st, ns). (t, \<lparr>bm_Meta = m, bm_Spec = s, bm_Status = st\<rparr>, n, ns))"

definition view_Machine :: "('f, 'l, 'm) reader \<Rightarrow> 'f store \<Rightarrow> 'f GMachine \<Rightarrow> TypeMeta \<times> BMCMachine \<times> bool \<times> bool \<times> bool \<times> bool" where
  "view_Machine R h g = show_Machine g (((gm_TypeMeta g, read_ObjectMeta R h (gm_ObjectMeta g)),
     view_MachineSpec h (gm_Spec g)), view_MachineStatus R h (gm_Status g))"

definition foot_Machine :: "('f, 'l, 'm) reader \<Rightarrow> 'f store \<Rightarrow> 'f GMachine \<Rightarrow> addr set" where
  "foot_Machine R h g = foot_foreign R h (gm_ObjectMeta g) \<union> foot_MachineSpec h (gm_Spec g) \<union> foot_MachineStatus R h (gm_Status g)"

definition view_MachineList :: "('f, 'l, 'm) reader \<Rightarrow> 'f store \<Rightarrow> 'f GMachineList
    \<Rightarrow> TypeMeta \<times> 'l \<times> (TypeMeta \<times> BMCMachine \<times> bool \<times> bool \<times> bool \<times> bool) list option" where
  "view_MachineList R h l = (gml_TypeMeta l, read_ListMeta R h (gml_ListMeta l),
     items_view (view_Machine R) un_CMachines h (gml_Items l))"

definition foot_MachineList :: "('f, 'l, 'm) reader \<Rightarrow> 'f store \<Rightarrow> 'f GMachineList \<Rightarrow> addr set" where
  "foot_MachineList R h l = foot_foreign R h (gml_ListMeta l) \<union> items_foot (foot_Machine R) un_CMachines h (gml_Items l)"

subsection \<open>Machine templates\<close>

definition show_TemplateResource :: "'f GTemplateResource \<Rightarrow> 'm \<times> BMCMachineSpec \<times> bool \<Rightarrow> 'm BMCMachineTemplateResource \<times> bool" where
  "show_TemplateResource r = (\<lambda>(m, s, n). (\<lparr>mtr_ObjectMeta = m, mtr_Spec = s\<rparr>, n))"

definition view_TemplateResource :: "('f, 'l, 'm) reader \<Rightarrow> 'f store \<Rightarrow> 'f GTemplateResource \<Rightarrow> 'm BMCMachineTemplateResource \<times> bool" where
  "view_TemplateResource R h r = show_TemplateResource r (read_TemplateMeta R h (gtr_ObjectMeta r), view_MachineSpec h (gtr_Spec r))"

definition foot_TemplateResource :: "('f, 'l, 'm) reader \<Rightarrow> 'f store \<Rightarrow> 'f GTemplateResource \<Rightarrow> addr set" where
  "foot_TemplateResource R h r = foot_foreign R h (gtr_ObjectMeta r) \<union> foot_MachineSpec h (gtr_Spec r)"

definition view_TemplateSpec :: "('f, 'l, 'm) reader \<Rightarrow> 'f store \<Rightarrow> 'f GTemplateSpec \<Rightarrow> 'm BMCMachineTemplateResource \<times> bool" where
  "view_TemplateSpec R h s = view_TemplateResource R h (gts_Template s)"

definition foot_TemplateSpec :: "('f, 'l, 'm) reader \<Rightarrow> 'f store \<Rightarrow> 'f GTemplateSpec \<Rightarrow> addr set" where
  "foot_TemplateSpec R h s = foot_TemplateResource R h (gts_Template s)"

definition view_Template :: "('f, 'l, 'm) reader \<Rightarrow> 'f store \<Rightarrow> 'f GTemplate
    \<Rightarrow> TypeMeta \<times> 'm BMCMachineTemplate \<times> bool" where
  "view_Template R h t = (gt_TypeMeta t, \<lparr>mt_Meta = read_ObjectMeta R h (gt_ObjectMeta t),
     mt_Spec = \<lparr>mts_Template = fst (view_TemplateSpec R h (gt_Spec t))\<rparr>\<rparr>, snd (view_TemplateSpec R h (gt_Spec t)))"

definition foot_Template :: "('f, 'l, 'm) reader \<Rightarrow> 'f store \<Rightarrow> 'f GTemplate \<Rightarrow> addr set" where
  "foot_Template R h t = foot_foreign R h (gt_ObjectMeta t) \<union> foot_TemplateSpec R h (gt_Spec t)"

definition view_TemplateList :: "('f, 'l, 'm) reader \<Rightarrow> 'f store \<Rightarrow> 'f GTemplateList
    \<Rightarrow> TypeMeta \<times> 'l \<times> (TypeMeta \<times> 'm BMCMachineTemplate \<times> bool) list option" where
  "view_TemplateList R h l = (gtl_TypeMeta l, read_ListMeta R h (gtl_ListMeta l),
     items_view (view_Template R) un_CTemplates h (gtl_Items l))"

definition foot_TemplateList :: "('f, 'l, 'm) reader \<Rightarrow> 'f store \<Rightarrow> 'f GTemplateList \<Rightarrow> addr set" where
  "foot_TemplateList R h l = foot_foreign R h (gtl_ListMeta l) \<union> items_foot (foot_Template R) un_CTemplates h (gtl_Items l)"

section \<open>Every copy function meets the contract\<close>

lemma deep_copier_cong:
  assumes "deep_copier P v f" and "\<And>inl out h. P inl out h = Q inl out h" and "\<And>h x. v h x = w h x"
    and "\<And>h x. f h x = g h x"
  shows "deep_copier Q w g"
proof -
  have "P = Q" "v = w" "f = g" by (intro ext assms(2-4))+
  with assms(1) show ?thesis by simp
qed

lemma array_cells:
  "array_cell un_CStrings CStrings" "array_cell un_CNodeAddresses CNodeAddresses" "array_cell un_CMachines CMachines"
  "array_cell un_CClusters CClusters" "array_cell un_CTemplates CTemplates" "array_cell un_CTags CTags"
  by (simp_all add: array_cell_def)

lemmas plain_part = part_field [OF part_all [OF plain_copier]]
lemmas pointer_field = part_field [OF pointer_part]
lemmas slice_field = part_field [OF slice_part]
lemmas into_field = part_field [OF part_all]
lemmas call_field = part_field [OF part_all [OF call_copier]]
lemmas items_field = part_field [OF items_part]

lemma ClusterSpec_copier: "deep_copier BMCClusterSpec_DeepCopyInto (\<lambda>h s. s) (\<lambda>h s. {})"
  by (rule deep_copier_cong [OF struct_copier [OF
        plain_part [of cspec_ControlPlaneEndpoint cspec_ControlPlaneEndpoint_update],
        where mk = "\<lambda>s e. s\<lparr>cspec_ControlPlaneEndpoint := e\<rparr>"]])
     (simp_all add: BMCClusterSpec_DeepCopyInto_def Let_def)

lemma ClusterStatus_copier: "deep_copier BMCClusterStatus_DeepCopyInto view_ClusterStatus foot_ClusterStatus"
  by (rule deep_copier_cong [OF struct_copier [OF
        pointer_field [of gct_ErrorMessage gct_ErrorMessage_update "CString []"], where mk = show_ClusterStatus]])
     (simp_all add: BMCClusterStatus_DeepCopyInto_def view_ClusterStatus_def foot_ClusterStatus_def)

lemma Cluster_copier:
  assumes "library_laws L R"
  shows "deep_copier (BMCCluster_DeepCopyInto L) (view_Cluster R) (foot_Cluster R)"
proof -
  note meta = library_lawsD(1) [OF assms]
  show ?thesis
    by (rule deep_copier_cong [OF struct_copier [OF
          part_seq [OF part_seq [OF part_seq [OF plain_part [of gc_TypeMeta gc_TypeMeta_update]
            call_field [OF meta, of gc_ObjectMeta gc_ObjectMeta_update]]
            plain_part [of gc_Spec gc_Spec_update]]
            into_field [OF ClusterStatus_copier, of gc_Status gc_Status_update]],
          where mk = "\<lambda>c (((t, m), s), st). (t, \<lparr>bc_Meta = m, bc_Spec = s, bc_Status = st\<rparr>)"]])
       (simp_all add: BMCCluster_DeepCopyInto_def view_Cluster_def foot_Cluster_def Let_def split: prod.splits)
qed

lemma ClusterList_copier:
  assumes "library_laws L R"
  shows "deep_copier (BMCClusterList_DeepCopyInto L) (view_ClusterList R) (foot_ClusterList R)"
proof -
  note meta = library_lawsD(2) [OF assms]
  show ?thesis
    by (rule deep_copier_cong [OF struct_copier [OF
          part_seq [OF part_seq [OF plain_part [of gcl_TypeMeta gcl_TypeMeta_update]
            call_field [OF meta, of gcl_ListMeta gcl_ListMeta_update]]
            items_field [OF Cluster_copier [OF assms] array_cells(4), of gcl_Items gcl_Items_update "zero_GCluster L"]],
          where mk = "\<lambda>l ((t, m), i). (t, m, i)"]])
       (simp_all add: BMCClusterList_DeepCopyInto_def view_ClusterList_def foot_ClusterList_def Let_def split: prod.splits)
qed

lemma MachineSpec_copier: "deep_copier BMCMachineSpec_DeepCopyInto view_MachineSpec foot_MachineSpec"
  by (rule deep_copier_cong [OF struct_copier [OF
        part_seq [OF part_seq [OF
          pointer_field [of gms_ProviderID gms_ProviderID_update "CString []"]
          pointer_field [of gms_InstallDefaultSSHKeys gms_InstallDefaultSSHKeys_update "CBool False"]]
          slice_field [OF array_cells(1), of gms_SSHKeyIDs gms_SSHKeyIDs_update "[]"]],
        where mk = show_MachineSpec]])
     (simp_all add: BMCMachineSpec_DeepCopyInto_def view_MachineSpec_def show_MachineSpec_def foot_MachineSpec_def Let_def
        split: prod.splits)

lemma MachineStatus_copier:
  assumes "library_laws L R"
  shows "deep_copier (BMCMachineStatus_DeepCopyInto L) (view_MachineStatus R) (foot_MachineStatus R)"
proof -
  note quantity = library_lawsD(4) [OF assms]
  note parts = part_seq [OF part_seq [OF part_seq [OF part_seq [OF part_seq [OF part_seq [OF
      call_field [OF quantity, of gmt_CPUFrequency gmt_CPUFrequency_update]
      slice_field [OF array_cells(1), of gmt_PrivateIPAddresses gmt_PrivateIPAddresses_update "[]"]]
      slice_field [OF array_cells(1), of gmt_PublicIPAddresses gmt_PublicIPAddresses_update "[]"]]
      slice_field [OF array_cells(2), of gmt_Addresses gmt_Addresses_update zero_NodeAddress]]
      pointer_field [of gmt_FailureReason gmt_FailureReason_update "CString []"]]
      pointer_field [of gmt_FailureMessage gmt_FailureMessage_update "CString []"]]
      pointer_field [of gmt_NodeRef gmt_NodeRef_update "CObjectReference zero_ObjectReference"]]
  show ?thesis
    by (rule deep_copier_cong [OF struct_copier [OF parts, where mk = show_MachineStatus]])
       (simp_all add: BMCMachineStatus_DeepCopyInto_def view_MachineStatus_def show_MachineStatus_def foot_MachineStatus_def Let_def
          split: prod.splits)
qed

lemma Machine_copier:
  assumes "library_laws L R"
  shows "deep_copier (BMCMachine_DeepCopyInto L) (view_Machine R) (foot_Machine R)"
proof -
  note meta = library_lawsD(1) [OF assms]
  show ?thesis
    by (rule deep_copier_cong [OF struct_copier [OF
          part_seq [OF part_seq [OF part_seq [OF plain_part [of gm_TypeMeta gm_TypeMeta_update]
            call_field [OF meta, of gm_ObjectMeta gm_ObjectMeta_update]]
            into_field [OF MachineSpec_copier, of gm_Spec gm_Spec_update]]
            into_field [OF MachineStatus_copier [OF assms], of gm_Status gm_Status_update]],
          where mk = show_Machine]])
       (simp_all add: BMCMachine_DeepCopyInto_def view_Machine_def show_Machine_def foot_Machine_def Let_def split: prod.splits)
qed

lemma MachineList_copier:
  assumes "library_laws L R"
  shows "deep_copier (BMCMachineList_DeepCopyInto L) (view_MachineList R) (foot_MachineList R)"
proof -
  note meta = library_lawsD(2) [OF assms]
  show ?thesis
    by (rule deep_copier_cong [OF struct_copier [OF
          part_seq [OF part_seq [OF plain_part [of gml_TypeMeta gml_TypeMeta_update]
            call_field [OF meta, of gml_ListMeta gml_ListMeta_update]]
            items_field [OF Machine_copier [OF assms] array_cells(3), of gml_Items gml_Items_update "zero_GMachine L"]],
          where mk = "\<lambda>l ((t, m), i). (t, m, i)"]])
       (simp_all add: BMCMachineList_DeepCopyInto_def view_MachineList_def foot_MachineList_def Let_def split: prod.splits)
qed

lemma TemplateResource_copier:
  assumes "library_laws L R"
  shows "deep_copier (BMCMachineTemplateResource_DeepCopyInto L) (view_TemplateResource R) (foot_TemplateResource R)"
proof -
  note meta = library_lawsD(3) [OF assms]
  show ?thesis
    by (rule deep_copier_cong [OF struct_copier [OF
          part_seq [OF call_field [OF meta, of gtr_ObjectMeta gtr_ObjectMeta_update]
            into_field [OF MachineSpec_copier, of gtr_Spec gtr_Spec_update]],
          where mk = show_TemplateResource]])
       (simp_all add: BMCMachineTemplateResource_DeepCopyInto_def view_TemplateResource_def show_TemplateResource_def foot_TemplateResource_def
          Let_def split: prod.splits)
qed

lemma TemplateSpec_copier:
  assumes "library_laws L R"
  shows "deep_copier (BMCMachineTemplateSpec_DeepCopyInto L) (view_TemplateSpec R) (foot_TemplateSpec R)"
  by (rule deep_copier_cong [OF struct_copier [OF
        into_field [OF TemplateResource_copier [OF assms], of gts_Template gts_Template_update], where mk = "\<lambda>s t. t"]])
     (simp_all add: BMCMachineTemplateSpec_DeepCopyInto_def view_TemplateSpec_def foot_TemplateSpec_def Let_def)

lemma Template_copier:
  assumes "library_laws L R"
  shows "deep_copier (BMCMachineTemplate_DeepCopyInto L) (view_Template R) (foot_Template R)"
proof -
  note meta = library_lawsD(1) [OF assms]
  show ?thesis
    by (rule deep_copier_cong [OF struct_copier [OF
          part_seq [OF part_seq [OF plain_part [of gt_TypeMeta gt_TypeMeta_update]
            call_field [OF meta, of gt_ObjectMeta gt_ObjectMeta_update]]
            into_field [OF TemplateSpec_copier [OF assms], of gt_Spec gt_Spec_update]],
          where mk = "\<lambda>g ((t, m), s). (t, \<lparr>mt_Meta = m, mt_Spec = \<lparr>mts_Template = fst s\<rparr>\<rparr>, snd s)"]])
       (simp_all add: BMCMachineTemplate_DeepCopyInto_def view_Template_def foot_Template_def Let_def split: prod.splits)
qed

lemma TemplateList_copier:
  assumes "library_laws L R"
  shows "deep_copier (BMCMachineTemplateList_DeepCopyInto L) (view_TemplateList R) (foot_TemplateList R)"
proof -
  note meta = library_lawsD(2) [OF assms]
  show ?thesis
    by (rule deep_copier_cong [OF struct_copier [OF
          part_seq [OF part_seq [OF plain_part [of gtl_TypeMeta gtl_TypeMeta_update]
            call_field [OF meta, of gtl_ListMeta gtl_ListMeta_update]]
            items_field [OF Template_copier [OF assms] array_cells(5), of gtl_Items gtl_Items_update "zero_GTemplate L"]],
          where mk = "\<lambda>l ((t, m), i). (t, m, i)"]])
       (simp_all add: BMCMachineTemplateList_DeepCopyInto_def view_TemplateList_def foot_TemplateList_def Let_def split: prod.splits)
qed

lemma Tag_copier: "deep_copier Tag_DeepCopyInto (\<lambda>h t. t) (\<lambda>h t. {})"
  by (rule deep_copier_cong [OF plain_copier]) (simp_all add: Tag_DeepCopyInto_def)

text \<open>The types without parts from other repositories have the contract outright.\<close>

interpretation machine_spec: deep_copier BMCMachineSpec_DeepCopyInto view_MachineSpec foot_MachineSpec
  by (rule MachineSpec_copier)

interpretation cluster_spec: deep_copier BMCClusterSpec_DeepCopyInto "\<lambda>h s. s" "\<lambda>h s. {}"
  by (rule ClusterSpec_copier)

interpretation cluster_status: deep_copier BMCClusterStatus_DeepCopyInto view_ClusterStatus foot_ClusterStatus
  by (rule ClusterStatus_copier)

interpretation tag: deep_copier Tag_DeepCopyInto "\<lambda>h t. t" "\<lambda>h t. {}"
  by (rule Tag_copier)

section \<open>The copies of API objects\<close>

text \<open>A memory for examples: metadata is text, in place or at an address.\<close>

definition example_text :: "(string + addr) store \<Rightarrow> string + addr \<Rightarrow> string" where
  "example_text h x = (case x of Inl s \<Rightarrow> s | Inr a \<Rightarrow> (case un_CForeign (cell_at h a) of Inl s \<Rightarrow> s | Inr b \<Rightarrow> []))"

definition example_foot :: "(string + addr) store \<Rightarrow> string + addr \<Rightarrow> addr set" where
  "example_foot h x = (case x of Inl s \<Rightarrow> {} | Inr a \<Rightarrow> {a})"

definition example_copy :: "string + addr \<Rightarrow> (string + addr) store \<Rightarrow> (string + addr) \<times> (string + addr) store" where
  "example_copy x h = (case x of Inl s \<Rightarrow> (Inl s, h)
     | Inr a \<Rightarrow> (case alloc (cell_at h a) h of (q, h1) \<Rightarrow> (Inr q, h1)))"

definition example_library :: "(string + addr) library" where
  "example_library = \<lparr>lib_ObjectMeta = example_copy, lib_ListMeta = example_copy, lib_TemplateMeta = example_copy,
     lib_Quantity = example_copy, zero_ObjectMeta = Inl [], zero_ListMeta = Inl [], zero_TemplateMeta = Inl [],
     zero_Quantity = Inl []\<rparr>"

definition example_reader :: "(string + addr, string, string) reader" where
  "example_reader = \<lparr>read_ObjectMeta = (\<lambda>h x. \<lparr>om_Namespace = [], om_Name = example_text h x, om_Annotations = None,
       om_Finalizers = [], om_DeletionTimestamp = None\<rparr>),
     read_ListMeta = example_text, read_TemplateMeta = example_text, read_Quantity = example_text, foot_foreign = example_foot\<rparr>"

lemma example_copier: "value_copier example_copy (\<lambda>h x. k (example_text h x)) example_foot"
  by (auto simp: value_copier_def local_view_def example_text_def example_foot_def example_copy_def alloc_def
      cell_at_def split: sum.splits)

lemma example_library_laws: "library_laws example_library example_reader"
  using example_copier [of "\<lambda>t. t"] example_copier
  by (simp add: library_laws_def example_library_def example_reader_def)

definition example_gmachine :: "(string + addr) GMachine" where
  "example_gmachine = \<lparr>gm_TypeMeta = zero_TypeMeta, gm_ObjectMeta = Inr 1,
     gm_Spec = zero_GMachineSpec\<lparr>gms_ProviderID := Some 2, gms_SSHKeyIDs := Slice 3 1 2\<rparr>,
     gm_Status = zero_GMachineStatus example_library\<rparr>"

definition example_memory :: "(string + addr) store" where
  "example_memory = \<lparr>hp_cells = [0 \<mapsto> CMachine example_gmachine, 1 \<mapsto> CForeign (Inl ''m''),
       2 \<mapsto> CString ''bmc://servers/s1'', 3 \<mapsto> CStrings [''a'', ''b'', ''c''],
       4 \<mapsto> CMachines [example_gmachine, example_gmachine], 5 \<mapsto> CMachineList \<lparr>gml_TypeMeta = zero_TypeMeta,
         gml_ListMeta = Inl ''list'', gml_Items = Slice 4 0 2\<rparr>], hp_next = 6\<rparr>"

lemmas example_memory_defs = example_memory_def example_gmachine_def example_reader_def example_foot_def
  cell_at_def reachable_def foot_Machine_def foot_MachineSpec_def foot_MachineStatus_def zero_GMachineSpec_def
  zero_GMachineStatus_def example_library_def

text \<open>
  C28. A copied machine, cluster or template is a deep copy: the copy functions the API machinery calls
  give a new object of the same type that shows what the original shows, leave all old memory as it is,
  and after that no write to old memory changes the copy and no write to new memory the original.
\<close>

theorem object_copies_independent:
  assumes "library_laws L R"
  shows "(reachable (foot_Machine R) un_CMachine h p \<subseteq> {..<hp_next h} \<longrightarrow>
      (\<exists>q h'. BMCMachine_DeepCopyObject L (Some p) h = (Some (OMachine q), h')
        \<and> independent_copy (view_Machine R) un_CMachine h p h' q))
    \<and> (reachable (foot_Cluster R) un_CCluster h p \<subseteq> {..<hp_next h} \<longrightarrow>
      (\<exists>q h'. BMCCluster_DeepCopyObject L (Some p) h = (Some (OCluster q), h')
        \<and> independent_copy (view_Cluster R) un_CCluster h p h' q))
    \<and> (reachable (foot_Template R) un_CTemplate h p \<subseteq> {..<hp_next h} \<longrightarrow>
      (\<exists>q h'. BMCMachineTemplate_DeepCopyObject L (Some p) h = (Some (OTemplate q), h')
        \<and> independent_copy (view_Template R) un_CTemplate h p h' q))"
  using deep_copier.deep_copy_new [OF Machine_copier [OF assms], of un_CMachine CMachine h p "zero_GMachine L"]
    deep_copier.deep_copy_new [OF Cluster_copier [OF assms], of un_CCluster CCluster h p "zero_GCluster L"]
    deep_copier.deep_copy_new [OF Template_copier [OF assms], of un_CTemplate CTemplate h p "zero_GTemplate L"]
  by (auto simp: BMCMachine_DeepCopyObject_def BMCMachine_DeepCopy_def BMCCluster_DeepCopyObject_def
      BMCCluster_DeepCopy_def BMCMachineTemplate_DeepCopyObject_def BMCMachineTemplate_DeepCopy_def)

text \<open>The copy keeps its provider id when the original's is overwritten.\<close>

theorem object_copies_independent_witness:
  "\<exists>q h'. BMCMachine_DeepCopyObject example_library (Some 0) example_memory = (Some (OMachine q), h') \<and>
     mspec_ProviderID (bm_Spec (fst (snd (view_Machine example_reader (store 2 (CString []) h')
       (un_CMachine (cell_at (store 2 (CString []) h') q)))))) = Some ''bmc://servers/s1''"
proof -
  have "reachable (foot_Machine example_reader) un_CMachine example_memory 0 \<subseteq> {..<hp_next example_memory}"
    by (simp add: example_memory_defs)
  then obtain q h' where q: "BMCMachine_DeepCopyObject example_library (Some 0) example_memory = (Some (OMachine q), h')"
    and c: "independent_copy (view_Machine example_reader) un_CMachine example_memory 0 h' q"
    using object_copies_independent [OF example_library_laws, of example_memory 0] by blast
  let ?k = "store 2 (CString []) h'"
  have k: "\<forall>a \<ge> hp_next example_memory. cell_at ?k a = cell_at h' a" by (simp add: example_memory_def)
  have "view_Machine example_reader ?k (un_CMachine (cell_at ?k q))
      = view_Machine example_reader example_memory (un_CMachine (cell_at example_memory 0))"
    using c k unfolding independent_copy_def by blast
  then show ?thesis
    using q by (intro exI [of _ q] exI [of _ h'])
      (simp add: view_Machine_def show_Machine_def view_MachineSpec_def show_MachineSpec_def view_MachineStatus_def
        show_MachineStatus_def example_memory_defs)
qed

text \<open>
  A copied list is a deep copy in the same sense: the copy has new items throughout, each with what
  the item of the original shows, in the same order, and a nil list of items stays nil.
\<close>

theorem list_copies_independent:
  assumes "library_laws L R"
  shows "(reachable (foot_MachineList R) un_CMachineList h p \<subseteq> {..<hp_next h} \<longrightarrow>
      (\<exists>q h'. BMCMachineList_DeepCopyObject L (Some p) h = (Some (OMachineList q), h')
        \<and> independent_copy (view_MachineList R) un_CMachineList h p h' q))
    \<and> (reachable (foot_ClusterList R) un_CClusterList h p \<subseteq> {..<hp_next h} \<longrightarrow>
      (\<exists>q h'. BMCClusterList_DeepCopyObject L (Some p) h = (Some (OClusterList q), h')
        \<and> independent_copy (view_ClusterList R) un_CClusterList h p h' q))
    \<and> (reachable (foot_TemplateList R) un_CTemplateList h p \<subseteq> {..<hp_next h} \<longrightarrow>
      (\<exists>q h'. BMCMachineTemplateList_DeepCopyObject L (Some p) h = (Some (OTemplateList q), h')
        \<and> independent_copy (view_TemplateList R) un_CTemplateList h p h' q))"
  using deep_copier.deep_copy_new [OF MachineList_copier [OF assms], of un_CMachineList CMachineList h p "zero_GMachineList L"]
    deep_copier.deep_copy_new [OF ClusterList_copier [OF assms], of un_CClusterList CClusterList h p "zero_GClusterList L"]
    deep_copier.deep_copy_new [OF TemplateList_copier [OF assms], of un_CTemplateList CTemplateList h p "zero_GTemplateList L"]
  by (auto simp: BMCMachineList_DeepCopyObject_def BMCMachineList_DeepCopy_def BMCClusterList_DeepCopyObject_def
      BMCClusterList_DeepCopy_def BMCMachineTemplateList_DeepCopyObject_def BMCMachineTemplateList_DeepCopy_def)

text \<open>After the items' array of the original has been cleared the copy still has two machines.\<close>

theorem list_copies_independent_witness:
  "\<exists>q h'. BMCMachineList_DeepCopyObject example_library (Some 5) example_memory = (Some (OMachineList q), h') \<and>
     (case view_MachineList example_reader (store 4 (CMachines []) h') (un_CMachineList (cell_at (store 4 (CMachines []) h') q))
      of (t, m, items) \<Rightarrow> m = ''list'' \<and> map_option (map (om_Name \<circ> bm_Meta \<circ> fst \<circ> snd)) items = Some [''m'', ''m''])"
proof -
  have two: "elems un_CMachines example_memory (Slice 4 0 2) = [example_gmachine, example_gmachine]"
    by (simp add: example_memory_def cell_at_def upt_conv_Cons)
  then have "reachable (foot_MachineList example_reader) un_CMachineList example_memory 5 \<subseteq> {..<hp_next example_memory}"
    by (simp add: foot_MachineList_def items_foot_def example_memory_defs)
  then obtain q h' where q: "BMCMachineList_DeepCopyObject example_library (Some 5) example_memory = (Some (OMachineList q), h')"
    and c: "independent_copy (view_MachineList example_reader) un_CMachineList example_memory 5 h' q"
    using list_copies_independent [OF example_library_laws, of example_memory 5] by blast
  let ?k = "store 4 (CMachines []) h'"
  have k: "\<forall>a \<ge> hp_next example_memory. cell_at ?k a = cell_at h' a" by (simp add: example_memory_def)
  have "view_MachineList example_reader ?k (un_CMachineList (cell_at ?k q))
      = view_MachineList example_reader example_memory (un_CMachineList (cell_at example_memory 5))"
    using c k unfolding independent_copy_def by blast
  also have "\<dots> = (zero_TypeMeta, ''list'', Some [view_Machine example_reader example_memory example_gmachine,
      view_Machine example_reader example_memory example_gmachine])"
    using two by (simp add: view_MachineList_def items_view_def example_memory_defs example_text_def del: elems.simps)
  finally have v: "view_MachineList example_reader ?k (un_CMachineList (cell_at ?k q)) = \<dots>" .
  have "om_Name (bm_Meta (fst (snd (view_Machine example_reader example_memory example_gmachine)))) = ''m''"
    by (simp add: view_Machine_def show_Machine_def view_MachineSpec_def show_MachineSpec_def view_MachineStatus_def
        show_MachineStatus_def example_memory_defs example_text_def)
  with q v show ?thesis by (intro exI [of _ q] exI [of _ h']) simp
qed

definition example_spec_memory :: "string store" where
  "example_spec_memory = \<lparr>hp_cells = [0 \<mapsto> CMachineSpec (zero_GMachineSpec\<lparr>gms_ProviderID := Some 1\<rparr>),
     1 \<mapsto> CString ''p''], hp_next = 2\<rparr>"

lemma example_spec_memory_cells:
  "cell_at example_spec_memory 0 = CMachineSpec (zero_GMachineSpec\<lparr>gms_ProviderID := Some 1\<rparr>)"
  "gms_ProviderID (zero_GMachineSpec\<lparr>gms_ProviderID := Some 1\<rparr>) \<noteq> None"
  "gms_InstallDefaultSSHKeys (zero_GMachineSpec\<lparr>gms_ProviderID := Some 1\<rparr>) = None"
  "gms_SSHKeyIDs (zero_GMachineSpec\<lparr>gms_ProviderID := Some 1\<rparr>) = NilSlice" "0 < hp_next example_spec_memory"
  by (simp_all add: example_spec_memory_def cell_at_def zero_GMachineSpec_def)

text \<open>
  The copy functions must not be used on an object itself: a specification copied into its own
  location loses the provider id, since the new cell is written before the old one is read.
\<close>

theorem self_copy_erases:
  assumes "cell_at h a = CMachineSpec s" and "gms_ProviderID s \<noteq> None" and "gms_InstallDefaultSSHKeys s = None"
    and "gms_SSHKeyIDs s = NilSlice" and "a < hp_next h"
  shows "mspec_ProviderID (fst (view_MachineSpec h s)) \<noteq> None
    \<and> (let h' = BMCMachineSpec_DeepCopyInto (whole un_CMachineSpec CMachineSpec a) (whole un_CMachineSpec CMachineSpec a) h
       in mspec_ProviderID (fst (view_MachineSpec h' (un_CMachineSpec (cell_at h' a)))) = Some [])"
  using assms by (auto simp: BMCMachineSpec_DeepCopyInto_def clone_pointer_def clone_slice_def Let_def assign_def
      whole_def field_def load_def alloc_def store_def cell_at_def view_MachineSpec_def show_MachineSpec_def)

theorem self_copy_erases_witness:
  "(let l = whole un_CMachineSpec CMachineSpec 0; h' = BMCMachineSpec_DeepCopyInto l l example_spec_memory
    in mspec_ProviderID (fst (view_MachineSpec h' (un_CMachineSpec (cell_at h' 0)))) = Some [])"
  using self_copy_erases [OF example_spec_memory_cells] by (simp only: Let_def)

section \<open>Tag lists\<close>

text \<open>A nil list stays nil and any other list is copied to a new array, empty ones included.\<close>

lemma TagList_DeepCopy_result:
  assumes "slice_foot tags \<subseteq> {..<hp_next h}" and "TagList_DeepCopy tags h = (r, h')"
  shows "(r = NilSlice \<longleftrightarrow> tags = NilSlice) \<and> elems un_CTags h' r = elems un_CTags h tags
    \<and> slice_foot r \<inter> {..<hp_next h} = {} \<and> (\<forall>a < hp_next h. cell_at h' a = cell_at h a)"
proof (cases "tags = NilSlice")
  case False
  obtain h1 where h1: "alloc (CTagList NilSlice) h = (hp_next h, h1)" "hp_next h1 = Suc (hp_next h)"
    "\<And>a. cell_at h1 a = (if a = hp_next h then CTagList NilSlice else cell_at h a)" "\<And>b. agree_except b h h1"
    by (rule alloc_result [of "CTagList NilSlice" h]) blast
  obtain h2 where h2: "alloc (CTagList tags) h1 = (hp_next h1, h2)" "hp_next h2 = Suc (hp_next h1)"
    "\<And>a. cell_at h2 a = (if a = hp_next h1 then CTagList tags else cell_at h1 a)" "\<And>b. agree_except b h1 h2"
    by (rule alloc_result [of "CTagList tags" h1]) blast
  let ?in = "whole un_CTagList CTagList (hp_next h1)" and ?out = "whole un_CTagList CTagList (hp_next h)"
  have "usable ?out h2" by (rule usable_whole [where v = NilSlice]) (simp_all add: h1 h2)
  then have "ready ?in ?out h2 (slice_foot (load ?in h2))"
    using assms(1) h1(2) h2(2,3) by (auto simp: ready_def)
  note copy = make_copy_result [OF array_cells(6) this, of zero_Tag]
  have l: "load ?in h2 = tags" by (simp add: h2(3))
  have h': "h' = make_copy un_CTags CTags zero_Tag ?in ?out h2" "r = load ?out h'"
    using assms(2) False by (auto simp: TagList_DeepCopy_def TagList_DeepCopyInto_def h1(1) h2(1) Let_def)
  have c: "copied ?out h2 h' (Slice (hp_next h2) 0 (slice_len tags)) (elems un_CTags) (\<lambda>h. slice_foot) tags
      (Slice (hp_next h2) 0 (slice_len tags))"
    using copy by (simp only: h'(1) l)
  then have r: "r = Slice (hp_next h2) 0 (slice_len tags)"
    unfolding h'(2) by (simp add: copied_def whole_def load_def)
  have t: "elems un_CTags h2 tags = elems un_CTags h tags"
    by (rule elems_cong) (use assms(1) h1(2,3) h2(3) in auto)
  have "agree_except (hp_next h) h2 h'" using c by (simp add: copied_def)
  from agree_cell [OF this] have "cell_at h' a = cell_at h a" if "a < hp_next h" for a
    using that h1(2,3) h2(2,3) by simp
  then show ?thesis
    using c r t False h1(2) h2(2) by (auto simp: copied_def simp del: elems.simps)
qed (use assms(2) in \<open>simp add: TagList_DeepCopy_def\<close>)

end
