(* ===== verification/AddressBounds.thy ===== *)
theory AddressBounds
  imports ClusterProps
begin

text \<open>
  Which address a cluster gets out of a block: the addresses read as numbers, the wrap-around of the
  one byte the reconciler increments, and the blocks for which the result stays inside.
\<close>

definition ip_value :: "ip \<Rightarrow> nat" where
  "ip_value a = foldl (\<lambda>n b. 256 * n + unat b) 0 a"

text \<open>The number of the /31 block an address lies in.\<close>

definition block31 :: "ip \<Rightarrow> nat" where
  "block31 a = ip_value a div 2"

lemma ip_value_snoc: "ip_value (p @ [z]) = 256 * ip_value p + unat z"
  by (simp add: ip_value_def)

lemma address_split: "length a = 16 \<Longrightarrow> \<exists>p z. a = p @ [z] \<and> length p = 15"
  by (cases a rule: rev_cases) auto

lemma next_address_snoc: "length p = 15 \<Longrightarrow> next_address (p @ [z]) = p @ [z + 1]"
  by (simp add: next_address_def nth_append list_update_append)

lemma byte_succ: "unat (z + 1 :: 8 word) = (if unat z = 255 then 0 else unat z + 1)"
  using unat_8_less [of z] by (simp add: unat_word_ariths)

lemma block31_snoc: "block31 (p @ [z]) = 128 * ip_value p + unat z div 2"
  by (simp add: block31_def ip_value_snoc)

lemma next_address_value:
  assumes "length a = 16"
  shows "ip_value (next_address a) = (if unat (last a) = 255 then ip_value a - 255 else ip_value a + 1)"
    and "block31 (next_address a) = block31 a \<longleftrightarrow> even (ip_value a)"
proof -
  obtain p z where a: "a = p @ [z]" "length p = 15"
    using address_split [OF assms] by blast
  show "ip_value (next_address a) = (if unat (last a) = 255 then ip_value a - 255 else ip_value a + 1)"
    by (simp add: a next_address_snoc ip_value_snoc byte_succ)
  have "(unat (z + 1)) div 2 = unat z div 2 \<longleftrightarrow> even (unat z)"
    unfolding byte_succ by (simp, presburger)
  then show "block31 (next_address a) = block31 a \<longleftrightarrow> even (ip_value a)"
    by (simp add: a next_address_snoc block31_snoc ip_value_snoc)
qed

text \<open>
  C27. The bounds of the cluster's address: it is the address in the answer with its last byte
  incremented modulo 256 and nothing else changed.  It is the other address of the same /31 block exactly
  when the answer names the lower address of the block; an upper address leads out of the block, to the
  next one, or 255 places back when the last byte is 255.
\<close>

theorem allocated_address_bounds:
  assumes "http_ok c" and "unmarshal_cluster_status body = Inr ips" and "om_Annotations (cc_meta cc) \<noteq> None"
    and "ParseIP (TrimSuffix (cstat_CIDR ips) ''/31'') = Some a"
  shows "\<exists>b. cc_GetIP (outcome_state (cluster_create_response E c body cc)) = IP_String b
    \<and> length b = 16 \<and> take 15 b = take 15 a \<and> unat (b ! 15) = (unat (a ! 15) + 1) mod 256
    \<and> (block31 b = block31 a \<longleftrightarrow> even (ip_value a))
    \<and> ip_value b = (if unat (a ! 15) = 255 then ip_value a - 255 else ip_value a + 1)"
proof -
  have r: "cluster_create_response E c body cc = cluster_allocated ips cc"
    using assms(1,2) by (auto simp: cluster_create_response_def http_ok_def cluster_create_accepted_def)
  have l: "length a = 16" by (rule ParseIP_length [OF assms(4)])
  then have z: "last a = a ! 15" by (cases a rule: rev_cases) (auto simp: nth_append)
  from cluster_allocated_ok [OF assms(3,4)]
  have "cc_GetIP (outcome_state (cluster_create_response E c body cc)) = IP_String (next_address a)"
    using cc_SetIP_simps(4) by (auto simp: r cc_SetReady_def cc_GetIP_def)
  moreover have "take 15 (next_address a) = take 15 a" "length (next_address a) = 16"
    "unat (next_address a ! 15) = (unat (a ! 15) + 1) mod 256"
    using l unat_8_less [of "a ! 15"] by (simp_all add: next_address_def byte_succ)
  ultimately show ?thesis
    using next_address_value [OF l] z by (intro exI [of _ "next_address a"]) simp
qed

theorem allocated_address_bounds_witness:
  "\<exists>b. cc_GetIP (outcome_state (cluster_create_response (example_env (\<lambda>_. DoError (LibErr []))) 201
       (block_body ''b1'' ''10.1.2.255/31'' ''unassigned'') example_cc)) = IP_String b
    \<and> unat (b ! 15) = 0 \<and> block31 b \<noteq> block31 (v4_prefix @ [10, 1, 2, 255])"
proof -
  let ?ips = "block_status ''b1'' ''10.1.2.255/31'' ''unassigned''" and ?a = "v4_prefix @ [10, 1, 2, 255]"
  have u: "unmarshal_cluster_status (block_body ''b1'' ''10.1.2.255/31'' ''unassigned'') = Inr ?ips"
    by (rule unmarshal_block_body) (simp_all add: utf8_ok_ascii)
  have o: "octets_str [10, 1, 2, 255] @ ''/31'' = ''10.1.2.255/31''" by code_simp
  have p: "ParseIP (TrimSuffix (cstat_CIDR ?ips) ''/31'') = Some ?a"
    unfolding block_status_def using ParseIP_octets [of 10 1 2 255] TrimSuffix_append [of "octets_str [10, 1, 2, 255]" "''/31''"]
    by (simp add: o)
  have m: "om_Annotations (cc_meta example_cc) \<noteq> None"
    by (simp add: example_cc_def example_bmccluster_def example_meta_def)
  have v: "?a ! 15 = 255" "odd (ip_value ?a)"
    by (simp_all add: v4_prefix_def ip_value_def nth_append)
  show ?thesis
    using allocated_address_bounds [OF _ u m p, of 201] v by (auto simp: http_ok_def)
qed

end
