(* ===== verification/NodeReference.thy ===== *)
theory NodeReference
  imports MachineProps
begin

text \<open>
  The reference to the workload cluster's node and the node's provider id: recorded once, in this
  order, and what follows from the order when the second step fails.
\<close>

definition node_patches :: "effect list \<Rightarrow> Node list" where
  "node_patches es = concat (map (\<lambda>e. case e of NodePatch n \<Rightarrow> [n] | _ \<Rightarrow> []) es)"

lemma node_patches_simps [simp]:
  "node_patches [] = []" "node_patches (es @ fs) = node_patches es @ node_patches fs"
  "node_patches (NodePatch n # es) = n # node_patches es" "node_patches (Event t r m # es) = node_patches es"
  "node_patches (Http q # es) = node_patches es"
  by (simp_all add: node_patches_def)

text \<open>The parts of a poll that come before the reference leave it, and the log's node patches, alone.\<close>

definition node_view :: "MachineContext \<Rightarrow> ObjectReference option \<times> Node list" where
  "node_view mc = (mstat_NodeRef (mc_status mc), node_patches (mc_log mc))"

lemma node_view_marks:
  "node_view (poll_stale mc) = node_view mc" "node_view (poll_irreconcilable E c mc) = node_view mc"
  "node_view (poll_orphaned c mc) = node_view mc" "node_view (poll_unavailable c mc) = node_view mc"
  "node_view (poll_unreadable E j mc) = node_view mc" "node_view (status_delta E ss mc) = node_view mc"
  "node_view (mc_SetReady E mc) = node_view mc" "node_view (mc_MergeBMCStatusProperties ss mc) = node_view mc"
  "node_view (mc_Eventf t r f a mc) = node_view mc" "node_view (log_effects [Http q] mc) = node_view mc"
  by (simp_all add: node_view_def go_defs status_delta_def merge_status_def Let_def)

lemma node_view_send: "http_send E r = (out, es) \<Longrightarrow> node_view (log_effects es mc) = node_view mc"
  by (auto simp: http_send_def node_view_def split: option.splits)

text \<open>With a reference, a poll does nothing about the node.\<close>

lemma poll_node_view:
  assumes "mstat_NodeRef (mc_status mc) \<noteq> None"
  shows "node_view (outcome_state (machine_reconcileSynchronize E mc)) = node_view mc"
proof -
  have status: "node_view (outcome_state (poll_status E ss d)) = node_view d" if "mstat_NodeRef (mc_status d) \<noteq> None" for ss d
  proof -
    have "mstat_NodeRef (mc_status (status_delta E ss d)) \<noteq> None"
      using node_view_marks(6) [of E ss d] that by (simp add: node_view_def)
    from mc_SetNodeRef_set [OF this, of E] show ?thesis
      by (simp add: poll_status_def Let_def node_view_marks)
  qed
  have response: "node_view (outcome_state (poll_response E c body d)) = node_view d"
    if "mstat_NodeRef (mc_status d) \<noteq> None" for c body d
    using status [OF that] by (simp add: poll_response_def poll_accepted_def node_view_marks split: sum.split)
  show ?thesis
    using assms response by (auto simp: machine_reconcileSynchronize_def Let_def node_view_marks node_view_send
        split: prod.split http_outcome.split)
qed

definition polls :: "env list \<Rightarrow> MachineContext \<Rightarrow> MachineContext" where
  "polls Es mc = foldl (\<lambda>d E. outcome_state (machine_reconcileSynchronize E d)) mc Es"

lemma polls_node_view: "mstat_NodeRef (mc_status mc) \<noteq> None \<Longrightarrow> node_view (polls Es mc) = node_view mc"
proof (induction Es arbitrary: mc)
  case (Cons E Es)
  let ?d = "outcome_state (machine_reconcileSynchronize E mc)"
  have "node_view ?d = node_view mc" using Cons.prems by (rule poll_node_view)
  then show ?case
    using Cons.IH [of ?d] Cons.prems by (simp add: polls_def node_view_def)
qed (simp add: polls_def)

text \<open>
  C34. A node whose patch failed is never patched: \<open>SetNodeRef\<close> records the reference to the node
  before it writes the provider id into the node, so when that patch, or the helper for it, fails, it
  reports the failure in an event, keeps the reference, and no number of later polls, whatever they
  answer, patches the node or changes the reference.
\<close>

theorem failed_node_patch_is_final:
  assumes "mstat_NodeRef (mc_status mc) = None" and "mc_Cluster mc = Some cl"
    and "GetRemoteClient E \<lparr>nn_Namespace = cl_Namespace cl, nn_Name = cl_Name cl\<rparr> = Inr rc"
    and "rc_GetNode rc (mc_GetHostname mc) = Inr n" and "mspec_ProviderID (mc_spec mc) = Some p"
    and "rc_NewHelper rc n \<noteq> None \<or> rc_Patch rc (n\<lparr>node_ProviderID := p\<rparr>) \<noteq> None"
  shows "\<exists>mc'. mc_SetNodeRef E mc = Returns () mc' \<and> mstat_NodeRef (mc_status mc') = Some (node_reference E n)
    \<and> (\<exists>m. last (mc_log mc') = Event ''Warning'' ''FailureNodeRef'' m)
    \<and> (\<forall>Es. mstat_NodeRef (mc_status (polls Es mc')) = Some (node_reference E n)
         \<and> node_patches (mc_log (polls Es mc')) = node_patches (mc_log mc'))"
proof -
  define d where "d = mc_Event ''Normal'' ''SuccessNodeRef'' (''Succesfully set node ref '' @ node_Name n)
    (upd_status (mstat_NodeRef_update (\<lambda>_. Some (node_reference E n))) mc)"
  have d: "mstat_NodeRef (mc_status d) = Some (node_reference E n)" "mspec_ProviderID (mc_spec d) = Some p"
    using assms(5) by (simp_all add: d_def mc_Event_def)
  have r: "mc_SetNodeRef E mc = patch_node E rc n d"
    using assms(1-4) by (simp add: mc_SetNodeRef_def d_def)
  obtain mc' where s: "mc_SetNodeRef E mc = Returns () mc'" "mstat_NodeRef (mc_status mc') = Some (node_reference E n)"
    "\<exists>m. last (mc_log mc') = Event ''Warning'' ''FailureNodeRef'' m"
    using assms(6) d unfolding r
    by (cases "rc_NewHelper rc n") (auto simp: patch_node_def node_event_def mc_Eventf_def Let_def)
  have "node_view (polls Es mc') = node_view mc'" for Es
    by (rule polls_node_view) (simp add: s(2))
  then show ?thesis using s by (simp add: node_view_def)
qed

text \<open>A workload cluster that finds the node but refuses the patch.\<close>

definition refusing_client :: remote_client where
  "refusing_client = \<lparr>rc_GetNode = \<lambda>n. Inr \<lparr>node_Name = n, node_UID = ''u1'', node_ProviderID = []\<rparr>,
     rc_NewHelper = \<lambda>_. None, rc_Patch = \<lambda>_. Some (LibErr ''refused'')\<rparr>"

theorem failed_node_patch_is_final_witness:
  "\<exists>mc'. mc_SetNodeRef ((example_env (\<lambda>_. Response 500 []))\<lparr>NewClusterClient := \<lambda>_. Inr refusing_client\<rparr>) example_created = Returns () mc'
    \<and> node_patches (mc_log (polls [example_env (\<lambda>_. Response 200 (server_body ''s1'' ''powered-on''))] mc')) = node_patches (mc_log mc')"
proof -
  let ?E = "(example_env (\<lambda>_. Response 500 []))\<lparr>NewClusterClient := \<lambda>_. Inr refusing_client\<rparr>"
  have "mstat_NodeRef (mc_status example_created) = None" "mc_Cluster example_created = Some example_cluster"
    "mspec_ProviderID (mc_spec example_created) = Some (provider_id ''s1'')"
    by (simp_all add: example_created_def example_mc_def mc_SetStatus_def server_status_def zero_machine_status_def)
  moreover have "GetRemoteClient ?E k = Inr refusing_client" for k
    by (simp add: GetRemoteClient_def)
  moreover have "rc_GetNode refusing_client h = Inr \<lparr>node_Name = h, node_UID = ''u1'', node_ProviderID = []\<rparr>"
    "rc_Patch refusing_client x \<noteq> None" for h x
    by (simp_all add: refusing_client_def)
  ultimately show ?thesis
    using failed_node_patch_is_final [of example_created example_cluster ?E refusing_client _ "provider_id ''s1''"] by blast
qed

end
