(* ===== verification/ManagerMain.thy ===== *)
theory ManagerMain
  imports Environment
begin

text \<open>
  The start of the manager, \<open>main.go\<close>: the flags with their defaults, the credentials from the
  process environment, and the sequence of set-up calls, each of which ends the process when it fails.
  The calls into controller-runtime are parameters; the model records them in their order.
\<close>

record options =
  opt_enableLeaderElection :: bool
  opt_leaderElectionNamespace :: string
  opt_leaderElectionLeaseDuration :: int
  opt_leaderElectionRenewDeadline :: int
  opt_leaderElectionRetryPeriod :: int
  opt_metricsAddr :: string
  opt_probeAddr :: string
  opt_profilerAddr :: string
  opt_webhookPort :: int
  opt_reconcileTimeout :: int
  opt_syncPeriod :: int
  opt_watchNamespace :: string

definition Second :: int where
  "Second = 10 ^ 9"

definition default_options :: options where
  "default_options = \<lparr>opt_enableLeaderElection = False, opt_leaderElectionNamespace = [],
     opt_leaderElectionLeaseDuration = 15 * Second, opt_leaderElectionRenewDeadline = 10 * Second,
     opt_leaderElectionRetryPeriod = 5 * Second, opt_metricsAddr = '':8080'', opt_probeAddr = '':8081'',
     opt_profilerAddr = [], opt_webhookPort = 9443, opt_reconcileTimeout = 90 * Minute,
     opt_syncPeriod = 10 * Minute, opt_watchNamespace = []\<rparr>"

text \<open>The OAuth2 client credentials of the Bare Metal Cloud API.\<close>

record bmc_config =
  bmc_ClientID :: string
  bmc_ClientSecret :: string
  bmc_TokenURL :: string
  bmc_Scopes :: "string list"

definition ENV_BMC_CLIENT_ID :: string where "ENV_BMC_CLIENT_ID = ''BMC_CLIENT_ID''"
definition ENV_BMC_CLIENT_SECRET :: string where "ENV_BMC_CLIENT_SECRET = ''BMC_CLIENT_SECRET''"
definition ENV_BMC_TOKEN_URL :: string where "ENV_BMC_TOKEN_URL = ''BMC_TOKEN_URL''"
definition ENV_BMC_ENDPOINT_URL :: string where "ENV_BMC_ENDPOINT_URL = ''BMC_ENDPOINT_URL''"

definition config_complete :: "(string \<Rightarrow> string) \<Rightarrow> bool" where
  "config_complete getenv \<longleftrightarrow> \<not> (length (getenv ENV_BMC_CLIENT_ID) \<le> 0
     \<or> length (getenv ENV_BMC_CLIENT_SECRET) \<le> 0 \<or> length (getenv ENV_BMC_TOKEN_URL) \<le> 0
     \<or> length (getenv ENV_BMC_ENDPOINT_URL) \<le> 0)"

definition bmcConfig :: "(string \<Rightarrow> string) \<Rightarrow> bmc_config" where
  "bmcConfig getenv = \<lparr>bmc_ClientID = getenv ENV_BMC_CLIENT_ID, bmc_ClientSecret = getenv ENV_BMC_CLIENT_SECRET,
     bmc_TokenURL = getenv ENV_BMC_TOKEN_URL, bmc_Scopes = [''bmc'', ''bmc.read'']\<rparr>"

record manager_options =
  mo_LeaderElection :: bool
  mo_LeaderElectionID :: string
  mo_LeaseDuration :: int
  mo_RenewDeadline :: int
  mo_RetryPeriod :: int
  mo_LeaderElectionNamespace :: string
  mo_MetricsBindAddress :: string
  mo_HealthProbeBindAddress :: string
  mo_WebhookPort :: int
  mo_DefaultNamespaces :: "string list"
  mo_SyncPeriod :: int
  mo_EventBurstSize :: int

definition manager_config :: "options \<Rightarrow> manager_options" where
  "manager_config o' = \<lparr>mo_LeaderElection = opt_enableLeaderElection o',
     mo_LeaderElectionID = ''controller-leader-election-bmc'',
     mo_LeaseDuration = opt_leaderElectionLeaseDuration o', mo_RenewDeadline = opt_leaderElectionRenewDeadline o',
     mo_RetryPeriod = opt_leaderElectionRetryPeriod o', mo_LeaderElectionNamespace = opt_leaderElectionNamespace o',
     mo_MetricsBindAddress = '':8080'', mo_HealthProbeBindAddress = opt_probeAddr o',
     mo_WebhookPort = opt_webhookPort o',
     mo_DefaultNamespaces = (if opt_watchNamespace o' \<noteq> [] then [opt_watchNamespace o'] else []),
     mo_SyncPeriod = opt_syncPeriod o', mo_EventBurstSize = 100\<rparr>"

record reconciler_config =
  rec_BMCClientConfig :: bmc_config
  rec_BMCEndpointURL :: string
  rec_Recorder :: string
  rec_ReconcileTimeout :: int

definition reconciler :: "(string \<Rightarrow> string) \<Rightarrow> options \<Rightarrow> string \<Rightarrow> reconciler_config" where
  "reconciler getenv o' name = \<lparr>rec_BMCClientConfig = bmcConfig getenv, rec_BMCEndpointURL = getenv ENV_BMC_ENDPOINT_URL,
     rec_Recorder = name, rec_ReconcileTimeout = opt_reconcileTimeout o'\<rparr>"

datatype setup_call =
    StartProfiler string
  | GetConfig
  | NewManager manager_options
  | SetupClusterReconciler reconciler_config
  | SetupMachineReconciler reconciler_config
  | AddHealthzCheck
  | AddReadyzCheck
  | StartManager

text \<open>
  The calls one after the other, up to the first that fails; the argument tells which fail.  The
  profiler runs beside the rest and cannot end the process.
\<close>

fun run_calls :: "(setup_call \<Rightarrow> bool) \<Rightarrow> setup_call list \<Rightarrow> setup_call list \<times> int" where
  "run_calls fails [] = ([], 0)"
| "run_calls fails (c # cs) = (if fails c then ([c], 1)
     else case run_calls fails cs of (made, st) \<Rightarrow> (c # made, st))"

definition setup_calls :: "(string \<Rightarrow> string) \<Rightarrow> options \<Rightarrow> setup_call list" where
  "setup_calls getenv o' =
     [GetConfig, NewManager (manager_config o'),
      SetupClusterReconciler (reconciler getenv o' ''bmccluster-controller''),
      SetupMachineReconciler (reconciler getenv o' ''bmcmachine-controller''),
      AddHealthzCheck, AddReadyzCheck, StartManager]"

text \<open>The calls made, and the exit code when the process ends.\<close>

definition main :: "(setup_call \<Rightarrow> bool) \<Rightarrow> (string \<Rightarrow> string) \<Rightarrow> options \<Rightarrow> setup_call list \<times> int" where
  "main fails getenv o' =
     (if \<not> config_complete getenv then ([], 1)
      else case run_calls fails (setup_calls getenv o') of (cs, st) \<Rightarrow>
        (StartProfiler (if length (opt_profilerAddr o') \<le> 0 then '':6060'' else opt_profilerAddr o') # cs, st))"

section \<open>Properties\<close>

lemma run_calls_prefix: "\<exists>rest. cs = fst (run_calls fails cs) @ rest"
  by (induction cs) (auto split: prod.split)

lemma run_calls_code: "snd (run_calls fails cs) = (if \<exists>c \<in> set cs. fails c then 1 else 0)"
  by (induction cs) (auto split: prod.split)

lemma run_calls_none: "\<forall>c \<in> set cs. \<not> fails c \<Longrightarrow> run_calls fails cs = (cs, 0)"
  by (induction cs) simp_all

lemma run_calls_order: "cs = as @ b # bs \<Longrightarrow> distinct cs \<Longrightarrow> b \<in> set (fst (run_calls fails cs)) \<Longrightarrow> \<forall>a \<in> set as. \<not> fails a"
  by (induction as arbitrary: cs) (auto split: prod.splits if_splits)

text \<open>The calls made are of the sequence, and the controllers among them get a complete configuration.\<close>

lemma main_calls:
  "set (fst (main fails getenv o')) \<subseteq> insert (StartProfiler (if length (opt_profilerAddr o') \<le> 0 then '':6060'' else opt_profilerAddr o'))
     (set (setup_calls getenv o'))"
proof -
  obtain rest where "setup_calls getenv o' = fst (run_calls fails (setup_calls getenv o')) @ rest"
    using run_calls_prefix by blast
  then have "set (fst (run_calls fails (setup_calls getenv o'))) \<subseteq> set (setup_calls getenv o')"
    by (metis Un_upper1 set_append)
  then show ?thesis by (auto simp: main_def split: prod.splits)
qed

lemma main_configured:
  assumes "SetupClusterReconciler r \<in> set (fst (main fails getenv o')) \<or> SetupMachineReconciler r \<in> set (fst (main fails getenv o'))"
  shows "rec_BMCEndpointURL r \<noteq> [] \<and> bmc_ClientID (rec_BMCClientConfig r) \<noteq> []
    \<and> bmc_ClientSecret (rec_BMCClientConfig r) \<noteq> [] \<and> bmc_TokenURL (rec_BMCClientConfig r) \<noteq> []"
proof -
  have "config_complete getenv" using assms by (rule contrapos_pp) (simp add: main_def)
  moreover have "r \<in> reconciler getenv o' ` UNIV"
    using assms main_calls [of fails getenv o'] by (auto simp: setup_calls_def)
  ultimately show ?thesis by (auto simp: config_complete_def reconciler_def bmcConfig_def)
qed

text \<open>
  The process does nothing without its configuration: unless all four variables of the Bare Metal
  Cloud connection are set, it exits with code 1 before the profiler, the manager or a controller is
  started.  When it does start a controller, the credentials and the endpoint it is given are complete.
\<close>

theorem main_needs_configuration:
  "(fst (main fails getenv o') \<noteq> [] \<longleftrightarrow> (\<forall>v \<in> {ENV_BMC_CLIENT_ID, ENV_BMC_CLIENT_SECRET, ENV_BMC_TOKEN_URL,
      ENV_BMC_ENDPOINT_URL}. getenv v \<noteq> []))
   \<and> (fst (main fails getenv o') = [] \<longrightarrow> snd (main fails getenv o') = 1)
   \<and> (\<forall>r. SetupClusterReconciler r \<in> set (fst (main fails getenv o')) \<or> SetupMachineReconciler r \<in> set (fst (main fails getenv o'))
       \<longrightarrow> rec_BMCEndpointURL r \<noteq> [] \<and> bmc_ClientID (rec_BMCClientConfig r) \<noteq> []
         \<and> bmc_ClientSecret (rec_BMCClientConfig r) \<noteq> [] \<and> bmc_TokenURL (rec_BMCClientConfig r) \<noteq> [])"
proof -
  have "fst (main fails getenv o') \<noteq> [] \<longleftrightarrow> config_complete getenv" "\<not> config_complete getenv \<longrightarrow> snd (main fails getenv o') = 1"
    by (simp_all add: main_def split: prod.split)
  then show ?thesis
    using main_configured [of _ fails getenv o'] by (auto simp: config_complete_def)
qed

theorem main_needs_configuration_witness:
  "fst (main (\<lambda>_. False) (\<lambda>_. []) default_options) = [] \<and> snd (main (\<lambda>_. False) (\<lambda>_. []) default_options) = 1"
  using main_needs_configuration [of "\<lambda>_. False" "\<lambda>_. []" default_options] by blast

text \<open>
  The manager is started last: only after the configuration, both controllers and both health
  checks have been set up without an error; and when nothing fails, that is the whole sequence, with
  exit code 0 at the end.
\<close>

theorem main_starts_last:
  "(StartManager \<in> set (fst (main fails getenv o')) \<longrightarrow> config_complete getenv
      \<and> (\<forall>c \<in> set (setup_calls getenv o') - {StartManager}. \<not> fails c))
   \<and> (config_complete getenv \<and> (\<forall>c. \<not> fails c) \<longrightarrow> snd (main fails getenv o') = 0
      \<and> tl (fst (main fails getenv o')) = setup_calls getenv o')"
proof -
  let ?before = "[GetConfig, NewManager (manager_config o'),
      SetupClusterReconciler (reconciler getenv o' ''bmccluster-controller''),
      SetupMachineReconciler (reconciler getenv o' ''bmcmachine-controller''),
      AddHealthzCheck, AddReadyzCheck]"
  have calls: "setup_calls getenv o' = ?before @ StartManager # []" and "distinct (setup_calls getenv o')"
    and "set (setup_calls getenv o') - {StartManager} = set ?before"
    by (simp_all add: setup_calls_def) auto
  with run_calls_order [OF calls, of fails]
  have started: "StartManager \<in> set (fst (run_calls fails (setup_calls getenv o')))
      \<Longrightarrow> \<forall>c \<in> set (setup_calls getenv o') - {StartManager}. \<not> fails c" by metis
  have m: "main fails getenv o' = (if \<not> config_complete getenv then ([], 1) else
      (StartProfiler (if length (opt_profilerAddr o') \<le> 0 then '':6060'' else opt_profilerAddr o')
        # fst (run_calls fails (setup_calls getenv o')), snd (run_calls fails (setup_calls getenv o'))))"
    by (simp only: main_def split_beta)
  show ?thesis
    using started by (simp add: m run_calls_none)
qed

theorem main_starts_last_witness:
  "snd (main (\<lambda>_. False) (\<lambda>_. ''x'') default_options) = 0"
  using main_starts_last [of "\<lambda>_. False" "\<lambda>_. ''x''" default_options] by (simp add: config_complete_def)

text \<open>
  The metrics address flag has no effect: whatever it is set to, the process makes the same calls,
  and the manager serves metrics on port 8080.
\<close>

theorem metrics_flag_ignored:
  "main fails getenv (o'\<lparr>opt_metricsAddr := a\<rparr>) = main fails getenv o'
   \<and> mo_MetricsBindAddress (manager_config o') = '':8080''"
  by (simp add: main_def setup_calls_def manager_config_def reconciler_def)

end
