(* ===== verification/ReleaseNotes.thy ===== *)
theory ReleaseNotes
  imports Utf8
begin

text \<open>
  The release notes generator of \<open>hack/tools/release/notes.go\<close>: it reads the merge commits
  since the last tag from git, and prints one line for each.  The git commands are parameters; the
  parts of \<open>strings\<close> and \<open>fmt\<close> that it uses are modelled on bytes, white space in
  UTF-8 included.
\<close>

section \<open>White space and lines\<close>

text \<open>The length of the white space character at the head of a string, 0 when there is none.\<close>

definition space_len :: "string \<Rightarrow> nat" where
  "space_len s =
     (if s \<noteq> [] \<and> code (hd s) \<in> {9, 10, 11, 12, 13, 32} then 1
      else if map code (take 2 s) \<in> {[194, 133], [194, 160]} then 2
      else if map code (take 2 s) = [226, 128] \<and> map code (take 1 (drop 2 s)) \<noteq> []
          \<and> (hd (map code (drop 2 s)) \<in> {128..138} \<union> {168, 169, 175}) then 3
      else if map code (take 3 s) \<in> {[225, 154, 128], [226, 129, 159], [227, 128, 128]} then 3
      else 0)"

text \<open>The same for the white space character at the end.\<close>

definition space_end :: "string \<Rightarrow> nat" where
  "space_end s =
     (if s \<noteq> [] \<and> space_len [last s] = 1 then 1
      else if space_len (drop (length s - 2) s) = 2 then 2
      else if space_len (drop (length s - 3) s) = 3 then 3
      else 0)"

lemma space_len_le: "0 < space_len s \<Longrightarrow> 0 < length s"
  by (auto simp: space_len_def)

lemma space_end_le: "0 < space_end s \<Longrightarrow> 0 < length s"
proof (cases s)
  case Nil
  moreover assume "0 < space_end s"
  ultimately show ?thesis by (simp add: space_end_def space_len_def)
qed simp

function trim_left :: "string \<Rightarrow> string" where
  "trim_left s = (if space_len s = 0 then s else trim_left (drop (space_len s) s))"
  by pat_completeness auto
termination by (relation "measure length") (auto intro!: diff_less dest: space_len_le)

function trim_right :: "string \<Rightarrow> string" where
  "trim_right s = (if space_end s = 0 then s else trim_right (take (length s - space_end s) s))"
  by pat_completeness auto
termination by (relation "measure length") (auto intro!: diff_less dest: space_end_le)

declare trim_left.simps [simp del] trim_right.simps [simp del]

definition TrimSpace :: "string \<Rightarrow> string" where
  "TrimSpace s = trim_right (trim_left s)"

abbreviation newline :: char where
  "newline \<equiv> CHR 0x0A"

fun Split_lines :: "string \<Rightarrow> string list" where
  "Split_lines [] = [[]]"
| "Split_lines (c # s) = (if c = newline then [] # Split_lines s
     else case Split_lines s of [] \<Rightarrow> [[c]] | l # ls \<Rightarrow> (c # l) # ls)"

section \<open>Sscanf\<close>

text \<open>
  The literal part of a scan format: a blank matches any positive amount of white space (or the end
  of the input), any other character itself.
\<close>

fun scan_literal :: "string \<Rightarrow> string \<Rightarrow> string option" where
  "scan_literal [] s = Some s"
| "scan_literal (c # f) s =
     (if c = CHR '' '' then (if s \<noteq> [] \<and> space_len s = 0 then None else scan_literal f (trim_left s))
      else if s \<noteq> [] \<and> hd s = c then scan_literal f (tl s) else None)"

text \<open>A token: runes up to the next white space, invalid bytes as the replacement character.\<close>

function scan_token :: "string \<Rightarrow> string" where
  "scan_token s = (if s = [] \<or> space_len s \<noteq> 0 then []
     else if rune_len s = 0 then map char_of [239, 191, 189 :: nat] @ scan_token (tl s)
     else take (rune_len s) s @ scan_token (drop (rune_len s) s))"
  by pat_completeness auto
termination by (relation "measure length") auto

declare scan_token.simps [simp del]

text \<open>
  The first operand of \<open>Sscanf(merge, "Merge pull request %s from %s", &prNumber, &fork)\<close>,
  the only one used: what is scanned before a mismatch is kept.
\<close>

definition scan_pr :: "string \<Rightarrow> string" where
  "scan_pr s = (case scan_literal ''Merge pull request '' s of None \<Rightarrow> []
     | Some t \<Rightarrow> scan_token (trim_left t))"

section \<open>The generator\<close>

text \<open>A leading release tag: an opening bracket, the word, then letters, digits, _, - and dots.\<close>

definition tag_char :: "char \<Rightarrow> bool" where
  "tag_char c \<longleftrightarrow> is_digit c \<or> (65 \<le> code c \<and> code c \<le> 90) \<or> (97 \<le> code c \<and> code c \<le> 122)
     \<or> c = CHR ''_'' \<or> c = CHR ''-'' \<or> c = CHR ''.''"

definition strip_tag :: "string \<Rightarrow> string" where
  "strip_tag t = (let r = dropWhile tag_char (drop 9 t) in
     if HasPrefix t ''[release-'' \<and> r \<noteq> [] \<and> hd r = CHR '']'' then tl r else t)"

definition trimTitle :: "string \<Rightarrow> string" where
  "trimTitle title = TrimSpace (strip_tag title)"

definition formatMerge :: "string \<Rightarrow> string \<Rightarrow> string" where
  "formatMerge line prNumber = (if prNumber = [] then line
     else Sprintf ''%s (%s)'' [FStr line, FStr prNumber])"

record commit =
  cm_merge :: string
  cm_body :: string

text \<open>
  One line of the log.  A line of a commit before any line that starts one is an access to index -1.
\<close>

definition parse_line :: "string \<Rightarrow> commit list \<Rightarrow> panic + commit list" where
  "parse_line line0 commits =
     (let line = TrimSpace line0 in
      if HasPrefix line ''commit'' then Inr (commits @ [\<lparr>cm_merge = [], cm_body = []\<rparr>])
      else if HasPrefix line ''Merge'' then
        (if commits = [] then Inl (IndexOutOfRange (-1) 0)
         else Inr (butlast commits @ [(last commits)\<lparr>cm_merge := line\<rparr>]))
      else if line = [] then Inr commits
      else if commits = [] then Inl (IndexOutOfRange (-1) 0)
      else Inr (butlast commits @ [(last commits)\<lparr>cm_body := line\<rparr>]))"

fun parse_log :: "string list \<Rightarrow> commit list \<Rightarrow> panic + commit list" where
  "parse_log [] commits = Inr commits"
| "parse_log (l # ls) commits = (case parse_line l commits of Inl p \<Rightarrow> Inl p
     | Inr commits' \<Rightarrow> parse_log ls commits')"

definition unknown :: string where
  "unknown = '':question: Sort these by hand''"

text \<open>The categories of the notes, in the order of the output; only one is left.\<close>

definition outputOrder :: "string list" where
  "outputOrder = [unknown]"

text \<open>The loop over the commits, with the notes of each category so far; a commit without a title has none.\<close>

fun collect_notes :: "commit list \<Rightarrow> (string \<Rightarrow> string list) \<Rightarrow> string \<Rightarrow> string list" where
  "collect_notes [] merges = merges"
| "collect_notes (c # cs) merges =
     (let key = unknown; body = TrimSpace (trimTitle (cm_body c)) in
      if body = [] then collect_notes cs merges
      else collect_notes cs (merges(key := merges key
        @ [formatMerge (Sprintf ''- %s'' [FStr body]) (scan_pr (cm_merge c))])))"

record git =
  git_describe :: "string option"
  git_root :: "string option"
  git_merges :: "string \<Rightarrow> string + string"

definition firstCommit :: "git \<Rightarrow> string" where
  "firstCommit G = (case git_root G of None \<Rightarrow> ''UNKNOWN'' | Some out \<Rightarrow> TrimSpace out)"

definition lastTag :: "string \<Rightarrow> git \<Rightarrow> string" where
  "lastTag fromTag G = (if fromTag \<noteq> [] then fromTag
     else case git_describe G of None \<Rightarrow> firstCommit G | Some out \<Rightarrow> TrimSpace out)"

text \<open>One category: a heading and its notes, or nothing when there are none.\<close>

definition category_text :: "string \<Rightarrow> string list \<Rightarrow> string" where
  "category_text key ns = (if ns = [] then []
     else ''## '' @ key @ [newline] @ concat (map (\<lambda>n. n @ [newline]) ns) @ [newline])"

definition notes_text :: "string \<Rightarrow> (string \<Rightarrow> string list) \<Rightarrow> string" where
  "notes_text tag merges = ''Changes since '' @ tag @ [newline] @ ''---'' @ [newline]
     @ concat (map (\<lambda>key. category_text key (merges key)) outputOrder) @ [newline]"

text \<open>The exit code and what was printed.\<close>

definition notes_run :: "string \<Rightarrow> git \<Rightarrow> (int, string) outcome" where
  "notes_run fromTag G = (let tag = lastTag fromTag G in
     case git_merges G (tag @ ''..HEAD'') of
       Inl out \<Rightarrow> Returns 1 (''Error'' @ [newline] @ out @ [newline])
     | Inr out \<Rightarrow>
        (case parse_log (Split_lines out) [] of
           Inl p \<Rightarrow> Panics p []
         | Inr commits \<Rightarrow> Returns 0 (notes_text tag (collect_notes commits (\<lambda>_. [])))))"

section \<open>Lemmas on the pieces\<close>

text \<open>The notes of a list of commits, in their order.\<close>

definition commit_note :: "commit \<Rightarrow> string option" where
  "commit_note c = (let body = TrimSpace (trimTitle (cm_body c)) in
     if body = [] then None else Some (formatMerge (''- '' @ body) (scan_pr (cm_merge c))))"

definition release_notes :: "commit list \<Rightarrow> string list" where
  "release_notes cs = List.map_filter commit_note cs"

lemma release_notes_simps [simp]:
  "release_notes [] = []"
  "release_notes (c # cs) = (case commit_note c of None \<Rightarrow> release_notes cs | Some n \<Rightarrow> n # release_notes cs)"
  by (simp_all add: release_notes_def map_filter_simps split: option.split)

lemma collect_notes_eq: "collect_notes cs merges = merges(unknown := merges unknown @ release_notes cs)"
  by (induction cs arbitrary: merges) (simp_all add: commit_note_def fmt_extras_def Let_def)

lemma notes_text_eq: "notes_text tag (collect_notes cs (\<lambda>_. [])) = ''Changes since '' @ tag @ [newline] @ ''---'' @ [newline]
    @ category_text unknown (release_notes cs) @ [newline]"
  by (simp add: notes_text_def outputOrder_def collect_notes_eq)

lemma Split_lines_nonempty [simp]: "Split_lines s \<noteq> []"
  by (cases s) (auto split: list.split)

lemma Split_lines_line: "newline \<notin> set l \<Longrightarrow> Split_lines (l @ newline # s) = l # Split_lines s"
  by (induction l) auto

lemma Split_lines_lines:
  "\<forall>l \<in> set ls. newline \<notin> set l \<Longrightarrow> Split_lines (concat (map (\<lambda>l. l @ [newline]) ls)) = ls @ [[]]"
  by (induction ls) (auto simp: Split_lines_line)

lemma parse_log_append:
  "parse_log (ls @ ms) cs = (case parse_log ls cs of Inl p \<Rightarrow> Inl p | Inr cs' \<Rightarrow> parse_log ms cs')"
  by (induction ls cs rule: parse_log.induct) (auto split: sum.split)

text \<open>A line that trimming leaves alone.\<close>

definition clean_line :: "string \<Rightarrow> bool" where
  "clean_line l \<longleftrightarrow> TrimSpace l = l \<and> newline \<notin> set l"

lemma TrimSpace_nil [simp]: "TrimSpace [] = []"
  by (simp add: TrimSpace_def trim_left.simps [of "[]"] trim_right.simps [of "[]"] space_len_def space_end_def)

lemma space_len_ascii: "code c < 128 \<Longrightarrow> code c \<notin> {9, 10, 11, 12, 13, 32} \<Longrightarrow> space_len (c # s) = 0"
  by (auto simp: space_len_def)

lemma trim_left_id: "space_len s = 0 \<Longrightarrow> trim_left s = s"
  by (simp add: trim_left.simps)

lemma scan_token_ascii:
  assumes "list_all (\<lambda>c. code c < 128 \<and> space_len [c] = 0) w" and "s = [] \<or> space_len s \<noteq> 0"
  shows "scan_token (w @ s) = w"
  using assms(1)
proof (induction w)
  case Nil
  then show ?case using assms(2) by (simp add: scan_token.simps)
next
  case (Cons c w)
  have "space_len (c # (w @ s)) = 0" using Cons.prems by (auto simp: space_len_def)
  moreover have "rune_len (c # (w @ s)) = 1" using Cons.prems by (simp add: rune_len_def seq_len_def Let_def)
  ultimately show ?case using Cons by (simp add: scan_token.simps [of "c # (w @ s)"])
qed

lemma trim_left_blank: "space_len s = 0 \<Longrightarrow> trim_left (CHR '' '' # s) = s"
  using trim_left.simps [of "CHR '' '' # s"] by (simp add: space_len_def trim_left_id)

lemma scan_literal_blank: "space_len s = 0 \<Longrightarrow> scan_literal (CHR '' '' # f) (CHR '' '' # s) = scan_literal f s"
  using trim_left_blank [of s] by (simp add: space_len_def)

lemma scan_literal_char: "c \<noteq> CHR '' '' \<Longrightarrow> scan_literal (c # f) (c # s) = scan_literal f s"
  by simp

definition word :: "string \<Rightarrow> bool" where
  "word w \<longleftrightarrow> w \<noteq> [] \<and> list_all (\<lambda>c. code c < 128 \<and> space_len [c] = 0) w"

lemma word_head: "word w \<Longrightarrow> space_len (w @ s) = 0"
  by (cases w) (auto simp: word_def space_len_def)

lemma scan_pr_merge:
  assumes "word pr"
  shows "scan_pr (''Merge pull request '' @ pr @ '' from '' @ fork) = pr"
proof -
  have "scan_literal ''Merge pull request '' (''Merge pull request '' @ pr @ t) = Some (pr @ t)" for t
  proof -
    have "space_len (CHR ''p'' # u) = 0" "space_len (CHR ''r'' # u) = 0" for u
      by (simp_all add: space_len_ascii)
    then show ?thesis
      using word_head [OF assms, of t] by (simp add: scan_literal_char scan_literal_blank del: scan_literal.simps(2))
  qed
  then show ?thesis
    using assms word_head [OF assms] scan_token_ascii [of pr "'' from '' @ fork"]
    by (simp add: scan_pr_def trim_left_id word_def space_len_def)
qed

section \<open>The log of a history of pull requests\<close>

record pull_request =
  pr_hash :: string
  pr_number :: string
  pr_fork :: string
  pr_title :: string

definition merge_line :: "pull_request \<Rightarrow> string" where
  "merge_line p = ''Merge pull request '' @ pr_number p @ '' from '' @ pr_fork p"

definition log_lines :: "pull_request \<Rightarrow> string list" where
  "log_lines p = [''commit '' @ pr_hash p, merge_line p, [], pr_title p]"

definition git_log :: "pull_request list \<Rightarrow> string" where
  "git_log ps = concat (map (\<lambda>l. l @ [newline]) (concat (map log_lines ps)))"

text \<open>
  A pull request whose title is one line that the parser cannot take for the start of a commit or for
  a merge line.
\<close>

definition plain_request :: "pull_request \<Rightarrow> bool" where
  "plain_request p \<longleftrightarrow> clean_line (''commit '' @ pr_hash p) \<and> clean_line (merge_line p) \<and> clean_line (pr_title p)
     \<and> word (pr_number p) \<and> \<not> HasPrefix (pr_title p) ''commit'' \<and> \<not> HasPrefix (pr_title p) ''Merge''
     \<and> TrimSpace (trimTitle (pr_title p)) \<noteq> []"

lemma plain_title: "plain_request p \<Longrightarrow> pr_title p \<noteq> []"
  by (auto simp: plain_request_def trimTitle_def strip_tag_def HasPrefix_def)

lemma parse_log_request:
  assumes "plain_request p"
  shows "parse_log (log_lines p) cs = Inr (cs @ [\<lparr>cm_merge = merge_line p, cm_body = pr_title p\<rparr>])"
  using assms plain_title [OF assms]
  by (simp add: log_lines_def parse_line_def plain_request_def clean_line_def Let_def)
     (simp add: HasPrefix_def merge_line_def)

lemma parse_log_requests:
  "\<forall>p \<in> set ps. plain_request p \<Longrightarrow> parse_log (concat (map log_lines ps)) cs
     = Inr (cs @ map (\<lambda>p. \<lparr>cm_merge = merge_line p, cm_body = pr_title p\<rparr>) ps)"
  by (induction ps arbitrary: cs) (simp_all add: parse_log_append parse_log_request)

definition request_note :: "pull_request \<Rightarrow> string" where
  "request_note p = ''- '' @ TrimSpace (trimTitle (pr_title p)) @ '' ('' @ pr_number p @ '')''"

lemma scan_pr_line: "plain_request p \<Longrightarrow> scan_pr (merge_line p) = pr_number p \<and> pr_number p \<noteq> []"
  unfolding merge_line_def plain_request_def using scan_pr_merge by (simp add: word_def)

lemma release_notes_requests:
  "\<forall>p \<in> set ps. plain_request p
   \<Longrightarrow> release_notes (map (\<lambda>p. \<lparr>cm_merge = merge_line p, cm_body = pr_title p\<rparr>) ps) = map request_note ps"
proof (induction ps)
  case (Cons p ps)
  then have "plain_request p" by simp
  then have "TrimSpace (trimTitle (pr_title p)) \<noteq> []" by (simp add: plain_request_def)
  with Cons scan_pr_line [OF \<open>plain_request p\<close>] show ?case
    by (simp add: commit_note_def request_note_def formatMerge_def fmt_extras_def Let_def)
qed simp

lemma plain_no_newline:
  "plain_request p \<Longrightarrow> \<forall>l \<in> set (log_lines p). newline \<notin> set l"
  by (auto simp: plain_request_def clean_line_def log_lines_def)

section \<open>Properties\<close>

text \<open>
  The notes of a history of pull requests: one line for each, in the order of the log, with the
  title cleared of a release tag and white space, followed by the number of the pull request, below the
  tag the notes start from; the exit code is 0.
\<close>

theorem notes_of_history:
  assumes "\<forall>p \<in> set ps. plain_request p" and "ps \<noteq> []"
    and "git_merges G (lastTag fromTag G @ ''..HEAD'') = Inr (git_log ps)"
  shows "notes_run fromTag G = Returns 0 (''Changes since '' @ lastTag fromTag G @ [newline] @ ''---'' @ [newline]
    @ ''## '' @ unknown @ [newline] @ concat (map (\<lambda>p. request_note p @ [newline]) ps) @ [newline] @ [newline])"
proof -
  let ?ls = "concat (map log_lines ps)"
  have "Split_lines (git_log ps) = ?ls @ [[]]"
    unfolding git_log_def using assms(1) plain_no_newline by (intro Split_lines_lines) auto
  then have "parse_log (Split_lines (git_log ps)) []
      = Inr (map (\<lambda>p. \<lparr>cm_merge = merge_line p, cm_body = pr_title p\<rparr>) ps)"
    using parse_log_requests [OF assms(1), of "[]"]
    by (simp add: parse_log_append parse_line_def HasPrefix_def Let_def)
  then show ?thesis
    using assms(2,3) release_notes_requests [OF assms(1)]
    by (simp add: notes_run_def notes_text_eq category_text_def Let_def comp_def)
qed

definition example_request :: pull_request where
  "example_request = \<lparr>pr_hash = ''1a2b'', pr_number = ''#12'', pr_fork = ''fork/main'', pr_title = ''[release-0.1] Fix it''\<rparr>"

lemma example_request_plain: "plain_request example_request" and example_note: "request_note example_request = ''- Fix it (#12)''"
  by code_simp+

definition example_git :: git where
  "example_git = \<lparr>git_describe = Some (''v0.1.0'' @ [newline]), git_root = None,
     git_merges = \<lambda>_. Inr (git_log [example_request])\<rparr>"

lemma example_git_tag: "lastTag [] example_git = ''v0.1.0''"
proof -
  have "TrimSpace (''v0.1.0'' @ [newline]) = ''v0.1.0''" by code_simp
  then show ?thesis by (simp add: lastTag_def example_git_def)
qed

theorem notes_of_history_witness:
  "notes_run [] example_git
   = Returns 0 (''Changes since v0.1.0'' @ [newline] @ ''---'' @ [newline] @ ''## '' @ unknown @ [newline]
       @ (''- Fix it (#12)'' @ [newline]) @ [newline] @ [newline])"
proof -
  have "\<forall>p \<in> set [example_request]. plain_request p" using example_request_plain by simp
  from notes_of_history [OF this, of example_git "[]"] show ?thesis
    by (simp add: example_git_tag example_note) (simp add: example_git_def)
qed

section \<open>The parser and the groups of lines it finds\<close>

text \<open>
  What the loop that changes the last commit in place computes: the lines after each line that starts
  a commit are its group; its merge line is the last one of the group that starts with Merge, its body
  the last one that does not and is not blank.
\<close>

abbreviation starts_commit :: "string \<Rightarrow> bool" where
  "starts_commit l \<equiv> HasPrefix l ''commit''"

function groups :: "string list \<Rightarrow> string list list" where
  "groups ls = (case dropWhile (\<lambda>l. \<not> starts_commit l) ls of [] \<Rightarrow> []
     | l # rest \<Rightarrow> takeWhile (\<lambda>l. \<not> starts_commit l) rest # groups rest)"
  by pat_completeness auto
termination
proof (relation "measure length")
  fix ls :: "string list" and l rest
  assume "dropWhile (\<lambda>l. \<not> starts_commit l) ls = l # rest"
  then have "length (l # rest) \<le> length ls" by (metis length_dropWhile_le)
  then show "(rest, ls) \<in> measure length" by simp
qed simp

declare groups.simps [simp del]

definition last_or :: "'a \<Rightarrow> 'a list \<Rightarrow> 'a" where
  "last_or x xs = (if xs = [] then x else last xs)"

definition group_commit :: "string list \<Rightarrow> commit" where
  "group_commit ls = \<lparr>cm_merge = last_or [] (filter (\<lambda>l. HasPrefix l ''Merge'') ls),
     cm_body = last_or [] (filter (\<lambda>l. \<not> HasPrefix l ''Merge'' \<and> l \<noteq> []) ls)\<rparr>"

lemma groups_simps [simp]:
  "groups [] = []"
  "starts_commit l \<Longrightarrow> groups (l # ls) = takeWhile (\<lambda>l. \<not> starts_commit l) ls # groups ls"
  "\<not> starts_commit l \<Longrightarrow> groups (l # ls) = groups ls"
  by (simp_all add: groups.simps [of "[]"] groups.simps [of "_ # _"]) (simp add: groups.simps [of ls])

text \<open>The commits so far and a further one, extended by the lines of its group.\<close>

lemma parse_log_groups_from:
  "parse_log lines (cs @ [group_commit g]) = Inr (cs @ group_commit
      (g @ takeWhile (\<lambda>l. \<not> starts_commit l) (map TrimSpace lines)) # map group_commit (groups (map TrimSpace lines)))"
proof (induction lines arbitrary: cs g)
  case (Cons l ls)
  let ?l = "TrimSpace l"
  have e: "group_commit (g @ [?l]) = (if HasPrefix ?l ''Merge'' then (group_commit g)\<lparr>cm_merge := ?l\<rparr>
      else if ?l = [] then group_commit g else (group_commit g)\<lparr>cm_body := ?l\<rparr>)"
    by (simp add: group_commit_def last_or_def)
  have n: "\<lparr>cm_merge = [], cm_body = []\<rparr> = group_commit []" by (simp add: group_commit_def last_or_def)
  show ?case
  proof (cases "starts_commit ?l")
    case True
    then show ?thesis using Cons [of "cs @ [group_commit g]" "[]"] by (simp add: parse_line_def n Let_def)
  next
    case False
    have "parse_line l (cs @ [group_commit g]) = Inr (cs @ [group_commit (g @ [?l])])"
      using False by (simp add: parse_line_def e Let_def)
    then show ?thesis using False Cons [of cs "g @ [?l]"] by simp
  qed
qed simp

text \<open>
  C40. The parser computes the groups: for any output of git, the loop that fills in the last commit is
  equivalent to cutting the trimmed lines at those that start a commit and taking from each group its
  last merge line and its last other line; it panics exactly when the first line that is not blank does
  not start a commit.  So the printed notes are the ones of the groups, in their order.
\<close>

theorem notes_of_groups:
  assumes "git_merges G (lastTag fromTag G @ ''..HEAD'') = Inr out" and "ls = map TrimSpace (Split_lines out)"
  shows "notes_run fromTag G = (case dropWhile (\<lambda>l. l = []) ls of
      l # rest \<Rightarrow> if starts_commit l then Returns 0 (''Changes since '' @ lastTag fromTag G @ [newline] @ ''---'' @ [newline]
          @ category_text unknown (List.map_filter commit_note (map group_commit (groups ls))) @ [newline])
        else Panics (IndexOutOfRange (-1) 0) []
    | [] \<Rightarrow> Returns 0 (''Changes since '' @ lastTag fromTag G @ [newline] @ ''---'' @ [newline] @ [newline]))"
proof -
  have p: "parse_log lines [] = (case dropWhile (\<lambda>l. l = []) (map TrimSpace lines) of
      l # rest \<Rightarrow> if starts_commit l then Inr (map group_commit (groups (map TrimSpace lines))) else Inl (IndexOutOfRange (-1) 0)
    | [] \<Rightarrow> Inr [])" for lines
  proof (induction lines)
    case (Cons l lines)
    let ?l = "TrimSpace l"
    have n: "[\<lparr>cm_merge = [], cm_body = []\<rparr>] = [] @ [group_commit []]" by (simp add: group_commit_def last_or_def)
    consider "starts_commit ?l" | "?l = []" | "\<not> starts_commit ?l" "?l \<noteq> []" by blast
    then show ?case
    proof cases
      case 1
      moreover have "?l \<noteq> []" using 1 by (auto simp: HasPrefix_def)
      ultimately show ?thesis
        using parse_log_groups_from [of lines "[]" "[]"] by (simp add: parse_line_def n Let_def)
    next
      case 2
      have "groups (map TrimSpace (l # lines)) = groups (map TrimSpace lines)"
        using 2 by (simp add: groups_simps(3) [of "[]"] HasPrefix_def)
      moreover have "parse_log (l # lines) [] = parse_log lines []"
        using 2 by (simp add: parse_line_def HasPrefix_def Let_def)
      moreover have "dropWhile (\<lambda>l. l = []) (map TrimSpace (l # lines)) = dropWhile (\<lambda>l. l = []) (map TrimSpace lines)"
        using 2 by simp
      ultimately show ?thesis using Cons by (simp only:)
    next
      case 3
      then show ?thesis by (simp add: parse_line_def Let_def)
    qed
  qed simp
  have r: "notes_run fromTag G = (case parse_log (Split_lines out) [] of Inl p \<Rightarrow> Panics p []
      | Inr cs \<Rightarrow> Returns 0 (notes_text (lastTag fromTag G) (collect_notes cs (\<lambda>_. []))))"
    using assms(1) by (simp add: notes_run_def Let_def)
  have "category_text unknown (release_notes []) = []" by (simp add: category_text_def)
  then show ?thesis
    using p [of "Split_lines out"] unfolding r assms(2) [symmetric] notes_text_eq
    by (cases "dropWhile (\<lambda>l. l = []) ls") (simp_all add: release_notes_def del: dropWhile_eq_Nil_conv)
qed

theorem notes_of_groups_witness:
  "\<exists>G. git_merges G ''v1..HEAD'' = Inr (''commit 1'' @ newline # ''Merge pull request #7 from f/x'' @ newline # newline # ''Fix it'')
    \<and> notes_run ''v1'' G = Returns 0 (''Changes since v1'' @ newline # ''---'' @ newline # ''## '' @ unknown @ newline #
        ''- Fix it (#7)'' @ [newline, newline, newline])"
proof -
  let ?out = "''commit 1'' @ newline # ''Merge pull request #7 from f/x'' @ newline # newline # ''Fix it''"
  let ?G = "\<lparr>git_describe = None, git_root = None, git_merges = \<lambda>_. Inr ?out\<rparr>"
  let ?ls = "[''commit 1'', ''Merge pull request #7 from f/x'', [], ''Fix it'']"
  have l: "map TrimSpace (Split_lines ?out) = ?ls" by code_simp
  have "groups ?ls = [tl ?ls]" by (simp add: HasPrefix_def)
  moreover have "commit_note (group_commit (tl ?ls)) = Some ''- Fix it (#7)''" by code_simp
  moreover have "starts_commit (hd ?ls)" by (simp add: HasPrefix_def)
  ultimately show ?thesis
    using notes_of_groups [of ?G "''v1''" ?out ?ls] l
    by (intro exI [of _ ?G]) (simp add: lastTag_def map_filter_simps category_text_def)
qed

section \<open>The panic of the parser\<close>

lemma parse_log_blank: "\<forall>l \<in> set ls. TrimSpace l = [] \<Longrightarrow> parse_log (ls @ ms) [] = parse_log ms []"
  by (induction ls) (simp_all add: parse_line_def HasPrefix_def Let_def)

text \<open>
  The generator panics when the first line of git's output that is not blank does not start with
  the word commit.  The output is read together with the error stream, so any warning of git that comes
  first does this.
\<close>

theorem notes_panic_on_warning:
  assumes "git_merges G (lastTag fromTag G @ ''..HEAD'') = Inr out" and "Split_lines out = blank @ l # rest"
    and "\<forall>b \<in> set blank. TrimSpace b = []" and "TrimSpace l \<noteq> []" and "\<not> HasPrefix (TrimSpace l) ''commit''"
  shows "notes_run fromTag G = Panics (IndexOutOfRange (-1) 0) []"
  using assms parse_log_blank [OF assms(3)] by (simp add: notes_run_def parse_line_def Let_def)

theorem notes_panic_on_warning_witness:
  "notes_run ''v0.1.0'' \<lparr>git_describe = None, git_root = None,
      git_merges = \<lambda>_. Inr (''warning: refname is ambiguous.'' @ newline # git_log [example_request])\<rparr>
   = Panics (IndexOutOfRange (-1) 0) []"
proof (rule notes_panic_on_warning [where blank = "[]"])
  show "Split_lines (''warning: refname is ambiguous.'' @ newline # git_log [example_request])
      = [] @ ''warning: refname is ambiguous.'' # Split_lines (git_log [example_request])"
    by (subst Split_lines_line) simp_all
  have "TrimSpace ''warning: refname is ambiguous.'' = ''warning: refname is ambiguous.''" by code_simp
  then show "TrimSpace ''warning: refname is ambiguous.'' \<noteq> []"
    "\<not> HasPrefix (TrimSpace ''warning: refname is ambiguous.'') ''commit''"
    by (simp_all add: HasPrefix_def)
qed simp_all

end
