(* ===== verification/GoFlag.thy ===== *)
theory GoFlag
  imports GoStrings
begin

text \<open>
  The part of Go's \<open>flag\<close>, \<open>strconv\<close> and \<open>time\<close> that reads a command line: the
  parser of a flag set with its error exits, and the values it reads, booleans, integers with base
  prefixes and underscores, and durations with fractions.
\<close>

section \<open>Booleans and integers\<close>

definition ParseBool :: "string \<Rightarrow> bool option" where
  "ParseBool s = (if s \<in> {''1'', ''t'', ''T'', ''TRUE'', ''true'', ''True''} then Some True
     else if s \<in> {''0'', ''f'', ''F'', ''FALSE'', ''false'', ''False''} then Some False
     else None)"

text \<open>The value of a digit or letter, whatever its case.\<close>

definition lower_code :: "char \<Rightarrow> nat" where
  "lower_code c = (let n = of_char c in if 65 \<le> n \<and> n \<le> 90 then n + 32 else n)"

definition is_lower :: "char \<Rightarrow> char \<Rightarrow> bool" where
  "is_lower c d \<longleftrightarrow> lower_code c = of_char d"

definition any_digit :: "char \<Rightarrow> nat option" where
  "any_digit c = (if is_digit c then Some (digit_val c)
     else if 97 \<le> lower_code c \<and> lower_code c \<le> 122 then Some (lower_code c - 87) else None)"

text \<open>Underscores may only stand between digits, the base prefix counting as one.\<close>

datatype seen = Start | Digit | Underscore | Other

fun underscores_ok :: "bool \<Rightarrow> seen \<Rightarrow> string \<Rightarrow> bool" where
  "underscores_ok hex saw [] \<longleftrightarrow> saw \<noteq> Underscore"
| "underscores_ok hex saw (c # s) \<longleftrightarrow>
     (if is_digit c \<or> hex \<and> 97 \<le> lower_code c \<and> lower_code c \<le> 102 then underscores_ok hex Digit s
      else if c = CHR ''_'' then saw = Digit \<and> underscores_ok hex Underscore s
      else saw \<noteq> Underscore \<and> underscores_ok hex Other s)"

definition underscoreOK :: "string \<Rightarrow> bool" where
  "underscoreOK s =
     (if 2 \<le> length s \<and> s ! 0 = CHR ''0''
         \<and> (is_lower (s ! 1) (CHR ''b'') \<or> is_lower (s ! 1) (CHR ''o'') \<or> is_lower (s ! 1) (CHR ''x''))
      then underscores_ok (is_lower (s ! 1) (CHR ''x'')) Digit (drop 2 s)
      else underscores_ok False Start s)"

fun digits_value :: "int \<Rightarrow> int \<Rightarrow> string \<Rightarrow> int option" where
  "digits_value base n [] = Some n"
| "digits_value base n (c # s) =
     (if c = CHR ''_'' then digits_value base n s
      else case any_digit c of None \<Rightarrow> None
      | Some d \<Rightarrow> if int d < base then digits_value base (n * base + int d) s else None)"

definition base_prefix :: "string \<Rightarrow> int \<times> string" where
  "base_prefix s =
     (if hd s \<noteq> CHR ''0'' then (10, s)
      else if 3 \<le> length s \<and> is_lower (s ! 1) (CHR ''b'') then (2, drop 2 s)
      else if 3 \<le> length s \<and> is_lower (s ! 1) (CHR ''o'') then (8, drop 2 s)
      else if 3 \<le> length s \<and> is_lower (s ! 1) (CHR ''x'') then (16, drop 2 s)
      else (8, tl s))"

text \<open>
  \<open>ParseUint\<close> with base 0: a number beyond 64 bits is a range error, which is an error like any
  other here.
\<close>

definition ParseUint :: "string \<Rightarrow> int option" where
  "ParseUint s = (if s = [] then None
     else case base_prefix s of (base, t) \<Rightarrow>
       (case digits_value base 0 t of None \<Rightarrow> None
        | Some n \<Rightarrow> if n < 2 ^ 64 \<and> (CHR ''_'' \<in> set t \<longrightarrow> underscoreOK s) then Some n else None))"

definition ParseInt :: "string \<Rightarrow> int option" where
  "ParseInt s = (if s = [] then None
     else if hd s = CHR ''-'' then
       (case ParseUint (tl s) of None \<Rightarrow> None | Some n \<Rightarrow> if n \<le> 2 ^ 63 then Some (- n) else None)
     else (case ParseUint (if hd s = CHR ''+'' then tl s else s) of None \<Rightarrow> None
        | Some n \<Rightarrow> if n < 2 ^ 63 then Some n else None))"

section \<open>Durations\<close>

text \<open>
  Fractions are computed with 64 bit floating point numbers.  The numbers here are at least 10 to the
  minus 18 and less than 2 to the 81, so that rounding to 53 bits, ties to even, is all there is; a number
  is a fraction of two integers.
\<close>

definition round_half_even :: "int \<Rightarrow> int \<Rightarrow> int" where
  "round_half_even n d = (let q = n div d; r = n mod d in
     if 2 * r < d \<or> 2 * r = d \<and> even q then q else q + 1)"

function bit_count :: "int \<Rightarrow> int" where
  "bit_count n = (if n \<le> 0 then 0 else 1 + bit_count (n div 2))"
  by pat_completeness auto
termination by (relation "measure nat") auto

declare bit_count.simps [simp del]

text \<open>
  The number is scaled by a power of two until its integral part has 53 bits, rounded and scaled back.
\<close>

definition scaled :: "int \<Rightarrow> int \<Rightarrow> int \<Rightarrow> int \<times> int" where
  "scaled n d e = (if 0 \<le> e then (n, d * 2 ^ nat e) else (n * 2 ^ nat (- e), d))"

definition round53 :: "int \<Rightarrow> int \<Rightarrow> int \<times> int" where
  "round53 n d =
     (if n = 0 then (0, 1)
      else let e0 = bit_count n - bit_count d - 53;
             e = (case scaled n d e0 of (a, b) \<Rightarrow> if 2 ^ 53 * b \<le> a then e0 + 1 else e0);
             m = (case scaled n d e of (a, b) \<Rightarrow> round_half_even a b)
        in if 0 \<le> e then (m * 2 ^ nat e, 1) else (m, 2 ^ nat (- e)))"

text \<open>\<open>uint64(float64(f) * (float64(unit) / scale))\<close>\<close>

definition fraction_value :: "int \<Rightarrow> int \<Rightarrow> int \<Rightarrow> int" where
  "fraction_value f scale unit = (case round53 f 1 of (a, b) \<Rightarrow> case round53 unit scale of (c, d) \<Rightarrow>
     case round53 (a * c) (b * d) of (n, m) \<Rightarrow> n div m)"

fun leadingInt :: "int \<Rightarrow> string \<Rightarrow> (int \<times> string) option" where
  "leadingInt x [] = Some (x, [])"
| "leadingInt x (c # s) =
     (if \<not> is_digit c then Some (x, c # s)
      else if x > 2 ^ 63 div 10 then None
      else let y = x * 10 + int (digit_val c) in if y > 2 ^ 63 then None else leadingInt y s)"

fun leadingFraction :: "int \<Rightarrow> int \<Rightarrow> bool \<Rightarrow> string \<Rightarrow> int \<times> int \<times> string" where
  "leadingFraction x scale overflow [] = (x, scale, [])"
| "leadingFraction x scale overflow (c # s) =
     (if \<not> is_digit c then (x, scale, c # s)
      else if overflow \<or> x > (2 ^ 63 - 1) div 10 then leadingFraction x scale True s
      else let y = x * 10 + int (digit_val c) in
        if y > 2 ^ 63 then leadingFraction x scale True s else leadingFraction y (scale * 10) False s)"

definition unit_value :: "string \<Rightarrow> int option" where
  "unit_value u = map_of [(''ns'', 1), (''us'', 10 ^ 3), ([char_of (194 :: nat), char_of (181 :: nat), CHR ''s''], 10 ^ 3),
     ([char_of (206 :: nat), char_of (188 :: nat), CHR ''s''], 10 ^ 3), (''ms'', 10 ^ 6), (''s'', 10 ^ 9),
     (''m'', 60 * 10 ^ 9), (''h'', 3600 * 10 ^ 9)] u"

definition unit_char :: "char \<Rightarrow> bool" where
  "unit_char c \<longleftrightarrow> c \<noteq> CHR ''.'' \<and> \<not> is_digit c"

text \<open>The number at the head: its integer part, the digits of its fraction and their scale.\<close>

definition duration_number :: "string \<Rightarrow> ((int \<times> int \<times> int) \<times> string) option" where
  "duration_number s =
     (if s = [] \<or> \<not> (hd s = CHR ''.'' \<or> is_digit (hd s)) then None
      else case leadingInt 0 s of None \<Rightarrow> None
      | Some (v, s1) \<Rightarrow>
         if s1 \<noteq> [] \<and> hd s1 = CHR ''.'' then
           (case leadingFraction 0 1 False (tl s1) of (f, scale, s2) \<Rightarrow>
              if length s1 = length s \<and> length s2 = length (tl s1) then None else Some ((v, f, scale), s2))
         else if length s1 = length s then None else Some ((v, 0, 1), s1))"

text \<open>
  A number with its unit, and the rest of the string.  The sum of the two parts fits 64 bits, since
  a fraction is at most an hour.
\<close>

definition duration_value :: "int \<times> int \<times> int \<Rightarrow> int \<Rightarrow> int option" where
  "duration_value x unit = (case x of (v, f, scale) \<Rightarrow>
     if v > 2 ^ 63 div unit then None
     else if f > 0 then (let w = v * unit + fraction_value f scale unit in if w > 2 ^ 63 then None else Some w)
     else Some (v * unit))"

definition duration_item :: "string \<Rightarrow> (int \<times> string) option" where
  "duration_item s = (case duration_number s of None \<Rightarrow> None
     | Some (x, s2) \<Rightarrow>
        if takeWhile unit_char s2 = [] then None
        else case unit_value (takeWhile unit_char s2) of None \<Rightarrow> None
        | Some unit \<Rightarrow> map_option (\<lambda>v. (v, dropWhile unit_char s2)) (duration_value x unit))"

lemma leadingInt_rest: "leadingInt x s = Some (v, t) \<Longrightarrow> length t \<le> length s"
  by (induction x s rule: leadingInt.induct) (auto simp: Let_def split: if_splits)

lemma leadingFraction_rest: "leadingFraction x sc ov s = (f, e, t) \<Longrightarrow> length t \<le> length s"
  by (induction x sc ov s rule: leadingFraction.induct) (auto simp: Let_def split: if_splits)

lemma duration_number_rest: "duration_number s = Some (x, t) \<Longrightarrow> length t \<le> length s"
  using leadingInt_rest [of 0 s] leadingFraction_rest [of 0 1 False]
  by (fastforce simp: duration_number_def split: if_splits option.splits prod.splits)

lemma duration_item_rest:
  assumes "duration_item s = Some (v, t)"
  shows "length t < length s"
proof -
  obtain x s2 where s2: "duration_number s = Some (x, s2)" "takeWhile unit_char s2 \<noteq> []" "t = dropWhile unit_char s2"
    using assms by (auto simp: duration_item_def split: if_splits option.splits)
  have "length s2 = length (takeWhile unit_char s2) + length t"
    using s2(3) by (metis length_append takeWhile_dropWhile_id)
  moreover have "0 < length (takeWhile unit_char s2)" using s2(2) by simp
  ultimately show ?thesis using duration_number_rest [OF s2(1)] by linarith
qed

text \<open>The sum of the items is taken modulo 2 to the 64 before it is compared, as in the source.\<close>

function duration_sum :: "int \<Rightarrow> string \<Rightarrow> int option" where
  "duration_sum d s = (if s = [] then Some d
     else case duration_item s of None \<Rightarrow> None
     | Some (v, t) \<Rightarrow> if (d + v) mod 2 ^ 64 > 2 ^ 63 then None else duration_sum ((d + v) mod 2 ^ 64) t)"
  by pat_completeness auto
termination by (relation "measure (length \<circ> snd)") (auto dest: duration_item_rest)

declare duration_sum.simps [simp del]

definition ParseDuration :: "string \<Rightarrow> int option" where
  "ParseDuration s =
     (let neg = (s \<noteq> [] \<and> hd s = CHR ''-''); t = (if s \<noteq> [] \<and> (hd s = CHR ''-'' \<or> hd s = CHR ''+'') then tl s else s)
      in if t = ''0'' then Some 0 else if t = [] then None
         else case duration_sum 0 t of None \<Rightarrow> None
         | Some d \<Rightarrow> if neg then Some (- d) else if d > 2 ^ 63 - 1 then None else Some d)"

section \<open>Flag sets\<close>

text \<open>
  A flag: its name, whether it is a boolean flag, which needs no argument, and how it sets its variable
  in the state; None is an invalid value.
\<close>

record 'o flag =
  fl_Name :: string
  fl_IsBool :: bool
  fl_Set :: "string \<Rightarrow> 'o \<Rightarrow> 'o option"

definition lookup_flag :: "'o flag list \<Rightarrow> string \<Rightarrow> 'o flag option" where
  "lookup_flag fs name = find (\<lambda>f. fl_Name f = name) fs"

definition flag_of :: "string \<Rightarrow> (string \<Rightarrow> 'a option) \<Rightarrow> ('a \<Rightarrow> 'o \<Rightarrow> 'o) \<Rightarrow> 'o flag" where
  "flag_of name read put = \<lparr>fl_Name = name, fl_IsBool = False, fl_Set = \<lambda>v x. map_option (\<lambda>a. put a x) (read v)\<rparr>"

definition BoolVar :: "string \<Rightarrow> (bool \<Rightarrow> 'o \<Rightarrow> 'o) \<Rightarrow> 'o flag" where
  "BoolVar name put = (flag_of name ParseBool put)\<lparr>fl_IsBool := True\<rparr>"

definition StringVar :: "string \<Rightarrow> (string \<Rightarrow> 'o \<Rightarrow> 'o) \<Rightarrow> 'o flag" where
  "StringVar name put = flag_of name Some put"

definition IntVar :: "string \<Rightarrow> (int \<Rightarrow> 'o \<Rightarrow> 'o) \<Rightarrow> 'o flag" where
  "IntVar name put = flag_of name ParseInt put"

definition DurationVar :: "string \<Rightarrow> (int \<Rightarrow> 'o \<Rightarrow> 'o) \<Rightarrow> 'o flag" where
  "DurationVar name put = flag_of name ParseDuration put"

definition split_flag :: "string \<Rightarrow> string \<times> string option" where
  "split_flag name = (let n = hd name # takeWhile (\<lambda>c. c \<noteq> CHR ''='') (tl name);
     r = dropWhile (\<lambda>c. c \<noteq> CHR ''='') (tl name) in (n, if r = [] then None else Some (tl r)))"

text \<open>
  One step of the parser: the arguments that are left when there is no flag, the exit code of an error
  (0 for a request for help, which is one too), or the new state and the arguments after the flag.
\<close>

datatype 'o step = Stops "string list" | Fails int | Seen 'o "string list"

definition set_flag :: "'o flag \<Rightarrow> string \<Rightarrow> string list \<Rightarrow> 'o \<Rightarrow> 'o step" where
  "set_flag f v args x = (case fl_Set f v x of None \<Rightarrow> Fails 2 | Some y \<Rightarrow> Seen y args)"

definition flag_value :: "'o flag \<Rightarrow> string option \<Rightarrow> string list \<Rightarrow> 'o \<Rightarrow> 'o step" where
  "flag_value f value args x = (case value of
     Some v \<Rightarrow> set_flag f v args x
   | None \<Rightarrow> if fl_IsBool f then set_flag f ''true'' args x
       else (case args of [] \<Rightarrow> Fails 2 | v # args' \<Rightarrow> set_flag f v args' x))"

definition parseOne :: "'o flag list \<Rightarrow> string list \<Rightarrow> 'o \<Rightarrow> 'o step" where
  "parseOne fs args x = (case args of
     [] \<Rightarrow> Stops []
   | s # args' \<Rightarrow>
      if length s < 2 \<or> s ! 0 \<noteq> CHR ''-'' then Stops args
      else if s = ''--'' then Stops args'
      else let name = drop (if s ! 1 = CHR ''-'' then 2 else 1) s in
        if name = [] \<or> hd name = CHR ''-'' \<or> hd name = CHR ''='' then Fails 2
        else case split_flag name of (n, value) \<Rightarrow>
          (case lookup_flag fs n of
             None \<Rightarrow> if n = ''help'' \<or> n = ''h'' then Fails 0 else Fails 2
           | Some f \<Rightarrow> flag_value f value args' x))"

lemma flag_value_simps:
  "flag_value f value args x = Seen y rest \<Longrightarrow> length rest \<le> length args"
  "flag_value f value args x = Fails n \<Longrightarrow> n = 2"
  by (auto simp: flag_value_def set_flag_def split: option.splits list.splits if_splits)

lemma parseOne_simps:
  "parseOne fs args x = Seen y rest \<Longrightarrow> length rest < length args"
  "parseOne fs args x = Fails n \<Longrightarrow> n = 0 \<or> n = 2"
  by (auto simp: parseOne_def Let_def split: list.splits if_splits prod.splits option.splits
      dest: flag_value_simps)

text \<open>
  The parser of the process's own flag set, which exits on an error; otherwise the state and the
  arguments that are left.
\<close>

datatype 'o parsed = Exits int | Parsed 'o "string list"

function Parse :: "'o flag list \<Rightarrow> string list \<Rightarrow> 'o \<Rightarrow> 'o parsed" where
  "Parse fs args x = (case parseOne fs args x of
     Stops rest \<Rightarrow> Parsed x rest
   | Fails n \<Rightarrow> Exits n
   | Seen y rest \<Rightarrow> Parse fs rest y)"
  by pat_completeness auto
termination by (relation "measure (\<lambda>(fs, args, x). length args)") (auto dest: parseOne_simps)

declare Parse.simps [simp del]

lemma Parse_nil [simp]: "Parse fs [] x = Parsed x []"
  by (simp add: Parse.simps parseOne_def)

text \<open>An argument of the form --name=value, with a name that is not empty and plain.\<close>

definition plain_name :: "string \<Rightarrow> bool" where
  "plain_name n \<longleftrightarrow> n \<noteq> [] \<and> hd n \<noteq> CHR ''-'' \<and> CHR ''='' \<notin> set n"

definition assign_arg :: "string \<Rightarrow> string \<Rightarrow> string" where
  "assign_arg n v = ''--'' @ n @ CHR ''='' # v"

lemma split_flag_assign:
  assumes "plain_name n"
  shows "split_flag (n @ CHR ''='' # v) = (n, Some v)"
proof (cases n)
  case (Cons c m)
  then have "\<forall>x \<in> set m. x \<noteq> CHR ''=''" using assms by (auto simp: plain_name_def)
  then have "takeWhile (\<lambda>x. x \<noteq> CHR ''='') (m @ CHR ''='' # v) = m"
    "dropWhile (\<lambda>x. x \<noteq> CHR ''='') (m @ CHR ''='' # v) = CHR ''='' # v"
    by (simp_all add: takeWhile_append_stop dropWhile_append_stop)
  then show ?thesis by (simp add: split_flag_def Cons)
qed (use assms in \<open>simp add: plain_name_def\<close>)

lemma split_flag_name: "plain_name n \<Longrightarrow> split_flag n = (n, None)"
  by (cases n) (auto simp: split_flag_def plain_name_def takeWhile_eq_all_conv dropWhile_eq_Nil_conv Let_def)

lemma Parse_assign:
  assumes "plain_name n"
  shows "Parse fs (assign_arg n v # args) x = (case lookup_flag fs n of
     None \<Rightarrow> if n = ''help'' \<or> n = ''h'' then Exits 0 else Exits 2
   | Some f \<Rightarrow> (case fl_Set f v x of None \<Rightarrow> Exits 2 | Some y \<Rightarrow> Parse fs args y))"
proof -
  have "parseOne fs (assign_arg n v # args) x = (case lookup_flag fs n of
     None \<Rightarrow> if n = ''help'' \<or> n = ''h'' then Fails 0 else Fails 2
   | Some f \<Rightarrow> set_flag f v args x)"
    using assms split_flag_assign [OF assms, of v]
    by (cases n) (auto simp: parseOne_def assign_arg_def plain_name_def flag_value_def split: option.split)
  then show ?thesis
    by (simp add: Parse.simps [of fs "_ # _"] set_flag_def split: option.split)
qed

lemma Parse_switch:
  assumes "plain_name n" and "lookup_flag fs n = Some f" and "fl_IsBool f" and "fl_Set f ''true'' x = Some y"
  shows "Parse fs ((''--'' @ n) # args) x = Parse fs args y"
proof -
  have "parseOne fs ((''--'' @ n) # args) x = Seen y args"
    using assms split_flag_name [OF assms(1)]
    by (cases n) (auto simp: parseOne_def plain_name_def flag_value_def set_flag_def)
  then show ?thesis by (simp add: Parse.simps [of fs "_ # _"])
qed

text \<open>A command line is either refused with one of two exit codes or read.\<close>

lemma Parse_exits: "Parse fs args x = Exits n \<Longrightarrow> n = 0 \<or> n = 2"
proof (induction fs args x rule: Parse.induct)
  case (1 fs args x)
  then show ?case
    using parseOne_simps(2) [of fs args x n] by (simp add: Parse.simps [of fs args] split: step.splits)
qed

lemma Parse_end: "s = [] \<or> hd s \<noteq> CHR ''-'' \<Longrightarrow> Parse fs (s # args) x = Parsed x (s # args)"
  by (cases s) (auto simp: Parse.simps [of fs "_ # _"] parseOne_def)

text \<open>Several assignments, each of a flag that accepts its value.\<close>

lemma Parse_assigns:
  "\<forall>(n, v, f) \<in> set as. plain_name n \<and> lookup_flag fs n = Some f \<and> (\<forall>x. fl_Set f v x \<noteq> None)
   \<Longrightarrow> Parse fs (map (\<lambda>(n, v, f). assign_arg n v) as @ args) x = Parse fs args (fold (\<lambda>(n, v, f) x. the (fl_Set f v x)) as x)"
proof (induction as arbitrary: x)
  case (Cons a as)
  obtain n v f where a: "a = (n, v, f)" by (cases a)
  then obtain y where "plain_name n" "lookup_flag fs n = Some f" "fl_Set f v x = Some y"
    using Cons.prems by fastforce
  then show ?case using Cons by (simp add: a Parse_assign)
qed simp

section \<open>Values that are read back\<close>

definition int64 :: "int \<Rightarrow> bool" where
  "int64 i \<longleftrightarrow> - (2 ^ 63) \<le> i \<and> i < 2 ^ 63"

definition bool_str :: "bool \<Rightarrow> string" where
  "bool_str b = (if b then ''true'' else ''false'')"

interpretation flag_bool: codec bool_str ParseBool "\<lambda>_. True"
  by unfold_locales (simp add: bool_str_def ParseBool_def)

definition digits_of :: "int \<Rightarrow> string \<Rightarrow> int" where
  "digits_of x s = foldl (\<lambda>n c. n * 10 + int (digit_val c)) x s"

lemma digits_of_nat_str: "digits_of 0 (nat_str n) = int n"
proof -
  have "digits_of (int x) s = int (foldl (\<lambda>n c. 10 * n + digit_val c) x s)" for x s
    unfolding digits_of_def
  proof (induction s arbitrary: x)
    case (Cons c s)
    then show ?case using Cons [of "10 * x + digit_val c"] by (simp add: algebra_simps)
  qed simp
  from this [of 0] show ?thesis by (simp add: foldl_nat_str)
qed

lemma digits_of_ge: "0 \<le> x \<Longrightarrow> x \<le> digits_of x s"
proof (induction s arbitrary: x)
  case (Cons c s)
  have "x \<le> x * 10 + int (digit_val c)" using Cons.prems by simp
  also have "\<dots> \<le> digits_of (x * 10 + int (digit_val c)) s" using Cons by simp
  finally show ?case by (simp add: digits_of_def)
qed (simp add: digits_of_def)

lemma digit_range: "is_digit c \<Longrightarrow> digit_val c < 10 \<and> c \<noteq> CHR ''_''"
  by (auto simp: is_digit_def digit_val_def)

lemma digits_value_digits: "list_all is_digit s \<Longrightarrow> digits_value 10 x s = Some (digits_of x s)"
  by (induction s arbitrary: x) (auto simp: digits_of_def any_digit_def dest: digit_range)

lemma nat_str_zero: "hd (nat_str n) = CHR ''0'' \<Longrightarrow> n = 0"
proof (induction n rule: nat_str.induct)
  case (1 n)
  show ?case
  proof (cases "n < 10")
    case True
    with 1(2) have "digit_val (digit_char n) = digit_val (CHR ''0'')" by (simp add: nat_str.simps [of n])
    with True show ?thesis by (simp add: go_lib) (simp add: digit_val_def)
  next
    case False
    with 1 show ?thesis by (simp add: nat_str.simps [of n])
  qed
qed

lemma ParseUint_nat_str: "n < 2 ^ 64 \<Longrightarrow> ParseUint (nat_str n) = Some (int n)"
proof (cases "n = 0")
  case True
  have "nat_str 0 = ''0''" by code_simp
  with True show ?thesis by (simp add: ParseUint_def base_prefix_def)
next
  case False
  then have "base_prefix (nat_str n) = (10, nat_str n)"
    using nat_str_zero by (auto simp: base_prefix_def)
  moreover have "CHR ''_'' \<notin> set (nat_str n)"
    using nat_str_digits [of n] digit_range by (auto simp: list_all_iff)
  moreover assume "n < 2 ^ 64"
  then have "int n < 2 ^ 64" by (metis of_nat_less_iff of_nat_numeral of_nat_power)
  ultimately show ?thesis
    by (simp add: ParseUint_def digits_value_digits nat_str_digits digits_of_nat_str)
qed

lemma nat_str_sign: "hd (nat_str n) \<noteq> CHR ''-''" "hd (nat_str n) \<noteq> CHR ''+''"
  using hd_nat_str_digit [of n] by (auto simp: is_digit_def)

lemma ParseInt_int_str:
  assumes "int64 i"
  shows "ParseInt (int_str i) = Some i"
proof (cases "i < 0")
  case True
  then have "nat (- i) < 2 ^ 64" using assms by (simp add: int64_def)
  with True assms show ?thesis by (simp add: ParseInt_def int_str_def int64_def ParseUint_nat_str)
next
  case False
  then have "nat i < 2 ^ 64" using assms by (simp add: int64_def)
  with False assms nat_str_sign [of "nat i"] show ?thesis
    by (simp add: ParseInt_def int_str_def int64_def ParseUint_nat_str)
qed

interpretation flag_int: codec int_str ParseInt int64
  by unfold_locales (rule ParseInt_int_str)

lemma leadingInt_digits:
  "list_all is_digit s \<Longrightarrow> t = [] \<or> \<not> is_digit (hd t) \<Longrightarrow> 0 \<le> x \<Longrightarrow> digits_of x s \<le> 2 ^ 63
   \<Longrightarrow> leadingInt x (s @ t) = Some (digits_of x s, t)"
proof (induction s arbitrary: x)
  case Nil
  then show ?case by (cases t) (auto simp: digits_of_def)
next
  case (Cons c s)
  let ?y = "x * 10 + int (digit_val c)"
  have d: "digits_of x (c # s) = digits_of ?y s" by (simp add: digits_of_def)
  have y: "0 \<le> ?y" "?y \<le> 2 ^ 63" using Cons.prems(3,4) digits_of_ge [of ?y s] by (simp_all add: d)
  then have "x \<le> 2 ^ 63 div 10" by simp
  then show ?case using Cons y d by (simp add: Let_def)
qed

definition duration_str :: "int \<Rightarrow> string" where
  "duration_str i = int_str i @ ''ns''"

lemma duration_nat:
  assumes "int n \<le> 2 ^ 63"
  shows "duration_sum 0 (nat_str n @ ''ns'') = Some (int n)"
proof -
  have r: "hd (nat_str n @ t) = hd (nat_str n)" for t by simp
  have u: "takeWhile unit_char ''ns'' = ''ns''" "dropWhile unit_char ''ns'' = []"
    and l: "unit_char (CHR ''n'')" "unit_char (CHR ''s'')"
    by (simp_all add: unit_char_def is_digit_def)
  have "leadingInt 0 (nat_str n @ ''ns'') = Some (int n, ''ns'')"
    using leadingInt_digits [OF nat_str_digits [of n], of "''ns''" 0] assms
    by (simp add: digits_of_nat_str is_digit_def)
  then have "duration_number (nat_str n @ ''ns'') = Some ((int n, 0, 1), ''ns'')"
    using hd_nat_str_digit [of n] by (simp add: duration_number_def r)
  then have "duration_item (nat_str n @ ''ns'') = Some (int n, [])"
    using assms by (simp add: duration_item_def l duration_value_def unit_value_def)
  then show ?thesis
    using assms by (simp add: duration_sum.simps [of 0] duration_sum.simps [of _ "[]"])
qed

lemma ParseDuration_str:
  assumes "int64 i"
  shows "ParseDuration (duration_str i) = Some i"
proof -
  have n: "nat_str m @ ''ns'' \<noteq> ''0''" for m
    using nat_str_nonempty [of m] by (cases "nat_str m") auto
  show ?thesis
  proof (cases "i < 0")
    case True
    then show ?thesis
      using assms duration_nat [of "nat (- i)"] n by (simp add: ParseDuration_def duration_str_def int_str_def int64_def)
  next
    case False
    have "hd (nat_str (nat i) @ ''ns'') = hd (nat_str (nat i))" by simp
    with False show ?thesis
      using assms duration_nat [of "nat i"] n nat_str_sign [of "nat i"]
      by (simp add: ParseDuration_def duration_str_def int_str_def int64_def)
  qed
qed

interpretation flag_duration: codec duration_str ParseDuration int64
  by unfold_locales (rule ParseDuration_str)

end
