(* ===== verification/CommandLine.thy ===== *)
theory CommandLine
  imports ManagerMain ReleaseNotes GoFlag
begin

text \<open>
  The command lines of the two programs: the flags that \<open>main.go\<close> registers and the start of the
  manager with given arguments, and the flag of the release notes generator.
\<close>

section \<open>The manager\<close>

text \<open>
  Flags of other packages in the process's flag set, klog's and controller-runtime's: a name, whether
  it is a boolean flag, and which values it accepts.  They set variables of their own.
\<close>

type_synonym library_flags = "(string \<times> bool \<times> (string \<Rightarrow> bool)) list"

definition library_flag :: "string \<times> bool \<times> (string \<Rightarrow> bool) \<Rightarrow> 'o flag" where
  "library_flag l = \<lparr>fl_Name = fst l, fl_IsBool = fst (snd l),
     fl_Set = \<lambda>v x. if snd (snd l) v then Some x else None\<rparr>"

definition main_flags :: "library_flags \<Rightarrow> options flag list" where
  "main_flags lib =
     [BoolVar ''leader-elect'' (\<lambda>v. opt_enableLeaderElection_update (\<lambda>_. v)),
      StringVar ''leader-election-namespace'' (\<lambda>v. opt_leaderElectionNamespace_update (\<lambda>_. v)),
      DurationVar ''leader-election-lease-duration'' (\<lambda>v. opt_leaderElectionLeaseDuration_update (\<lambda>_. v)),
      DurationVar ''leader-election-renew-deadline'' (\<lambda>v. opt_leaderElectionRenewDeadline_update (\<lambda>_. v)),
      DurationVar ''leader-election-retry-period'' (\<lambda>v. opt_leaderElectionRetryPeriod_update (\<lambda>_. v)),
      StringVar ''metrics-bind-address'' (\<lambda>v. opt_metricsAddr_update (\<lambda>_. v)),
      StringVar ''health-probe-bind-address'' (\<lambda>v. opt_probeAddr_update (\<lambda>_. v)),
      StringVar ''profiler-address'' (\<lambda>v. opt_profilerAddr_update (\<lambda>_. v)),
      IntVar ''webhook-port'' (\<lambda>v. opt_webhookPort_update (\<lambda>_. v)),
      DurationVar ''reconcile-timeout'' (\<lambda>v. opt_reconcileTimeout_update (\<lambda>_. v)),
      DurationVar ''sync-period'' (\<lambda>v. opt_syncPeriod_update (\<lambda>_. v)),
      StringVar ''namespace'' (\<lambda>v. opt_watchNamespace_update (\<lambda>_. v))] @ map library_flag lib"

text \<open>The process: the arguments that are left after the flags are not looked at.\<close>

definition manager_process :: "library_flags \<Rightarrow> (setup_call \<Rightarrow> bool) \<Rightarrow> (string \<Rightarrow> string) \<Rightarrow> string list
    \<Rightarrow> setup_call list \<times> int" where
  "manager_process lib fails getenv args = (case Parse (main_flags lib) args default_options of
     Exits n \<Rightarrow> ([], n)
   | Parsed o' rest \<Rightarrow> main fails getenv o')"

section \<open>The release notes generator\<close>

definition notes_flags :: "string flag list" where
  "notes_flags = [StringVar ''from'' (\<lambda>v _. v)]"

definition notes_main :: "git \<Rightarrow> string list \<Rightarrow> (int, string) outcome" where
  "notes_main G args = (case Parse notes_flags args [] of
     Exits n \<Rightarrow> Returns n []
   | Parsed fromTag rest \<Rightarrow> notes_run fromTag G)"

section \<open>Options on the command line\<close>

definition options_ok :: "options \<Rightarrow> bool" where
  "options_ok o' \<longleftrightarrow> int64 (opt_leaderElectionLeaseDuration o') \<and> int64 (opt_leaderElectionRenewDeadline o')
     \<and> int64 (opt_leaderElectionRetryPeriod o') \<and> int64 (opt_webhookPort o') \<and> int64 (opt_reconcileTimeout o')
     \<and> int64 (opt_syncPeriod o')"

definition options_args :: "options \<Rightarrow> string list" where
  "options_args o' =
     [assign_arg ''leader-elect'' (bool_str (opt_enableLeaderElection o')),
      assign_arg ''leader-election-namespace'' (opt_leaderElectionNamespace o'),
      assign_arg ''leader-election-lease-duration'' (duration_str (opt_leaderElectionLeaseDuration o')),
      assign_arg ''leader-election-renew-deadline'' (duration_str (opt_leaderElectionRenewDeadline o')),
      assign_arg ''leader-election-retry-period'' (duration_str (opt_leaderElectionRetryPeriod o')),
      assign_arg ''metrics-bind-address'' (opt_metricsAddr o'),
      assign_arg ''health-probe-bind-address'' (opt_probeAddr o'),
      assign_arg ''profiler-address'' (opt_profilerAddr o'),
      assign_arg ''webhook-port'' (int_str (opt_webhookPort o')),
      assign_arg ''reconcile-timeout'' (duration_str (opt_reconcileTimeout o')),
      assign_arg ''sync-period'' (duration_str (opt_syncPeriod o')),
      assign_arg ''namespace'' (opt_watchNamespace o')]"

named_theorems flag_rules \<open>looking up and setting the flags of the manager\<close>

lemma lookup_main_flags [flag_rules]:
  "lookup_flag (main_flags lib) ''leader-elect'' = Some (BoolVar ''leader-elect'' (\<lambda>v. opt_enableLeaderElection_update (\<lambda>_. v)))"
  "lookup_flag (main_flags lib) ''leader-election-namespace''
    = Some (StringVar ''leader-election-namespace'' (\<lambda>v. opt_leaderElectionNamespace_update (\<lambda>_. v)))"
  "lookup_flag (main_flags lib) ''leader-election-lease-duration''
    = Some (DurationVar ''leader-election-lease-duration'' (\<lambda>v. opt_leaderElectionLeaseDuration_update (\<lambda>_. v)))"
  "lookup_flag (main_flags lib) ''leader-election-renew-deadline''
    = Some (DurationVar ''leader-election-renew-deadline'' (\<lambda>v. opt_leaderElectionRenewDeadline_update (\<lambda>_. v)))"
  "lookup_flag (main_flags lib) ''leader-election-retry-period''
    = Some (DurationVar ''leader-election-retry-period'' (\<lambda>v. opt_leaderElectionRetryPeriod_update (\<lambda>_. v)))"
  "lookup_flag (main_flags lib) ''metrics-bind-address'' = Some (StringVar ''metrics-bind-address'' (\<lambda>v. opt_metricsAddr_update (\<lambda>_. v)))"
  "lookup_flag (main_flags lib) ''health-probe-bind-address''
    = Some (StringVar ''health-probe-bind-address'' (\<lambda>v. opt_probeAddr_update (\<lambda>_. v)))"
  "lookup_flag (main_flags lib) ''profiler-address'' = Some (StringVar ''profiler-address'' (\<lambda>v. opt_profilerAddr_update (\<lambda>_. v)))"
  "lookup_flag (main_flags lib) ''webhook-port'' = Some (IntVar ''webhook-port'' (\<lambda>v. opt_webhookPort_update (\<lambda>_. v)))"
  "lookup_flag (main_flags lib) ''reconcile-timeout'' = Some (DurationVar ''reconcile-timeout'' (\<lambda>v. opt_reconcileTimeout_update (\<lambda>_. v)))"
  "lookup_flag (main_flags lib) ''sync-period'' = Some (DurationVar ''sync-period'' (\<lambda>v. opt_syncPeriod_update (\<lambda>_. v)))"
  "lookup_flag (main_flags lib) ''namespace'' = Some (StringVar ''namespace'' (\<lambda>v. opt_watchNamespace_update (\<lambda>_. v)))"
  by (simp_all add: lookup_flag_def main_flags_def BoolVar_def StringVar_def IntVar_def DurationVar_def flag_of_def)

lemma ParseBool_true: "ParseBool ''true'' = Some True"
  by (simp add: ParseBool_def)

lemma set_main_flags [flag_rules]:
  "fl_Set (BoolVar n bput) (bool_str b) x = Some (bput b x)" "fl_Set (StringVar n sput) v x = Some (sput v x)"
  "int64 i \<Longrightarrow> fl_Set (IntVar n put) (int_str i) x = Some (put i x)"
  "int64 i \<Longrightarrow> fl_Set (DurationVar n put) (duration_str i) x = Some (put i x)"
  "fl_IsBool (BoolVar n bput)" "fl_Set (BoolVar n bput) ''true'' x = Some (bput True x)"
  by (simp_all add: BoolVar_def StringVar_def IntVar_def DurationVar_def flag_of_def flag_bool.dec_enc flag_int.dec_enc
      flag_duration.dec_enc ParseBool_true)

text \<open>
  C37. Every setting can be asked for: the command line that assigns each option its value, durations
  in nanoseconds, is read back to exactly these options, whatever flags the libraries add, and leaves no
  argument unread.
\<close>

theorem command_line_roundtrip:
  assumes "options_ok o'"
  shows "Parse (main_flags lib) (options_args o') default_options = Parsed o' []"
proof -
  have "Parse (main_flags lib) (options_args o') x = Parsed o' []" for x
    using assms by (cases o') (simp add: options_args_def options_ok_def Parse_assign plain_name_def flag_rules)
  then show ?thesis .
qed

theorem command_line_roundtrip_witness:
  "Parse (main_flags []) (options_args (default_options\<lparr>opt_syncPeriod := -5\<rparr>)) default_options
    = Parsed (default_options\<lparr>opt_syncPeriod := -5\<rparr>) []"
  by (rule command_line_roundtrip)
     (simp add: options_ok_def default_options_def int64_def Second_def Minute_def)

section \<open>The start of the process\<close>

text \<open>
  C38. How the process ends before anything is started: unless the command line is read and all four
  variables of the connection are set it makes no call at all, and exits with code 2 after an error in
  the command line, 0 after a request for help, and 1 when the configuration is incomplete; otherwise the
  code is 1 exactly when a set-up call failed.  A controller that is set up has complete credentials.
\<close>

theorem process_start:
  "(case Parse (main_flags lib) args default_options of
      Exits n \<Rightarrow> manager_process lib fails getenv args = ([], n) \<and> (n = 0 \<or> n = 2)
    | Parsed o' rest \<Rightarrow>
        if \<forall>v \<in> {ENV_BMC_CLIENT_ID, ENV_BMC_CLIENT_SECRET, ENV_BMC_TOKEN_URL, ENV_BMC_ENDPOINT_URL}. getenv v \<noteq> []
        then snd (manager_process lib fails getenv args) = (if \<exists>c \<in> set (setup_calls getenv o'). fails c then 1 else 0)
          \<and> fst (manager_process lib fails getenv args) \<noteq> []
        else manager_process lib fails getenv args = ([], 1))
   \<and> (\<forall>r. SetupClusterReconciler r \<in> set (fst (manager_process lib fails getenv args))
          \<or> SetupMachineReconciler r \<in> set (fst (manager_process lib fails getenv args))
       \<longrightarrow> rec_BMCEndpointURL r \<noteq> [] \<and> bmc_ClientID (rec_BMCClientConfig r) \<noteq> []
         \<and> bmc_ClientSecret (rec_BMCClientConfig r) \<noteq> [] \<and> bmc_TokenURL (rec_BMCClientConfig r) \<noteq> [])"
proof (cases "Parse (main_flags lib) args default_options")
  case (Exits n)
  then show ?thesis using Parse_exits [OF Exits] by (simp add: manager_process_def)
next
  case (Parsed o' rest)
  have m: "fst (main fails getenv o') \<noteq> [] \<longleftrightarrow> config_complete getenv"
    "\<not> config_complete getenv \<longrightarrow> main fails getenv o' = ([], 1)"
    "config_complete getenv \<longrightarrow> snd (main fails getenv o') = (if \<exists>c \<in> set (setup_calls getenv o'). fails c then 1 else 0)"
    by (simp_all add: main_def run_calls_code [symmetric] split: prod.split)
  have c: "config_complete getenv \<longleftrightarrow>
      (\<forall>v \<in> {ENV_BMC_CLIENT_ID, ENV_BMC_CLIENT_SECRET, ENV_BMC_TOKEN_URL, ENV_BMC_ENDPOINT_URL}. getenv v \<noteq> [])"
    by (simp add: config_complete_def)
  show ?thesis
    using m main_configured [of _ fails getenv o'] unfolding c [symmetric] by (simp add: Parsed manager_process_def)
qed

theorem process_start_witness:
  "manager_process [] (\<lambda>_. False) (\<lambda>_. ''x'') [''--config=controller_manager_config.yaml''] = ([], 2)"
proof -
  have "Parse (main_flags []) [''--config=controller_manager_config.yaml''] default_options = Exits 2"
    by code_simp
  then show ?thesis
    using process_start [where lib = "[]" and fails = "\<lambda>_. False" and getenv = "\<lambda>_. ''x''"
        and args = "[''--config=controller_manager_config.yaml'']"] by simp
qed

text \<open>
  C39. The address of the metrics is not protected: whatever the command line asks for, the manager binds
  its metrics to port 8080 of all addresses.  The command line of the default deployment, which puts an
  authorising proxy before the metrics and asks for the local address, is accepted and has the manager
  started with the open one.
\<close>

theorem metrics_exposed:
  "(\<forall>args mo. NewManager mo \<in> set (fst (manager_process lib fails getenv args)) \<longrightarrow> mo_MetricsBindAddress mo = '':8080'')
   \<and> (config_complete getenv \<and> (\<forall>c. \<not> fails c) \<longrightarrow>
      (\<exists>mo. NewManager mo \<in> set (fst (manager_process lib fails getenv
          [''--health-probe-bind-address=:8081'', ''--metrics-bind-address=127.0.0.1:8080'', ''--leader-elect'']))
        \<and> StartManager \<in> set (fst (manager_process lib fails getenv
          [''--health-probe-bind-address=:8081'', ''--metrics-bind-address=127.0.0.1:8080'', ''--leader-elect'']))
        \<and> mo_LeaderElection mo \<and> mo_MetricsBindAddress mo = '':8080''))"
proof -
  have all: "mo_MetricsBindAddress mo = '':8080''" if "NewManager mo \<in> set (fst (main fails getenv o'))" for mo o'
    using that main_calls [of fails getenv o'] by (auto simp: setup_calls_def manager_config_def)
  let ?args = "[assign_arg ''health-probe-bind-address'' '':8081'', assign_arg ''metrics-bind-address'' ''127.0.0.1:8080'',
    ''--'' @ ''leader-elect'']" and ?o = "default_options\<lparr>opt_probeAddr := '':8081'', opt_metricsAddr := ''127.0.0.1:8080'',
      opt_enableLeaderElection := True\<rparr>"
  have args: "?args = [''--health-probe-bind-address=:8081'', ''--metrics-bind-address=127.0.0.1:8080'', ''--leader-elect'']"
    by (simp add: assign_arg_def)
  have "Parse (main_flags lib) ?args default_options = Parsed ?o []"
    using Parse_switch [of "''leader-elect''" "main_flags lib"]
    by (simp add: Parse_assign plain_name_def flag_rules del: append_Cons append_Nil)
  then have p: "manager_process lib fails getenv ?args = main fails getenv ?o"
    by (simp add: manager_process_def)
  have "main fails getenv ?o = (StartProfiler '':6060'' # setup_calls getenv ?o, 0)"
    if "config_complete getenv" "\<forall>c. \<not> fails c"
    using that by (simp add: main_def run_calls_none default_options_def)
  then have "NewManager (manager_config ?o) \<in> set (fst (manager_process lib fails getenv ?args))
      \<and> StartManager \<in> set (fst (manager_process lib fails getenv ?args))"
    if "config_complete getenv" "\<forall>c. \<not> fails c"
    using that unfolding p by (simp add: setup_calls_def)
  moreover have "mo_LeaderElection (manager_config ?o)" "mo_MetricsBindAddress (manager_config ?o) = '':8080''"
    by (simp_all add: manager_config_def)
  moreover have "\<forall>args mo. NewManager mo \<in> set (fst (manager_process lib fails getenv args)) \<longrightarrow> mo_MetricsBindAddress mo = '':8080''"
    using all by (auto simp: manager_process_def split: parsed.splits)
  ultimately show ?thesis unfolding args by blast
qed

theorem metrics_exposed_witness:
  "\<exists>mo. NewManager mo \<in> set (fst (manager_process [] (\<lambda>_. False) (\<lambda>_. ''x'')
      [''--health-probe-bind-address=:8081'', ''--metrics-bind-address=127.0.0.1:8080'', ''--leader-elect'']))
    \<and> mo_MetricsBindAddress mo = '':8080''"
  using metrics_exposed [of "[]" "\<lambda>_. False" "\<lambda>_. ''x''"] by (auto simp: config_complete_def)

text \<open>A value after a boolean flag ends the flags, so that what follows it is not read.\<close>

lemma switch_takes_no_value:
  "Parse (main_flags lib) (''--leader-elect'' # ''false'' # args) default_options
    = Parsed (default_options\<lparr>opt_enableLeaderElection := True\<rparr>) (''false'' # args)"
proof -
  have "Parse (main_flags lib) ((''--'' @ ''leader-elect'') # ''false'' # args) default_options
    = Parse (main_flags lib) (''false'' # args) (default_options\<lparr>opt_enableLeaderElection := True\<rparr>)"
    by (rule Parse_switch [where f = "BoolVar ''leader-elect'' (\<lambda>v. opt_enableLeaderElection_update (\<lambda>_. v))"])
       (simp_all add: plain_name_def flag_rules)
  then show ?thesis by (simp add: Parse_end)
qed

text \<open>The notes start from the tag of the flag, if it is given.\<close>

lemma notes_from:
  "notes_main G [assign_arg ''from'' tag] = notes_run tag G" "notes_main G [] = notes_run [] G"
  by (simp_all add: notes_main_def Parse_assign plain_name_def notes_flags_def lookup_flag_def StringVar_def flag_of_def)

end
