(* ===== verification/Spec2Isabelle.thy ===== *)
theory Spec2Isabelle
  imports ManagerBringUp WorkQueue CachedReads Settling DeepCopyProps AddressBounds NodeReference CommandLine
begin

text \<open>
  A verification development of the Cluster API provider for phoenixNAP Bare Metal Cloud (BMC).

  The program.  A Kubernetes controller manager with two reconcilers.  A BMCCluster stands for a block
  of two public addresses that the cluster reconciler allocates at BMC; the second address becomes the
  control plane endpoint.  A BMCMachine stands for a server that the machine reconciler creates, polls
  and deprovisions.  Both keep the identifier of their BMC resource in the annotations of the object,
  mirror the resource's status, and store what they changed by one patch at the end of a
  reconciliation, which also runs when the reconciliation panics.  The machine reconciler reads the
  BMCCluster of its cluster: a control plane machine of a cluster without VIP manager is put into the
  cluster's address block.

  The theories, bottom up.
    Prelude: collections, panics and outcomes, the interface locales codec and annotation_slot.
    GoStrings, NetIP, Utf8, Base64, Json, JsonText: the parts of the Go standard library the source
      uses, executable, with round trips as interpretations of codec (decimal numbers, base64, IPv4
      addresses, JSON texts).  GoFlag: the package flag with the values that main.go asks for, booleans,
      integers and durations, the latter with the rounding of their float64 arithmetic.
    ApiTypes: the API types of api/v1beta1, their constants and validation markers.
    Wire: the JSON members of the request types of both controllers, and json.Unmarshal into the two
      status types.
    Environment: results, errors, HTTP, the log of effects, the constants of the controllers, and the
      record env of everything outside the repository.
    MachineContext, ClusterContext: the two contexts of controllers/closures.go, a definition for each
      method (prefix mc_ or cc_); the identifiers are interpretations of annotation_slot.
    MachineController, ClusterController: the reconcilers of controllers/bmcmachine_controller.go and
      controllers/bmccluster_controller.go, a definition for each function; the branches of a switch
      over status codes are small definitions of their own.
    MachineFacts, ClusterFacts: frame facts, the shape of the log, the request a state calls for, the
      links between identifiers.  MachineProps, ClusterProps: the properties of single functions and of
      Reconcile.  Examples: the concrete objects of the witnesses.
    Life: worlds of one object and of the requests sent for it, a step relation (reconciliation, lost
      patch, edit by others, removal), reachability, and the contracts object_invariant and creator as
      locales.  MachineSystem and ClusterSystem interpret both on the reconcilers and prove the
      properties of whole lives.
    Creation: the abstract specification of an owner of one external resource, and the forward
      simulation that the contract honest_creator (a creator whose identifier only comes from an
      accepted create) gives.  Refinement interprets it on both reconcilers.
    CachedReads: versions of an object, reconciliations that read an old one from the client's cache and
      whose patch is merged into the current one, and the contract cached_creator, interpreted on both.
    Provisioning: the stages absent, created, serving of a machine with their order, what a
      reconciliation keeps, and the way from an accepted create to a serving machine.
    Fleet: many objects of a kind, their reconciliations in any order, the identifiers the service has
      given out, and the contract keeper under which no object touches another one's resource.
      FleetSystem interprets it on machines and clusters and composes both fleets to a system in which a
      machine reads any version a cluster ever had.  BringUp: in that system, the way from a new cluster and
      control plane machine to a ready cluster and a serving machine in the cluster's block, as the one state
      that three given reconciliations lead to.
    Progress: when a reconciliation asks for nothing more, for machines and for clusters.
    AddressBounds: addresses as numbers, the /31 blocks, and the wrap-around of the increment.
      NodeReference: SetNodeRef over any number of polls.
    Scheme: group, version, and which types the init functions of the API package and of main.go register,
      in which order; the builder and the schemes are the record scheme_library.  Watches: the
      registration of both controllers with the manager (SetupWithManager), what the registered watches
      deliver, and which machines a change of a BMCCluster wakes up.  Runtime: one machine with the objects
      it depends on in the running manager, where reconciliations take its key from the queue and the
      watches and the verdicts put it back, and the invariant of that system.  ClusterRuntime: the same for
      a BMCCluster and its owner.  ManagerSystem: both controllers together, with a BMCCluster, the Cluster
      that owns it and the machines of that cluster, composed so that a patch of one controller is an event
      of the other; its steps are labelled by what happens, whose turn it is and what is changed; each object sees a run of its own system (simulations with stuttering), and the invariants
      of both combine.  ManagerBringUp: traces of these labels, which determine the state they end in, and in the
      manager the trace from new objects to a serving machine without a resynchronisation.  WorkQueue: what the work queue makes of the verdicts of the polls.  Settling: a
      reconciliation repeated with the same answers.
    GoHeap: memory as cells at addresses with a limit for allocation, locations inside cells (fields,
      elements), slices, and the statements of which generated copy functions are made.  CopyLaws: the
      contract deep_copier as a locale, with a copier for each kind of statement and their composition.
      DeepCopy: the API types as they lie in memory (records with the prefix G) and every function of
      zz_generated.deepcopy.go.  DeepCopyProps: that each meets the contract.
    ManagerMain: the start of the manager with given options, main.go.  ReleaseNotes: the generator
      hack/tools/release/notes.go, its loop over the lines of git's output and, as its specification, the
      groups of lines of the commits.  CommandLine: the flags of both programs and the start of the
      process with given arguments.

  How the code is represented.  A struct is a record with a field for each field of the source that
  the program reads or writes; a nil pointer, map or timestamp is None; a nil slice and an empty one are
  the same list.  Strings are lists of bytes.  A method that mutates its receiver returns the new
  context; a method that can panic returns an outcome with the state it reached, because the deferred
  patch runs then too.  HTTP requests, events and patches are a log in the context.  The log messages of
  the controllers and the request timeout are left out: they do not influence what is done.  The copy
  functions are the exception: pointers and slices are addresses there, since sharing is what they are
  about.

  What is a parameter.  Cluster API helpers, controller-runtime's finalizer helpers, the Kubernetes
  client, the workload cluster's client, the BMC service and url.Parse are functions of the record env;
  the mappers and predicates of Cluster API and the controller builder are the record manager of
  Watches; the copy functions of metadata, timestamps and failure types are the record library of
  DeepCopy; git is the record git of ReleaseNotes; the flags that klog and controller-runtime add to
  those of main.go are the argument library_flags of CommandLine.  A property uses as hypotheses only what their
  documentation says: finalizer_laws (the finalizer helpers), list_law (a list call), delivery_law (a
  controller's watches and event filter), wired (the mappers of Cluster API on the objects of one
  machine), owner_law (an owner is found by the references to it), library_laws (copies of foreign types are deep), names_blocks (an accepted allocation names its block),
  infrastructure_marked (Cluster API marks a Cluster's infrastructure ready only when the BMCCluster is),
  reliable_servers and reliable_blocks (an accepted create is answered with a readable resource), and
  fresh_ids (the service gives out no identifier twice).  The decoders of the three foreign types in the
  machine status are parameters too, without any hypothesis.

  What the properties show. Creation: with an annotation map, readable answers and no lost patch, one
  server and one block at most are ever accepted for an object, and its life refines the specification
  of an owner of one resource; without one of these the number is unbounded. The same holds when
  versions are read that are old, but not older than the controller's own last patch; reading older ones
  makes the number unbounded too. Separation: in any interleaving of all reconciliations no two machines
  hold the same server, no two clusters the same block, and every request about a server or a block
  comes from its owner. Progress: stages are only left upwards, an accepted create followed by a poll
  that finds the server powered on makes a machine serve, a machine that had a request to make comes
  back unless its status says what failed (a cluster does not after a temporary failure of its
  allocation), and every silent wait is ended by an event the registered watches deliver.  Both together,
  as invariants of the running manager: a machine that is not in the queue has no owner, is paused, is
  deleted and released, has failed or waits for something, except that a wake-up is lost when a Cluster
  becomes ready while it carries the annotation for paused objects, and that a machine whose read of the
  BMCCluster failed is forgotten (the field su_unread remembers such a read); and the same for a cluster, except that
  one whose allocation was refused for the time being is not tried again.  Composed: a machine that waits
  does so for the infrastructure of its Cluster, never for the block alone, and then either the BMCCluster
  is ready or the reconciliation that allocates its block is due, with the same exceptions; and from
  new objects events and requeues alone lead to a serving machine.  The schedule of
  the polls follows from the verdicts; a delay that is returned beside an error has no effect.  With the same answers a machine
  with a server and a cluster with an address change at most once, so that no reconciler keeps itself busy
  with its own patches.  Identity: provider id and server
  id, and address, endpoint and readiness, always fit together; the address is the other one of its /31
  block exactly when the service reports the lower one.  Requests: one at most for each reconciliation, the
  one the state calls for.  Polling: what is recorded once, what is never taken back, and that a failed
  patch of the node is final.  Deletion: which finalizers go, that it ends, and how it leaks.  Wire: the
  body of a create request is read as the documented members with the values of the machine.  Memory: copies of API objects are deep and independent.  Start: the
  command line, exit codes, the address of the metrics.  Release tool: the notes are those of the
  groups of lines.

  Bounds.  The JSON parser rejects nesting deeper than 10000, as encoding/json does; request bodies have
  depth 5 at most.  All functions are total: loops are structural or measured recursions; no fuel.

  Not modelled: OAuth2, logging and signal handling, the error of patch.NewHelper, which
  both reconcilers discard before they use the helper (the model takes every patch to be attempted; that it
  may be lost is a step of Life), the order and the rate limiter of the work queue, and
  the passing of time (in Runtime, ClusterRuntime and ManagerSystem a key is queued or not, and is taken at
  any time; WorkQueue gives the delay that a verdict asks for), the removal of a BMCCluster while its
  machines exist (Runtime has it, ManagerSystem not), what the libraries do
  with the flags they add, the order in which the cache of the Kubernetes client catches up (CachedReads
  lets a reconciliation read any version of its own object, FleetSystem any version of the cluster, the
  other theories the current one; a removed object is not read again), Cluster API's own controllers (that they
  copy the readiness of a BMCCluster to its Cluster is a guard of ManagerSystem), the test suite, and the configuration files.
\<close>

section \<open>The cluster's block and its control plane\<close>

text \<open>
  The two reconcilers fit together: once the cluster reconciler has accepted an allocation, the
  create request of a control plane machine of a cluster without VIP manager no longer waits, and it
  names exactly the allocated block.
\<close>

theorem control_plane_in_cluster_block:
  assumes "http_ok st" and "unmarshal_cluster_status body = Inr ips" and "cstat_ID ips \<noteq> []"
    and "ParseIP (TrimSuffix (cstat_CIDR ips) ''/31'') \<noteq> None" and "om_Annotations (cc_meta cc) \<noteq> None"
    and "cluster_create_response E st body cc = Returns v cc'"
    and "mc_BMCCluster mc = Some (cc_BMCCluster cc')" and "mc_IsControlPlaneMachine E mc"
    and "cspec_VIPManager (cc_spec cc) = NONE"
  shows "\<exists>r. planned_request E mc b = Some r \<and> csr_NetworkConfiguration r = user_defined_network (cstat_ID ips)"
proof -
  obtain a where a: "ParseIP (TrimSuffix (cstat_CIDR ips) ''/31'') = Some a" using assms(4) by blast
  have "cluster_create_response E st body cc = cluster_allocated ips cc"
    using assms(1,2) by (auto simp: cluster_create_response_def http_ok_def cluster_create_accepted_def)
  with cluster_allocated_ok [OF assms(5) a] assms(6) obtain cc1 cc2 where
    1: "cc_SetIPAllocationID (cstat_ID ips) (allocation_noted ips cc) = Some cc1"
    and 2: "cc_SetIP (IP_String (next_address a)) cc1 = Some cc2"
    and c: "cc' = cc_SetReady (cc_SetControlPlaneEndpoint (IP_String (next_address a)) 6443 cc2)" by auto
  have "cc_GetIPAllocationID cc' = cstat_ID ips"
    using cc_SetIP_simps(5) [OF 2] cc_SetIPAllocationID_simps(4) [OF 1]
    by (simp add: c cc_SetReady_def cc_GetIPAllocationID_def)
  moreover have "cspec_VIPManager (cc_spec cc') = NONE"
    using cc_SetIP_simps(2) [OF 2] cc_SetIPAllocationID_simps(2) [OF 1] assms(9) by (simp add: c cc_SetReady_def)
  ultimately show ?thesis
    using assms(3,7,8) by (simp add: planned_request_def cc_GetIPAllocationID_def Let_def)
qed

theorem control_plane_in_cluster_block_witness:
  "\<exists>r. csr_NetworkConfiguration r = user_defined_network ''b1''
    \<and> (\<exists>E mc. mc_IsControlPlaneMachine E mc \<and> planned_request E mc ''#!'' = Some r)"
proof -
  let ?E = "(example_env (\<lambda>_. DoError (LibErr [])))\<lparr>util_IsControlPlaneMachine := \<lambda>_. True\<rparr>"
  let ?body = "block_body ''b1'' ''10.1.2.4/31'' ''unassigned''" and ?ips = "block_status ''b1'' ''10.1.2.4/31'' ''unassigned''"
  let ?cc = "cupd_spec (cspec_VIPManager_update (\<lambda>_. NONE)) example_cc"
  have u: "unmarshal_cluster_status ?body = Inr ?ips" by (rule unmarshal_block_body) (simp_all add: utf8_ok_ascii)
  have "octets_str [10, 1, 2, 4] @ ''/31'' = ''10.1.2.4/31''" by code_simp
  then have p: "ParseIP (TrimSuffix (cstat_CIDR ?ips) ''/31'') = Some (v4_prefix @ [10, 1, 2, 4])"
    using ParseIP_octets [of 10 1 2 4] TrimSuffix_append [of "octets_str [10, 1, 2, 4]" "''/31''"]
    by (simp add: block_status_def)
  have m: "om_Annotations (cc_meta ?cc) \<noteq> None" and n: "cspec_VIPManager (cc_spec ?cc) = NONE"
    by (simp_all add: example_cc_def example_bmccluster_def example_meta_def)
  have "cluster_create_response ?E 201 ?body ?cc = cluster_allocated ?ips ?cc"
    by (simp add: cluster_create_response_def http_ok_def cluster_create_accepted_def u)
  with cluster_allocated_ok [OF m p] obtain v cc' where r: "cluster_create_response ?E 201 ?body ?cc = Returns v cc'"
    by auto
  have c: "mc_IsControlPlaneMachine ?E (example_mc\<lparr>mc_BMCCluster := Some (cc_BMCCluster cc')\<rparr>)"
    by (simp add: mc_IsControlPlaneMachine_def)
  show ?thesis
    using control_plane_in_cluster_block [OF _ u _ _ m r _ c n, of "''#!''"] c p
    by (auto simp: http_ok_def block_status_def)
qed

end
